(* ===== verification/Prelude.thy ===== *)
theory Prelude
  imports Main
begin

text \<open>
  The part of the Go language and of its standard library that the components share:
  results of running code (a value, a panic, or blocking for ever), buffered channels
  (\<^verbatim>\<open>make(chan T, n)\<close>), \<^verbatim>\<open>time.Timer\<close> with the semantics of Go 1.16 (the version in
  \<^verbatim>\<open>go.mod\<close>), the decimal verbs of \<^verbatim>\<open>fmt.Sprintf\<close>, and the generic theory of
  transition systems (reachable states, inductive invariants, simulations) on which the
  concurrent components rest.
\<close>

section \<open>Results of running code\<close>

text \<open>
  A piece of Go code returns, panics, or blocks. \<open>Block\<close> is used only where no other
  goroutine can unblock the caller, or where the caller of the definition treats a full or
  empty channel as a disabled step.
\<close>

datatype 'a go = Ret 'a | Panic string | Block

fun bind_go :: "'a go \<Rightarrow> ('a \<Rightarrow> 'b go) \<Rightarrow> 'b go" where
  "bind_go (Ret x) f = f x"
| "bind_go (Panic e) f = Panic e"
| "bind_go Block f = Block"

lemma bind_go_eq_Ret [simp]:
  "bind_go m f = Ret y \<longleftrightarrow> (\<exists>x. m = Ret x \<and> f x = Ret y)"
  by (cases m) auto

lemma bind_go_eq_Panic:
  "bind_go m f = Panic e \<longleftrightarrow> m = Panic e \<or> (\<exists>x. m = Ret x \<and> f x = Panic e)"
  by (cases m) auto

lemma bind_go_eq_Block:
  "bind_go m f = Block \<longleftrightarrow> m = Block \<or> (\<exists>x. m = Ret x \<and> f x = Block)"
  by (cases m) auto

section \<open>Channels\<close>

text \<open>
  A buffered channel: what has been sent and not yet received, the buffer size, and whether
  it has been closed. A nil channel is \<open>None\<close> in the states below: sending to it and
  receiving from it block for ever, closing it panics.
\<close>

record 'a chan =
  chan_buf :: "'a list"
  chan_cap :: nat
  chan_closed :: bool

definition make_chan :: "nat \<Rightarrow> 'a chan" where
  "make_chan n = \<lparr>chan_buf = [], chan_cap = n, chan_closed = False\<rparr>"

definition chan_full :: "'a chan \<Rightarrow> bool" where
  "chan_full c \<longleftrightarrow> chan_cap c \<le> length (chan_buf c)"

definition chan_send :: "'a chan \<Rightarrow> 'a \<Rightarrow> 'a chan go" where
  "chan_send c x =
     (if chan_closed c then Panic ''send on closed channel''
      else if chan_full c then Block
      else Ret (c\<lparr>chan_buf := chan_buf c @ [x]\<rparr>))"

text \<open>
  Receiving returns \<open>Some\<close> of the oldest buffered value, or \<open>None\<close> (the zero value with
  \<^verbatim>\<open>ok = false\<close>) from a closed and drained channel.
\<close>

definition chan_recv :: "'a chan \<Rightarrow> ('a option \<times> 'a chan) go" where
  "chan_recv c =
     (case chan_buf c of
        x # xs \<Rightarrow> Ret (Some x, c\<lparr>chan_buf := xs\<rparr>)
      | [] \<Rightarrow> if chan_closed c then Ret (None, c) else Block)"

definition chan_close :: "'a chan \<Rightarrow> 'a chan go" where
  "chan_close c =
     (if chan_closed c then Panic ''close of closed channel''
      else Ret (c\<lparr>chan_closed := True\<rparr>))"

definition chan_wf :: "'a chan \<Rightarrow> bool" where
  "chan_wf c \<longleftrightarrow> length (chan_buf c) \<le> chan_cap c"

lemma chan_wf_make [simp]: "chan_wf (make_chan n)"
  by (simp add: chan_wf_def make_chan_def)

lemma chan_send_Ret:
  "chan_send c x = Ret c' \<longleftrightarrow>
     \<not> chan_closed c \<and> \<not> chan_full c \<and> c' = c\<lparr>chan_buf := chan_buf c @ [x]\<rparr>"
  by (auto simp: chan_send_def)

lemma chan_send_Block: "chan_send c x = Block \<longleftrightarrow> \<not> chan_closed c \<and> chan_full c"
  by (simp add: chan_send_def)

lemma chan_send_wf: "chan_send c x = Ret c' \<Longrightarrow> chan_wf c'"
  by (auto simp: chan_send_Ret chan_wf_def chan_full_def)

lemma chan_recv_wf: "chan_recv c = Ret (v, c') \<Longrightarrow> chan_wf c \<Longrightarrow> chan_wf c'"
  by (auto simp: chan_recv_def chan_wf_def split: list.splits if_splits)

lemma chan_recv_Some:
  "chan_recv c = Ret (Some x, c') \<longleftrightarrow> (\<exists>xs. chan_buf c = x # xs \<and> c' = c\<lparr>chan_buf := xs\<rparr>)"
  by (auto simp: chan_recv_def split: list.splits)

lemma chan_recv_None:
  "chan_recv c = Ret (None, c') \<longleftrightarrow> chan_buf c = [] \<and> chan_closed c \<and> c' = c"
  by (auto simp: chan_recv_def split: list.splits)

section \<open>Timers\<close>

text \<open>
  A \<^verbatim>\<open>time.Timer\<close>: the duration it is armed with (in nanoseconds), if it is armed, and
  whether an expiry is waiting in its channel \<^verbatim>\<open>C\<close>, which has room for one value. Before
  Go 1.23, \<^verbatim>\<open>Stop\<close> and \<^verbatim>\<open>Reset\<close> do not drain \<^verbatim>\<open>C\<close>.
\<close>

record timer =
  timer_armed :: "int option"
  timer_tick :: bool

definition NewTimer :: "int \<Rightarrow> timer" where
  "NewTimer d = \<lparr>timer_armed = Some d, timer_tick = False\<rparr>"

definition timer_stop :: "timer \<Rightarrow> bool \<times> timer" where
  "timer_stop t = (timer_armed t \<noteq> None, t\<lparr>timer_armed := None\<rparr>)"

definition timer_reset :: "int \<Rightarrow> timer \<Rightarrow> timer" where
  "timer_reset d t = t\<lparr>timer_armed := Some d\<rparr>"

definition timer_fire :: "timer \<Rightarrow> timer" where
  "timer_fire t = \<lparr>timer_armed = None, timer_tick = True\<rparr>"

definition timer_drain :: "timer \<Rightarrow> timer go" where
  "timer_drain t = (if timer_tick t then Ret (t\<lparr>timer_tick := False\<rparr>) else Block)"

text \<open>The idiom \<^verbatim>\<open>if !t.Stop() { <-t.C }; t.Reset(d)\<close>.\<close>

definition timer_restart :: "int \<Rightarrow> timer \<Rightarrow> timer go" where
  "timer_restart d t =
     (case timer_stop t of
        (True, t') \<Rightarrow> Ret (timer_reset d t')
      | (False, t') \<Rightarrow> bind_go (timer_drain t') (\<lambda>t''. Ret (timer_reset d t'')))"

definition timer_live :: "timer \<Rightarrow> bool" where
  "timer_live t \<longleftrightarrow> timer_armed t \<noteq> None \<or> timer_tick t"

lemma timer_live_simps [simp]:
  "timer_live (NewTimer d)" "timer_live (timer_reset d t)" "timer_live (timer_fire t)"
  by (simp_all add: timer_live_def NewTimer_def timer_reset_def timer_fire_def)

lemma timer_restart_live:
  "timer_live t \<Longrightarrow> \<exists>t'. timer_restart d t = Ret t' \<and> timer_live t' \<and> timer_armed t' = Some d"
  by (auto simp: timer_restart_def timer_stop_def timer_drain_def timer_reset_def timer_live_def
      split: bool.splits)

lemma timer_restart_not_Panic: "timer_restart d t \<noteq> Panic e"
  by (auto simp: timer_restart_def timer_stop_def timer_drain_def split: bool.splits)

section \<open>Lists\<close>

lemma find_SomeD: "find P xs = Some x \<Longrightarrow> x \<in> set xs \<and> P x"
  by (induction xs) (auto split: if_splits)

lemma find_rev_SomeD: "find P (rev xs) = Some x \<Longrightarrow> x \<in> set xs \<and> P x"
  using find_SomeD[of P "rev xs" x] by simp

section \<open>Formatting\<close>

fun show_nat :: "nat \<Rightarrow> string" where
  "show_nat n =
     (if n < 10 then [char_of (48 + n)] else show_nat (n div 10) @ [char_of (48 + n mod 10)])"

declare show_nat.simps [simp del]

definition show_int :: "int \<Rightarrow> string" where
  "show_int i = (if i < 0 then ''-'' @ show_nat (nat (- i)) else show_nat (nat i))"

section \<open>Transition systems\<close>

inductive reach :: "('s \<Rightarrow> bool) \<Rightarrow> ('s \<Rightarrow> 's \<Rightarrow> bool) \<Rightarrow> 's \<Rightarrow> bool"
  for start :: "'s \<Rightarrow> bool" and step :: "'s \<Rightarrow> 's \<Rightarrow> bool" where
  reach_start: "start s \<Longrightarrow> reach start step s"
| reach_step: "reach start step s \<Longrightarrow> step s t \<Longrightarrow> reach start step t"

lemma reach_steps: "reach start step s \<Longrightarrow> step\<^sup>*\<^sup>* s t \<Longrightarrow> reach start step t"
  by (rotate_tac, induction rule: rtranclp_induct) (auto intro: reach.reach_step)

text \<open>
  The interface of an invariant proof: a property that holds at the start and that every
  step from a state with the property keeps.
\<close>

locale inductive_invariant =
  fixes start :: "'s \<Rightarrow> bool" and step :: "'s \<Rightarrow> 's \<Rightarrow> bool" and inv :: "'s \<Rightarrow> bool"
  assumes inv_start: "start s \<Longrightarrow> inv s"
    and inv_step: "inv s \<Longrightarrow> step s t \<Longrightarrow> inv t"
begin

lemma reach_inv: "reach start step s \<Longrightarrow> inv s"
  by (induction rule: reach.induct) (auto intro: inv_start inv_step)

lemma steps_inv: "inv s \<Longrightarrow> step\<^sup>*\<^sup>* s t \<Longrightarrow> inv t"
  by (rotate_tac, induction rule: rtranclp_induct) (auto intro: inv_step)

end

text \<open>
  A functional simulation: under the invariant, a concrete step is a sequence of steps of the
  abstract system between the abstracted states (the empty one when it changes nothing there).
\<close>

locale simulation = inductive_invariant start step inv
  for start :: "'s \<Rightarrow> bool" and step :: "'s \<Rightarrow> 's \<Rightarrow> bool" and inv :: "'s \<Rightarrow> bool" +
  fixes astart :: "'a \<Rightarrow> bool" and astep :: "'a \<Rightarrow> 'a \<Rightarrow> bool" and abs :: "'s \<Rightarrow> 'a"
  assumes sim_start: "start s \<Longrightarrow> astart (abs s)"
    and sim_step: "inv s \<Longrightarrow> step s t \<Longrightarrow> astep\<^sup>*\<^sup>* (abs s) (abs t)"
begin

lemma reach_abs: "reach start step s \<Longrightarrow> reach astart astep (abs s)"
proof (induction rule: reach.induct)
  case (reach_start s)
  then show ?case by (auto intro: reach.reach_start sim_start)
next
  case (reach_step s t)
  from reach_step.hyps(1) have "inv s" by (rule reach_inv)
  with reach_step.hyps(2) have "astep\<^sup>*\<^sup>* (abs s) (abs t)" by (rule sim_step[rotated])
  then show ?case using reach_step.IH by (rule reach_steps[rotated])
qed

end

end
