(* ===== verification/Ocpp.thy ===== *)
theory Ocpp
  imports Prelude
begin

text \<open>
  \<^verbatim>\<open>ocpp/ocpp.go\<close>: features, profiles, protocol errors, dialects. A \<^verbatim>\<open>reflect.Type\<close> is a value of
  the type parameter \<open>'ty\<close>; what decoding a message into a type does is left to the parser
  functions that \<^verbatim>\<open>ParseRequest\<close> and \<^verbatim>\<open>ParseResponse\<close> take as arguments, as in the source.
\<close>

record 'ty Feature =
  GetFeatureName :: string
  GetRequestType :: 'ty
  GetResponseType :: 'ty

type_synonym ErrorCode = string

record Error =
  Code :: ErrorCode
  Description :: string
  MessageId :: string

definition NewError :: "ErrorCode \<Rightarrow> string \<Rightarrow> string \<Rightarrow> Error" where
  "NewError errorCode description messageId =
     \<lparr>Code = errorCode, Description = description, MessageId = messageId\<rparr>"

definition NewHandlerError :: "ErrorCode \<Rightarrow> string \<Rightarrow> Error" where
  "NewHandlerError errorCode description =
     \<lparr>Code = errorCode, Description = description, MessageId = ''''\<rparr>"

definition Error_Error :: "Error \<Rightarrow> string" where
  "Error_Error err =
     ''ocpp message ('' @ MessageId err @ ''): '' @ Code err @ '' - '' @ Description err"

lemma NewError_sel [simp]:
  "Code (NewError c d m) = c" "Description (NewError c d m) = d" "MessageId (NewError c d m) = m"
  by (simp_all add: NewError_def)

section \<open>Profiles\<close>

record 'ty Profile =
  Name :: string
  Features :: "string \<rightharpoonup> 'ty Feature"

definition AddFeature :: "'ty Profile \<Rightarrow> 'ty Feature \<Rightarrow> 'ty Profile" where
  "AddFeature p feature = p\<lparr>Features := (Features p)(GetFeatureName feature \<mapsto> feature)\<rparr>"

definition NewProfile :: "string \<Rightarrow> 'ty Feature list \<Rightarrow> 'ty Profile" where
  "NewProfile name features = foldl AddFeature \<lparr>Name = name, Features = Map.empty\<rparr> features"

definition SupportsFeature :: "'ty Profile \<Rightarrow> string \<Rightarrow> bool" where
  "SupportsFeature p name \<longleftrightarrow> Features p name \<noteq> None"

definition GetFeature :: "'ty Profile \<Rightarrow> string \<Rightarrow> 'ty Feature option" where
  "GetFeature p name = Features p name"

definition ParseRequest ::
  "'ty Profile \<Rightarrow> string \<Rightarrow> 'raw \<Rightarrow> ('raw \<Rightarrow> 'ty \<Rightarrow> string + 'v) \<Rightarrow> string + 'v" where
  "ParseRequest p featureName rawRequest requestParser =
     (case Features p featureName of
        None \<Rightarrow> Inl (''Feature '' @ featureName @ '' not found'')
      | Some feature \<Rightarrow> requestParser rawRequest (GetRequestType feature))"

definition ParseResponse ::
  "'ty Profile \<Rightarrow> string \<Rightarrow> 'raw \<Rightarrow> ('raw \<Rightarrow> 'ty \<Rightarrow> string + 'v) \<Rightarrow> string + 'v" where
  "ParseResponse p featureName rawResponse responseParser =
     (case Features p featureName of
        None \<Rightarrow> Inl (''Feature '' @ featureName @ '' not found'')
      | Some feature \<Rightarrow> responseParser rawResponse (GetResponseType feature))"

lemma Features_foldl_AddFeature:
  "Features (foldl AddFeature p fs) name =
     (case find (\<lambda>f. GetFeatureName f = name) (rev fs) of
        Some f \<Rightarrow> Some f
      | None \<Rightarrow> Features p name)"
proof (induction fs rule: rev_induct)
  case Nil
  then show ?case by simp
next
  case (snoc f fs)
  then show ?case by (auto simp: AddFeature_def)
qed

lemma Name_NewProfile [simp]: "Name (NewProfile name fs) = name"
proof -
  have "Name (foldl AddFeature p fs) = Name p" for p :: "'a Profile"
    by (induction fs arbitrary: p) (simp_all add: AddFeature_def)
  then show ?thesis by (simp add: NewProfile_def)
qed

text \<open>A profile supports exactly the features it was built from.\<close>

lemma SupportsFeature_NewProfile:
  "SupportsFeature (NewProfile name fs) n \<longleftrightarrow> n \<in> GetFeatureName ` set fs"
  by (auto simp: SupportsFeature_def NewProfile_def Features_foldl_AddFeature find_None_iff
      split: option.splits dest: find_rev_SomeD)

lemma GetFeature_NewProfile:
  "distinct (map GetFeatureName fs) \<Longrightarrow> f \<in> set fs \<Longrightarrow>
     GetFeature (NewProfile name fs) (GetFeatureName f) = Some f"
proof -
  assume d: "distinct (map GetFeatureName fs)" and f: "f \<in> set fs"
  have "find (\<lambda>g. GetFeatureName g = GetFeatureName f) (rev fs) = Some f"
  proof -
    have "find (\<lambda>g. GetFeatureName g = GetFeatureName f) (rev fs) \<noteq> None"
      using f by (auto simp: find_None_iff)
    then obtain g where g: "find (\<lambda>g. GetFeatureName g = GetFeatureName f) (rev fs) = Some g"
      by blast
    then have "g \<in> set fs" "GetFeatureName g = GetFeatureName f"
      by (auto dest: find_rev_SomeD)
    with d f have "g = f" by (auto simp: distinct_map inj_on_def)
    with g show ?thesis by simp
  qed
  then show ?thesis
    by (simp add: GetFeature_def NewProfile_def Features_foldl_AddFeature)
qed

section \<open>Dialects\<close>

text \<open>\<open>NoDialect\<close> is the zero value of the Go type, the value of an endpoint on which none was set.\<close>

datatype Dialect = NoDialect | V16 | V2

end
