(* ===== verification/RequestState.thy ===== *)
theory RequestState
  imports Prelude
begin

text \<open>
  \<^verbatim>\<open>ocppj/state.go\<close>: the request that is pending on a connection (at most one), for a client and,
  per client, for a server. The type parameter \<open>'v\<close> is the type of \<^verbatim>\<open>ocpp.Request\<close> values.
\<close>

section \<open>clientState\<close>

text \<open>
  \<^verbatim>\<open>requestID\<close> is empty when nothing is pending. \<^verbatim>\<open>pendingRequest.request\<close> is nil (\<open>None\<close>) before the
  first request and keeps the last request after its deletion, as in the source.
\<close>

record 'v clientState =
  requestID :: string
  pendingRequest :: "'v option"

definition NewClientState :: "'v clientState" where
  "NewClientState = \<lparr>requestID = '''', pendingRequest = None\<rparr>"

definition AddPendingRequest :: "string \<Rightarrow> 'v \<Rightarrow> 'v clientState \<Rightarrow> 'v clientState" where
  "AddPendingRequest rid req s =
     (if rid \<noteq> '''' \<and> requestID s = ''''
      then s\<lparr>requestID := rid, pendingRequest := Some req\<rparr> else s)"

definition GetPendingRequest :: "string \<Rightarrow> 'v clientState \<Rightarrow> 'v option \<times> bool" where
  "GetPendingRequest rid s =
     (if requestID s \<noteq> rid then (None, False) else (pendingRequest s, True))"

definition DeletePendingRequest :: "string \<Rightarrow> 'v clientState \<Rightarrow> 'v clientState" where
  "DeletePendingRequest rid s = (if requestID s \<noteq> rid then s else s\<lparr>requestID := ''''\<rparr>)"

definition ClearPendingRequests :: "'v clientState \<Rightarrow> 'v clientState" where
  "ClearPendingRequests s = s\<lparr>requestID := ''''\<rparr>"

definition HasPendingRequest :: "'v clientState \<Rightarrow> bool" where
  "HasPendingRequest s \<longleftrightarrow> requestID s \<noteq> ''''"

text \<open>A non-empty request ID comes with the request it was added with.\<close>

definition state_wf :: "'v clientState \<Rightarrow> bool" where
  "state_wf s \<longleftrightarrow> (requestID s \<noteq> '''' \<longrightarrow> pendingRequest s \<noteq> None)"

definition pending :: "'v clientState \<Rightarrow> (string \<times> 'v) option" where
  "pending s =
     (if requestID s = '''' then None
      else map_option (\<lambda>req. (requestID s, req)) (pendingRequest s))"

named_theorems state_defs "the methods of the pending-request state"

lemmas [state_defs] =
  NewClientState_def AddPendingRequest_def GetPendingRequest_def DeletePendingRequest_def
  ClearPendingRequests_def HasPendingRequest_def

lemma state_wf_ops [simp]:
  "state_wf NewClientState"
  "state_wf s \<Longrightarrow> state_wf (AddPendingRequest rid req s)"
  "state_wf s \<Longrightarrow> state_wf (DeletePendingRequest rid s)"
  "state_wf (ClearPendingRequests s)"
  by (auto simp: state_wf_def state_defs)

section \<open>The interface the endpoints rely on\<close>

text \<open>
  \<^verbatim>\<open>ClientState\<close>: a single pending request. A second one is ignored until the first is deleted;
  a response is matched by its message ID and by nothing else.
\<close>

locale pending_state =
  fixes wf :: "'s \<Rightarrow> bool"
    and pend :: "'s \<Rightarrow> (string \<times> 'v) option"
    and add :: "string \<Rightarrow> 'v \<Rightarrow> 's \<Rightarrow> 's"
    and get :: "string \<Rightarrow> 's \<Rightarrow> 'v option \<times> bool"
    and del :: "string \<Rightarrow> 's \<Rightarrow> 's"
    and clear :: "'s \<Rightarrow> 's"
    and has :: "'s \<Rightarrow> bool"
  assumes add_wf: "wf s \<Longrightarrow> wf (add i r s)"
    and add_pend: "wf s \<Longrightarrow> pend (add i r s) =
      (case pend s of None \<Rightarrow> (if i = '''' then None else Some (i, r)) | Some p \<Rightarrow> Some p)"
    and get_pend: "wf s \<Longrightarrow> i \<noteq> '''' \<Longrightarrow>
      get i s = (case pend s of
          None \<Rightarrow> (None, False)
        | Some (j, r) \<Rightarrow> if i = j then (Some r, True) else (None, False))"
    and del_wf: "wf s \<Longrightarrow> wf (del i s)"
    and del_pend: "wf s \<Longrightarrow> pend (del i s) =
      (case pend s of None \<Rightarrow> None | Some (j, r) \<Rightarrow> if i = j then None else Some (j, r))"
    and clear_wf: "wf s \<Longrightarrow> wf (clear s)"
    and clear_pend: "wf s \<Longrightarrow> pend (clear s) = None"
    and has_pend: "wf s \<Longrightarrow> has s \<longleftrightarrow> pend s \<noteq> None"
    and pend_nonempty: "wf s \<Longrightarrow> pend s \<noteq> Some ('''', r)"
begin

text \<open>A request that was added while nothing was pending is found under its ID, once.\<close>

lemma get_add:
  "wf s \<Longrightarrow> pend s = None \<Longrightarrow> i \<noteq> '''' \<Longrightarrow> j \<noteq> '''' \<Longrightarrow>
     get j (add i r s) = (if i = j then (Some r, True) else (None, False))"
  by (simp add: get_pend add_pend add_wf)

lemma get_del: "wf s \<Longrightarrow> i \<noteq> '''' \<Longrightarrow> get i (del i s) = (None, False)"
  by (auto simp: get_pend del_pend del_wf split: option.splits)

text \<open>The first request wins: adding on top of a pending request changes nothing.\<close>

lemma add_add: "wf s \<Longrightarrow> pend s = Some p \<Longrightarrow> pend (add i r s) = Some p"
  by (simp add: add_pend)

lemma get_unique:
  "wf s \<Longrightarrow> i \<noteq> '''' \<Longrightarrow> j \<noteq> '''' \<Longrightarrow> snd (get i s) \<Longrightarrow> snd (get j s) \<Longrightarrow> i = j"
  by (auto simp: get_pend split: option.splits if_splits)

end

interpretation client: pending_state state_wf pending AddPendingRequest GetPendingRequest
  DeletePendingRequest ClearPendingRequests HasPendingRequest
  by unfold_locales (auto simp: state_wf_def pending_def state_defs split: if_splits)

section \<open>serverState\<close>

text \<open>
  The map from client IDs to \<^verbatim>\<open>clientState\<close> objects. \<^verbatim>\<open>GetClientState\<close> hands out a reference; its
  only caller (\<^verbatim>\<open>Server.ocppMessageHandler\<close>) reads it at once, so the objects are values here.
  \<^verbatim>\<open>getOrCreateState\<close> inserts the new state into the map.
\<close>

record 'v serverState =
  pendingRequestState :: "string \<rightharpoonup> 'v clientState"

definition NewServerState :: "'v serverState" where
  "NewServerState = \<lparr>pendingRequestState = Map.empty\<rparr>"

definition getOrCreateState :: "string \<Rightarrow> 'v serverState \<Rightarrow> 'v clientState \<times> 'v serverState" where
  "getOrCreateState clientID d =
     (case pendingRequestState d clientID of
        Some state \<Rightarrow> (state, d)
      | None \<Rightarrow> (NewClientState,
          d\<lparr>pendingRequestState := (pendingRequestState d)(clientID \<mapsto> NewClientState)\<rparr>))"

definition serverState_AddPendingRequest ::
  "string \<Rightarrow> string \<Rightarrow> 'v \<Rightarrow> 'v serverState \<Rightarrow> 'v serverState" where
  "serverState_AddPendingRequest clientID rid req d =
     (case getOrCreateState clientID d of
        (state, d') \<Rightarrow> d'\<lparr>pendingRequestState :=
          (pendingRequestState d')(clientID \<mapsto> AddPendingRequest rid req state)\<rparr>)"

definition serverState_DeletePendingRequest ::
  "string \<Rightarrow> string \<Rightarrow> 'v serverState \<Rightarrow> 'v serverState" where
  "serverState_DeletePendingRequest clientID rid d =
     (case pendingRequestState d clientID of
        None \<Rightarrow> d
      | Some state \<Rightarrow> d\<lparr>pendingRequestState :=
          (pendingRequestState d)(clientID \<mapsto> DeletePendingRequest rid state)\<rparr>)"

definition GetClientState :: "string \<Rightarrow> 'v serverState \<Rightarrow> 'v clientState \<times> 'v serverState" where
  "GetClientState clientID d = getOrCreateState clientID d"

definition serverState_HasPendingRequest :: "string \<Rightarrow> 'v serverState \<Rightarrow> bool" where
  "serverState_HasPendingRequest clientID d \<longleftrightarrow>
     (case pendingRequestState d clientID of None \<Rightarrow> False | Some s \<Rightarrow> HasPendingRequest s)"

definition HasPendingRequests :: "'v serverState \<Rightarrow> bool" where
  "HasPendingRequests d \<longleftrightarrow> (\<exists>s \<in> ran (pendingRequestState d). HasPendingRequest s)"

definition ClearClientPendingRequest :: "string \<Rightarrow> 'v serverState \<Rightarrow> 'v serverState" where
  "ClearClientPendingRequest clientID d =
     d\<lparr>pendingRequestState := (pendingRequestState d)(clientID := None)\<rparr>"

definition ClearAllPendingRequests :: "'v serverState \<Rightarrow> 'v serverState" where
  "ClearAllPendingRequests d = d\<lparr>pendingRequestState := Map.empty\<rparr>"

lemmas [state_defs] =
  NewServerState_def getOrCreateState_def serverState_AddPendingRequest_def
  serverState_DeletePendingRequest_def GetClientState_def serverState_HasPendingRequest_def
  ClearClientPendingRequest_def ClearAllPendingRequests_def

text \<open>The state of one client; a client without an entry has an empty one.\<close>

definition stateOf :: "string \<Rightarrow> 'v serverState \<Rightarrow> 'v clientState" where
  "stateOf clientID d =
     (case pendingRequestState d clientID of None \<Rightarrow> NewClientState | Some s \<Rightarrow> s)"

definition server_wf :: "'v serverState \<Rightarrow> bool" where
  "server_wf d \<longleftrightarrow> (\<forall>c. state_wf (stateOf c d))"

lemma GetClientState_eq:
  "fst (GetClientState c d) = stateOf c d" "stateOf e (snd (GetClientState c d)) = stateOf e d"
  by (auto simp: GetClientState_def getOrCreateState_def stateOf_def split: option.splits)

lemma stateOf_ops [simp]:
  "stateOf e (serverState_AddPendingRequest c rid req d) =
     (if e = c then AddPendingRequest rid req (stateOf e d) else stateOf e d)"
  "stateOf e (ClearClientPendingRequest c d) = (if e = c then NewClientState else stateOf e d)"
  "stateOf e (ClearAllPendingRequests d) = NewClientState"
  "stateOf e NewServerState = NewClientState"
  by (auto simp: stateOf_def state_defs split: option.splits)

text \<open>Deleting on a client without an entry has no effect.\<close>

lemma stateOf_Delete:
  "rid \<noteq> '''' \<Longrightarrow> stateOf e (serverState_DeletePendingRequest c rid d) =
     (if e = c then DeletePendingRequest rid (stateOf e d) else stateOf e d)"
  by (auto simp: stateOf_def state_defs split: option.splits)

lemma pending_stateOf_Delete:
  "pending (stateOf e (serverState_DeletePendingRequest c rid d)) =
     (if e = c then pending (DeletePendingRequest rid (stateOf e d)) else pending (stateOf e d))"
  by (auto simp: stateOf_def state_defs pending_def split: option.splits)

lemma server_wf_ops [simp]:
  "server_wf NewServerState"
  "server_wf d \<Longrightarrow> server_wf (serverState_AddPendingRequest c rid req d)"
  "server_wf d \<Longrightarrow> server_wf (ClearClientPendingRequest c d)"
  "server_wf (ClearAllPendingRequests d)"
  by (auto simp: server_wf_def)

lemma server_wf_Delete [simp]:
  "server_wf d \<Longrightarrow> server_wf (serverState_DeletePendingRequest c rid d)"
  by (auto simp: server_wf_def serverState_DeletePendingRequest_def stateOf_def state_wf_def
      DeletePendingRequest_def split: option.splits)

lemma HasPendingRequest_stateOf:
  "serverState_HasPendingRequest c d \<longleftrightarrow> HasPendingRequest (stateOf c d)"
  by (auto simp: stateOf_def state_defs split: option.splits)

lemma HasPendingRequests_iff:
  "HasPendingRequests d \<longleftrightarrow> (\<exists>c. HasPendingRequest (stateOf c d))"
  by (force simp: HasPendingRequests_def stateOf_def ran_def NewClientState_def
      HasPendingRequest_def split: option.splits)

text \<open>Each client's share of the server state is a pending-request state of its own.\<close>

interpretation server: pending_state server_wf "\<lambda>d. pending (stateOf c d)"
  "serverState_AddPendingRequest c" "\<lambda>rid d. GetPendingRequest rid (fst (GetClientState c d))"
  "serverState_DeletePendingRequest c" "ClearClientPendingRequest c"
  "serverState_HasPendingRequest c" for c
proof
  fix s :: "'a serverState" and i r
  assume wf: "server_wf s"
  then have c: "state_wf (stateOf c s)" by (simp add: server_wf_def)
  show "server_wf (serverState_AddPendingRequest c i r s)" using wf by simp
  show "pending (stateOf c (serverState_AddPendingRequest c i r s)) =
    (case pending (stateOf c s) of None \<Rightarrow> if i = '''' then None else Some (i, r) | Some p \<Rightarrow> Some p)"
    using client.add_pend[OF c] by simp
  show "i \<noteq> '''' \<Longrightarrow> GetPendingRequest i (fst (GetClientState c s)) =
    (case pending (stateOf c s) of None \<Rightarrow> (None, False)
     | Some (j, r) \<Rightarrow> if i = j then (Some r, True) else (None, False))"
    using client.get_pend[OF c] by (simp add: GetClientState_eq)
  show "server_wf (serverState_DeletePendingRequest c i s)" using wf by simp
  show "pending (stateOf c (serverState_DeletePendingRequest c i s)) =
    (case pending (stateOf c s) of None \<Rightarrow> None
     | Some (j, r) \<Rightarrow> if i = j then None else Some (j, r))"
    using client.del_pend[OF c] by (simp add: pending_stateOf_Delete)
  show "server_wf (ClearClientPendingRequest c s)" using wf by simp
  show "pending (stateOf c (ClearClientPendingRequest c s)) = None"
    by (simp add: pending_def NewClientState_def)
  show "serverState_HasPendingRequest c s \<longleftrightarrow> pending (stateOf c s) \<noteq> None"
    using client.has_pend[OF c] by (simp add: HasPendingRequest_stateOf)
  show "pending (stateOf c s) \<noteq> Some ('''', r)"
    using client.pend_nonempty[OF c] by simp
qed

end
