(* ===== verification/Message.thy ===== *)
theory Message
  imports Ocpp RequestState "HOL-Library.List_Lexorder" "HOL-Library.Char_ord"
begin

text \<open>
  \<^verbatim>\<open>ocppj/ocppj.go\<close>: OCPP-J messages, their JSON form, the checks on incoming messages and the
  creation of outgoing ones.

  A JSON document is its syntax tree: what \<^verbatim>\<open>encoding/json\<close> decodes into an \<^verbatim>\<open>interface{}\<close> and
  encodes from one. \<open>JNum m k\<close> is the number with the decimal form \<open>m / 10 ^ k\<close>.

  What lives outside the repository, or is chosen by it per message type through reflection, is
  collected in the record \<open>lib\<close>, a parameter of the definitions: the feature name of a payload,
  encoding and decoding a payload (\<open>'v\<close>) of a Go type (\<open>'ty\<close>), and the validator package.
\<close>

section \<open>JSON values and how they print\<close>

datatype json =
    JNull
  | JBool bool
  | JNum int nat
  | JStr string
  | JArr "json list"
  | JObj "(string \<times> json) list"

definition show_decimal :: "int \<Rightarrow> nat \<Rightarrow> string" where
  "show_decimal m k =
     (if k = 0 then show_int m
      else let a = nat \<bar>m\<bar>; frac = show_nat (a mod 10 ^ k)
           in (if m < 0 then ''-'' else '''') @ show_nat (a div 10 ^ k) @ ''.'' @
              replicate (k - length frac) (CHR ''0'') @ frac)"

definition joinWith :: "string \<Rightarrow> string list \<Rightarrow> string" where
  "joinWith sep xs = (case xs of [] \<Rightarrow> '''' | y # ys \<Rightarrow> y @ concat (map (\<lambda>s. sep @ s) ys))"

text \<open>The verb \<^verbatim>\<open>%v\<close> of \<^verbatim>\<open>fmt\<close> on a decoded JSON value; the keys of a map print sorted.\<close>

fun show_v :: "json \<Rightarrow> string" where
  "show_v JNull = ''<nil>''"
| "show_v (JBool b) = (if b then ''true'' else ''false'')"
| "show_v (JNum m k) = show_decimal m k"
| "show_v (JStr s) = s"
| "show_v (JArr xs) = ''['' @ joinWith '' '' (map show_v xs) @ '']''"
| "show_v (JObj kvs) =
     ''map['' @ joinWith '' '' (map (\<lambda>(k, v). k @ '':'' @ v)
       (sort_key fst (map (\<lambda>(k, v). (k, show_v v)) kvs))) @ '']''"

text \<open>The conversion \<^verbatim>\<open>MessageType(rawTypeId)\<close> of a float64 truncates towards zero.\<close>

definition trunc_decimal :: "int \<Rightarrow> nat \<Rightarrow> int" where
  "trunc_decimal m k = sgn m * (\<bar>m\<bar> div 10 ^ k)"

section \<open>Messages\<close>

type_synonym MessageType = int

definition CALL :: MessageType where "CALL = 2"
definition CALL_RESULT :: MessageType where "CALL_RESULT = 3"
definition CALL_ERROR :: MessageType where "CALL_ERROR = 4"

record 'v Call =
  Call_MessageTypeId :: MessageType
  Call_UniqueId :: string
  Call_Action :: string
  Call_Payload :: 'v

record 'v CallResult =
  CallResult_MessageTypeId :: MessageType
  CallResult_UniqueId :: string
  CallResult_Payload :: 'v

record CallError =
  CallError_MessageTypeId :: MessageType
  CallError_UniqueId :: string
  CallError_ErrorCode :: ErrorCode
  CallError_ErrorDescription :: string
  CallError_ErrorDetails :: "json option"

datatype 'v Message = MCall "'v Call" | MCallResult "'v CallResult" | MCallError CallError

fun GetMessageTypeId :: "'v Message \<Rightarrow> MessageType" where
  "GetMessageTypeId (MCall c) = Call_MessageTypeId c"
| "GetMessageTypeId (MCallResult r) = CallResult_MessageTypeId r"
| "GetMessageTypeId (MCallError e) = CallError_MessageTypeId e"

fun GetUniqueId :: "'v Message \<Rightarrow> string" where
  "GetUniqueId (MCall c) = Call_UniqueId c"
| "GetUniqueId (MCallResult r) = CallResult_UniqueId r"
| "GetUniqueId (MCallError e) = CallError_UniqueId e"

section \<open>The validator package and the payload codec\<close>

text \<open>
  A \<^verbatim>\<open>validator.FieldError\<close>: the methods the source calls. \<open>Value\<close> is the offending value, of
  which \<^verbatim>\<open>getValueLength\<close> distinguishes integers and strings.
\<close>

datatype field_value = FInt int | FString string | FOther

record field_error =
  ActualTag :: string
  Namespace :: string
  Param :: string
  Value :: field_value

record ('ty, 'v) lib =
  featureName :: "'v \<Rightarrow> string"
  marshal :: "'v \<Rightarrow> string + json"
  unmarshal :: "'ty \<Rightarrow> json \<Rightarrow> string + 'v"
  validateStruct :: "'v Message \<Rightarrow> field_error list"
  validationText :: "field_error list \<Rightarrow> string"

text \<open>Go \<^verbatim>\<open>error\<close> values of this layer: protocol errors, validation errors, plain errors.\<close>

datatype goerr = EOcpp Error | EValidation "field_error list" | EPlain string

fun errText :: "('ty, 'v) lib \<Rightarrow> goerr \<Rightarrow> string" where
  "errText L (EOcpp e) = Error_Error e"
| "errText L (EValidation fs) = validationText L fs"
| "errText L (EPlain s) = s"

section \<open>Error codes\<close>

definition NotImplemented :: ErrorCode where "NotImplemented = ''NotImplemented''"
definition NotSupported :: ErrorCode where "NotSupported = ''NotSupported''"
definition InternalError :: ErrorCode where "InternalError = ''InternalError''"
definition MessageTypeNotSupported :: ErrorCode where
  "MessageTypeNotSupported = ''MessageTypeNotSupported''"
definition ProtocolError :: ErrorCode where "ProtocolError = ''ProtocolError''"
definition SecurityError :: ErrorCode where "SecurityError = ''SecurityError''"
definition PropertyConstraintViolation :: ErrorCode where
  "PropertyConstraintViolation = ''PropertyConstraintViolation''"
definition OccurrenceConstraintViolation :: ErrorCode where
  "OccurrenceConstraintViolation = ''OccurrenceConstraintViolation''"
definition TypeConstraintViolation :: ErrorCode where
  "TypeConstraintViolation = ''TypeConstraintViolation''"
definition GenericError :: ErrorCode where "GenericError = ''GenericError''"
definition FormatViolationV2 :: ErrorCode where "FormatViolationV2 = ''FormatViolation''"
definition FormatViolationV16 :: ErrorCode where "FormatViolationV16 = ''FormationViolation''"

named_theorems code_defs "the error codes"

lemmas [code_defs] =
  NotImplemented_def NotSupported_def InternalError_def MessageTypeNotSupported_def
  ProtocolError_def SecurityError_def PropertyConstraintViolation_def
  OccurrenceConstraintViolation_def TypeConstraintViolation_def GenericError_def
  FormatViolationV2_def FormatViolationV16_def

definition FormatErrorType :: "Dialect \<Rightarrow> ErrorCode go" where
  "FormatErrorType d =
     (case d of
        V16 \<Rightarrow> Ret FormatViolationV16
      | V2 \<Rightarrow> Ret FormatViolationV2
      | NoDialect \<Rightarrow> Panic ''invalid dialect'')"

definition IsErrorCodeValid :: "ErrorCode \<Rightarrow> bool" where
  "IsErrorCodeValid code \<longleftrightarrow>
     code \<in> {NotImplemented, NotSupported, InternalError, MessageTypeNotSupported, ProtocolError,
       SecurityError, FormatViolationV16, FormatViolationV2, PropertyConstraintViolation,
       OccurrenceConstraintViolation, TypeConstraintViolation, GenericError}"

section \<open>Encoding\<close>

text \<open>
  \<^verbatim>\<open>jsonMarshal\<close> of a slice whose elements have been encoded, or failed to. Trimming the
  encoder's newline and HTML escaping concern the text of the document, not its tree.
\<close>

fun marshalFields :: "(string + json) list \<Rightarrow> string + json list" where
  "marshalFields [] = Inr []"
| "marshalFields (Inl e # fs) = Inl e"
| "marshalFields (Inr j # fs) =
     (case marshalFields fs of Inl e \<Rightarrow> Inl e | Inr js \<Rightarrow> Inr (j # js))"

definition jsonMarshal :: "(string + json) list \<Rightarrow> string + json" where
  "jsonMarshal fs = map_sum id JArr (marshalFields fs)"

text \<open>
  \<^verbatim>\<open>ocppMessageToJson\<close> overwrites the first and the last byte of the encoding with brackets; the
  encoding of a slice has them already.
\<close>

definition ocppMessageToJson :: "(string + json) list \<Rightarrow> string + json" where
  "ocppMessageToJson message = jsonMarshal message"

definition Call_MarshalJSON :: "('ty, 'v) lib \<Rightarrow> 'v Call \<Rightarrow> string + json" where
  "Call_MarshalJSON L call =
     jsonMarshal [Inr (JNum (Call_MessageTypeId call) 0), Inr (JStr (Call_UniqueId call)),
       Inr (JStr (Call_Action call)), marshal L (Call_Payload call)]"

definition CallResult_MarshalJSON :: "('ty, 'v) lib \<Rightarrow> 'v CallResult \<Rightarrow> string + json" where
  "CallResult_MarshalJSON L r =
     jsonMarshal [Inr (JNum (CallResult_MessageTypeId r) 0), Inr (JStr (CallResult_UniqueId r)),
       marshal L (CallResult_Payload r)]"

definition CallError_MarshalJSON :: "CallError \<Rightarrow> string + json" where
  "CallError_MarshalJSON e =
     ocppMessageToJson [Inr (JNum (CallError_MessageTypeId e) 0), Inr (JStr (CallError_UniqueId e)),
       Inr (JStr (CallError_ErrorCode e)), Inr (JStr (CallError_ErrorDescription e)),
       Inr (case CallError_ErrorDetails e of None \<Rightarrow> JObj [] | Some d \<Rightarrow> d)]"

text \<open>\<^verbatim>\<open>json.Unmarshal\<close> into a \<^verbatim>\<open>[]interface{}\<close>: an array, or null, which gives the nil slice.\<close>

definition ParseRawJsonMessage :: "json \<Rightarrow> string + json list" where
  "ParseRawJsonMessage dataJson =
     (case dataJson of
        JArr arr \<Rightarrow> Inr arr
      | JNull \<Rightarrow> Inr []
      | _ \<Rightarrow> Inl ''json: cannot unmarshal into Go value of type []interface {}'')"

section \<open>Validation errors\<close>

definition getValueLength :: "field_value \<Rightarrow> int" where
  "getValueLength v = (case v of FInt i \<Rightarrow> i | FString s \<Rightarrow> int (length s) | FOther \<Rightarrow> 0)"

definition occurenceViolation :: "field_error \<Rightarrow> string \<Rightarrow> string \<Rightarrow> Error" where
  "occurenceViolation fieldError messageId feature =
     (let description = ''Field '' @ Namespace fieldError @ '' required but not found'';
          description' = (if feature \<noteq> '''' then description @ '' for feature '' @ feature
                          else description)
      in NewError OccurrenceConstraintViolation description' messageId)"

definition propertyConstraintViolation ::
  "field_error \<Rightarrow> string \<Rightarrow> string \<Rightarrow> string \<Rightarrow> Error" where
  "propertyConstraintViolation fieldError details messageId feature =
     (let description = ''Field '' @ Namespace fieldError @ '' must be '' @ details @ '' '' @
            Param fieldError @ '', but was '' @ show_int (getValueLength (Value fieldError));
          description' = (if feature \<noteq> '''' then description @ '' for feature '' @ feature
                          else description)
      in NewError PropertyConstraintViolation description' messageId)"

text \<open>The loop over the field errors: the first one with a tag the switch knows returns.\<close>

fun firstViolation :: "field_error list \<Rightarrow> string \<Rightarrow> string \<Rightarrow> Error option" where
  "firstViolation [] messageId feature = None"
| "firstViolation (el # els) messageId feature =
     (if ActualTag el = ''required'' then Some (occurenceViolation el messageId feature)
      else if ActualTag el = ''max'' then
        Some (propertyConstraintViolation el ''maximum'' messageId feature)
      else if ActualTag el = ''min'' then
        Some (propertyConstraintViolation el ''minimum'' messageId feature)
      else if ActualTag el = ''gte'' then
        Some (propertyConstraintViolation el ''>='' messageId feature)
      else if ActualTag el = ''gt'' then
        Some (propertyConstraintViolation el ''>'' messageId feature)
      else if ActualTag el = ''lte'' then
        Some (propertyConstraintViolation el ''<='' messageId feature)
      else if ActualTag el = ''lt'' then
        Some (propertyConstraintViolation el ''<'' messageId feature)
      else firstViolation els messageId feature)"

definition errorFromValidation ::
  "('ty, 'v) lib \<Rightarrow> field_error list \<Rightarrow> string \<Rightarrow> string \<Rightarrow> Error" where
  "errorFromValidation L validationErrors messageId feature =
     (case firstViolation validationErrors messageId feature of
        Some e \<Rightarrow> e
      | None \<Rightarrow> NewError GenericError (validationText L validationErrors) messageId)"

section \<open>Endpoint\<close>

record 'ty Endpoint =
  dialect :: Dialect
  Profiles :: "'ty Profile list"

definition SetDialect :: "Dialect \<Rightarrow> 'ty Endpoint \<Rightarrow> 'ty Endpoint" where
  "SetDialect d endpoint = endpoint\<lparr>dialect := d\<rparr>"

definition AddProfile :: "'ty Profile \<Rightarrow> 'ty Endpoint \<Rightarrow> 'ty Endpoint" where
  "AddProfile profile endpoint = endpoint\<lparr>Profiles := Profiles endpoint @ [profile]\<rparr>"

definition GetProfile :: "'ty Endpoint \<Rightarrow> string \<Rightarrow> 'ty Profile option" where
  "GetProfile endpoint name = find (\<lambda>p. Name p = name) (Profiles endpoint)"

definition GetProfileForFeature :: "'ty Endpoint \<Rightarrow> string \<Rightarrow> 'ty Profile option" where
  "GetProfileForFeature endpoint feature =
     find (\<lambda>p. SupportsFeature p feature) (Profiles endpoint)"

definition parseRawJsonRequest :: "('ty, 'v) lib \<Rightarrow> json \<Rightarrow> 'ty \<Rightarrow> string + 'v" where
  "parseRawJsonRequest L raw requestType =
     unmarshal L requestType (if raw = JNull then JObj [] else raw)"

definition parseRawJsonConfirmation :: "('ty, 'v) lib \<Rightarrow> json \<Rightarrow> 'ty \<Rightarrow> string + 'v" where
  "parseRawJsonConfirmation L raw confirmationType =
     unmarshal L confirmationType (if raw = JNull then JObj [] else raw)"

section \<open>Parsing\<close>

text \<open>
  The result of \<^verbatim>\<open>ParseMessage\<close>: an error, a message, or neither (\<open>Inr None\<close>, a response to no
  pending request, which is discarded). \<open>formatError\<close> is \<^verbatim>\<open>ocpp.NewError(FormatErrorType(endpoint),
  ...)\<close>, which panics on an endpoint without a dialect.
\<close>

definition formatError ::
  "'ty Endpoint \<Rightarrow> string \<Rightarrow> string \<Rightarrow> (Error + 'v Message option) go" where
  "formatError ep description messageId =
     bind_go (FormatErrorType (dialect ep)) (\<lambda>code. Ret (Inl (NewError code description messageId)))"

definition validated ::
  "('ty, 'v) lib \<Rightarrow> string \<Rightarrow> string \<Rightarrow> 'v Message \<Rightarrow> (Error + 'v Message option) go" where
  "validated L uniqueId feature m =
     (case validateStruct L m of
        [] \<Rightarrow> Ret (Inr (Some m))
      | errs \<Rightarrow> Ret (Inl (errorFromValidation L errs uniqueId feature)))"

definition parseCall ::
  "('ty, 'v) lib \<Rightarrow> 'ty Endpoint \<Rightarrow> json list \<Rightarrow> string \<Rightarrow> (Error + 'v Message option) go" where
  "parseCall L ep arr uniqueId =
     (if length arr \<noteq> 4 then
        formatError ep ''Invalid Call message. Expected array length 4'' uniqueId
      else case arr ! 2 of
        JStr action \<Rightarrow>
          (case GetProfileForFeature ep action of
             None \<Rightarrow> Ret (Inl (NewError NotSupported (''Unsupported feature '' @ action) uniqueId))
           | Some profile \<Rightarrow>
               (case ParseRequest profile action (arr ! 3) (parseRawJsonRequest L) of
                  Inl err \<Rightarrow> formatError ep err uniqueId
                | Inr request \<Rightarrow>
                    validated L uniqueId action
                      (MCall \<lparr>Call_MessageTypeId = CALL, Call_UniqueId = uniqueId,
                         Call_Action = action, Call_Payload = request\<rparr>)))
      | _ \<Rightarrow> formatError ep
          (''Invalid element '' @ show_v (arr ! 2) @ '' at 2, expected action (string)'') uniqueId)"

definition parseCallResult ::
  "('ty, 'v) lib \<Rightarrow> 'ty Endpoint \<Rightarrow> json list \<Rightarrow> string \<Rightarrow> 'v clientState \<Rightarrow>
   (Error + 'v Message option) go" where
  "parseCallResult L ep arr uniqueId st =
     (case GetPendingRequest uniqueId st of
        (_, False) \<Rightarrow> Ret (Inr None)
      | (None, True) \<Rightarrow> Panic ''nil pointer dereference''
      | (Some request, True) \<Rightarrow>
          (case GetProfileForFeature ep (featureName L request) of
             None \<Rightarrow> Panic ''nil pointer dereference''
           | Some profile \<Rightarrow>
               (case ParseResponse profile (featureName L request) (arr ! 2)
                       (parseRawJsonConfirmation L) of
                  Inl err \<Rightarrow> formatError ep err uniqueId
                | Inr confirmation \<Rightarrow>
                    validated L uniqueId (featureName L request)
                      (MCallResult \<lparr>CallResult_MessageTypeId = CALL_RESULT,
                         CallResult_UniqueId = uniqueId, CallResult_Payload = confirmation\<rparr>))))"

text \<open>
  When the error code is not a string, the source passes the failed conversion's value (the
  empty string) instead of the unique ID as the message ID of the error.
\<close>

definition parseCallError ::
  "('ty, 'v) lib \<Rightarrow> 'ty Endpoint \<Rightarrow> json list \<Rightarrow> string \<Rightarrow> 'v clientState \<Rightarrow>
   (Error + 'v Message option) go" where
  "parseCallError L ep arr uniqueId st =
     (case GetPendingRequest uniqueId st of
        (_, False) \<Rightarrow> Ret (Inr None)
      | (_, True) \<Rightarrow>
          (if length arr < 4 then
             formatError ep ''Invalid Call Error message. Expected array length >= 4'' uniqueId
           else
             (let details =
                (if length arr > 4 then (if arr ! 4 = JNull then None else Some (arr ! 4)) else None)
              in case arr ! 2 of
                   JStr errorCode \<Rightarrow>
                     validated L uniqueId ''''
                       (MCallError \<lparr>CallError_MessageTypeId = CALL_ERROR,
                          CallError_UniqueId = uniqueId, CallError_ErrorCode = errorCode,
                          CallError_ErrorDescription =
                            (case arr ! 3 of JStr v \<Rightarrow> v | _ \<Rightarrow> ''''),
                          CallError_ErrorDetails = details\<rparr>)
                 | _ \<Rightarrow> formatError ep
                     (''Invalid element '' @ show_v (arr ! 2) @
                      '' at 2, expected rawErrorCode (string)'') '''')))"

definition ParseMessage ::
  "('ty, 'v) lib \<Rightarrow> 'ty Endpoint \<Rightarrow> json list \<Rightarrow> 'v clientState \<Rightarrow>
   (Error + 'v Message option) go" where
  "ParseMessage L ep arr st =
     (if length arr < 3 then formatError ep ''Invalid message. Expected array length >= 3'' ''''
      else case arr ! 0 of
        JNum m k \<Rightarrow>
          (let typeId = trunc_decimal m k
           in case arr ! 1 of
                JStr uniqueId \<Rightarrow>
                  (if uniqueId = '''' then
                     formatError ep ''Invalid unique ID, cannot be empty'' uniqueId
                   else if typeId = CALL then parseCall L ep arr uniqueId
                   else if typeId = CALL_RESULT then parseCallResult L ep arr uniqueId st
                   else if typeId = CALL_ERROR then parseCallError L ep arr uniqueId st
                   else Ret (Inl (NewError MessageTypeNotSupported
                     (''Invalid message type ID '' @ show_int typeId) uniqueId)))
              | _ \<Rightarrow> formatError ep
                  (''Invalid element '' @ show_v (arr ! 1) @ '' at 1, expected unique ID (string)'')
                  '''')
      | _ \<Rightarrow> formatError ep
          (''Invalid element '' @ show_v (arr ! 0) @ '' at 0, expected message type (int)'') '''')"

section \<open>Creating messages\<close>

text \<open>
  \<^verbatim>\<open>validationEnabled\<close> is the package variable set by \<^verbatim>\<open>SetMessageValidation\<close>; the unique ID is the
  next output of \<^verbatim>\<open>messageIdGenerator\<close>.
\<close>

definition CreateCall ::
  "('ty, 'v) lib \<Rightarrow> bool \<Rightarrow> 'ty Endpoint \<Rightarrow> string \<Rightarrow> 'v \<Rightarrow> goerr + 'v Call" where
  "CreateCall L validationEnabled ep uniqueId request =
     (let action = featureName L request
      in case GetProfileForFeature ep action of
           None \<Rightarrow> Inl (EPlain (''Couldn't create Call for unsupported action '' @ action))
         | Some profile \<Rightarrow>
             (let call = \<lparr>Call_MessageTypeId = CALL, Call_UniqueId = uniqueId,
                          Call_Action = action, Call_Payload = request\<rparr>
              in if validationEnabled \<and> validateStruct L (MCall call) \<noteq> []
                 then Inl (EValidation (validateStruct L (MCall call)))
                 else Inr call))"

definition CreateCallResult ::
  "('ty, 'v) lib \<Rightarrow> bool \<Rightarrow> 'ty Endpoint \<Rightarrow> 'v \<Rightarrow> string \<Rightarrow> goerr + 'v CallResult" where
  "CreateCallResult L validationEnabled ep confirmation uniqueId =
     (let action = featureName L confirmation
      in case GetProfileForFeature ep action of
           None \<Rightarrow> Inl (EOcpp (NewError NotSupported
             (''couldn't create Call Result for unsupported action '' @ action) uniqueId))
         | Some profile \<Rightarrow>
             (let r = \<lparr>CallResult_MessageTypeId = CALL_RESULT, CallResult_UniqueId = uniqueId,
                       CallResult_Payload = confirmation\<rparr>
              in if validationEnabled \<and> validateStruct L (MCallResult r) \<noteq> []
                 then Inl (EValidation (validateStruct L (MCallResult r)))
                 else Inr r))"

definition CreateCallError ::
  "('ty, 'v) lib \<Rightarrow> bool \<Rightarrow> string \<Rightarrow> ErrorCode \<Rightarrow> string \<Rightarrow> json option \<Rightarrow> goerr + CallError" where
  "CreateCallError L validationEnabled uniqueId code description details =
     (let e = \<lparr>CallError_MessageTypeId = CALL_ERROR, CallError_UniqueId = uniqueId,
               CallError_ErrorCode = code, CallError_ErrorDescription = description,
               CallError_ErrorDetails = details\<rparr>
      in if validationEnabled \<and> validateStruct L (MCallError e) \<noteq> []
         then Inl (EValidation (validateStruct L (MCallError e)))
         else Inr e)"

section \<open>Facts about errors\<close>

lemma FormatErrorType_valid:
  "d \<noteq> NoDialect \<Longrightarrow> \<exists>c. FormatErrorType d = Ret c \<and> IsErrorCodeValid c"
  by (cases d) (auto simp: FormatErrorType_def IsErrorCodeValid_def)

lemma formatError_Ret:
  "formatError ep desc i = Ret r \<longleftrightarrow>
     (\<exists>c. FormatErrorType (dialect ep) = Ret c \<and> r = Inl (NewError c desc i))"
  by (auto simp: formatError_def)

lemma formatError_total:
  "dialect ep \<noteq> NoDialect \<Longrightarrow>
     \<exists>c. IsErrorCodeValid c \<and> formatError ep desc i = Ret (Inl (NewError c desc i))"
  using FormatErrorType_valid by (fastforce simp: formatError_def)

lemma firstViolation_Some:
  "firstViolation els i f = Some e \<Longrightarrow> MessageId e = i \<and> IsErrorCodeValid (Code e)"
  by (induction els i f rule: firstViolation.induct)
    (auto simp: occurenceViolation_def propertyConstraintViolation_def Let_def IsErrorCodeValid_def
      split: if_splits)

lemma errorFromValidation_valid:
  "MessageId (errorFromValidation L errs i f) = i"
  "IsErrorCodeValid (Code (errorFromValidation L errs i f))"
  by (auto simp: errorFromValidation_def IsErrorCodeValid_def dest: firstViolation_Some
      split: option.splits)

lemma validated_cases:
  "(validateStruct L m = [] \<and> validated L i f m = Ret (Inr (Some m))) \<or>
   (validateStruct L m \<noteq> [] \<and>
      validated L i f m = Ret (Inl (errorFromValidation L (validateStruct L m) i f)))"
  by (auto simp: validated_def split: list.splits)

lemma validated_Some:
  "validated L i f m = Ret (Inr (Some m')) \<longleftrightarrow> m' = m \<and> validateStruct L m = []"
  by (auto simp: validated_def split: list.splits)

section \<open>Facts about parsing\<close>

lemma message_types [simp]:
  "CALL \<noteq> CALL_RESULT" "CALL \<noteq> CALL_ERROR" "CALL_RESULT \<noteq> CALL_ERROR"
  "CALL_RESULT \<noteq> CALL" "CALL_ERROR \<noteq> CALL" "CALL_ERROR \<noteq> CALL_RESULT"
  by (simp_all add: CALL_def CALL_RESULT_def CALL_ERROR_def)

lemma trunc_decimal_int [simp]: "trunc_decimal m 0 = m"
  by (simp add: trunc_decimal_def sgn_mult_abs)

text \<open>A message whose first two elements have the right types and whose ID is not empty.\<close>

definition header :: "json list \<Rightarrow> MessageType \<Rightarrow> string \<Rightarrow> bool" where
  "header arr t uniqueId \<longleftrightarrow>
     3 \<le> length arr \<and> uniqueId \<noteq> '''' \<and> arr ! 1 = JStr uniqueId \<and>
     (case arr ! 0 of JNum m k \<Rightarrow> trunc_decimal m k = t | _ \<Rightarrow> False)"

lemma ParseMessage_header:
  "header arr t i \<Longrightarrow> ParseMessage L ep arr st =
     (if t = CALL then parseCall L ep arr i
      else if t = CALL_RESULT then parseCallResult L ep arr i st
      else if t = CALL_ERROR then parseCallError L ep arr i st
      else Ret (Inl (NewError MessageTypeNotSupported (''Invalid message type ID '' @ show_int t) i)))"
  by (auto simp: header_def ParseMessage_def Let_def split: json.splits)

lemma ParseMessage_no_header:
  assumes "\<nexists>t i. header arr t i"
  shows "\<exists>d. ParseMessage L ep arr st = formatError ep d ''''"
proof (cases "length arr < 3")
  case True
  then show ?thesis by (auto simp: ParseMessage_def)
next
  case False
  show ?thesis
  proof (cases "\<exists>m k. arr ! 0 = JNum m k")
    case True
    then obtain m k where mk: "arr ! 0 = JNum m k" by blast
    with False assms have "\<nexists>i. arr ! 1 = JStr i \<and> i \<noteq> ''''"
      by (auto simp: header_def)
    with False mk show ?thesis
      by (cases "arr ! 1") (auto simp: ParseMessage_def Let_def)
  next
    case no: False
    with False show ?thesis by (cases "arr ! 0") (auto simp: ParseMessage_def)
  qed
qed

lemma parseCall_Ret:
  assumes "dialect ep \<noteq> NoDialect"
  shows "(\<exists>e. parseCall L ep arr i = Ret (Inl e) \<and> MessageId e = i \<and> IsErrorCodeValid (Code e)) \<or>
    (\<exists>c. parseCall L ep arr i = Ret (Inr (Some (MCall c))) \<and> validateStruct L (MCall c) = [] \<and>
       length arr = 4 \<and> arr ! 2 = JStr (Call_Action c) \<and> Call_UniqueId c = i \<and>
       Call_MessageTypeId c = CALL \<and> GetProfileForFeature ep (Call_Action c) \<noteq> None)"
proof -
  have f: "\<exists>c. IsErrorCodeValid c \<and> formatError ep d i = Ret (Inl (NewError c d i))" for d
    using formatError_total[OF assms] by blast
  have ns: "IsErrorCodeValid NotSupported" by (simp add: IsErrorCodeValid_def)
  show ?thesis
  proof (cases "length arr = 4")
    case False
    then show ?thesis
      using f[of "''Invalid Call message. Expected array length 4''"] by (auto simp: parseCall_def)
  next
    case True
    show ?thesis
    proof (cases "\<exists>a. arr ! 2 = JStr a")
      case False
      then have "\<exists>d. parseCall L ep arr i = formatError ep d i"
        using True by (cases "arr ! 2") (auto simp: parseCall_def)
      then show ?thesis using f by fastforce
    next
      case a: True
      then obtain a where a: "arr ! 2 = JStr a" by blast
      show ?thesis
      proof (cases "GetProfileForFeature ep a")
        case None
        with a True ns show ?thesis by (auto simp: parseCall_def)
      next
        case (Some p)
        show ?thesis
        proof (cases "ParseRequest p a (arr ! 3) (parseRawJsonRequest L)")
          case (Inl err)
          with a Some True show ?thesis using f[of err] by (auto simp: parseCall_def)
        next
          case (Inr req)
          let ?m = "MCall \<lparr>Call_MessageTypeId = CALL, Call_UniqueId = i, Call_Action = a,
            Call_Payload = req\<rparr>"
          have "parseCall L ep arr i = validated L i a ?m"
            using a Some True Inr by (simp add: parseCall_def)
          with a Some True validated_cases[of L ?m i a] show ?thesis
            by (auto simp: errorFromValidation_valid)
        qed
      qed
    qed
  qed
qed

lemma parseCallResult_Ret:
  assumes "dialect ep \<noteq> NoDialect" "state_wf st" "i \<noteq> ''''"
    and "\<And>j r. pending st = Some (j, r) \<Longrightarrow> GetProfileForFeature ep (featureName L r) \<noteq> None"
  shows "(parseCallResult L ep arr i st = Ret (Inr None) \<and> \<not> snd (GetPendingRequest i st)) \<or>
    (\<exists>e. parseCallResult L ep arr i st = Ret (Inl e) \<and> MessageId e = i \<and> IsErrorCodeValid (Code e)) \<or>
    (\<exists>r req. parseCallResult L ep arr i st = Ret (Inr (Some (MCallResult r))) \<and>
       validateStruct L (MCallResult r) = [] \<and> CallResult_UniqueId r = i \<and>
       CallResult_MessageTypeId r = CALL_RESULT \<and> pending st = Some (i, req))"
proof (cases "snd (GetPendingRequest i st)")
  case False
  then have "parseCallResult L ep arr i st = Ret (Inr None)"
    by (cases "GetPendingRequest i st") (auto simp: parseCallResult_def split: option.splits)
  with False show ?thesis by simp
next
  case True
  with client.get_pend[OF assms(2,3)] obtain req where
    p: "pending st = Some (i, req)" and g: "GetPendingRequest i st = (Some req, True)"
    by (auto split: option.splits if_splits)
  with assms(4) obtain pr where pr: "GetProfileForFeature ep (featureName L req) = Some pr"
    by blast
  show ?thesis
  proof (cases "ParseResponse pr (featureName L req) (arr ! 2) (parseRawJsonConfirmation L)")
    case (Inl err)
    with g pr formatError_total[OF assms(1), of err i] show ?thesis
      by (auto simp: parseCallResult_def)
  next
    case (Inr conf)
    let ?m = "MCallResult \<lparr>CallResult_MessageTypeId = CALL_RESULT, CallResult_UniqueId = i,
      CallResult_Payload = conf\<rparr>"
    have "parseCallResult L ep arr i st = validated L i (featureName L req) ?m"
      using g pr Inr by (simp add: parseCallResult_def)
    with p validated_cases[of L ?m i "featureName L req"] show ?thesis
      by (auto simp: errorFromValidation_valid)
  qed
qed

lemma parseCallError_Ret:
  assumes "dialect ep \<noteq> NoDialect" "state_wf st" "i \<noteq> ''''"
  shows "(parseCallError L ep arr i st = Ret (Inr None) \<and> \<not> snd (GetPendingRequest i st)) \<or>
    (\<exists>e. parseCallError L ep arr i st = Ret (Inl e) \<and> IsErrorCodeValid (Code e) \<and>
       (MessageId e = i \<or> MessageId e = '''' \<and> (\<nexists>c. arr ! 2 = JStr c))) \<or>
    (\<exists>r req. parseCallError L ep arr i st = Ret (Inr (Some (MCallError r))) \<and>
       validateStruct L (MCallError r) = [] \<and> CallError_UniqueId r = i \<and>
       CallError_MessageTypeId r = CALL_ERROR \<and> pending st = Some (i, req))"
proof (cases "snd (GetPendingRequest i st)")
  case False
  then show ?thesis by (cases "GetPendingRequest i st") (auto simp: parseCallError_def)
next
  case True
  with client.get_pend[OF assms(2,3)] obtain req where
    p: "pending st = Some (i, req)" and g: "GetPendingRequest i st = (Some req, True)"
    by (auto split: option.splits if_splits)
  show ?thesis
  proof (cases "length arr < 4")
    case True
    then show ?thesis
      using g formatError_total[OF assms(1), of "''Invalid Call Error message. Expected array length >= 4''" i]
      by (auto simp: parseCallError_def)
  next
    case len: False
    show ?thesis
    proof (cases "\<exists>c. arr ! 2 = JStr c")
      case False
      then have "\<exists>d. parseCallError L ep arr i st = formatError ep d ''''"
        using g len by (cases "arr ! 2") (auto simp: parseCallError_def Let_def)
      with False formatError_total[OF assms(1)] show ?thesis by fastforce
    next
      case True
      then obtain c where c: "arr ! 2 = JStr c" by blast
      have "\<exists>r. parseCallError L ep arr i st = validated L i '''' (MCallError r) \<and>
        CallError_UniqueId r = i \<and> CallError_MessageTypeId r = CALL_ERROR"
        using g len c
        by (simp add: parseCallError_def Let_def split del: if_split)
          (intro exI conjI, rule refl, simp_all)
      then obtain r where r: "parseCallError L ep arr i st = validated L i '''' (MCallError r)"
        "CallError_UniqueId r = i" "CallError_MessageTypeId r = CALL_ERROR"
        by blast
      with p validated_cases[of L "MCallError r" i "''''"] show ?thesis
        by (auto simp: errorFromValidation_valid)
    qed
  qed
qed

section \<open>A concrete codec and validator\<close>

text \<open>
  An instance of \<open>lib\<close> on which the hypotheses below are checked: a payload is its feature name
  and its JSON body, a Go type is the feature name, and the validator rejects an empty or
  over-long unique ID (the tags \<^verbatim>\<open>required,max=36\<close> of the three message structs).
\<close>

definition plainLib :: "(string, string \<times> json) lib" where
  "plainLib = \<lparr>featureName = fst, marshal = (\<lambda>p. Inr (snd p)), unmarshal = (\<lambda>ty j. Inr (ty, j)),
     validateStruct = (\<lambda>m.
       if GetUniqueId m = '''' then
         [\<lparr>ActualTag = ''required'', Namespace = ''UniqueId'', Param = '''', Value = FString ''''\<rparr>]
       else if length (GetUniqueId m) > 36 then
         [\<lparr>ActualTag = ''max'', Namespace = ''UniqueId'', Param = ''36'',
           Value = FString (GetUniqueId m)\<rparr>]
       else []),
     validationText = (\<lambda>_. ''validation failed'')\<rparr>"

definition plainEndpoint :: "string Endpoint" where
  "plainEndpoint = \<lparr>dialect = V16, Profiles =
     [NewProfile ''core'' [\<lparr>GetFeatureName = ''Heartbeat'', GetRequestType = ''Heartbeat'',
        GetResponseType = ''Heartbeat''\<rparr>]]\<rparr>"

lemma plainEndpoint_Heartbeat:
  "GetProfileForFeature plainEndpoint ''Heartbeat'' =
     Some (NewProfile ''core'' [\<lparr>GetFeatureName = ''Heartbeat'', GetRequestType = ''Heartbeat'',
        GetResponseType = ''Heartbeat''\<rparr>])"
  by (simp add: GetProfileForFeature_def plainEndpoint_def SupportsFeature_NewProfile)

lemma plainEndpoint_feature:
  "Features (NewProfile ''core'' [\<lparr>GetFeatureName = ''Heartbeat'', GetRequestType = ''Heartbeat'',
        GetResponseType = ''Heartbeat''\<rparr>]) ''Heartbeat'' =
     Some \<lparr>GetFeatureName = ''Heartbeat'', GetRequestType = ''Heartbeat'',
        GetResponseType = ''Heartbeat''\<rparr>"
  by (simp add: NewProfile_def AddFeature_def)

lemma plainEndpoint_dialect [simp]: "dialect plainEndpoint = V16"
  by (simp add: plainEndpoint_def)

definition plainState :: "(string \<times> json) clientState" where
  "plainState = \<lparr>requestID = ''42'', pendingRequest = Some (''Heartbeat'', JObj [])\<rparr>"

lemma plainState_simps [simp]:
  "state_wf plainState" "pending plainState = Some (''42'', ''Heartbeat'', JObj [])"
  by (simp_all add: plainState_def state_wf_def pending_def)

lemma ParseMessage_returns:
  assumes "dialect ep \<noteq> NoDialect" "state_wf st"
    and "\<And>i r. pending st = Some (i, r) \<Longrightarrow> GetProfileForFeature ep (featureName L r) \<noteq> None"
  shows "\<exists>r. ParseMessage L ep arr st = Ret r"
proof (cases "\<exists>t i. header arr t i")
  case True
  then obtain t i where h: "header arr t i" by blast
  then have "i \<noteq> ''''" by (simp add: header_def)
  with parseCall_Ret[OF assms(1), of L arr i] parseCallResult_Ret[OF assms(1,2), of i L arr]
    parseCallError_Ret[OF assms(1,2), of i L arr] assms(3) show ?thesis
    by (auto simp: ParseMessage_header[OF h])
next
  case False
  with ParseMessage_no_header[OF False] formatError_total[OF assms(1)] show ?thesis by metis
qed

lemma ParseMessage_message:
  assumes "ParseMessage L ep arr st = Ret (Inr (Some msg))"
    and "dialect ep \<noteq> NoDialect" "state_wf st"
    and "\<And>i r. pending st = Some (i, r) \<Longrightarrow> GetProfileForFeature ep (featureName L r) \<noteq> None"
  shows "header arr (GetMessageTypeId msg) (GetUniqueId msg) \<and> validateStruct L msg = [] \<and>
    (case msg of
       MCall c \<Rightarrow> length arr = 4 \<and> arr ! 2 = JStr (Call_Action c) \<and>
         GetProfileForFeature ep (Call_Action c) \<noteq> None
     | _ \<Rightarrow> \<exists>req. pending st = Some (GetUniqueId msg, req))"
proof -
  have "\<exists>t i. header arr t i"
  proof (rule ccontr)
    assume "\<nexists>t i. header arr t i"
    then obtain d where "ParseMessage L ep arr st = formatError ep d ''''"
      using ParseMessage_no_header by blast
    with assms(1) show False by (simp add: formatError_Ret)
  qed
  then obtain t i where h: "header arr t i" by blast
  then have "i \<noteq> ''''" by (simp add: header_def)
  with parseCall_Ret[OF assms(2), of L arr i] parseCallResult_Ret[OF assms(2,3), of i L arr]
    parseCallError_Ret[OF assms(2,3), of i L arr] assms(1,4) h show ?thesis
    by (auto simp: ParseMessage_header[OF h] split: if_splits)
qed

section \<open>Properties of parsing\<close>

text \<open>
  C1: On an endpoint with a dialect, whose pending request (if any) belongs to a supported
  feature, \<^verbatim>\<open>ParseMessage\<close> returns on every array of JSON values: no input from the peer makes it
  panic.
\<close>

theorem ParseMessage_total:
  assumes "dialect ep \<noteq> NoDialect" "state_wf st"
    and "\<And>i r. pending st = Some (i, r) \<Longrightarrow> GetProfileForFeature ep (featureName L r) \<noteq> None"
  shows "\<exists>r. ParseMessage L ep arr st = Ret r"
  using assms by (rule ParseMessage_returns)

theorem ParseMessage_total_witness:
  "\<exists>r. ParseMessage plainLib plainEndpoint [JNum 3 0, JStr ''42'', JObj []] plainState = Ret r"
  by (rule ParseMessage_total) (auto simp: plainEndpoint_Heartbeat plainLib_def)



text \<open>
  C3: A result or an error whose ID is not the ID of the pending request is discarded without an
  error, whatever else it contains.
\<close>

theorem ParseMessage_unsolicited:
  assumes "header arr t i" "t = CALL_RESULT \<or> t = CALL_ERROR" "state_wf st"
    and "\<And>r. pending st \<noteq> Some (i, r)"
  shows "ParseMessage L ep arr st = Ret (Inr None)"
proof -
  have "i \<noteq> ''''" using assms(1) by (simp add: header_def)
  with client.get_pend[OF assms(3) this] assms(4) have "GetPendingRequest i st = (None, False)"
    by (auto split: option.splits)
  with assms(2) show ?thesis
    by (auto simp: ParseMessage_header[OF assms(1)] parseCallResult_def parseCallError_def)
qed

theorem ParseMessage_unsolicited_witness:
  "ParseMessage plainLib plainEndpoint [JNum 4 0, JStr ''43'', JNull] plainState = Ret (Inr None)"
  by (rule ParseMessage_unsolicited[of _ CALL_ERROR "''43''"]) (auto simp: header_def CALL_ERROR_def)

text \<open>
  C4: A rejected message that has a unique ID is answered under that ID: the error carries it and
  a code that the validator of outgoing errors accepts. The one exception is a CALL ERROR for the
  pending request whose error code is not a string: its error has an empty message ID, so no
  answer is sent.
\<close>

theorem ParseMessage_error_id:
  assumes "ParseMessage L ep arr st = Ret (Inl e)" "header arr t i"
    and "dialect ep \<noteq> NoDialect" "state_wf st"
    and "\<And>i r. pending st = Some (i, r) \<Longrightarrow> GetProfileForFeature ep (featureName L r) \<noteq> None"
  shows "IsErrorCodeValid (Code e) \<and>
    (MessageId e = i \<or> t = CALL_ERROR \<and> (\<nexists>c. arr ! 2 = JStr c) \<and> MessageId e = '''')"
proof -
  have "i \<noteq> ''''" using assms(2) by (simp add: header_def)
  moreover have "IsErrorCodeValid MessageTypeNotSupported" by (simp add: IsErrorCodeValid_def)
  ultimately show ?thesis
    using parseCall_Ret[OF assms(3), of L arr i] parseCallResult_Ret[OF assms(3,4), of i L arr]
      parseCallError_Ret[OF assms(3,4), of i L arr] assms(1,5)
    by (auto simp: ParseMessage_header[OF assms(2)] split: if_splits)
qed

theorem ParseMessage_error_id_witness:
  "ParseMessage plainLib plainEndpoint [JNum 4 0, JStr ''42'', JNull, JStr ''x''] plainState =
     Ret (Inl (NewError FormatViolationV16
       ''Invalid element <nil> at 2, expected rawErrorCode (string)'' '''')) \<and>
   IsErrorCodeValid FormatViolationV16"
proof -
  have p: "ParseMessage plainLib plainEndpoint [JNum 4 0, JStr ''42'', JNull, JStr ''x''] plainState =
     Ret (Inl (NewError FormatViolationV16
       ''Invalid element <nil> at 2, expected rawErrorCode (string)'' ''''))"
    by (simp add: ParseMessage_def Let_def CALL_def CALL_RESULT_def CALL_ERROR_def parseCallError_def
        plainState_def GetPendingRequest_def formatError_def FormatErrorType_def)
  have h: "header [JNum 4 0, JStr ''42'', JNull, JStr ''x''] CALL_ERROR ''42''"
    by (simp add: header_def CALL_ERROR_def)
  from ParseMessage_error_id[OF p h] p show ?thesis
    by (simp add: plainEndpoint_Heartbeat plainLib_def)
qed

section \<open>Round trips between two endpoints\<close>

lemma call_wire:
  assumes "CreateCall L True ep uid req = Inr call" "uid \<noteq> ''''"
    and "marshal L req = Inr j"
    and "GetProfileForFeature peer (featureName L req) = Some p"
    and "Features p (featureName L req) = Some f"
    and "unmarshal L (GetRequestType f) (if j = JNull then JObj [] else j) = Inr req"
  shows "\<exists>arr. Call_MarshalJSON L call = Inr (JArr arr) \<and>
    ParseMessage L peer arr st = Ret (Inr (Some (MCall call)))"
proof -
  have call: "call = \<lparr>Call_MessageTypeId = CALL, Call_UniqueId = uid,
      Call_Action = featureName L req, Call_Payload = req\<rparr>"
    and v: "validateStruct L (MCall call) = []"
    using assms(1) by (auto simp: CreateCall_def Let_def split: option.splits if_splits)
  let ?arr = "[JNum CALL 0, JStr uid, JStr (featureName L req), j]"
  have "Call_MarshalJSON L call = Inr (JArr ?arr)"
    using assms(3) by (simp add: call Call_MarshalJSON_def jsonMarshal_def)
  moreover have h: "header ?arr CALL uid" using assms(2) by (simp add: header_def)
  have "ParseMessage L peer ?arr st = Ret (Inr (Some (MCall call)))"
    using assms(4-6) v call
    by (simp add: ParseMessage_header[OF h] parseCall_def ParseRequest_def parseRawJsonRequest_def
        validated_Some)
  ultimately show ?thesis by blast
qed

text \<open>
  C5: A call created on one endpoint, encoded, and parsed on a peer that supports the feature, is
  the same call, provided decoding the payload's JSON gives the payload back.
\<close>

theorem call_roundtrip:
  assumes "CreateCall L True ep uid req = Inr call" "uid \<noteq> ''''"
    and "marshal L req = Inr j"
    and "GetProfileForFeature peer (featureName L req) = Some p"
    and "Features p (featureName L req) = Some f"
    and "unmarshal L (GetRequestType f) (if j = JNull then JObj [] else j) = Inr req"
  shows "\<exists>arr. Call_MarshalJSON L call = Inr (JArr arr) \<and>
    ParseMessage L peer arr st = Ret (Inr (Some (MCall call)))"
  using assms by (rule call_wire)

theorem call_roundtrip_witness:
  "\<exists>call arr. CreateCall plainLib True plainEndpoint ''42'' (''Heartbeat'', JObj []) = Inr call \<and>
     Call_MarshalJSON plainLib call = Inr (JArr arr) \<and>
     ParseMessage plainLib plainEndpoint arr NewClientState = Ret (Inr (Some (MCall call)))"
proof -
  let ?call = "\<lparr>Call_MessageTypeId = CALL, Call_UniqueId = ''42'', Call_Action = ''Heartbeat'',
    Call_Payload = (''Heartbeat'', JObj [])\<rparr>"
  have c: "CreateCall plainLib True plainEndpoint ''42'' (''Heartbeat'', JObj []) = Inr ?call"
    by (simp add: CreateCall_def plainLib_def plainEndpoint_Heartbeat Let_def)
  show ?thesis
    using call_roundtrip[OF c, of "JObj []" plainEndpoint _ _ NewClientState] c
    by (auto simp: plainLib_def plainEndpoint_Heartbeat plainEndpoint_feature)
qed

lemma call_result_wire:
  assumes "CreateCallResult L True ep conf uid = Inr r" "uid \<noteq> ''''"
    and "marshal L conf = Inr j"
    and "state_wf st" "pending st = Some (uid, req)"
    and "GetProfileForFeature peer (featureName L req) = Some p"
    and "Features p (featureName L req) = Some f"
    and "unmarshal L (GetResponseType f) (if j = JNull then JObj [] else j) = Inr conf"
  shows "\<exists>arr. CallResult_MarshalJSON L r = Inr (JArr arr) \<and>
    ParseMessage L peer arr st = Ret (Inr (Some (MCallResult r)))"
proof -
  have r: "r = \<lparr>CallResult_MessageTypeId = CALL_RESULT, CallResult_UniqueId = uid,
      CallResult_Payload = conf\<rparr>"
    and v: "validateStruct L (MCallResult r) = []"
    using assms(1) by (auto simp: CreateCallResult_def Let_def split: option.splits if_splits)
  let ?arr = "[JNum CALL_RESULT 0, JStr uid, j]"
  have "CallResult_MarshalJSON L r = Inr (JArr ?arr)"
    using assms(3) by (simp add: r CallResult_MarshalJSON_def jsonMarshal_def)
  moreover have h: "header ?arr CALL_RESULT uid" using assms(2) by (simp add: header_def)
  have g: "GetPendingRequest uid st = (Some req, True)"
    using client.get_pend[OF assms(4,2)] assms(5) by simp
  have "ParseMessage L peer ?arr st = Ret (Inr (Some (MCallResult r)))"
    using assms(6-8) v r g
    by (simp add: ParseMessage_header[OF h] parseCallResult_def ParseResponse_def
        parseRawJsonConfirmation_def validated_Some)
  ultimately show ?thesis by blast
qed

text \<open>
  C6: A result created in answer to a request, encoded, and parsed by the endpoint on which that
  request is pending, is the same result, provided decoding gives the payload back.
\<close>

theorem call_result_roundtrip:
  assumes "CreateCallResult L True ep conf uid = Inr r" "uid \<noteq> ''''"
    and "marshal L conf = Inr j"
    and "state_wf st" "pending st = Some (uid, req)"
    and "GetProfileForFeature peer (featureName L req) = Some p"
    and "Features p (featureName L req) = Some f"
    and "unmarshal L (GetResponseType f) (if j = JNull then JObj [] else j) = Inr conf"
  shows "\<exists>arr. CallResult_MarshalJSON L r = Inr (JArr arr) \<and>
    ParseMessage L peer arr st = Ret (Inr (Some (MCallResult r)))"
  using assms by (rule call_result_wire)

theorem call_result_roundtrip_witness:
  "\<exists>r arr. CreateCallResult plainLib True plainEndpoint (''Heartbeat'', JStr ''now'') ''42'' = Inr r \<and>
     CallResult_MarshalJSON plainLib r = Inr (JArr arr) \<and>
     ParseMessage plainLib plainEndpoint arr plainState = Ret (Inr (Some (MCallResult r)))"
proof -
  let ?r = "\<lparr>CallResult_MessageTypeId = CALL_RESULT, CallResult_UniqueId = ''42'',
    CallResult_Payload = (''Heartbeat'', JStr ''now'')\<rparr>"
  have c: "CreateCallResult plainLib True plainEndpoint (''Heartbeat'', JStr ''now'') ''42'' = Inr ?r"
    by (simp add: CreateCallResult_def plainLib_def plainEndpoint_Heartbeat)
  show ?thesis
    using call_result_roundtrip[OF c, of "JStr ''now''" plainState "(''Heartbeat'', JObj [])"
        plainEndpoint] c
    by (auto simp: plainLib_def plainEndpoint_Heartbeat plainEndpoint_feature)
qed

lemma call_error_wire:
  assumes "CreateCallError L True uid code desc details = Inr e" "uid \<noteq> ''''" "details \<noteq> Some JNull"
    and "state_wf st" "pending st = Some (uid, req)"
    and "e' = e\<lparr>CallError_ErrorDetails :=
           Some (case details of None \<Rightarrow> JObj [] | Some d \<Rightarrow> d)\<rparr>"
    and "validateStruct L (MCallError e') = []"
  shows "\<exists>arr. CallError_MarshalJSON e = Inr (JArr arr) \<and>
    ParseMessage L peer arr st = Ret (Inr (Some (MCallError e')))"
proof -
  have e: "e = \<lparr>CallError_MessageTypeId = CALL_ERROR, CallError_UniqueId = uid,
      CallError_ErrorCode = code, CallError_ErrorDescription = desc,
      CallError_ErrorDetails = details\<rparr>"
    using assms(1) by (auto simp: CreateCallError_def Let_def split: if_splits)
  let ?d = "case details of None \<Rightarrow> JObj [] | Some d \<Rightarrow> d"
  let ?arr = "[JNum CALL_ERROR 0, JStr uid, JStr code, JStr desc, ?d]"
  have "CallError_MarshalJSON e = Inr (JArr ?arr)"
    by (simp add: e CallError_MarshalJSON_def ocppMessageToJson_def jsonMarshal_def)
  moreover have h: "header ?arr CALL_ERROR uid" using assms(2) by (simp add: header_def)
  have g: "GetPendingRequest uid st = (Some req, True)"
    using client.get_pend[OF assms(4,2)] assms(5) by simp
  have d: "?d \<noteq> JNull" using assms(3) by (cases details) auto
  have "ParseMessage L peer ?arr st = Ret (Inr (Some (MCallError e')))"
    using assms(6,7) e g d
    by (simp add: ParseMessage_header[OF h] parseCallError_def Let_def validated_Some)
  ultimately show ?thesis by blast
qed

text \<open>
  C7: An error created for a request, encoded, and parsed by the endpoint on which that request
  is pending, arrives with its code and description; missing details arrive as the empty object
  and other details unchanged.
\<close>

theorem call_error_roundtrip:
  assumes "CreateCallError L True uid code desc details = Inr e" "uid \<noteq> ''''" "details \<noteq> Some JNull"
    and "state_wf st" "pending st = Some (uid, req)"
    and "e' = e\<lparr>CallError_ErrorDetails :=
           Some (case details of None \<Rightarrow> JObj [] | Some d \<Rightarrow> d)\<rparr>"
    and "validateStruct L (MCallError e') = []"
  shows "\<exists>arr. CallError_MarshalJSON e = Inr (JArr arr) \<and>
    ParseMessage L peer arr st = Ret (Inr (Some (MCallError e')))"
  using assms by (rule call_error_wire)

theorem call_error_roundtrip_witness:
  "\<exists>e arr. CreateCallError plainLib True ''42'' GenericError ''failed'' None = Inr e \<and>
     CallError_MarshalJSON e = Inr (JArr arr) \<and>
     ParseMessage plainLib plainEndpoint arr plainState =
       Ret (Inr (Some (MCallError (e\<lparr>CallError_ErrorDetails := Some (JObj [])\<rparr>))))"
proof -
  let ?e = "\<lparr>CallError_MessageTypeId = CALL_ERROR, CallError_UniqueId = ''42'',
    CallError_ErrorCode = GenericError, CallError_ErrorDescription = ''failed'',
    CallError_ErrorDetails = None\<rparr>"
  have c: "CreateCallError plainLib True ''42'' GenericError ''failed'' None = Inr ?e"
    by (simp add: CreateCallError_def plainLib_def)
  show ?thesis
    using call_error_roundtrip[OF c, of plainState "(''Heartbeat'', JObj [])"
        "?e\<lparr>CallError_ErrorDetails := Some (JObj [])\<rparr>" plainEndpoint] c
    by (auto simp: plainLib_def)
qed

end
