(* ===== verification/GoJson.thy ===== *)
theory GoJson
  imports Message
begin

text \<open>
  What the message packages use of Go's reflection and of \<^verbatim>\<open>encoding/json\<close>: the types of message
  structs with their field tags, the values of these types, and encoding and decoding driven by
  the types; and \<^verbatim>\<open>types/datetime.go\<close>, the timestamps inside messages.

  The payload of a message reaches the decoder after it was decoded into an \<^verbatim>\<open>interface{}\<close> and
  encoded again. So numbers are float64 values, and an integral number is accepted for an
  integer field however it was written. Decimals are taken as exact: rounding to float64 (which
  starts beyond \<open>2 ^ 53\<close> for integers) is not modelled.
\<close>

section \<open>Timestamps\<close>

text \<open>
  A \<^verbatim>\<open>time.Time\<close> is the number of seconds since 1970-01-01T00:00:00Z and the nanoseconds within the
  second. \<open>civil\<close> is the proleptic Gregorian date of a day number, as the package \<^verbatim>\<open>time\<close> computes it
  (era of 400 years, day of era, year of era, day of the year counted from March 1st).
\<close>

record gotime =
  t_sec :: int
  t_nsec :: int

definition civil :: "int \<Rightarrow> int \<times> int \<times> int" where
  "civil days =
     (let z = days + 719468; era = z div 146097; doe = z mod 146097;
          yoe = (doe - doe div 1460 + doe div 36524 - doe div 146096) div 365;
          doy = doe - (365 * yoe + yoe div 4 - yoe div 100);
          mp = (5 * doy + 2) div 153;
          d = doy - (153 * mp + 2) div 5 + 1;
          m = (if mp < 10 then mp + 3 else mp - 9)
      in (yoe + era * 400 + (if m \<le> 2 then 1 else 0), m, d))"

definition pad :: "nat \<Rightarrow> int \<Rightarrow> string" where
  "pad n i = (let s = show_nat (nat \<bar>i\<bar>)
     in (if i < 0 then ''-'' else '''') @ replicate (n - length s) (CHR ''0'') @ s)"

text \<open>\<^verbatim>\<open>t.UTC().Format(DateTimeFormat)\<close> for the default format \<^verbatim>\<open>time.RFC3339\<close>.\<close>

definition FormatTimestamp :: "gotime \<Rightarrow> string" where
  "FormatTimestamp t =
     (let day = t_sec t div 86400; s = t_sec t mod 86400
      in case civil day of (y, m, d) \<Rightarrow>
           pad 4 y @ ''-'' @ pad 2 m @ ''-'' @ pad 2 d @ ''T'' @ pad 2 (s div 3600) @ '':'' @
           pad 2 (s div 60 mod 60) @ '':'' @ pad 2 (s mod 60) @ ''Z'')"

definition NewDateTime :: "gotime \<Rightarrow> gotime" where
  "NewDateTime t = t"

text \<open>\<^verbatim>\<open>time.Time{}\<close> is January 1st of the year 1.\<close>

definition zeroTime :: gotime where
  "zeroTime = \<lparr>t_sec = - 62135596800, t_nsec = 0\<rparr>"

definition DateTimeIsNull :: "gotime option \<Rightarrow> bool" where
  "DateTimeIsNull dateTime = (case dateTime of None \<Rightarrow> False | Some t \<Rightarrow> t = zeroTime)"

text \<open>\<open>null\<close> is the source's test for the bytes of a JSON null, with its connectives.\<close>

definition null :: "string \<Rightarrow> bool" where
  "null b =
     (if length b \<noteq> 4 then False
      else if b ! 0 \<noteq> CHR ''n'' \<and> b ! 1 \<noteq> CHR ''u'' \<and> b ! 2 \<noteq> CHR ''l'' \<and> b ! 3 \<noteq> CHR ''l'' then False
      else True)"

text \<open>\<open>parse\<close> is \<^verbatim>\<open>iso8601.Parse\<close> of the package \<^verbatim>\<open>relvacode/iso8601\<close>.\<close>

definition DateTime_UnmarshalJSON ::
  "(string \<Rightarrow> string + gotime) \<Rightarrow> string \<Rightarrow> gotime \<Rightarrow> string + gotime" where
  "DateTime_UnmarshalJSON parse input dt =
     (if null input then Inr dt
      else if length input > 0 \<and> input ! 0 = CHR 0x22 \<and> input ! (length input - 1) = CHR 0x22
      then parse (take (length input - 2) (drop 1 input))
      else Inl ''timestamp not enclosed in double quotes'')"

definition DateTime_MarshalJSON :: "gotime \<Rightarrow> json" where
  "DateTime_MarshalJSON t = JStr (FormatTimestamp t)"

section \<open>Types and values\<close>

text \<open>
  A struct type carries its name and, per field, the Go name, the name and the \<^verbatim>\<open>omitempty\<close> flag of
  the \<^verbatim>\<open>json\<close> tag, and the \<^verbatim>\<open>validate\<close> tag. String types with named constants are \<open>TString\<close>.
  \<open>TTime\<close> is \<^verbatim>\<open>types.DateTime\<close>.
\<close>

datatype gotype =
    TString | TInt | TFloat | TBool | TIface | TTime
  | TPtr gotype
  | TSlice gotype
  | TStruct string "gofield list"
and gofield = Field (fieldName: string) (jsonName: string) (omitEmpty: bool) (validateTag: string)
    (fieldType: gotype)

text \<open>\<open>VNil\<close> is the nil pointer and the nil slice; a nil \<^verbatim>\<open>interface{}\<close> is \<open>VIface JNull\<close>.\<close>

datatype goval =
    VString string | VInt int | VFloat int nat | VBool bool | VIface json | VTime gotime
  | VNil
  | VPtr goval
  | VSlice "goval list"
  | VStruct "(string \<times> goval) list"

primrec zero :: "gotype \<Rightarrow> goval" and zeroField :: "gofield \<Rightarrow> string \<times> goval" where
  "zero TString = VString ''''"
| "zero TInt = VInt 0"
| "zero TFloat = VFloat 0 0"
| "zero TBool = VBool False"
| "zero TIface = VIface JNull"
| "zero TTime = VTime zeroTime"
| "zero (TPtr t) = VNil"
| "zero (TSlice t) = VNil"
| "zero (TStruct n fs) = VStruct (map zeroField fs)"
| "zeroField (Field g n oe tag t) = (g, zero t)"

definition int64 :: "int \<Rightarrow> bool" where
  "int64 i \<longleftrightarrow> - (2 ^ 63) \<le> i \<and> i < 2 ^ 63"

text \<open>Which values have a type.\<close>

fun wt :: "gotype \<Rightarrow> goval \<Rightarrow> bool" and wtFields :: "gofield list \<Rightarrow> (string \<times> goval) list \<Rightarrow> bool" where
  "wt TString v \<longleftrightarrow> (case v of VString s \<Rightarrow> True | _ \<Rightarrow> False)"
| "wt TInt v \<longleftrightarrow> (case v of VInt i \<Rightarrow> int64 i | _ \<Rightarrow> False)"
| "wt TFloat v \<longleftrightarrow> (case v of VFloat m k \<Rightarrow> True | _ \<Rightarrow> False)"
| "wt TBool v \<longleftrightarrow> (case v of VBool b \<Rightarrow> True | _ \<Rightarrow> False)"
| "wt TIface v \<longleftrightarrow> (case v of VIface j \<Rightarrow> True | _ \<Rightarrow> False)"
| "wt TTime v \<longleftrightarrow> (case v of VTime t \<Rightarrow> True | _ \<Rightarrow> False)"
| "wt (TPtr t) v \<longleftrightarrow> (case v of VNil \<Rightarrow> True | VPtr w \<Rightarrow> wt t w | _ \<Rightarrow> False)"
| "wt (TSlice t) v \<longleftrightarrow> (case v of VNil \<Rightarrow> True | VSlice vs \<Rightarrow> (\<forall>w\<in>set vs. wt t w) | _ \<Rightarrow> False)"
| "wt (TStruct n fs) v \<longleftrightarrow> (case v of VStruct vs \<Rightarrow> wtFields fs vs | _ \<Rightarrow> False)"
| "wtFields [] vs \<longleftrightarrow> vs = []"
| "wtFields (f # fs) vs \<longleftrightarrow>
     (case vs of [] \<Rightarrow> False
      | (g, v) # ws \<Rightarrow> g = fieldName f \<and> wt (fieldType f) v \<and> wtFields fs ws)"

text \<open>A composite literal \<^verbatim>\<open>T{f: v, ...}\<close>: the other fields have their zero values.\<close>

fun setField :: "string \<Rightarrow> goval \<Rightarrow> (string \<times> goval) list \<Rightarrow> (string \<times> goval) list" where
  "setField g v [] = []"
| "setField g v ((g', w) # vs) = (if g' = g then (g', v) # vs else (g', w) # setField g v vs)"

definition structLit :: "gotype \<Rightarrow> (string \<times> goval) list \<Rightarrow> goval" where
  "structLit t inits =
     (case zero t of VStruct vs \<Rightarrow> VStruct (fold (\<lambda>(g, v). setField g v) inits vs) | v \<Rightarrow> v)"

section \<open>Encoding\<close>

definition isEmptyValue :: "goval \<Rightarrow> bool" where
  "isEmptyValue v \<longleftrightarrow>
     (case v of VString s \<Rightarrow> s = '''' | VInt i \<Rightarrow> i = 0 | VFloat m k \<Rightarrow> m = 0 | VBool b \<Rightarrow> \<not> b
      | VIface j \<Rightarrow> j = JNull | VNil \<Rightarrow> True | VSlice vs \<Rightarrow> vs = [] | _ \<Rightarrow> False)"

text \<open>\<^verbatim>\<open>json.Marshal\<close> of a value of a type (ill-typed arguments do not occur).\<close>

fun encode :: "gotype \<Rightarrow> goval \<Rightarrow> json"
  and encodeFields :: "gofield list \<Rightarrow> (string \<times> goval) list \<Rightarrow> (string \<times> json) list" where
  "encode TString v = (case v of VString s \<Rightarrow> JStr s | _ \<Rightarrow> JNull)"
| "encode TInt v = (case v of VInt i \<Rightarrow> JNum i 0 | _ \<Rightarrow> JNull)"
| "encode TFloat v = (case v of VFloat m k \<Rightarrow> JNum m k | _ \<Rightarrow> JNull)"
| "encode TBool v = (case v of VBool b \<Rightarrow> JBool b | _ \<Rightarrow> JNull)"
| "encode TIface v = (case v of VIface j \<Rightarrow> j | _ \<Rightarrow> JNull)"
| "encode TTime v = (case v of VTime t \<Rightarrow> DateTime_MarshalJSON t | _ \<Rightarrow> JNull)"
| "encode (TPtr t) v = (case v of VPtr w \<Rightarrow> encode t w | _ \<Rightarrow> JNull)"
| "encode (TSlice t) v = (case v of VSlice vs \<Rightarrow> JArr (map (encode t) vs) | _ \<Rightarrow> JNull)"
| "encode (TStruct n fs) v = (case v of VStruct vs \<Rightarrow> JObj (encodeFields fs vs) | _ \<Rightarrow> JNull)"
| "encodeFields [] vs = []"
| "encodeFields (f # fs) vs =
     (case vs of [] \<Rightarrow> []
      | (g, v) # ws \<Rightarrow>
          (if omitEmpty f \<and> isEmptyValue v then encodeFields fs ws
           else (jsonName f, encode (fieldType f) v) # encodeFields fs ws))"

section \<open>Decoding\<close>

text \<open>The text of a JSON document, which \<^verbatim>\<open>UnmarshalJSON\<close> methods get.\<close>

definition escapeChar :: "char \<Rightarrow> string" where
  "escapeChar c =
     (if c = CHR 0x22 then [CHR 0x5C, CHR 0x22]
      else if c = CHR 0x5C then [CHR 0x5C, CHR 0x5C]
      else if c < CHR 0x20 then [CHR 0x5C, CHR ''u'', CHR ''0'', CHR ''0''] @
        (let n = (of_char c :: nat); h = ''0123456789abcdef'' in [h ! (n div 16), h ! (n mod 16)])
      else [c])"

definition quoted :: "string \<Rightarrow> string" where
  "quoted s = CHR 0x22 # concat (map escapeChar s) @ [CHR 0x22]"

fun jsonText :: "json \<Rightarrow> string" where
  "jsonText JNull = ''null''"
| "jsonText (JBool b) = (if b then ''true'' else ''false'')"
| "jsonText (JNum m k) = show_decimal m k"
| "jsonText (JStr s) = quoted s"
| "jsonText (JArr xs) = ''['' @ joinWith '','' (map jsonText xs) @ '']''"
| "jsonText (JObj kvs) = ''{'' @ joinWith '','' (map (\<lambda>(k, v). quoted k @ '':'' @ jsonText v) kvs) @ ''}''"

fun kindOf :: "json \<Rightarrow> string" where
  "kindOf JNull = ''null''"
| "kindOf (JBool b) = ''bool''"
| "kindOf (JNum m k) = ''number''"
| "kindOf (JStr s) = ''string''"
| "kindOf (JArr xs) = ''array''"
| "kindOf (JObj kvs) = ''object''"

text \<open>The error of a value of the wrong kind; the path to the field is left out of the text.\<close>

definition mismatch :: "json \<Rightarrow> string \<Rightarrow> string + 'a" where
  "mismatch j t = Inl (''json: cannot unmarshal '' @ kindOf j @ '' into Go value of type '' @ t)"

text \<open>A key names the field with that JSON name, or else the first one that differs in case only.\<close>

definition lowerChar :: "char \<Rightarrow> char" where
  "lowerChar c = (if CHR ''A'' \<le> c \<and> c \<le> CHR ''Z'' then char_of ((of_char c :: nat) + 32) else c)"

definition findField :: "string \<Rightarrow> gofield list \<Rightarrow> gofield option" where
  "findField k fs =
     (case find (\<lambda>f. jsonName f = k) fs of
        Some f \<Rightarrow> Some f
      | None \<Rightarrow> find (\<lambda>f. map lowerChar (jsonName f) = map lowerChar k) fs)"

definition fieldOf :: "string \<Rightarrow> (string \<times> goval) list \<Rightarrow> goval" where
  "fieldOf g vs = (case map_of vs g of Some v \<Rightarrow> v | None \<Rightarrow> VNil)"

text \<open>
  \<^verbatim>\<open>json.Unmarshal\<close> into a variable of a type that holds \<open>old\<close>: keys are processed in order, each
  decoding into what its field holds; null leaves values alone and clears pointers, slices and
  interfaces; unknown keys are skipped. Decoding stops at the first error, which is the result.
\<close>

function (sequential) decode ::
  "(string \<Rightarrow> string + gotime) \<Rightarrow> gotype \<Rightarrow> json \<Rightarrow> goval \<Rightarrow> string + goval"
  and decodeKeys ::
  "(string \<Rightarrow> string + gotime) \<Rightarrow> gofield list \<Rightarrow> (string \<times> json) list \<Rightarrow> (string \<times> goval) list \<Rightarrow>
   string + (string \<times> goval) list"
  and decodeElems ::
  "(string \<Rightarrow> string + gotime) \<Rightarrow> gotype \<Rightarrow> json list \<Rightarrow> goval list \<Rightarrow> string + goval list" where
  "decode p TString j old =
     (case j of JStr s \<Rightarrow> Inr (VString s) | JNull \<Rightarrow> Inr old | _ \<Rightarrow> mismatch j ''string'')"
| "decode p TInt j old =
     (case j of
        JNum m k \<Rightarrow>
          if m mod 10 ^ k = 0 \<and> int64 (m div 10 ^ k) then Inr (VInt (m div 10 ^ k)) else mismatch j ''int''
      | JNull \<Rightarrow> Inr old
      | _ \<Rightarrow> mismatch j ''int'')"
| "decode p TFloat j old =
     (case j of JNum m k \<Rightarrow> Inr (VFloat m k) | JNull \<Rightarrow> Inr old | _ \<Rightarrow> mismatch j ''float64'')"
| "decode p TBool j old =
     (case j of JBool b \<Rightarrow> Inr (VBool b) | JNull \<Rightarrow> Inr old | _ \<Rightarrow> mismatch j ''bool'')"
| "decode p TIface j old = Inr (VIface j)"
| "decode p TTime j old =
     map_sum id VTime (DateTime_UnmarshalJSON p (jsonText j)
       (case old of VTime t \<Rightarrow> t | _ \<Rightarrow> zeroTime))"
| "decode p (TPtr t) j old =
     (if j = JNull then Inr VNil
      else map_sum id VPtr (decode p t j (case old of VPtr v \<Rightarrow> v | _ \<Rightarrow> zero t)))"
| "decode p (TSlice t) j old =
     (case j of
        JNull \<Rightarrow> Inr VNil
      | JArr js \<Rightarrow> map_sum id VSlice (decodeElems p t js (case old of VSlice vs \<Rightarrow> vs | _ \<Rightarrow> []))
      | _ \<Rightarrow> mismatch j ''slice'')"
| "decode p (TStruct n fs) j old =
     (case j of
        JNull \<Rightarrow> Inr old
      | JObj kvs \<Rightarrow> map_sum id VStruct (decodeKeys p fs kvs (case old of VStruct vs \<Rightarrow> vs | _ \<Rightarrow> []))
      | _ \<Rightarrow> mismatch j n)"
| "decodeKeys p fs [] vs = Inr vs"
| "decodeKeys p fs ((k, j) # kvs) vs =
     (case findField k fs of
        None \<Rightarrow> decodeKeys p fs kvs vs
      | Some f \<Rightarrow>
          (case decode p (fieldType f) j (fieldOf (fieldName f) vs) of
             Inl e \<Rightarrow> Inl e
           | Inr v \<Rightarrow> decodeKeys p fs kvs (setField (fieldName f) v vs)))"
| "decodeElems p t [] olds = Inr []"
| "decodeElems p t (j # js) olds =
     (case decode p t j (case olds of o1 # _ \<Rightarrow> o1 | [] \<Rightarrow> zero t) of
        Inl e \<Rightarrow> Inl e
      | Inr v \<Rightarrow> map_sum id (Cons v) (decodeElems p t js (drop 1 olds)))"
  by pat_completeness auto
termination
  by (relation "inv_image (less_than <*lex*> less_than) (\<lambda>x. case x of
      Inl (p, t, j, old) \<Rightarrow> (size j, size t)
    | Inr (Inl (p, fs, kvs, vs)) \<Rightarrow> (size_list (size_prod (\<lambda>_. 0) size) kvs, 0)
    | Inr (Inr (p, t, js, olds)) \<Rightarrow> (size_list size js, 0))") auto

section \<open>Facts about timestamps\<close>

lemma FormatTimestamp_examples:
  "FormatTimestamp zeroTime = ''0001-01-01T00:00:00Z''"
  "FormatTimestamp \<lparr>t_sec = 951782399, t_nsec = 0\<rparr> = ''2000-02-28T23:59:59Z''"
  "FormatTimestamp \<lparr>t_sec = 951868799, t_nsec = 0\<rparr> = ''2000-02-29T23:59:59Z''"
  by code_simp+

text \<open>A timestamp prints with characters that JSON strings contain unchanged.\<close>

lemma escape_plain: "CHR 0x20 \<le> c \<Longrightarrow> c \<noteq> CHR 0x22 \<Longrightarrow> c \<noteq> CHR 0x5C \<Longrightarrow> escapeChar c = [c]"
  by (auto simp: escapeChar_def)

definition plain :: "string \<Rightarrow> bool" where
  "plain s \<longleftrightarrow> (\<forall>c\<in>set s. escapeChar c = [c])"

lemma plain_simps [simp]:
  "plain []" "plain (c # s) \<longleftrightarrow> escapeChar c = [c] \<and> plain s" "plain (s @ t) \<longleftrightarrow> plain s \<and> plain t"
  by (auto simp: plain_def)

lemma quoted_plain: "plain s \<Longrightarrow> quoted s = CHR 0x22 # s @ [CHR 0x22]"
proof -
  have "plain s \<Longrightarrow> concat (map escapeChar s) = s" by (induction s) auto
  then show "plain s \<Longrightarrow> quoted s = CHR 0x22 # s @ [CHR 0x22]" by (simp add: quoted_def)
qed

lemma plain_digits: "\<forall>k\<in>set [0..<10]. escapeChar (char_of (48 + k :: nat)) = [char_of (48 + k)]"
  by code_simp

lemma plain_show_nat: "plain (show_nat n)"
proof (induction n rule: show_nat.induct)
  case (1 n)
  have d: "escapeChar (char_of (48 + k)) = [char_of (48 + k)]" if "k < 10" for k :: nat
    using plain_digits that by simp
  show ?case
    using 1 d[of n] d[of "n mod 10"] by (subst show_nat.simps) auto
qed

lemma plain_pad: "plain (pad n i)"
proof -
  have "plain (replicate k CHR ''0'')" for k by (simp add: plain_def escape_plain)
  moreover have "plain ''-''" by (simp add: escape_plain)
  ultimately show ?thesis by (simp add: pad_def Let_def plain_show_nat)
qed

lemma plain_FormatTimestamp: "plain (FormatTimestamp t)"
  by (simp add: FormatTimestamp_def Let_def plain_pad escape_plain split: prod.splits)

lemma length_pad: "n \<le> length (pad n i)"
  by (simp add: pad_def Let_def)

lemma length_stamp:
  "20 \<le> length (pad 4 y @ ''-'' @ pad 2 m @ ''-'' @ pad 2 d @ ''T'' @ pad 2 h @ '':'' @ pad 2 i @ '':'' @
     pad 2 s @ ''Z'')"
  using length_pad[of 4 y] length_pad[of 2 m] length_pad[of 2 d] length_pad[of 2 h] length_pad[of 2 i]
    length_pad[of 2 s] by simp

lemma length_FormatTimestamp: "20 \<le> length (FormatTimestamp t)"
  unfolding FormatTimestamp_def Let_def by (cases "civil (t_sec t div 86400)") (simp only: prod.case length_stamp)

lemma DateTime_Unmarshal_quoted:
  "plain s \<Longrightarrow> length s \<noteq> 2 \<Longrightarrow> DateTime_UnmarshalJSON p (quoted s) dt = p s"
  by (simp add: DateTime_UnmarshalJSON_def quoted_plain null_def nth_append)

lemma DateTime_Unmarshal_Format [simp]:
  "DateTime_UnmarshalJSON p (quoted (FormatTimestamp t)) dt = p (FormatTimestamp t)"
  using length_FormatTimestamp[of t] by (intro DateTime_Unmarshal_quoted plain_FormatTimestamp) auto

section \<open>Encoding and decoding are inverse\<close>

text \<open>
  The types that the codec treats injectively: in a struct the Go names and the JSON names are
  distinct, and no pointer points to something that may itself encode as null.
\<close>

definition nullable :: "gotype \<Rightarrow> bool" where
  "nullable t \<longleftrightarrow> (case t of TPtr _ \<Rightarrow> True | TSlice _ \<Rightarrow> True | TIface \<Rightarrow> True | _ \<Rightarrow> False)"

fun type_ok :: "gotype \<Rightarrow> bool" and fields_ok :: "gofield list \<Rightarrow> bool" where
  "type_ok TString \<longleftrightarrow> True"
| "type_ok TInt \<longleftrightarrow> True"
| "type_ok TFloat \<longleftrightarrow> True"
| "type_ok TBool \<longleftrightarrow> True"
| "type_ok TIface \<longleftrightarrow> True"
| "type_ok TTime \<longleftrightarrow> True"
| "type_ok (TPtr t) \<longleftrightarrow> \<not> nullable t \<and> type_ok t"
| "type_ok (TSlice t) \<longleftrightarrow> type_ok t"
| "type_ok (TStruct n fs) \<longleftrightarrow> distinct (map fieldName fs) \<and> distinct (map jsonName fs) \<and> fields_ok fs"
| "fields_ok [] \<longleftrightarrow> True"
| "fields_ok (Field g n oe tag t # fs) \<longleftrightarrow> type_ok t \<and> fields_ok fs"

text \<open>
  The values that survive: a timestamp must be one that the parser reads back (whole seconds),
  and a value that \<^verbatim>\<open>omitempty\<close> drops must be the zero value of its type, not an empty slice.
\<close>

fun faithful :: "(string \<Rightarrow> string + gotime) \<Rightarrow> gotype \<Rightarrow> goval \<Rightarrow> bool"
  and faithfulFields :: "(string \<Rightarrow> string + gotime) \<Rightarrow> gofield list \<Rightarrow> (string \<times> goval) list \<Rightarrow> bool" where
  "faithful p TString v \<longleftrightarrow> True"
| "faithful p TInt v \<longleftrightarrow> True"
| "faithful p TFloat v \<longleftrightarrow> True"
| "faithful p TBool v \<longleftrightarrow> True"
| "faithful p TIface v \<longleftrightarrow> True"
| "faithful p TTime v \<longleftrightarrow> (case v of VTime t \<Rightarrow> p (FormatTimestamp t) = Inr t | _ \<Rightarrow> True)"
| "faithful p (TPtr t) v \<longleftrightarrow> (case v of VPtr w \<Rightarrow> faithful p t w | _ \<Rightarrow> True)"
| "faithful p (TSlice t) v \<longleftrightarrow> (case v of VSlice vs \<Rightarrow> (\<forall>w\<in>set vs. faithful p t w) | _ \<Rightarrow> True)"
| "faithful p (TStruct n fs) v \<longleftrightarrow> (case v of VStruct vs \<Rightarrow> faithfulFields p fs vs | _ \<Rightarrow> True)"
| "faithfulFields p [] vs \<longleftrightarrow> True"
| "faithfulFields p (f # fs) vs \<longleftrightarrow>
     (case vs of [] \<Rightarrow> True
      | (g, v) # ws \<Rightarrow>
          (omitEmpty f \<and> isEmptyValue v \<longrightarrow> v = zero (fieldType f)) \<and>
          faithful p (fieldType f) v \<and> faithfulFields p fs ws)"

lemma encode_nonnull: "\<not> nullable t \<Longrightarrow> wt t v \<Longrightarrow> encode t v \<noteq> JNull"
  by (cases t) (auto simp: nullable_def DateTime_MarshalJSON_def split: goval.splits)

lemma findField_distinct:
  assumes "distinct (map jsonName (fs0 @ f # fs))"
  shows "findField (jsonName f) (fs0 @ f # fs) = Some f"
proof -
  have "find (\<lambda>g. jsonName g = jsonName f) (fs0 @ f # fs) = Some f"
    using assms by (induction fs0) auto
  then show ?thesis by (simp add: findField_def)
qed

lemma fieldOf_append [simp]: "g \<notin> fst ` set pre \<Longrightarrow> fieldOf g (pre @ (g, v) # ws) = v"
  by (induction pre) (auto simp: fieldOf_def)

lemma setField_append [simp]:
  "g \<notin> fst ` set pre \<Longrightarrow> setField g v (pre @ (g, w) # ws) = pre @ (g, v) # ws"
  by (induction pre) auto

lemma zeroField_eq: "zeroField f = (fieldName f, zero (fieldType f))"
  by (cases f) simp

lemma decodeElems_map:
  "(\<And>v. v \<in> set vs \<Longrightarrow> decode p t (encode t v) (zero t) = Inr v) \<Longrightarrow>
     decodeElems p t (map (encode t) vs) [] = Inr vs"
  by (induction vs) auto

lemma decode_encode:
  "type_ok t \<Longrightarrow> wt t v \<Longrightarrow> faithful p t v \<Longrightarrow> decode p t (encode t v) (zero t) = Inr v"
  "\<lbrakk>fields_ok fs; wtFields fs ws; faithfulFields p fs ws; map fst pre = map fieldName fs0;
    distinct (map fieldName (fs0 @ fs)); distinct (map jsonName (fs0 @ fs))\<rbrakk> \<Longrightarrow>
     decodeKeys p (fs0 @ fs) (encodeFields fs ws) (pre @ map zeroField fs) = Inr (pre @ ws)"
proof (induction t v and fs ws arbitrary: and fs0 pre rule: encode_encodeFields.induct)
  case (6 v)
  then show ?case by (auto simp: DateTime_MarshalJSON_def split: goval.splits)
next
  case (7 t v)
  then show ?case
    using encode_nonnull by (auto split: goval.splits)
next
  case (8 t v)
  then show ?case
    by (auto simp: decodeElems_map split: goval.splits)
next
  case (9 n fs v)
  then show ?case
    using 9(1)[of _ "[]" "[]"] by (auto split: goval.splits)
next
  case (11 f fs vs)
  from 11(5) obtain v ws where vs: "vs = (fieldName f, v) # ws" "wt (fieldType f) v" "wtFields fs ws"
    by (auto split: list.splits)
  have ok: "type_ok (fieldType f)" "fields_ok fs" using 11(4) by (cases f, auto)+
  have fa: "faithful p (fieldType f) v" "faithfulFields p fs ws"
    "omitEmpty f \<and> isEmptyValue v \<Longrightarrow> v = zero (fieldType f)"
    using 11(6) vs by auto
  have new: "fieldName f \<notin> fst ` set pre"
    using 11(7,8) by (metis distinct.simps(2) distinct_append image_set list.set_intros(1) list.simps(9)
        map_append not_distinct_conv_prefix disjoint_iff)
  have rest: "decodeKeys p (fs0 @ f # fs) (encodeFields fs ws) (pre @ (fieldName f, v) # map zeroField fs) =
      Inr (pre @ vs)"
    if "\<And>fs0' pre'. \<lbrakk>map fst pre' = map fieldName fs0'; distinct (map fieldName (fs0' @ fs));
        distinct (map jsonName (fs0' @ fs))\<rbrakk> \<Longrightarrow>
      decodeKeys p (fs0' @ fs) (encodeFields fs ws) (pre' @ map zeroField fs) = Inr (pre' @ ws)"
    using that[of "pre @ [(fieldName f, v)]" "fs0 @ [f]"] 11(7-9) vs by simp
  show ?case
  proof (cases "omitEmpty f \<and> isEmptyValue v")
    case True
    have "decodeKeys p (fs0 @ f # fs) (encodeFields fs ws) (pre @ (fieldName f, v) # map zeroField fs) =
      Inr (pre @ vs)"
      by (rule rest) (rule 11(1)[OF vs(1) refl True ok(2) vs(3) fa(2)])
    then show ?thesis using True vs fa(3) by (simp add: zeroField_eq[of f])
  next
    case False
    have "decodeKeys p (fs0 @ f # fs) (encodeFields fs ws) (pre @ (fieldName f, v) # map zeroField fs) =
      Inr (pre @ vs)"
      by (rule rest) (rule 11(3)[OF vs(1) refl False ok(2) vs(3) fa(2)])
    moreover have "decode p (fieldType f) (encode (fieldType f) v) (zero (fieldType f)) = Inr v"
      by (rule 11(2)[OF vs(1) refl False ok(1) vs(2) fa(1)])
    ultimately show ?thesis
      using False vs(1) new 11(9) findField_distinct[of fs0 f fs] by (auto simp: zeroField_eq[of f])
  qed
qed (auto split: goval.splits simp: int64_def)

section \<open>Decoded values are well typed\<close>

lemma wt_zero [simp]: "wt t (zero t)" "wt (fieldType f) (zero (fieldType f))"
proof (induction t and f)
  case (TStruct n fs)
  then have "wtFields fs (map zeroField fs)" by (induction fs) (auto simp: zeroField_eq)
  then show ?case by simp
qed (simp_all add: int64_def)

lemma wtFields_iff:
  "wtFields fs vs \<longleftrightarrow> list_all2 (\<lambda>f (g, v). g = fieldName f \<and> wt (fieldType f) v) fs vs"
  by (induction fs arbitrary: vs) (auto simp: list_all2_Cons1 split: list.splits)

lemma wtFields_set:
  "wtFields fs vs \<Longrightarrow> distinct (map fieldName fs) \<Longrightarrow> f \<in> set fs \<Longrightarrow> wt (fieldType f) v \<Longrightarrow>
     wtFields fs (setField (fieldName f) v vs)"
  by (induction fs arbitrary: vs) (auto simp: image_iff split: list.splits if_splits)

lemma wtFields_get:
  "wtFields fs vs \<Longrightarrow> distinct (map fieldName fs) \<Longrightarrow> f \<in> set fs \<Longrightarrow>
     wt (fieldType f) (fieldOf (fieldName f) vs)"
  by (induction fs arbitrary: vs) (auto simp: fieldOf_def image_iff split: list.splits)

lemma findField_mem: "findField k fs = Some f \<Longrightarrow> f \<in> set fs"
  by (auto simp: findField_def find_Some_iff split: option.splits)

lemma fields_ok_iff: "fields_ok fs \<longleftrightarrow> (\<forall>f\<in>set fs. type_ok (fieldType f))"
proof (induction fs)
  case (Cons f fs) then show ?case by (cases f) simp
qed simp

lemma map_sum_eq_Inr: "map_sum f g x = Inr y \<longleftrightarrow> (\<exists>z. x = Inr z \<and> y = g z)"
  by (cases x) auto

lemma decode_wt:
  "type_ok t \<Longrightarrow> wt t old \<Longrightarrow> decode p t j old = Inr v \<Longrightarrow> wt t v"
  "fields_ok fs \<Longrightarrow> distinct (map fieldName fs) \<Longrightarrow> wtFields fs vs \<Longrightarrow> decodeKeys p fs kvs vs = Inr ws \<Longrightarrow>
     wtFields fs ws"
  "type_ok t \<Longrightarrow> (\<forall>v\<in>set olds. wt t v) \<Longrightarrow> decodeElems p t js olds = Inr us \<Longrightarrow> (\<forall>v\<in>set us. wt t v)"
proof (induction p t j old and p fs kvs vs and p t js olds arbitrary: v and ws and us
    rule: decode_decodeKeys_decodeElems.induct)
  case (7 p t j old)
  have "wt t (case old of VPtr v \<Rightarrow> v | _ \<Rightarrow> zero t)" using 7(3) by (cases old) auto
  with 7 show ?case by (cases "j = JNull") (auto simp: map_sum_eq_Inr)
next
  case (8 p t j old)
  have "\<forall>v\<in>set (case old of VSlice vs \<Rightarrow> vs | _ \<Rightarrow> []). wt t v" using 8(3) by (cases old) auto
  with 8 show ?case by (cases j) (auto simp: mismatch_def map_sum_eq_Inr)
next
  case (9 p n fs j old)
  obtain vs where "old = VStruct vs" "wtFields fs vs" using 9(3) by (cases old) auto
  with 9 show ?case by (cases j) (auto simp: mismatch_def map_sum_eq_Inr)
next
  case (11 p fs k j kvs vs)
  show ?case
  proof (cases "findField k fs")
    case None with 11 show ?thesis by simp
  next
    case (Some f)
    from 11(7) Some obtain v where v: "decode p (fieldType f) j (fieldOf (fieldName f) vs) = Inr v"
      "decodeKeys p fs kvs (setField (fieldName f) v vs) = Inr ws"
      by (auto split: sum.splits)
    note f = findField_mem[OF Some]
    have "type_ok (fieldType f)" using 11(4) f by (simp add: fields_ok_iff)
    from 11(2)[OF Some this wtFields_get[OF 11(6,5) f] v(1)] have "wt (fieldType f) v" .
    from 11(3)[OF Some v(1) 11(4,5) wtFields_set[OF 11(6,5) f this] v(2)] show ?thesis .
  qed
next
  case (1 p j old) then show ?case by (cases j) (auto simp: mismatch_def)
next
  case (2 p j old) then show ?case by (cases j) (auto simp: mismatch_def split: if_splits)
next
  case (3 p j old) then show ?case by (cases j) (auto simp: mismatch_def)
next
  case (4 p j old) then show ?case by (cases j) (auto simp: mismatch_def)
next
  case (13 p t j js olds)
  from 13(5) obtain v vs where v: "decode p t j (case olds of o1 # _ \<Rightarrow> o1 | [] \<Rightarrow> zero t) = Inr v"
    "decodeElems p t js (drop 1 olds) = Inr vs" "us = v # vs"
    by (auto simp: map_sum_eq_Inr split: sum.splits)
  have "wt t (case olds of o1 # _ \<Rightarrow> o1 | [] \<Rightarrow> zero t)" using 13(4) by (auto split: list.splits)
  from 13(1)[OF 13(3) this v(1)] 13(2)[OF v(1) 13(3) _ v(2)] 13(4) v(3) show ?case
    by (auto dest: in_set_dropD)
qed (auto simp: map_sum_eq_Inr)

section \<open>Messages\<close>

text \<open>
  A value of an interface type such as \<^verbatim>\<open>ocpp.Request\<close> carries its dynamic type. \<open>new\<close> is
  \<^verbatim>\<open>&T{f: v, ...}\<close> as such a value.
\<close>

type_synonym message = "gotype \<times> goval"

definition new :: "gotype \<Rightarrow> (string \<times> goval) list \<Rightarrow> message" where
  "new t inits = (t, structLit t inits)"

text \<open>A \<^verbatim>\<open>*DateTime\<close> argument, and a variadic argument list.\<close>

definition timePtr :: "gotime option \<Rightarrow> goval" where
  "timePtr x = (case x of None \<Rightarrow> VNil | Some t \<Rightarrow> VPtr (VTime t))"

definition variadic :: "goval list \<Rightarrow> goval" where
  "variadic xs = (if xs = [] then VNil else VSlice xs)"

lemma wt_args [simp]:
  "wt (TPtr TTime) (timePtr x)" "wt (TSlice t) (variadic xs) \<longleftrightarrow> (\<forall>v\<in>set xs. wt t v)"
  by (auto simp: timePtr_def variadic_def split: option.splits)

text \<open>A literal whose initialisers have the types of the fields they name is well typed.\<close>

fun inits_ok :: "gofield list \<Rightarrow> (string \<times> goval) list \<Rightarrow> bool" where
  "inits_ok fs [] \<longleftrightarrow> True"
| "inits_ok fs ((g, v) # inits) \<longleftrightarrow>
     (case find (\<lambda>f. fieldName f = g) fs of None \<Rightarrow> False | Some f \<Rightarrow> wt (fieldType f) v) \<and> inits_ok fs inits"

lemma structLit_wt:
  assumes "distinct (map fieldName fs)" "inits_ok fs inits"
  shows "wt (TStruct n fs) (structLit (TStruct n fs) inits)"
proof -
  have "wtFields fs vs \<Longrightarrow> wtFields fs (fold (\<lambda>(g, v). setField g v) inits vs)" for vs
    using assms(2)
  proof (induction inits arbitrary: vs)
    case (Cons gv inits)
    obtain g v where gv: "gv = (g, v)" by (cases gv)
    with Cons(3) obtain f where f: "find (\<lambda>f. fieldName f = g) fs = Some f" "wt (fieldType f) v"
      "inits_ok fs inits"
      by (auto split: option.splits)
    then have m: "f \<in> set fs" "fieldName f = g" by (auto simp: find_Some_iff)
    have "wtFields fs (setField g v vs)"
      using wtFields_set[OF Cons(2) assms(1) m(1) f(2)] m(2) by simp
    from Cons(1)[OF this f(3)] gv show ?case by simp
  qed simp
  then show ?thesis using wt_zero(1)[of "TStruct n fs"] by (simp add: structLit_def)
qed

section \<open>Properties\<close>

text \<open>
  C25: What decoding a timestamp does. A JSON string is handed to the ISO 8601 parser, except that
  a string of two characters whose first is \<^verbatim>\<open>u\<close> or whose second is \<^verbatim>\<open>l\<close> passes for a JSON null: it is
  accepted whatever the parser says, and the timestamp keeps the value it had.
\<close>

theorem DateTime_Unmarshal_exact:
  assumes "plain s"
  shows "DateTime_UnmarshalJSON p (quoted s) dt =
    (if length s = 2 \<and> (s ! 0 = CHR ''u'' \<or> s ! 1 = CHR ''l'') then Inr dt else p s)"
proof (cases "length s = 2")
  case True
  then obtain a b where "s = [a, b]" by (auto simp: length_Suc_conv numeral_2_eq_2)
  with assms show ?thesis by (auto simp: DateTime_UnmarshalJSON_def quoted_plain null_def nth_Cons')
next
  case False
  with assms show ?thesis by (simp add: DateTime_Unmarshal_quoted)
qed

theorem DateTime_Unmarshal_exact_witness:
  "DateTime_UnmarshalJSON (\<lambda>_. Inl ''not a timestamp'') (quoted ''xl'') zeroTime = Inr zeroTime"
  using DateTime_Unmarshal_exact[of "''xl''" "\<lambda>_. Inl ''not a timestamp''" zeroTime]
  by (simp add: escape_plain)

end
