(* ===== verification/Messages16.thy ===== *)
theory Messages16
  imports GoJson
begin

text \<open>
  The messages of OCPP 1.6: \<^verbatim>\<open>ocpp1.6/types/types.go\<close> and the packages \<^verbatim>\<open>core\<close>, \<^verbatim>\<open>localauth\<close>,
  \<^verbatim>\<open>firmware\<close>, \<^verbatim>\<open>reservation\<close>, \<^verbatim>\<open>remotetrigger\<close> and \<^verbatim>\<open>smartcharging\<close>. Per package: the validation functions
  of its enumerations (a function per string type, accepting the named constants), the struct
  types with their tags, the constructors, the features and the profile.
\<close>

section \<open>Package \<^verbatim>\<open>types\<close>\<close>

definition isValidAuthorizationStatus :: "string \<Rightarrow> bool" where
  "isValidAuthorizationStatus status \<longleftrightarrow> status \<in> set
    [''Accepted'', ''Blocked'', ''Expired'', ''Invalid'', ''ConcurrentTx'']"

definition isValidChargingProfilePurpose :: "string \<Rightarrow> bool" where
  "isValidChargingProfilePurpose purposeType \<longleftrightarrow> purposeType \<in> set
    [''ChargePointMaxProfile'', ''TxDefaultProfile'', ''TxProfile'']"

definition isValidChargingProfileKind :: "string \<Rightarrow> bool" where
  "isValidChargingProfileKind purposeType \<longleftrightarrow> purposeType \<in> set
    [''Absolute'', ''Recurring'', ''Relative'']"

definition isValidRecurrencyKind :: "string \<Rightarrow> bool" where
  "isValidRecurrencyKind purposeType \<longleftrightarrow> purposeType \<in> set
    [''Daily'', ''Weekly'']"

definition isValidChargingRateUnit :: "string \<Rightarrow> bool" where
  "isValidChargingRateUnit purposeType \<longleftrightarrow> purposeType \<in> set
    [''W'', ''A'']"

definition isValidRemoteStartStopStatus :: "string \<Rightarrow> bool" where
  "isValidRemoteStartStopStatus status \<longleftrightarrow> status \<in> set
    [''Accepted'', ''Rejected'']"

definition isValidReadingContext :: "string \<Rightarrow> bool" where
  "isValidReadingContext readingContext \<longleftrightarrow> readingContext \<in> set
    [''Interruption.Begin'', ''Interruption.End'', ''Other'', ''Sample.Clock'',
     ''Sample.Periodic'', ''Transaction.Begin'', ''Transaction.End'', ''Trigger'']"

definition isValidValueFormat :: "string \<Rightarrow> bool" where
  "isValidValueFormat valueFormat \<longleftrightarrow> valueFormat \<in> set
    [''Raw'', ''SignedData'']"

definition isValidMeasurand :: "string \<Rightarrow> bool" where
  "isValidMeasurand measurand \<longleftrightarrow> measurand \<in> set
    [''SoC'', ''Current.Export'', ''Current.Import'', ''Current.Offered'',
     ''Energy.Active.Export.Interval'', ''Energy.Active.Export.Register'',
     ''Energy.Reactive.Export.Interval'', ''Energy.Reactive.Export.Register'',
     ''Energy.Reactive.Import.Register'', ''Energy.Reactive.Import.Interval'',
     ''Energy.Active.Import.Interval'', ''Energy.Active.Import.Register'', ''Frequency'',
     ''Power.Active.Export'', ''Power.Active.Import'', ''Power.Reactive.Import'',
     ''Power.Reactive.Export'', ''Power.Offered'', ''Power.Factor'', ''Voltage'',
     ''Temperature'', ''RPM'']"

definition isValidPhase :: "string \<Rightarrow> bool" where
  "isValidPhase phase \<longleftrightarrow> phase \<in> set
    [''L1'', ''L2'', ''L3'', ''N'', ''L1-N'', ''L2-N'', ''L3-N'', ''L1-L2'', ''L2-L3'',
     ''L3-L1'']"

definition isValidLocation :: "string \<Rightarrow> bool" where
  "isValidLocation location \<longleftrightarrow> location \<in> set
    [''Body'', ''Cable'', ''EV'', ''Inlet'', ''Outlet'']"

definition isValidUnitOfMeasure :: "string \<Rightarrow> bool" where
  "isValidUnitOfMeasure unitOfMeasure \<longleftrightarrow> unitOfMeasure \<in> set
    [''A'', ''Wh'', ''kWh'', ''varh'', ''kvarh'', ''W'', ''kW'', ''VA'', ''kVA'', ''var'',
     ''kvar'', ''V'', ''Celsius'', ''Celcius'', ''Fahrenheit'', ''K'', ''Percent'']"

definition IdTagInfo :: gotype where
  "IdTagInfo = TStruct ''types.IdTagInfo''
     [Field ''ExpiryDate'' ''expiryDate'' True ''omitempty'' (TPtr TTime),
      Field ''ParentIdTag'' ''parentIdTag'' True ''omitempty,max=20'' TString,
      Field ''Status'' ''status'' False ''required,authorizationStatus16'' TString]"

definition ChargingSchedulePeriod :: gotype where
  "ChargingSchedulePeriod = TStruct ''types.ChargingSchedulePeriod''
     [Field ''StartPeriod'' ''startPeriod'' False ''gte=0'' TInt,
      Field ''Limit'' ''limit'' False ''gte=0'' TFloat,
      Field ''NumberPhases'' ''numberPhases'' True ''omitempty,gte=0'' (TPtr TInt)]"

definition ChargingSchedule :: gotype where
  "ChargingSchedule = TStruct ''types.ChargingSchedule''
     [Field ''Duration'' ''duration'' True ''omitempty,gte=0'' (TPtr TInt),
      Field ''StartSchedule'' ''startSchedule'' True '''' (TPtr TTime),
      Field ''ChargingRateUnit'' ''chargingRateUnit'' False ''required,chargingRateUnit16'' TString,
      Field ''ChargingSchedulePeriod'' ''chargingSchedulePeriod'' False ''required,min=1'' (TSlice ChargingSchedulePeriod),
      Field ''MinChargingRate'' ''minChargingRate'' True ''omitempty,gte=0'' (TPtr TFloat)]"

definition ChargingProfile :: gotype where
  "ChargingProfile = TStruct ''types.ChargingProfile''
     [Field ''ChargingProfileId'' ''chargingProfileId'' False '''' TInt,
      Field ''TransactionId'' ''transactionId'' True '''' TInt,
      Field ''StackLevel'' ''stackLevel'' False ''gte=0'' TInt,
      Field ''ChargingProfilePurpose'' ''chargingProfilePurpose'' False ''required,chargingProfilePurpose16'' TString,
      Field ''ChargingProfileKind'' ''chargingProfileKind'' False ''required,chargingProfileKind16'' TString,
      Field ''RecurrencyKind'' ''recurrencyKind'' True ''omitempty,recurrencyKind16'' TString,
      Field ''ValidFrom'' ''validFrom'' True '''' (TPtr TTime),
      Field ''ValidTo'' ''validTo'' True '''' (TPtr TTime),
      Field ''ChargingSchedule'' ''chargingSchedule'' False ''required'' (TPtr ChargingSchedule)]"

definition SampledValue :: gotype where
  "SampledValue = TStruct ''types.SampledValue''
     [Field ''Value'' ''value'' False ''required'' TString,
      Field ''Context'' ''context'' True ''omitempty,readingContext16'' TString,
      Field ''Format'' ''format'' True ''omitempty,valueFormat'' TString,
      Field ''Measurand'' ''measurand'' True ''omitempty,measurand16'' TString,
      Field ''Phase'' ''phase'' True ''omitempty,phase16'' TString,
      Field ''Location'' ''location'' True ''omitempty,location16'' TString,
      Field ''Unit'' ''unit'' True ''omitempty,unitOfMeasure'' TString]"

definition MeterValue :: gotype where
  "MeterValue = TStruct ''types.MeterValue''
     [Field ''Timestamp'' ''timestamp'' False ''required'' (TPtr TTime),
      Field ''SampledValue'' ''sampledValue'' False ''required,min=1,dive'' (TSlice SampledValue)]"

definition NewIdTagInfo :: "string \<Rightarrow> goval" where
  "NewIdTagInfo st =
     VPtr (structLit IdTagInfo
     [(''Status'', VString st)])"

definition NewChargingSchedulePeriod :: "int \<Rightarrow> goval \<Rightarrow> goval" where
  "NewChargingSchedulePeriod startPeriod limit =
     structLit ChargingSchedulePeriod
     [(''StartPeriod'', VInt startPeriod), (''Limit'', limit)]"

definition NewChargingSchedule :: "string \<Rightarrow> goval list \<Rightarrow> goval" where
  "NewChargingSchedule chargingRateUnit schedulePeriod =
     VPtr (structLit ChargingSchedule
     [(''ChargingRateUnit'', VString chargingRateUnit),
       (''ChargingSchedulePeriod'', variadic schedulePeriod)])"

definition NewChargingProfile :: "int \<Rightarrow> int \<Rightarrow> string \<Rightarrow> string \<Rightarrow> goval \<Rightarrow> goval" where
  "NewChargingProfile chargingProfileId stackLevel chargingProfilePurpose chargingProfileKind schedule =
     VPtr (structLit ChargingProfile
     [(''ChargingProfileId'', VInt chargingProfileId),
       (''StackLevel'', VInt stackLevel),
       (''ChargingProfilePurpose'', VString chargingProfilePurpose),
       (''ChargingProfileKind'', VString chargingProfileKind),
       (''ChargingSchedule'', schedule)])"

section \<open>Package \<^verbatim>\<open>core\<close>\<close>

definition isValidRegistrationStatus :: "string \<Rightarrow> bool" where
  "isValidRegistrationStatus status \<longleftrightarrow> status \<in> set
    [''Accepted'', ''Pending'', ''Rejected'']"

definition isValidAvailabilityType :: "string \<Rightarrow> bool" where
  "isValidAvailabilityType status \<longleftrightarrow> status \<in> set
    [''Operative'', ''Inoperative'']"

definition isValidAvailabilityStatus :: "string \<Rightarrow> bool" where
  "isValidAvailabilityStatus status \<longleftrightarrow> status \<in> set
    [''Accepted'', ''Rejected'', ''Scheduled'']"

definition isValidConfigurationStatus :: "string \<Rightarrow> bool" where
  "isValidConfigurationStatus status \<longleftrightarrow> status \<in> set
    [''Accepted'', ''Rejected'', ''RebootRequired'', ''NotSupported'']"

definition isValidClearCacheStatus :: "string \<Rightarrow> bool" where
  "isValidClearCacheStatus status \<longleftrightarrow> status \<in> set
    [''Accepted'', ''Rejected'']"

definition isValidDataTransferStatus :: "string \<Rightarrow> bool" where
  "isValidDataTransferStatus status \<longleftrightarrow> status \<in> set
    [''Accepted'', ''Rejected'', ''UnknownMessageId'', ''UnknownVendorId'']"

definition isValidResetType :: "string \<Rightarrow> bool" where
  "isValidResetType status \<longleftrightarrow> status \<in> set
    [''Hard'', ''Soft'']"

definition isValidResetStatus :: "string \<Rightarrow> bool" where
  "isValidResetStatus status \<longleftrightarrow> status \<in> set
    [''Accepted'', ''Rejected'']"

definition isValidChargePointStatus :: "string \<Rightarrow> bool" where
  "isValidChargePointStatus status \<longleftrightarrow> status \<in> set
    [''Available'', ''Preparing'', ''Charging'', ''Faulted'', ''Finishing'', ''Reserved'',
     ''SuspendedEV'', ''SuspendedEVSE'', ''Unavailable'']"

definition isValidChargePointErrorCode :: "string \<Rightarrow> bool" where
  "isValidChargePointErrorCode status \<longleftrightarrow> status \<in> set
    [''ConnectorLockFailure'', ''EVCommunicationError'', ''GroundFailure'',
     ''HighTemperature'', ''InternalError'', ''LocalListConflict'', ''NoError'',
     ''OtherError'', ''OverVoltage'', ''OverCurrentFailure'', ''PowerMeterFailure'',
     ''PowerSwitchFailure'', ''ReaderFailure'', ''ResetFailure'', ''UnderVoltage'',
     ''WeakSignal'']"

definition isValidReason :: "string \<Rightarrow> bool" where
  "isValidReason reason \<longleftrightarrow> reason \<in> set
    [''DeAuthorized'', ''EmergencyStop'', ''EVDisconnected'', ''HardReset'', ''Local'',
     ''Other'', ''PowerLoss'', ''Reboot'', ''Remote'', ''SoftReset'', ''UnlockCommand'']"

definition isValidUnlockStatus :: "string \<Rightarrow> bool" where
  "isValidUnlockStatus status \<longleftrightarrow> status \<in> set
    [''Unlocked'', ''UnlockFailed'', ''NotSupported'']"

definition AuthorizeRequest :: gotype where
  "AuthorizeRequest = TStruct ''core.AuthorizeRequest''
     [Field ''IdTag'' ''idTag'' False ''required,max=20'' TString]"

definition AuthorizeConfirmation :: gotype where
  "AuthorizeConfirmation = TStruct ''core.AuthorizeConfirmation''
     [Field ''IdTagInfo'' ''idTagInfo'' False ''required'' (TPtr IdTagInfo)]"

definition BootNotificationRequest :: gotype where
  "BootNotificationRequest = TStruct ''core.BootNotificationRequest''
     [Field ''ChargeBoxSerialNumber'' ''chargeBoxSerialNumber'' True ''max=25'' TString,
      Field ''ChargePointModel'' ''chargePointModel'' False ''required,max=20'' TString,
      Field ''ChargePointSerialNumber'' ''chargePointSerialNumber'' True ''max=25'' TString,
      Field ''ChargePointVendor'' ''chargePointVendor'' False ''required,max=20'' TString,
      Field ''FirmwareVersion'' ''firmwareVersion'' True ''max=50'' TString,
      Field ''Iccid'' ''iccid'' True ''max=20'' TString,
      Field ''Imsi'' ''imsi'' True ''max=20'' TString,
      Field ''MeterSerialNumber'' ''meterSerialNumber'' True ''max=25'' TString,
      Field ''MeterType'' ''meterType'' True ''max=25'' TString]"

definition BootNotificationConfirmation :: gotype where
  "BootNotificationConfirmation = TStruct ''core.BootNotificationConfirmation''
     [Field ''CurrentTime'' ''currentTime'' False ''required'' (TPtr TTime),
      Field ''Interval'' ''interval'' False ''gte=0'' TInt,
      Field ''Status'' ''status'' False ''required,registrationStatus16'' TString]"

definition ChangeAvailabilityRequest :: gotype where
  "ChangeAvailabilityRequest = TStruct ''core.ChangeAvailabilityRequest''
     [Field ''ConnectorId'' ''connectorId'' False ''gte=0'' TInt,
      Field ''Type'' ''type'' False ''required,availabilityType'' TString]"

definition ChangeAvailabilityConfirmation :: gotype where
  "ChangeAvailabilityConfirmation = TStruct ''core.ChangeAvailabilityConfirmation''
     [Field ''Status'' ''status'' False ''required,availabilityStatus'' TString]"

definition ChangeConfigurationRequest :: gotype where
  "ChangeConfigurationRequest = TStruct ''core.ChangeConfigurationRequest''
     [Field ''Key'' ''key'' False ''required,max=50'' TString,
      Field ''Value'' ''value'' False ''required,max=500'' TString]"

definition ChangeConfigurationConfirmation :: gotype where
  "ChangeConfigurationConfirmation = TStruct ''core.ChangeConfigurationConfirmation''
     [Field ''Status'' ''status'' False ''required,configurationStatus'' TString]"

definition ClearCacheRequest :: gotype where
  "ClearCacheRequest = TStruct ''core.ClearCacheRequest''
     []"

definition ClearCacheConfirmation :: gotype where
  "ClearCacheConfirmation = TStruct ''core.ClearCacheConfirmation''
     [Field ''Status'' ''status'' False ''required,cacheStatus16'' TString]"

definition DataTransferRequest :: gotype where
  "DataTransferRequest = TStruct ''core.DataTransferRequest''
     [Field ''VendorId'' ''vendorId'' False ''required,max=255'' TString,
      Field ''MessageId'' ''messageId'' True ''max=50'' TString,
      Field ''Data'' ''data'' True '''' TIface]"

definition DataTransferConfirmation :: gotype where
  "DataTransferConfirmation = TStruct ''core.DataTransferConfirmation''
     [Field ''Status'' ''status'' False ''required,dataTransferStatus16'' TString,
      Field ''Data'' ''data'' True '''' TIface]"

definition ConfigurationKey :: gotype where
  "ConfigurationKey = TStruct ''core.ConfigurationKey''
     [Field ''Key'' ''key'' False ''required,max=50'' TString,
      Field ''Readonly'' ''readonly'' False '''' TBool,
      Field ''Value'' ''value'' True ''omitempty,max=500'' (TPtr TString)]"

definition GetConfigurationRequest :: gotype where
  "GetConfigurationRequest = TStruct ''core.GetConfigurationRequest''
     [Field ''Key'' ''key'' True ''omitempty,unique,dive,max=50'' (TSlice TString)]"

definition GetConfigurationConfirmation :: gotype where
  "GetConfigurationConfirmation = TStruct ''core.GetConfigurationConfirmation''
     [Field ''ConfigurationKey'' ''configurationKey'' True ''omitempty,dive'' (TSlice ConfigurationKey),
      Field ''UnknownKey'' ''unknownKey'' True ''omitempty,dive,max=50'' (TSlice TString)]"

definition HeartbeatRequest :: gotype where
  "HeartbeatRequest = TStruct ''core.HeartbeatRequest''
     []"

definition HeartbeatConfirmation :: gotype where
  "HeartbeatConfirmation = TStruct ''core.HeartbeatConfirmation''
     [Field ''CurrentTime'' ''currentTime'' False ''required'' (TPtr TTime)]"

definition MeterValuesRequest :: gotype where
  "MeterValuesRequest = TStruct ''core.MeterValuesRequest''
     [Field ''ConnectorId'' ''connectorId'' False ''gte=0'' TInt,
      Field ''TransactionId'' ''transactionId'' True '''' (TPtr TInt),
      Field ''MeterValue'' ''meterValue'' False ''required,min=1,dive'' (TSlice MeterValue)]"

definition MeterValuesConfirmation :: gotype where
  "MeterValuesConfirmation = TStruct ''core.MeterValuesConfirmation''
     []"

definition RemoteStartTransactionRequest :: gotype where
  "RemoteStartTransactionRequest = TStruct ''core.RemoteStartTransactionRequest''
     [Field ''ConnectorId'' ''connectorId'' True ''omitempty,gt=0'' (TPtr TInt),
      Field ''IdTag'' ''idTag'' False ''required,max=20'' TString,
      Field ''ChargingProfile'' ''chargingProfile'' True '''' (TPtr ChargingProfile)]"

definition RemoteStartTransactionConfirmation :: gotype where
  "RemoteStartTransactionConfirmation = TStruct ''core.RemoteStartTransactionConfirmation''
     [Field ''Status'' ''status'' False ''required,remoteStartStopStatus16'' TString]"

definition RemoteStopTransactionRequest :: gotype where
  "RemoteStopTransactionRequest = TStruct ''core.RemoteStopTransactionRequest''
     [Field ''TransactionId'' ''transactionId'' False '''' TInt]"

definition RemoteStopTransactionConfirmation :: gotype where
  "RemoteStopTransactionConfirmation = TStruct ''core.RemoteStopTransactionConfirmation''
     [Field ''Status'' ''status'' False ''required,remoteStartStopStatus16'' TString]"

definition ResetRequest :: gotype where
  "ResetRequest = TStruct ''core.ResetRequest''
     [Field ''Type'' ''type'' False ''required,resetType16'' TString]"

definition ResetConfirmation :: gotype where
  "ResetConfirmation = TStruct ''core.ResetConfirmation''
     [Field ''Status'' ''status'' False ''required,resetStatus16'' TString]"

definition StartTransactionRequest :: gotype where
  "StartTransactionRequest = TStruct ''core.StartTransactionRequest''
     [Field ''ConnectorId'' ''connectorId'' False ''gt=0'' TInt,
      Field ''IdTag'' ''idTag'' False ''required,max=20'' TString,
      Field ''MeterStart'' ''meterStart'' False ''gte=0'' TInt,
      Field ''ReservationId'' ''reservationId'' True ''omitempty'' (TPtr TInt),
      Field ''Timestamp'' ''timestamp'' False ''required'' (TPtr TTime)]"

definition StartTransactionConfirmation :: gotype where
  "StartTransactionConfirmation = TStruct ''core.StartTransactionConfirmation''
     [Field ''IdTagInfo'' ''idTagInfo'' False ''required'' (TPtr IdTagInfo),
      Field ''TransactionId'' ''transactionId'' False '''' TInt]"

definition StatusNotificationRequest :: gotype where
  "StatusNotificationRequest = TStruct ''core.StatusNotificationRequest''
     [Field ''ConnectorId'' ''connectorId'' False ''gte=0'' TInt,
      Field ''ErrorCode'' ''errorCode'' False ''required,chargePointErrorCode'' TString,
      Field ''Info'' ''info'' True ''max=50'' TString,
      Field ''Status'' ''status'' False ''required,chargePointStatus'' TString,
      Field ''Timestamp'' ''timestamp'' True ''omitempty'' (TPtr TTime),
      Field ''VendorId'' ''vendorId'' True ''max=255'' TString,
      Field ''VendorErrorCode'' ''vendorErrorCode'' True ''max=50'' TString]"

definition StatusNotificationConfirmation :: gotype where
  "StatusNotificationConfirmation = TStruct ''core.StatusNotificationConfirmation''
     []"

definition StopTransactionRequest :: gotype where
  "StopTransactionRequest = TStruct ''core.StopTransactionRequest''
     [Field ''IdTag'' ''idTag'' True ''max=20'' TString,
      Field ''MeterStop'' ''meterStop'' False '''' TInt,
      Field ''Timestamp'' ''timestamp'' False ''required'' (TPtr TTime),
      Field ''TransactionId'' ''transactionId'' False '''' TInt,
      Field ''Reason'' ''reason'' True ''omitempty,reason'' TString,
      Field ''TransactionData'' ''transactionData'' True ''omitempty,dive'' (TSlice MeterValue)]"

definition StopTransactionConfirmation :: gotype where
  "StopTransactionConfirmation = TStruct ''core.StopTransactionConfirmation''
     [Field ''IdTagInfo'' ''idTagInfo'' True ''omitempty'' (TPtr IdTagInfo)]"

definition UnlockConnectorRequest :: gotype where
  "UnlockConnectorRequest = TStruct ''core.UnlockConnectorRequest''
     [Field ''ConnectorId'' ''connectorId'' False ''gt=0'' TInt]"

definition UnlockConnectorConfirmation :: gotype where
  "UnlockConnectorConfirmation = TStruct ''core.UnlockConnectorConfirmation''
     [Field ''Status'' ''status'' False ''required,unlockStatus16'' TString]"

definition NewAuthorizationRequest :: "string \<Rightarrow> message" where
  "NewAuthorizationRequest idTag =
     new AuthorizeRequest
     [(''IdTag'', VString idTag)]"

definition NewAuthorizationConfirmation :: "goval \<Rightarrow> message" where
  "NewAuthorizationConfirmation idTagInfo =
     new AuthorizeConfirmation
     [(''IdTagInfo'', idTagInfo)]"

definition NewBootNotificationRequest :: "string \<Rightarrow> string \<Rightarrow> message" where
  "NewBootNotificationRequest chargePointModel chargePointVendor =
     new BootNotificationRequest
     [(''ChargePointModel'', VString chargePointModel),
       (''ChargePointVendor'', VString chargePointVendor)]"

definition NewBootNotificationConfirmation :: "gotime option \<Rightarrow> int \<Rightarrow> string \<Rightarrow> message" where
  "NewBootNotificationConfirmation currentTime interval st =
     new BootNotificationConfirmation
     [(''CurrentTime'', timePtr currentTime),
       (''Interval'', VInt interval),
       (''Status'', VString st)]"

definition NewChangeAvailabilityRequest :: "int \<Rightarrow> string \<Rightarrow> message" where
  "NewChangeAvailabilityRequest connectorId availabilityType =
     new ChangeAvailabilityRequest
     [(''ConnectorId'', VInt connectorId),
       (''Type'', VString availabilityType)]"

definition NewChangeAvailabilityConfirmation :: "string \<Rightarrow> message" where
  "NewChangeAvailabilityConfirmation st =
     new ChangeAvailabilityConfirmation
     [(''Status'', VString st)]"

definition NewChangeConfigurationRequest :: "string \<Rightarrow> string \<Rightarrow> message" where
  "NewChangeConfigurationRequest key val =
     new ChangeConfigurationRequest
     [(''Key'', VString key), (''Value'', VString val)]"

definition NewChangeConfigurationConfirmation :: "string \<Rightarrow> message" where
  "NewChangeConfigurationConfirmation st =
     new ChangeConfigurationConfirmation
     [(''Status'', VString st)]"

definition NewClearCacheRequest :: "message" where
  "NewClearCacheRequest =
     new ClearCacheRequest
     []"

definition NewClearCacheConfirmation :: "string \<Rightarrow> message" where
  "NewClearCacheConfirmation st =
     new ClearCacheConfirmation
     [(''Status'', VString st)]"

definition NewDataTransferRequest :: "string \<Rightarrow> message" where
  "NewDataTransferRequest vendorId =
     new DataTransferRequest
     [(''VendorId'', VString vendorId)]"

definition NewDataTransferConfirmation :: "string \<Rightarrow> message" where
  "NewDataTransferConfirmation st =
     new DataTransferConfirmation
     [(''Status'', VString st)]"

definition NewGetConfigurationRequest :: "goval \<Rightarrow> message" where
  "NewGetConfigurationRequest keys =
     new GetConfigurationRequest
     [(''Key'', keys)]"

definition NewGetConfigurationConfirmation :: "goval \<Rightarrow> message" where
  "NewGetConfigurationConfirmation configurationKey =
     new GetConfigurationConfirmation
     [(''ConfigurationKey'', configurationKey)]"

definition NewHeartbeatRequest :: "message" where
  "NewHeartbeatRequest =
     new HeartbeatRequest
     []"

definition NewHeartbeatConfirmation :: "gotime option \<Rightarrow> message" where
  "NewHeartbeatConfirmation currentTime =
     new HeartbeatConfirmation
     [(''CurrentTime'', timePtr currentTime)]"

definition NewMeterValuesRequest :: "int \<Rightarrow> goval \<Rightarrow> message" where
  "NewMeterValuesRequest connectorId meterValues =
     new MeterValuesRequest
     [(''ConnectorId'', VInt connectorId), (''MeterValue'', meterValues)]"

definition NewMeterValuesConfirmation :: "message" where
  "NewMeterValuesConfirmation =
     new MeterValuesConfirmation
     []"

definition NewRemoteStartTransactionRequest :: "string \<Rightarrow> message" where
  "NewRemoteStartTransactionRequest idTag =
     new RemoteStartTransactionRequest
     [(''IdTag'', VString idTag)]"

definition NewRemoteStartTransactionConfirmation :: "string \<Rightarrow> message" where
  "NewRemoteStartTransactionConfirmation st =
     new RemoteStartTransactionConfirmation
     [(''Status'', VString st)]"

definition NewRemoteStopTransactionRequest :: "int \<Rightarrow> message" where
  "NewRemoteStopTransactionRequest transactionId =
     new RemoteStopTransactionRequest
     [(''TransactionId'', VInt transactionId)]"

definition NewRemoteStopTransactionConfirmation :: "string \<Rightarrow> message" where
  "NewRemoteStopTransactionConfirmation st =
     new RemoteStopTransactionConfirmation
     [(''Status'', VString st)]"

definition NewResetRequest :: "string \<Rightarrow> message" where
  "NewResetRequest resetType =
     new ResetRequest
     [(''Type'', VString resetType)]"

definition NewResetConfirmation :: "string \<Rightarrow> message" where
  "NewResetConfirmation st =
     new ResetConfirmation
     [(''Status'', VString st)]"

definition NewStartTransactionRequest :: "int \<Rightarrow> string \<Rightarrow> int \<Rightarrow> gotime option \<Rightarrow> message" where
  "NewStartTransactionRequest connectorId idTag meterStart timestamp =
     new StartTransactionRequest
     [(''ConnectorId'', VInt connectorId),
       (''IdTag'', VString idTag),
       (''MeterStart'', VInt meterStart),
       (''Timestamp'', timePtr timestamp)]"

definition NewStartTransactionConfirmation :: "goval \<Rightarrow> int \<Rightarrow> message" where
  "NewStartTransactionConfirmation idTagInfo transactionId =
     new StartTransactionConfirmation
     [(''IdTagInfo'', idTagInfo), (''TransactionId'', VInt transactionId)]"

definition NewStatusNotificationRequest :: "int \<Rightarrow> string \<Rightarrow> string \<Rightarrow> message" where
  "NewStatusNotificationRequest connectorId errorCode st =
     new StatusNotificationRequest
     [(''ConnectorId'', VInt connectorId),
       (''ErrorCode'', VString errorCode),
       (''Status'', VString st)]"

definition NewStatusNotificationConfirmation :: "message" where
  "NewStatusNotificationConfirmation =
     new StatusNotificationConfirmation
     []"

definition NewStopTransactionRequest :: "int \<Rightarrow> gotime option \<Rightarrow> int \<Rightarrow> message" where
  "NewStopTransactionRequest meterStop timestamp transactionId =
     new StopTransactionRequest
     [(''MeterStop'', VInt meterStop),
       (''Timestamp'', timePtr timestamp),
       (''TransactionId'', VInt transactionId)]"

definition NewStopTransactionConfirmation :: "message" where
  "NewStopTransactionConfirmation =
     new StopTransactionConfirmation
     []"

definition NewUnlockConnectorRequest :: "int \<Rightarrow> message" where
  "NewUnlockConnectorRequest connectorId =
     new UnlockConnectorRequest
     [(''ConnectorId'', VInt connectorId)]"

definition NewUnlockConnectorConfirmation :: "string \<Rightarrow> message" where
  "NewUnlockConnectorConfirmation st =
     new UnlockConnectorConfirmation
     [(''Status'', VString st)]"

definition AuthorizeFeature :: "gotype Feature" where
  "AuthorizeFeature = \<lparr>GetFeatureName = ''Authorize'',
     GetRequestType = AuthorizeRequest, GetResponseType = AuthorizeConfirmation\<rparr>"

definition BootNotificationFeature :: "gotype Feature" where
  "BootNotificationFeature = \<lparr>GetFeatureName = ''BootNotification'',
     GetRequestType = BootNotificationRequest, GetResponseType = BootNotificationConfirmation\<rparr>"

definition ChangeAvailabilityFeature :: "gotype Feature" where
  "ChangeAvailabilityFeature = \<lparr>GetFeatureName = ''ChangeAvailability'',
     GetRequestType = ChangeAvailabilityRequest, GetResponseType = ChangeAvailabilityConfirmation\<rparr>"

definition ChangeConfigurationFeature :: "gotype Feature" where
  "ChangeConfigurationFeature = \<lparr>GetFeatureName = ''ChangeConfiguration'',
     GetRequestType = ChangeConfigurationRequest, GetResponseType = ChangeConfigurationConfirmation\<rparr>"

definition ClearCacheFeature :: "gotype Feature" where
  "ClearCacheFeature = \<lparr>GetFeatureName = ''ClearCache'',
     GetRequestType = ClearCacheRequest, GetResponseType = ClearCacheConfirmation\<rparr>"

definition DataTransferFeature :: "gotype Feature" where
  "DataTransferFeature = \<lparr>GetFeatureName = ''DataTransfer'',
     GetRequestType = DataTransferRequest, GetResponseType = DataTransferConfirmation\<rparr>"

definition GetConfigurationFeature :: "gotype Feature" where
  "GetConfigurationFeature = \<lparr>GetFeatureName = ''GetConfiguration'',
     GetRequestType = GetConfigurationRequest, GetResponseType = GetConfigurationConfirmation\<rparr>"

definition HeartbeatFeature :: "gotype Feature" where
  "HeartbeatFeature = \<lparr>GetFeatureName = ''Heartbeat'',
     GetRequestType = HeartbeatRequest, GetResponseType = HeartbeatConfirmation\<rparr>"

definition MeterValuesFeature :: "gotype Feature" where
  "MeterValuesFeature = \<lparr>GetFeatureName = ''MeterValues'',
     GetRequestType = MeterValuesRequest, GetResponseType = MeterValuesConfirmation\<rparr>"

definition RemoteStartTransactionFeature :: "gotype Feature" where
  "RemoteStartTransactionFeature = \<lparr>GetFeatureName = ''RemoteStartTransaction'',
     GetRequestType = RemoteStartTransactionRequest, GetResponseType = RemoteStartTransactionConfirmation\<rparr>"

definition RemoteStopTransactionFeature :: "gotype Feature" where
  "RemoteStopTransactionFeature = \<lparr>GetFeatureName = ''RemoteStopTransaction'',
     GetRequestType = RemoteStopTransactionRequest, GetResponseType = RemoteStopTransactionConfirmation\<rparr>"

definition ResetFeature :: "gotype Feature" where
  "ResetFeature = \<lparr>GetFeatureName = ''Reset'',
     GetRequestType = ResetRequest, GetResponseType = ResetConfirmation\<rparr>"

definition StartTransactionFeature :: "gotype Feature" where
  "StartTransactionFeature = \<lparr>GetFeatureName = ''StartTransaction'',
     GetRequestType = StartTransactionRequest, GetResponseType = StartTransactionConfirmation\<rparr>"

definition StatusNotificationFeature :: "gotype Feature" where
  "StatusNotificationFeature = \<lparr>GetFeatureName = ''StatusNotification'',
     GetRequestType = StatusNotificationRequest, GetResponseType = StatusNotificationConfirmation\<rparr>"

definition StopTransactionFeature :: "gotype Feature" where
  "StopTransactionFeature = \<lparr>GetFeatureName = ''StopTransaction'',
     GetRequestType = StopTransactionRequest, GetResponseType = StopTransactionConfirmation\<rparr>"

definition UnlockConnectorFeature :: "gotype Feature" where
  "UnlockConnectorFeature = \<lparr>GetFeatureName = ''UnlockConnector'',
     GetRequestType = UnlockConnectorRequest, GetResponseType = UnlockConnectorConfirmation\<rparr>"

definition core_features :: "gotype Feature list" where
  "core_features =
     [BootNotificationFeature,
      AuthorizeFeature,
      ChangeAvailabilityFeature,
      ChangeConfigurationFeature,
      ClearCacheFeature,
      DataTransferFeature,
      GetConfigurationFeature,
      HeartbeatFeature,
      MeterValuesFeature,
      RemoteStartTransactionFeature,
      RemoteStopTransactionFeature,
      StartTransactionFeature,
      StopTransactionFeature,
      StatusNotificationFeature,
      ResetFeature,
      UnlockConnectorFeature]"

definition core_Profile :: "gotype Profile" where
  "core_Profile = NewProfile ''Core'' core_features"

section \<open>Package \<^verbatim>\<open>localauth\<close>\<close>

definition isValidUpdateType :: "string \<Rightarrow> bool" where
  "isValidUpdateType status \<longleftrightarrow> status \<in> set
    [''Differential'', ''Full'']"

definition isValidUpdateStatus :: "string \<Rightarrow> bool" where
  "isValidUpdateStatus status \<longleftrightarrow> status \<in> set
    [''Accepted'', ''Failed'', ''NotSupported'', ''VersionMismatch'']"

definition GetLocalListVersionRequest :: gotype where
  "GetLocalListVersionRequest = TStruct ''localauth.GetLocalListVersionRequest''
     []"

definition GetLocalListVersionConfirmation :: gotype where
  "GetLocalListVersionConfirmation = TStruct ''localauth.GetLocalListVersionConfirmation''
     [Field ''ListVersion'' ''listVersion'' False ''gte=-1'' TInt]"

definition AuthorizationData :: gotype where
  "AuthorizationData = TStruct ''localauth.AuthorizationData''
     [Field ''IdTag'' ''idTag'' False ''required,max=20'' TString,
      Field ''IdTagInfo'' ''idTagInfo'' True '''' (TPtr IdTagInfo)]"

definition SendLocalListRequest :: gotype where
  "SendLocalListRequest = TStruct ''localauth.SendLocalListRequest''
     [Field ''ListVersion'' ''listVersion'' False ''gte=0'' TInt,
      Field ''LocalAuthorizationList'' ''localAuthorizationList'' True ''omitempty,dive'' (TSlice AuthorizationData),
      Field ''UpdateType'' ''updateType'' False ''required,updateType16'' TString]"

definition SendLocalListConfirmation :: gotype where
  "SendLocalListConfirmation = TStruct ''localauth.SendLocalListConfirmation''
     [Field ''Status'' ''status'' False ''required,updateStatus'' TString]"

definition NewGetLocalListVersionRequest :: "message" where
  "NewGetLocalListVersionRequest =
     new GetLocalListVersionRequest
     []"

definition NewGetLocalListVersionConfirmation :: "int \<Rightarrow> message" where
  "NewGetLocalListVersionConfirmation version =
     new GetLocalListVersionConfirmation
     [(''ListVersion'', VInt version)]"

definition NewSendLocalListRequest :: "int \<Rightarrow> string \<Rightarrow> message" where
  "NewSendLocalListRequest version updateType =
     new SendLocalListRequest
     [(''ListVersion'', VInt version),
       (''UpdateType'', VString updateType)]"

definition NewSendLocalListConfirmation :: "string \<Rightarrow> message" where
  "NewSendLocalListConfirmation st =
     new SendLocalListConfirmation
     [(''Status'', VString st)]"

definition GetLocalListVersionFeature :: "gotype Feature" where
  "GetLocalListVersionFeature = \<lparr>GetFeatureName = ''GetLocalListVersion'',
     GetRequestType = GetLocalListVersionRequest, GetResponseType = GetLocalListVersionConfirmation\<rparr>"

definition SendLocalListFeature :: "gotype Feature" where
  "SendLocalListFeature = \<lparr>GetFeatureName = ''SendLocalList'',
     GetRequestType = SendLocalListRequest, GetResponseType = SendLocalListConfirmation\<rparr>"

definition localauth_features :: "gotype Feature list" where
  "localauth_features =
     [GetLocalListVersionFeature,
      SendLocalListFeature]"

definition localauth_Profile :: "gotype Profile" where
  "localauth_Profile = NewProfile ''LocalAuthListManagement'' localauth_features"

section \<open>Package \<^verbatim>\<open>firmware\<close>\<close>

definition isValidDiagnosticsStatus :: "string \<Rightarrow> bool" where
  "isValidDiagnosticsStatus status \<longleftrightarrow> status \<in> set
    [''Idle'', ''Uploaded'', ''UploadFailed'', ''Uploading'']"

definition isValidFirmwareStatus :: "string \<Rightarrow> bool" where
  "isValidFirmwareStatus status \<longleftrightarrow> status \<in> set
    [''Downloaded'', ''DownloadFailed'', ''Downloading'', ''Idle'',
     ''InstallationFailed'', ''Installing'', ''Installed'']"

definition DiagnosticsStatusNotificationRequest :: gotype where
  "DiagnosticsStatusNotificationRequest = TStruct ''firmware.DiagnosticsStatusNotificationRequest''
     [Field ''Status'' ''status'' False ''required,diagnosticsStatus'' TString]"

definition DiagnosticsStatusNotificationConfirmation :: gotype where
  "DiagnosticsStatusNotificationConfirmation = TStruct ''firmware.DiagnosticsStatusNotificationConfirmation''
     []"

definition FirmwareStatusNotificationRequest :: gotype where
  "FirmwareStatusNotificationRequest = TStruct ''firmware.FirmwareStatusNotificationRequest''
     [Field ''Status'' ''status'' False ''required,firmwareStatus16'' TString]"

definition FirmwareStatusNotificationConfirmation :: gotype where
  "FirmwareStatusNotificationConfirmation = TStruct ''firmware.FirmwareStatusNotificationConfirmation''
     []"

definition GetDiagnosticsRequest :: gotype where
  "GetDiagnosticsRequest = TStruct ''firmware.GetDiagnosticsRequest''
     [Field ''Location'' ''location'' False ''required,uri'' TString,
      Field ''Retries'' ''retries'' True ''omitempty,gte=0'' (TPtr TInt),
      Field ''RetryInterval'' ''retryInterval'' True ''omitempty,gte=0'' (TPtr TInt),
      Field ''StartTime'' ''startTime'' True '''' (TPtr TTime),
      Field ''StopTime'' ''stopTime'' True '''' (TPtr TTime)]"

definition GetDiagnosticsConfirmation :: gotype where
  "GetDiagnosticsConfirmation = TStruct ''firmware.GetDiagnosticsConfirmation''
     [Field ''FileName'' ''fileName'' True ''max=255'' TString]"

definition UpdateFirmwareRequest :: gotype where
  "UpdateFirmwareRequest = TStruct ''firmware.UpdateFirmwareRequest''
     [Field ''Location'' ''location'' False ''required,uri'' TString,
      Field ''Retries'' ''retries'' True ''omitempty,gte=0'' (TPtr TInt),
      Field ''RetrieveDate'' ''retrieveDate'' False ''required'' (TPtr TTime),
      Field ''RetryInterval'' ''retryInterval'' True ''omitempty,gte=0'' (TPtr TInt)]"

definition UpdateFirmwareConfirmation :: gotype where
  "UpdateFirmwareConfirmation = TStruct ''firmware.UpdateFirmwareConfirmation''
     []"

definition NewDiagnosticsStatusNotificationRequest :: "string \<Rightarrow> message" where
  "NewDiagnosticsStatusNotificationRequest st =
     new DiagnosticsStatusNotificationRequest
     [(''Status'', VString st)]"

definition NewDiagnosticsStatusNotificationConfirmation :: "message" where
  "NewDiagnosticsStatusNotificationConfirmation =
     new DiagnosticsStatusNotificationConfirmation
     []"

definition NewFirmwareStatusNotificationRequest :: "string \<Rightarrow> message" where
  "NewFirmwareStatusNotificationRequest st =
     new FirmwareStatusNotificationRequest
     [(''Status'', VString st)]"

definition NewFirmwareStatusNotificationConfirmation :: "message" where
  "NewFirmwareStatusNotificationConfirmation =
     new FirmwareStatusNotificationConfirmation
     []"

definition NewGetDiagnosticsRequest :: "string \<Rightarrow> message" where
  "NewGetDiagnosticsRequest location =
     new GetDiagnosticsRequest
     [(''Location'', VString location)]"

definition NewGetDiagnosticsConfirmation :: "message" where
  "NewGetDiagnosticsConfirmation =
     new GetDiagnosticsConfirmation
     []"

definition NewUpdateFirmwareRequest :: "string \<Rightarrow> gotime option \<Rightarrow> message" where
  "NewUpdateFirmwareRequest location retrieveDate =
     new UpdateFirmwareRequest
     [(''Location'', VString location),
       (''RetrieveDate'', timePtr retrieveDate)]"

definition NewUpdateFirmwareConfirmation :: "message" where
  "NewUpdateFirmwareConfirmation =
     new UpdateFirmwareConfirmation
     []"

definition DiagnosticsStatusNotificationFeature :: "gotype Feature" where
  "DiagnosticsStatusNotificationFeature = \<lparr>GetFeatureName = ''DiagnosticsStatusNotification'',
     GetRequestType = DiagnosticsStatusNotificationRequest, GetResponseType = DiagnosticsStatusNotificationConfirmation\<rparr>"

definition FirmwareStatusNotificationFeature :: "gotype Feature" where
  "FirmwareStatusNotificationFeature = \<lparr>GetFeatureName = ''FirmwareStatusNotification'',
     GetRequestType = FirmwareStatusNotificationRequest, GetResponseType = FirmwareStatusNotificationConfirmation\<rparr>"

definition GetDiagnosticsFeature :: "gotype Feature" where
  "GetDiagnosticsFeature = \<lparr>GetFeatureName = ''GetDiagnostics'',
     GetRequestType = GetDiagnosticsRequest, GetResponseType = GetDiagnosticsConfirmation\<rparr>"

definition UpdateFirmwareFeature :: "gotype Feature" where
  "UpdateFirmwareFeature = \<lparr>GetFeatureName = ''UpdateFirmware'',
     GetRequestType = UpdateFirmwareRequest, GetResponseType = UpdateFirmwareConfirmation\<rparr>"

definition firmware_features :: "gotype Feature list" where
  "firmware_features =
     [GetDiagnosticsFeature,
      DiagnosticsStatusNotificationFeature,
      FirmwareStatusNotificationFeature,
      UpdateFirmwareFeature]"

definition firmware_Profile :: "gotype Profile" where
  "firmware_Profile = NewProfile ''FirmwareManagement'' firmware_features"

section \<open>Package \<^verbatim>\<open>reservation\<close>\<close>

definition isValidCancelReservationStatus :: "string \<Rightarrow> bool" where
  "isValidCancelReservationStatus status \<longleftrightarrow> status \<in> set
    [''Accepted'', ''Rejected'']"

definition isValidReservationStatus :: "string \<Rightarrow> bool" where
  "isValidReservationStatus status \<longleftrightarrow> status \<in> set
    [''Accepted'', ''Faulted'', ''Occupied'', ''Rejected'', ''Unavailable'']"

definition CancelReservationRequest :: gotype where
  "CancelReservationRequest = TStruct ''reservation.CancelReservationRequest''
     [Field ''ReservationId'' ''reservationId'' False '''' TInt]"

definition CancelReservationConfirmation :: gotype where
  "CancelReservationConfirmation = TStruct ''reservation.CancelReservationConfirmation''
     [Field ''Status'' ''status'' False ''required,cancelReservationStatus16'' TString]"

definition ReserveNowRequest :: gotype where
  "ReserveNowRequest = TStruct ''reservation.ReserveNowRequest''
     [Field ''ConnectorId'' ''connectorId'' False ''gte=0'' TInt,
      Field ''ExpiryDate'' ''expiryDate'' False ''required'' (TPtr TTime),
      Field ''IdTag'' ''idTag'' False ''required,max=20'' TString,
      Field ''ParentIdTag'' ''parentIdTag'' True ''max=20'' TString,
      Field ''ReservationId'' ''reservationId'' False '''' TInt]"

definition ReserveNowConfirmation :: gotype where
  "ReserveNowConfirmation = TStruct ''reservation.ReserveNowConfirmation''
     [Field ''Status'' ''status'' False ''required,reservationStatus'' TString]"

definition NewCancelReservationRequest :: "int \<Rightarrow> message" where
  "NewCancelReservationRequest reservationId =
     new CancelReservationRequest
     [(''ReservationId'', VInt reservationId)]"

definition NewCancelReservationConfirmation :: "string \<Rightarrow> message" where
  "NewCancelReservationConfirmation st =
     new CancelReservationConfirmation
     [(''Status'', VString st)]"

definition NewReserveNowRequest :: "int \<Rightarrow> gotime option \<Rightarrow> string \<Rightarrow> int \<Rightarrow> message" where
  "NewReserveNowRequest connectorId expiryDate idTag reservationId =
     new ReserveNowRequest
     [(''ConnectorId'', VInt connectorId),
       (''ExpiryDate'', timePtr expiryDate),
       (''IdTag'', VString idTag),
       (''ReservationId'', VInt reservationId)]"

definition NewReserveNowConfirmation :: "string \<Rightarrow> message" where
  "NewReserveNowConfirmation st =
     new ReserveNowConfirmation
     [(''Status'', VString st)]"

definition CancelReservationFeature :: "gotype Feature" where
  "CancelReservationFeature = \<lparr>GetFeatureName = ''CancelReservation'',
     GetRequestType = CancelReservationRequest, GetResponseType = CancelReservationConfirmation\<rparr>"

definition ReserveNowFeature :: "gotype Feature" where
  "ReserveNowFeature = \<lparr>GetFeatureName = ''ReserveNow'',
     GetRequestType = ReserveNowRequest, GetResponseType = ReserveNowConfirmation\<rparr>"

definition reservation_features :: "gotype Feature list" where
  "reservation_features =
     [ReserveNowFeature,
      CancelReservationFeature]"

definition reservation_Profile :: "gotype Profile" where
  "reservation_Profile = NewProfile ''Reservation'' reservation_features"

section \<open>Package \<^verbatim>\<open>remotetrigger\<close>\<close>

definition isValidTriggerMessageStatus :: "string \<Rightarrow> bool" where
  "isValidTriggerMessageStatus status \<longleftrightarrow> status \<in> set
    [''Accepted'', ''Rejected'', ''NotImplemented'']"

definition isValidMessageTrigger :: "string \<Rightarrow> bool" where
  "isValidMessageTrigger trigger \<longleftrightarrow> trigger \<in> set
    [''BootNotification'', ''DiagnosticsStatusNotification'',
     ''FirmwareStatusNotification'', ''Heartbeat'', ''MeterValues'',
     ''StatusNotification'']"

definition TriggerMessageRequest :: gotype where
  "TriggerMessageRequest = TStruct ''remotetrigger.TriggerMessageRequest''
     [Field ''RequestedMessage'' ''requestedMessage'' False ''required,messageTrigger16'' TString,
      Field ''ConnectorId'' ''connectorId'' True ''omitempty,gte=0'' (TPtr TInt)]"

definition TriggerMessageConfirmation :: gotype where
  "TriggerMessageConfirmation = TStruct ''remotetrigger.TriggerMessageConfirmation''
     [Field ''Status'' ''status'' False ''required,triggerMessageStatus16'' TString]"

definition NewTriggerMessageRequest :: "string \<Rightarrow> message" where
  "NewTriggerMessageRequest requestedMessage =
     new TriggerMessageRequest
     [(''RequestedMessage'', VString requestedMessage)]"

definition NewTriggerMessageConfirmation :: "string \<Rightarrow> message" where
  "NewTriggerMessageConfirmation st =
     new TriggerMessageConfirmation
     [(''Status'', VString st)]"

definition TriggerMessageFeature :: "gotype Feature" where
  "TriggerMessageFeature = \<lparr>GetFeatureName = ''TriggerMessage'',
     GetRequestType = TriggerMessageRequest, GetResponseType = TriggerMessageConfirmation\<rparr>"

definition remotetrigger_features :: "gotype Feature list" where
  "remotetrigger_features =
     [TriggerMessageFeature]"

definition remotetrigger_Profile :: "gotype Profile" where
  "remotetrigger_Profile = NewProfile ''RemoteTrigger'' remotetrigger_features"

section \<open>Package \<^verbatim>\<open>smartcharging\<close>\<close>

definition isValidClearChargingProfileStatus :: "string \<Rightarrow> bool" where
  "isValidClearChargingProfileStatus status \<longleftrightarrow> status \<in> set
    [''Accepted'', ''Unknown'']"

definition isValidGetCompositeScheduleStatus :: "string \<Rightarrow> bool" where
  "isValidGetCompositeScheduleStatus status \<longleftrightarrow> status \<in> set
    [''Accepted'', ''Rejected'']"

definition isValidChargingProfileStatus :: "string \<Rightarrow> bool" where
  "isValidChargingProfileStatus status \<longleftrightarrow> status \<in> set
    [''Accepted'', ''Rejected'', ''NotSupported'']"

definition ClearChargingProfileRequest :: gotype where
  "ClearChargingProfileRequest = TStruct ''smartcharging.ClearChargingProfileRequest''
     [Field ''Id'' ''id'' True ''omitempty'' (TPtr TInt),
      Field ''ConnectorId'' ''connectorId'' True ''omitempty,gte=0'' (TPtr TInt),
      Field ''ChargingProfilePurpose'' ''chargingProfilePurpose'' True ''omitempty,chargingProfilePurpose16'' TString,
      Field ''StackLevel'' ''stackLevel'' True ''omitempty,gte=0'' (TPtr TInt)]"

definition ClearChargingProfileConfirmation :: gotype where
  "ClearChargingProfileConfirmation = TStruct ''smartcharging.ClearChargingProfileConfirmation''
     [Field ''Status'' ''status'' False ''required,clearChargingProfileStatus16'' TString]"

definition GetCompositeScheduleRequest :: gotype where
  "GetCompositeScheduleRequest = TStruct ''smartcharging.GetCompositeScheduleRequest''
     [Field ''ConnectorId'' ''connectorId'' False ''gte=0'' TInt,
      Field ''Duration'' ''duration'' False ''gte=0'' TInt,
      Field ''ChargingRateUnit'' ''chargingRateUnit'' True ''omitempty,chargingRateUnit16'' TString]"

definition GetCompositeScheduleConfirmation :: gotype where
  "GetCompositeScheduleConfirmation = TStruct ''smartcharging.GetCompositeScheduleConfirmation''
     [Field ''Status'' ''status'' False ''required,compositeScheduleStatus'' TString,
      Field ''ConnectorId'' ''connectorId'' True ''omitempty,gte=0'' (TPtr TInt),
      Field ''ScheduleStart'' ''scheduleStart'' True '''' (TPtr TTime),
      Field ''ChargingSchedule'' ''chargingSchedule'' True ''omitempty'' (TPtr ChargingSchedule)]"

definition SetChargingProfileRequest :: gotype where
  "SetChargingProfileRequest = TStruct ''smartcharging.SetChargingProfileRequest''
     [Field ''ConnectorId'' ''connectorId'' False ''gte=0'' TInt,
      Field ''ChargingProfile'' ''csChargingProfiles'' False ''required'' (TPtr ChargingProfile)]"

definition SetChargingProfileConfirmation :: gotype where
  "SetChargingProfileConfirmation = TStruct ''smartcharging.SetChargingProfileConfirmation''
     [Field ''Status'' ''status'' False ''required,chargingProfileStatus16'' TString]"

definition NewClearChargingProfileRequest :: "message" where
  "NewClearChargingProfileRequest =
     new ClearChargingProfileRequest
     []"

definition NewClearChargingProfileConfirmation :: "string \<Rightarrow> message" where
  "NewClearChargingProfileConfirmation st =
     new ClearChargingProfileConfirmation
     [(''Status'', VString st)]"

definition NewGetCompositeScheduleRequest :: "int \<Rightarrow> int \<Rightarrow> message" where
  "NewGetCompositeScheduleRequest connectorId duration =
     new GetCompositeScheduleRequest
     [(''ConnectorId'', VInt connectorId), (''Duration'', VInt duration)]"

definition NewGetCompositeScheduleConfirmation :: "string \<Rightarrow> message" where
  "NewGetCompositeScheduleConfirmation st =
     new GetCompositeScheduleConfirmation
     [(''Status'', VString st)]"

definition NewSetChargingProfileRequest :: "int \<Rightarrow> goval \<Rightarrow> message" where
  "NewSetChargingProfileRequest connectorId chargingProfile =
     new SetChargingProfileRequest
     [(''ConnectorId'', VInt connectorId),
       (''ChargingProfile'', chargingProfile)]"

definition NewSetChargingProfileConfirmation :: "string \<Rightarrow> message" where
  "NewSetChargingProfileConfirmation st =
     new SetChargingProfileConfirmation
     [(''Status'', VString st)]"

definition ClearChargingProfileFeature :: "gotype Feature" where
  "ClearChargingProfileFeature = \<lparr>GetFeatureName = ''ClearChargingProfile'',
     GetRequestType = ClearChargingProfileRequest, GetResponseType = ClearChargingProfileConfirmation\<rparr>"

definition GetCompositeScheduleFeature :: "gotype Feature" where
  "GetCompositeScheduleFeature = \<lparr>GetFeatureName = ''GetCompositeSchedule'',
     GetRequestType = GetCompositeScheduleRequest, GetResponseType = GetCompositeScheduleConfirmation\<rparr>"

definition SetChargingProfileFeature :: "gotype Feature" where
  "SetChargingProfileFeature = \<lparr>GetFeatureName = ''SetChargingProfile'',
     GetRequestType = SetChargingProfileRequest, GetResponseType = SetChargingProfileConfirmation\<rparr>"

definition smartcharging_features :: "gotype Feature list" where
  "smartcharging_features =
     [SetChargingProfileFeature,
      ClearChargingProfileFeature,
      GetCompositeScheduleFeature]"

definition smartcharging_Profile :: "gotype Profile" where
  "smartcharging_Profile = NewProfile ''SmartCharging'' smartcharging_features"

end
