(* ===== verification/RequestQueue.thy ===== *)
theory RequestQueue
  imports Prelude
begin

text \<open>
  \<^verbatim>\<open>ocppj/queue.go\<close>: the bounded FIFO queue of outgoing requests and the map that holds one such
  queue per client. The mutex of each structure makes its methods atomic.
\<close>

section \<open>FIFOClientQueue\<close>

text \<open>\<^verbatim>\<open>capacity\<close> is a Go \<^verbatim>\<open>int\<close>; 0 means unbounded, and \<^verbatim>\<open>make\<close> panics on a negative one.\<close>

record 'a FIFOClientQueue =
  elements :: "'a list"
  capacity :: int

definition NewFIFOClientQueue :: "int \<Rightarrow> 'a FIFOClientQueue go" where
  "NewFIFOClientQueue cap =
     (if cap < 0 then Panic ''makeslice: cap out of range''
      else Ret \<lparr>elements = [], capacity = cap\<rparr>)"

definition FIFOClientQueue_Init :: "'a FIFOClientQueue \<Rightarrow> 'a FIFOClientQueue go" where
  "FIFOClientQueue_Init q =
     (if capacity q < 0 then Panic ''makeslice: cap out of range'' else Ret (q\<lparr>elements := []\<rparr>))"

definition IsFull :: "'a FIFOClientQueue \<Rightarrow> bool" where
  "IsFull q \<longleftrightarrow> int (length (elements q)) \<ge> capacity q \<and> capacity q > 0"

definition IsEmpty :: "'a FIFOClientQueue \<Rightarrow> bool" where
  "IsEmpty q \<longleftrightarrow> length (elements q) = 0"

definition Size :: "'a FIFOClientQueue \<Rightarrow> int" where
  "Size q = int (length (elements q))"

definition Push :: "'a \<Rightarrow> 'a FIFOClientQueue \<Rightarrow> string option \<times> 'a FIFOClientQueue" where
  "Push element q =
     (if int (length (elements q)) \<ge> capacity q \<and> capacity q > 0
      then (Some ''request queue is full, cannot push new element'', q)
      else (None, q\<lparr>elements := elements q @ [element]\<rparr>))"

definition Peek :: "'a FIFOClientQueue \<Rightarrow> 'a option" where
  "Peek q = (case elements q of [] \<Rightarrow> None | x # _ \<Rightarrow> Some x)"

definition Pop :: "'a FIFOClientQueue \<Rightarrow> 'a option \<times> 'a FIFOClientQueue" where
  "Pop q = (case elements q of [] \<Rightarrow> (None, q) | x # xs \<Rightarrow> (Some x, q\<lparr>elements := xs\<rparr>))"

text \<open>Within capacity: what every queue built by the constructor and the methods satisfies.\<close>

definition queue_wf :: "'a FIFOClientQueue \<Rightarrow> bool" where
  "queue_wf q \<longleftrightarrow> 0 \<le> capacity q \<and> (capacity q > 0 \<longrightarrow> int (length (elements q)) \<le> capacity q)"

named_theorems queue_defs "the methods of the request queue"

lemmas [queue_defs] =
  NewFIFOClientQueue_def FIFOClientQueue_Init_def IsFull_def IsEmpty_def Size_def Push_def
  Peek_def Pop_def

lemma Peek_eq_None [simp]: "Peek q = None \<longleftrightarrow> elements q = []"
  by (simp add: Peek_def split: list.splits)

lemma Peek_eq_Some [simp]: "Peek q = Some x \<longleftrightarrow> (\<exists>xs. elements q = x # xs)"
  by (auto simp: Peek_def split: list.splits)

lemma elements_Pop [simp]: "elements (snd (Pop q)) = tl (elements q)"
  by (simp add: Pop_def split: list.splits)

lemma capacity_ops [simp]:
  "capacity (snd (Pop q)) = capacity q" "capacity (snd (Push x q)) = capacity q"
  by (simp_all add: Pop_def Push_def split: list.splits)

lemma Push_None: "Push x q = (None, q') \<longleftrightarrow> \<not> IsFull q \<and> q' = q\<lparr>elements := elements q @ [x]\<rparr>"
  by (auto simp: Push_def IsFull_def)

lemma IsEmpty_iff [simp]: "IsEmpty q \<longleftrightarrow> elements q = []"
  by (simp add: IsEmpty_def)

lemma queue_wf_ops:
  "queue_wf q \<Longrightarrow> queue_wf (snd (Push x q))"
  "queue_wf q \<Longrightarrow> queue_wf (snd (Pop q))"
  "NewFIFOClientQueue c = Ret q' \<Longrightarrow> queue_wf q'"
  "FIFOClientQueue_Init q = Ret q' \<Longrightarrow> queue_wf q'"
  by (auto simp: queue_wf_def queue_defs split: list.splits if_splits)

section \<open>The interface the dispatchers rely on\<close>

text \<open>
  \<^verbatim>\<open>RequestQueue\<close> as an interface: a sequence, \<open>push\<close> at the end unless the queue is full,
  \<open>peek\<close> and \<open>pop\<close> at the front.
\<close>

locale request_queue =
  fixes els :: "'q \<Rightarrow> 'a list"
    and wf full empty :: "'q \<Rightarrow> bool"
    and push :: "'a \<Rightarrow> 'q \<Rightarrow> string option \<times> 'q"
    and peek :: "'q \<Rightarrow> 'a option"
    and pop :: "'q \<Rightarrow> 'a option \<times> 'q"
  assumes push_ok: "wf q \<Longrightarrow> \<not> full q \<Longrightarrow>
      fst (push x q) = None \<and> wf (snd (push x q)) \<and> els (snd (push x q)) = els q @ [x]"
    and push_full: "wf q \<Longrightarrow> full q \<Longrightarrow> fst (push x q) \<noteq> None \<and> snd (push x q) = q"
    and peek_els: "wf q \<Longrightarrow> peek q = (case els q of [] \<Rightarrow> None | x # _ \<Rightarrow> Some x)"
    and pop_peek: "wf q \<Longrightarrow> fst (pop q) = peek q"
    and pop_els: "wf q \<Longrightarrow> wf (snd (pop q)) \<and> els (snd (pop q)) = tl (els q)"
    and empty_els: "wf q \<Longrightarrow> empty q \<longleftrightarrow> els q = []"
begin

primrec push_all :: "'a list \<Rightarrow> 'q \<Rightarrow> 'a list \<times> 'q" where
  "push_all [] q = ([], q)"
| "push_all (x # xs) q =
     (case push x q of
        (None, q') \<Rightarrow> (case push_all xs q' of (ys, q'') \<Rightarrow> (x # ys, q''))
      | (Some e, q') \<Rightarrow> push_all xs q')"

primrec pop_n :: "nat \<Rightarrow> 'q \<Rightarrow> 'a list \<times> 'q" where
  "pop_n 0 q = ([], q)"
| "pop_n (Suc n) q =
     (case pop q of
        (None, q') \<Rightarrow> ([], q')
      | (Some x, q') \<Rightarrow> (case pop_n n q' of (xs, q'') \<Rightarrow> (x # xs, q'')))"

lemma push_all_els:
  assumes "wf q"
  shows "wf (snd (push_all xs q)) \<and> els (snd (push_all xs q)) = els q @ fst (push_all xs q)"
  using assms
proof (induction xs arbitrary: q)
  case (Cons x xs)
  show ?case
  proof (cases "full q")
    case True
    with push_full[OF Cons.prems, of x] Cons show ?thesis
      by (cases "push x q") auto
  next
    case False
    with push_ok[OF Cons.prems, of x] Cons.IH[of "snd (push x q)"] show ?thesis
      by (cases "push x q") (auto split: prod.splits)
  qed
qed simp

lemma pop_n_els:
  "wf q \<Longrightarrow> wf (snd (pop_n n q)) \<and> fst (pop_n n q) = take n (els q) \<and>
     els (snd (pop_n n q)) = drop n (els q)"
proof (induction n arbitrary: q)
  case (Suc n)
  show ?case
  proof (cases "els q")
    case Nil
    with Suc.prems pop_peek[of q] peek_els[of q] pop_els[of q] show ?thesis
      by (cases "pop q") (auto split: option.splits)
  next
    case (Cons x xs)
    with Suc.prems pop_peek[of q] peek_els[of q] pop_els[of q] Suc.IH[of "snd (pop q)"] show ?thesis
      by (cases "pop q") (auto split: prod.splits)
  qed
qed simp

text \<open>What is popped is what was accepted, in the order in which it was accepted.\<close>

lemma fifo:
  assumes "wf q" "els q = []"
  shows "fst (pop_n n (snd (push_all xs q))) = take n (fst (push_all xs q))"
  using push_all_els[OF assms(1), of xs] pop_n_els assms(2) by auto

end

interpretation fifo: request_queue elements queue_wf IsFull IsEmpty Push Peek Pop
  by unfold_locales
    (auto simp: queue_wf_def IsFull_def Push_def Peek_def Pop_def split: list.splits)

section \<open>FIFOQueueMap\<close>

text \<open>
  The map holds references: the server's message pump keeps the reference it looked up across
  iterations of its loop, while other goroutines remove and re-create the entry of the same
  client. References are addresses into \<open>heap\<close>, which stands for the Go heap cells of the
  queues; \<open>next_ref\<close> is the next fresh address.
\<close>

type_synonym ref = nat

record 'a FIFOQueueMap =
  data :: "string \<rightharpoonup> ref"
  queueCapacity :: int
  heap :: "ref \<Rightarrow> 'a FIFOClientQueue"
  next_ref :: ref

definition NewFIFOQueueMap :: "int \<Rightarrow> 'a FIFOQueueMap" where
  "NewFIFOQueueMap clientQueueCapacity =
     \<lparr>data = Map.empty, queueCapacity = clientQueueCapacity,
      heap = (\<lambda>_. \<lparr>elements = [], capacity = clientQueueCapacity\<rparr>), next_ref = 0\<rparr>"

definition FIFOQueueMap_Init :: "'a FIFOQueueMap \<Rightarrow> 'a FIFOQueueMap" where
  "FIFOQueueMap_Init f = f\<lparr>data := Map.empty\<rparr>"

definition FIFOQueueMap_Get :: "string \<Rightarrow> 'a FIFOQueueMap \<Rightarrow> ref option" where
  "FIFOQueueMap_Get clientID f = data f clientID"

definition FIFOQueueMap_Add :: "string \<Rightarrow> ref \<Rightarrow> 'a FIFOQueueMap \<Rightarrow> 'a FIFOQueueMap" where
  "FIFOQueueMap_Add clientID queue f = f\<lparr>data := (data f)(clientID \<mapsto> queue)\<rparr>"

definition FIFOQueueMap_Remove :: "string \<Rightarrow> 'a FIFOQueueMap \<Rightarrow> 'a FIFOQueueMap" where
  "FIFOQueueMap_Remove clientID f = f\<lparr>data := (data f)(clientID := None)\<rparr>"

definition GetOrCreate :: "string \<Rightarrow> 'a FIFOQueueMap \<Rightarrow> (ref \<times> 'a FIFOQueueMap) go" where
  "GetOrCreate clientID f =
     (case data f clientID of
        Some q \<Rightarrow> Ret (q, f)
      | None \<Rightarrow>
          bind_go (NewFIFOClientQueue (queueCapacity f)) (\<lambda>q.
            Ret (next_ref f,
                 f\<lparr>data := (data f)(clientID \<mapsto> next_ref f),
                   heap := (heap f)(next_ref f := q),
                   next_ref := Suc (next_ref f)\<rparr>)))"

text \<open>An operation on the queue behind a reference.\<close>

definition upd_queue ::
  "ref \<Rightarrow> 'a FIFOClientQueue \<Rightarrow> 'a FIFOQueueMap \<Rightarrow> 'a FIFOQueueMap" where
  "upd_queue r q f = f\<lparr>heap := (heap f)(r := q)\<rparr>"

text \<open>The queue of a client, seen through the map.\<close>

definition queueOf :: "string \<Rightarrow> 'a FIFOQueueMap \<Rightarrow> 'a FIFOClientQueue option" where
  "queueOf clientID f = map_option (heap f) (data f clientID)"

text \<open>
  References in the map are allocated, no two clients share one, and every queue is within
  its capacity.
\<close>

definition map_wf :: "'a FIFOQueueMap \<Rightarrow> bool" where
  "map_wf f \<longleftrightarrow>
     0 \<le> queueCapacity f \<and>
     (\<forall>c r. data f c = Some r \<longrightarrow> r < next_ref f \<and> queue_wf (heap f r)) \<and>
     (\<forall>c d r. data f c = Some r \<longrightarrow> data f d = Some r \<longrightarrow> c = d)"

named_theorems qmap_defs "the methods of the queue map"

lemmas [qmap_defs] =
  NewFIFOQueueMap_def FIFOQueueMap_Init_def FIFOQueueMap_Get_def FIFOQueueMap_Add_def
  FIFOQueueMap_Remove_def GetOrCreate_def upd_queue_def

lemma map_wf_New: "0 \<le> c \<Longrightarrow> map_wf (NewFIFOQueueMap c)"
  by (simp add: map_wf_def NewFIFOQueueMap_def)

lemma map_wf_Init: "map_wf f \<Longrightarrow> map_wf (FIFOQueueMap_Init f)"
  by (simp add: map_wf_def FIFOQueueMap_Init_def)

lemma map_wf_Remove: "map_wf f \<Longrightarrow> map_wf (FIFOQueueMap_Remove c f)"
  by (auto simp: map_wf_def FIFOQueueMap_Remove_def split: if_splits)

lemma map_wf_upd: "map_wf f \<Longrightarrow> queue_wf q \<Longrightarrow> map_wf (upd_queue r q f)"
  unfolding map_wf_def upd_queue_def by auto

lemma GetOrCreate_total:
  assumes "map_wf f"
  shows "\<exists>r f'. GetOrCreate c f = Ret (r, f') \<and> map_wf f' \<and> data f' c = Some r \<and>
    queueOf c f' = (case queueOf c f of
        None \<Rightarrow> Some \<lparr>elements = [], capacity = queueCapacity f\<rparr> | Some q \<Rightarrow> Some q) \<and>
    (\<forall>d. d \<noteq> c \<longrightarrow> queueOf d f' = queueOf d f)"
proof (cases "data f c")
  case (Some r)
  with assms show ?thesis by (auto simp: GetOrCreate_def queueOf_def)
next
  case None
  have fresh: "data f d \<noteq> Some (next_ref f)" for d
    using assms by (auto simp: map_wf_def)
  let ?f' = "f\<lparr>data := (data f)(c \<mapsto> next_ref f),
    heap := (heap f)(next_ref f := \<lparr>elements = [], capacity = queueCapacity f\<rparr>),
    next_ref := Suc (next_ref f)\<rparr>"
  have eq: "GetOrCreate c f = Ret (next_ref f, ?f')"
    using None assms by (simp add: GetOrCreate_def NewFIFOClientQueue_def map_wf_def)
  have "map_wf ?f'"
    using assms fresh by (auto simp: map_wf_def queue_wf_def less_Suc_eq split: if_splits)
  moreover have "queueOf d ?f' = queueOf d f" if "d \<noteq> c" for d
    using that fresh[of d] by (cases "data f d") (auto simp: queueOf_def)
  ultimately show ?thesis
    using eq None by (auto simp: queueOf_def)
qed

lemma queueOf_Remove [simp]:
  "queueOf d (FIFOQueueMap_Remove c f) = (if d = c then None else queueOf d f)"
  by (simp add: queueOf_def FIFOQueueMap_Remove_def)

lemma queueOf_upd:
  "map_wf f \<Longrightarrow> data f c = Some r \<Longrightarrow>
     queueOf d (upd_queue r q f) = (if d = c then Some q else queueOf d f)"
  by (cases "data f d") (auto simp: queueOf_def upd_queue_def map_wf_def)

end
