(* ===== verification/Pipeline.thy ===== *)
theory Pipeline
  imports Prelude
begin

text \<open>
  What the dispatchers of \<^verbatim>\<open>ocppj/dispatcher.go\<close> are to implement: a pipeline with one request in
  flight, and the histories of a queue (what was accepted, what left it, what was written to the
  network) with the order they have to keep. Both are about sequences only; the dispatchers are
  related to them in their own theories.
\<close>

section \<open>A pipeline with one request in flight\<close>

text \<open>
  Requests wait in a line, the first one is transmitted, and only when it is finished the next
  one is. Shutting the pipeline down drops what waits.
\<close>

datatype 'b pipeline = Down | Up "'b list" bool "'b list"

inductive pipeline_step :: "'b pipeline \<Rightarrow> 'b pipeline \<Rightarrow> bool" where
  submit: "pipeline_step (Up q p fin) (Up (q @ [b]) p fin)"
| transmit: "pipeline_step (Up (b # q) False fin) (Up (b # q) True fin)"
| finish: "pipeline_step (Up (b # q) True fin) (Up q False (fin @ [b]))"
| shutdown: "pipeline_step (Up q p fin) Down"

definition pipeline_start :: "'b pipeline \<Rightarrow> bool" where
  "pipeline_start s \<longleftrightarrow> s = Up [] False []"

lemma pipeline_transmit:
  "pipeline_step\<^sup>*\<^sup>* (Up (b # q) p fin) (Up (b # q) True fin)"
  by (cases p) (auto intro: pipeline_step.transmit)

lemma pipeline_finish: "pipeline_step\<^sup>*\<^sup>* (Up (b # q) True fin) (Up q False (fin @ [b]))"
  by (rule r_into_rtranclp) (rule pipeline_step.finish)

section \<open>Histories\<close>

text \<open>
  \<open>hist_seq\<close>: accepted requests leave the queue in the order in which they entered it and none is
  lost; writes, each with the position of its request, happen in that order too.
\<close>

definition hist_seq :: "'b list \<Rightarrow> 'b list \<Rightarrow> (nat \<times> 'b) list \<Rightarrow> 'b list \<Rightarrow> bool" where
  "hist_seq acc fin wrt q \<longleftrightarrow>
     acc = fin @ q \<and>
     sorted (map fst wrt) \<and>
     (\<forall>k b. (k, b) \<in> set wrt \<longrightarrow> k \<le> length fin \<and> k < length acc \<and> acc ! k = b)"

lemma hist_seq_start: "hist_seq [] [] [] []"
  by (simp add: hist_seq_def)

lemma hist_seq_acc: "hist_seq acc fin wrt q \<Longrightarrow> acc = fin @ q"
  by (simp add: hist_seq_def)

lemma hist_seq_written:
  "hist_seq acc fin wrt q \<Longrightarrow> (k, c) \<in> set wrt \<Longrightarrow> k \<le> length fin \<and> k < length acc \<and> acc ! k = c"
  unfolding hist_seq_def by blast

lemma hist_seq_push:
  assumes "hist_seq acc fin wrt q"
  shows "hist_seq (acc @ [b]) fin wrt (q @ [b])"
proof -
  have "k \<le> length fin \<and> k < length (acc @ [b]) \<and> (acc @ [b]) ! k = c" if "(k, c) \<in> set wrt" for k c
    using hist_seq_written[OF assms that] by (simp add: nth_append)
  moreover have "acc @ [b] = fin @ q @ [b]" using hist_seq_acc[OF assms] by simp
  ultimately show ?thesis using assms unfolding hist_seq_def by blast
qed

lemma hist_seq_finish:
  assumes "hist_seq acc fin wrt (b # q)"
  shows "hist_seq acc (fin @ [b]) wrt q"
proof -
  have "k \<le> length (fin @ [b]) \<and> k < length acc \<and> acc ! k = c" if "(k, c) \<in> set wrt" for k c
    using hist_seq_written[OF assms that] by simp
  moreover have "acc = (fin @ [b]) @ q" using hist_seq_acc[OF assms] by simp
  ultimately show ?thesis using assms unfolding hist_seq_def by blast
qed

lemma hist_seq_write:
  assumes "hist_seq acc fin wrt (b # q)"
  shows "hist_seq acc fin (wrt @ [(length fin, b)]) (b # q)"
proof -
  have acc: "acc = fin @ b # q" by (rule hist_seq_acc[OF assms])
  have "k \<le> length fin \<and> k < length acc \<and> acc ! k = c"
    if "(k, c) \<in> set (wrt @ [(length fin, b)])" for k c
    using that hist_seq_written[OF assms, of k c] acc by auto
  moreover have "sorted (map fst (wrt @ [(length fin, b)]))"
    using assms by (auto simp: sorted_append hist_seq_def)
  ultimately show ?thesis using acc unfolding hist_seq_def by blast
qed

text \<open>
  \<open>hist_ok\<close> adds that every request that left was written first, and so was the front one while
  it is in flight (\<open>pend\<close>).
\<close>

definition hist_ok ::
  "'b list \<Rightarrow> 'b list \<Rightarrow> (nat \<times> 'b) list \<Rightarrow> 'b list \<Rightarrow> bool \<Rightarrow> bool" where
  "hist_ok acc fin wrt q pend \<longleftrightarrow>
     hist_seq acc fin wrt q \<and>
     (\<forall>k < length fin. k \<in> fst ` set wrt) \<and>
     (pend \<longrightarrow> length fin \<in> fst ` set wrt)"

lemma hist_start: "hist_ok [] [] [] [] False"
  by (simp add: hist_ok_def hist_seq_start)

lemma hist_acc: "hist_ok acc fin wrt q p \<Longrightarrow> acc = fin @ q"
  unfolding hist_ok_def by (blast dest: hist_seq_acc)

lemma hist_written:
  "hist_ok acc fin wrt q p \<Longrightarrow> (k, c) \<in> set wrt \<Longrightarrow> k \<le> length fin \<and> k < length acc \<and> acc ! k = c"
  using hist_seq_written[of acc fin wrt q k c] by (simp add: hist_ok_def)

lemma hist_push: "hist_ok acc fin wrt q p \<Longrightarrow> hist_ok (acc @ [b]) fin wrt (q @ [b]) p"
  by (simp add: hist_ok_def hist_seq_push)

lemma hist_finish:
  "hist_ok acc fin wrt (b # q) True \<Longrightarrow> hist_ok acc (fin @ [b]) wrt q False"
  by (auto simp: hist_ok_def hist_seq_finish less_Suc_eq)

lemma hist_write:
  "hist_ok acc fin wrt (b # q) p \<Longrightarrow> hist_ok acc fin (wrt @ [(length fin, b)]) (b # q) True"
  by (auto simp: hist_ok_def hist_seq_write)

lemma hist_front:
  assumes "hist_ok acc fin wrt (b # q) True"
  shows "(length fin, b) \<in> set wrt"
proof -
  obtain c where c: "(length fin, c) \<in> set wrt" using assms by (auto simp: hist_ok_def)
  then have "c = b" using hist_written[OF assms c] hist_acc[OF assms] by simp
  with c show ?thesis by simp
qed

lemma hist_seq_finishes:
  "hist_seq acc fin wrt (ps @ q) \<Longrightarrow> hist_seq acc (fin @ ps) wrt q"
  by (induction ps arbitrary: fin) (fastforce dest: hist_seq_finish)+

end
