(* ===== verification/ClientDispatcher.thy ===== *)
theory ClientDispatcher
  imports Message RequestQueue Pipeline
begin

text \<open>
  \<^verbatim>\<open>ocppj/dispatcher.go\<close>, \<^verbatim>\<open>DefaultClientDispatcher\<close>: the queue of outgoing requests of a client, the
  goroutine that sends them one at a time (\<^verbatim>\<open>messagePump\<close>), and the calls other goroutines make.

  The first part translates the methods. A method that ends by sending to a channel is split
  at that send, because the other goroutines run while it waits: \<^verbatim>\<open>SendRequest\<close> is \<open>enqueueRequest\<close>
  followed by \<open>signalRequest\<close>, \<^verbatim>\<open>CompleteRequest\<close> is \<open>finishRequest\<close> followed by \<open>signalReady\<close>.
  The pump itself calls \<^verbatim>\<open>CompleteRequest\<close> whole: it is the only reader of \<^verbatim>\<open>readyForDispatch\<close>, so
  when that channel is full the pump waits for itself, which is \<open>Block\<close>.

  The second part is the step relation \<open>cstep\<close> of a running dispatcher: any interleaving of these
  pieces with timer expiries, pauses, resumes and stops. Each piece is one step: what a goroutine
  does between two of its channel operations is not interleaved with the others. The third part
  proves what the step relation keeps, and what goes wrong when two removals do overlap.
\<close>

section \<open>The dispatcher\<close>

record 'v RequestBundle =
  bundle_Call :: "'v Call"
  bundle_Data :: json

abbreviation bundle_id :: "'v RequestBundle \<Rightarrow> string" where
  "bundle_id b \<equiv> Call_UniqueId (bundle_Call b)"

abbreviation bundle_req :: "'v RequestBundle \<Rightarrow> 'v" where
  "bundle_req b \<equiv> Call_Payload (bundle_Call b)"

record 'v DefaultClientDispatcher =
  requestQueue :: "'v RequestBundle FIFOClientQueue"
  requestChannel :: "bool chan option"
  readyForDispatch :: "bool chan"
  pendingState :: "'v clientState"
  network :: bool
  onRequestCancel :: bool
  timer :: "timer option"
  paused :: bool
  timeout :: int

text \<open>Durations in nanoseconds.\<close>

definition defaultTimeoutTick :: int where
  "defaultTimeoutTick = 24 * 60 * 60 * 1000000000"

definition defaultMessageTimeout :: int where
  "defaultMessageTimeout = 30 * 1000000000"

text \<open>
  What the dispatcher does to the outside: the requests it hands to \<^verbatim>\<open>network.Write\<close> (accepted, or
  refused with an error) and the calls of the cancellation callback.
\<close>

datatype 'v cd_event =
    Sent "'v RequestBundle"
  | SendFailed "'v RequestBundle" string
  | Canceled string 'v Error

definition NewDefaultClientDispatcher ::
  "'v RequestBundle FIFOClientQueue \<Rightarrow> 'v DefaultClientDispatcher" where
  "NewDefaultClientDispatcher queue =
     \<lparr>requestQueue = queue, requestChannel = None, readyForDispatch = make_chan 1,
      pendingState = NewClientState, network = False, onRequestCancel = False, timer = None,
      paused = False, timeout = defaultMessageTimeout\<rparr>"

definition SetOnRequestCanceled :: "'v DefaultClientDispatcher \<Rightarrow> 'v DefaultClientDispatcher" where
  "SetOnRequestCanceled d = d\<lparr>onRequestCancel := True\<rparr>"

definition SetTimeout :: "int \<Rightarrow> 'v DefaultClientDispatcher \<Rightarrow> 'v DefaultClientDispatcher" where
  "SetTimeout t d = d\<lparr>timeout := t\<rparr>"

definition SetNetworkClient :: "'v DefaultClientDispatcher \<Rightarrow> 'v DefaultClientDispatcher" where
  "SetNetworkClient d = d\<lparr>network := True\<rparr>"

definition SetPendingRequestState ::
  "'v clientState \<Rightarrow> 'v DefaultClientDispatcher \<Rightarrow> 'v DefaultClientDispatcher" where
  "SetPendingRequestState s d = d\<lparr>pendingState := s\<rparr>"

text \<open>\<^verbatim>\<open>Start\<close> also starts the pump goroutine, with \<^verbatim>\<open>rdy\<close> true.\<close>

definition Start :: "'v DefaultClientDispatcher \<Rightarrow> 'v DefaultClientDispatcher" where
  "Start d = d\<lparr>requestChannel := Some (make_chan 1), timer := Some (NewTimer defaultTimeoutTick)\<rparr>"

definition IsRunning :: "'v DefaultClientDispatcher \<Rightarrow> bool" where
  "IsRunning d \<longleftrightarrow> requestChannel d \<noteq> None"

definition IsPaused :: "'v DefaultClientDispatcher \<Rightarrow> bool" where
  "IsPaused d \<longleftrightarrow> paused d"

definition Stop :: "'v DefaultClientDispatcher \<Rightarrow> 'v DefaultClientDispatcher go" where
  "Stop d =
     (case requestChannel d of
        None \<Rightarrow> Panic ''close of nil channel''
      | Some c \<Rightarrow> bind_go (chan_close c) (\<lambda>c'. Ret (d\<lparr>requestChannel := Some c'\<rparr>)))"

definition enqueueRequest ::
  "'v RequestBundle \<Rightarrow> 'v DefaultClientDispatcher \<Rightarrow> string option \<times> 'v DefaultClientDispatcher" where
  "enqueueRequest req d =
     (if \<not> network d then (Some ''cannot SendRequest, no network client was set'', d)
      else case Push req (requestQueue d) of
        (Some err, q) \<Rightarrow> (Some err, d\<lparr>requestQueue := q\<rparr>)
      | (None, q) \<Rightarrow> (None, d\<lparr>requestQueue := q\<rparr>))"

definition signalRequest :: "'v DefaultClientDispatcher \<Rightarrow> 'v DefaultClientDispatcher go" where
  "signalRequest d =
     (case requestChannel d of
        None \<Rightarrow> Block
      | Some c \<Rightarrow> bind_go (chan_send c True) (\<lambda>c'. Ret (d\<lparr>requestChannel := Some c'\<rparr>)))"

definition SendRequest ::
  "'v RequestBundle \<Rightarrow> 'v DefaultClientDispatcher \<Rightarrow>
   (string option \<times> 'v DefaultClientDispatcher) go" where
  "SendRequest req d =
     (case enqueueRequest req d of
        (Some err, d') \<Rightarrow> Ret (Some err, d')
      | (None, d') \<Rightarrow> bind_go (signalRequest d') (\<lambda>d''. Ret (None, d'')))"

text \<open>
  \<open>finishRequest\<close> says whether the request was at the front of the queue and has been removed,
  in which case the pump is to be signalled; otherwise the source logs an error and returns. It
  is the check of the front and the removal, which no lock holds together in the source.
\<close>

definition finishCheck :: "string \<Rightarrow> 'v DefaultClientDispatcher \<Rightarrow> bool" where
  "finishCheck requestId d =
     (case Peek (requestQueue d) of
        None \<Rightarrow> False
      | Some bundle \<Rightarrow> bundle_id bundle = requestId)"

definition finishPop :: "string \<Rightarrow> 'v DefaultClientDispatcher \<Rightarrow> 'v DefaultClientDispatcher" where
  "finishPop requestId d =
     d\<lparr>requestQueue := snd (Pop (requestQueue d)),
       pendingState := DeletePendingRequest requestId (pendingState d)\<rparr>"

definition finishRequest ::
  "string \<Rightarrow> 'v DefaultClientDispatcher \<Rightarrow> bool \<times> 'v DefaultClientDispatcher" where
  "finishRequest requestId d =
     (if finishCheck requestId d then (True, finishPop requestId d) else (False, d))"

definition signalReady :: "'v DefaultClientDispatcher \<Rightarrow> 'v DefaultClientDispatcher go" where
  "signalReady d =
     bind_go (chan_send (readyForDispatch d) True) (\<lambda>c. Ret (d\<lparr>readyForDispatch := c\<rparr>))"

definition CompleteRequest ::
  "string \<Rightarrow> 'v DefaultClientDispatcher \<Rightarrow> 'v DefaultClientDispatcher go" where
  "CompleteRequest requestId d =
     (case finishRequest requestId d of
        (False, d') \<Rightarrow> Ret d'
      | (True, d') \<Rightarrow> signalReady d')"

text \<open>
  \<open>wr\<close> is \<^verbatim>\<open>network.Write\<close>: \<open>Some err\<close> when it returns an error. An empty queue gives the zero
  bundle, whose nil \<^verbatim>\<open>Call\<close> is dereferenced.
\<close>

definition canceledEvent ::
  "'v DefaultClientDispatcher \<Rightarrow> 'v RequestBundle \<Rightarrow> ErrorCode \<Rightarrow> string \<Rightarrow> 'v cd_event list" where
  "canceledEvent d bundle code description =
     (if onRequestCancel d
      then [Canceled (bundle_id bundle) (bundle_req bundle)
              (NewError code description (bundle_id bundle))]
      else [])"

definition dispatchNextRequest ::
  "(json \<Rightarrow> string option) \<Rightarrow> 'v DefaultClientDispatcher \<Rightarrow>
   ('v DefaultClientDispatcher \<times> 'v cd_event list) go" where
  "dispatchNextRequest wr d =
     (case Peek (requestQueue d) of
        None \<Rightarrow> Panic ''nil pointer dereference''
      | Some bundle \<Rightarrow>
          (let d1 = d\<lparr>pendingState :=
                 AddPendingRequest (bundle_id bundle) (bundle_req bundle) (pendingState d)\<rparr>
           in case wr (bundle_Data bundle) of
                None \<Rightarrow> Ret (d1, [Sent bundle])
              | Some err \<Rightarrow>
                  bind_go (CompleteRequest (bundle_id bundle) d1) (\<lambda>d2.
                    Ret (d2, SendFailed bundle err # canceledEvent d2 bundle InternalError err))))"

definition Pause :: "'v DefaultClientDispatcher \<Rightarrow> 'v DefaultClientDispatcher go" where
  "Pause d =
     (case timer d of
        None \<Rightarrow> Panic ''nil pointer dereference''
      | Some t \<Rightarrow>
          bind_go (timer_restart defaultTimeoutTick t) (\<lambda>t'.
            Ret (d\<lparr>timer := Some t', paused := True\<rparr>)))"

text \<open>
  \<open>resume\<close> is \<^verbatim>\<open>Resume\<close> up to its send: whether it goes on to signal the pump. \<^verbatim>\<open>d.timer.Reset\<close>
  panics on a nil timer.
\<close>

definition resume ::
  "'v DefaultClientDispatcher \<Rightarrow> (bool \<times> 'v DefaultClientDispatcher) go" where
  "resume d =
     (let d1 = d\<lparr>paused := False\<rparr>
      in if HasPendingRequest (pendingState d1) then
           (case timer d1 of
              None \<Rightarrow> Panic ''nil pointer dereference''
            | Some t \<Rightarrow> Ret (False, d1\<lparr>timer := Some (timer_reset (timeout d1) t)\<rparr>))
         else Ret (True, d1))"

definition Resume :: "'v DefaultClientDispatcher \<Rightarrow> 'v DefaultClientDispatcher go" where
  "Resume d =
     bind_go (resume d) (\<lambda>(sig, d'). if sig then signalReady d' else Ret d')"

section \<open>The message pump\<close>

text \<open>
  One iteration of \<^verbatim>\<open>messagePump\<close>: the \<open>select\<close> (\<open>pumpSelect\<close>, for the case the runtime chose; a
  case that is not ready blocks), then the dispatch of the next request (\<open>pumpDispatch\<close>). The
  timer's channel is never closed, so its second result is always true.
\<close>

datatype pump_case = RequestCase | TimerCase | ReadyCase

datatype 'v pump_next =
    PumpStop "'v DefaultClientDispatcher"
  | PumpCheck bool "'v DefaultClientDispatcher" "'v cd_event list"

fun pumpSelect ::
  "pump_case \<Rightarrow> bool \<Rightarrow> 'v DefaultClientDispatcher \<Rightarrow> 'v pump_next go" where
  "pumpSelect RequestCase rdy d =
     (case requestChannel d of
        None \<Rightarrow> Block
      | Some c \<Rightarrow>
          bind_go (chan_recv c) (\<lambda>(v, c').
            case v of
              None \<Rightarrow> bind_go (FIFOClientQueue_Init (requestQueue d)) (\<lambda>q.
                        Ret (PumpStop (d\<lparr>requestQueue := q, requestChannel := None\<rparr>)))
            | Some _ \<Rightarrow> Ret (PumpCheck rdy (d\<lparr>requestChannel := Some c'\<rparr>) [])))"
| "pumpSelect TimerCase rdy d =
     (case timer d of
        None \<Rightarrow> Panic ''nil pointer dereference''
      | Some t \<Rightarrow>
          bind_go (timer_drain t) (\<lambda>t'.
            let d1 = d\<lparr>timer := Some t'\<rparr>;
                reset = (\<lambda>d. d\<lparr>timer := Some (timer_reset defaultTimeoutTick t')\<rparr>)
            in if HasPendingRequest (pendingState d1) then
                 (case Peek (requestQueue d1) of
                    None \<Rightarrow> Panic ''nil pointer dereference''
                  | Some bundle \<Rightarrow>
                      bind_go (CompleteRequest (bundle_id bundle) d1) (\<lambda>d2.
                        Ret (PumpCheck rdy (reset d2)
                          (canceledEvent d2 bundle GenericError ''Request timed out''))))
               else Ret (PumpCheck rdy (reset d1) [])))"
| "pumpSelect ReadyCase rdy d =
     bind_go (chan_recv (readyForDispatch d)) (\<lambda>(v, c).
       Ret (PumpCheck (v = Some True) (d\<lparr>readyForDispatch := c\<rparr>) []))"

definition pumpDispatch ::
  "(json \<Rightarrow> string option) \<Rightarrow> bool \<Rightarrow> 'v DefaultClientDispatcher \<Rightarrow>
   (bool \<times> 'v DefaultClientDispatcher \<times> 'v cd_event list) go" where
  "pumpDispatch wr rdy d =
     (if IsPaused d then Ret (rdy, d, [])
      else if rdy \<and> \<not> IsEmpty (requestQueue d) then
        bind_go (dispatchNextRequest wr d) (\<lambda>(d1, evs).
          case timer d1 of
            None \<Rightarrow> Panic ''nil pointer dereference''
          | Some t \<Rightarrow>
              bind_go (timer_restart (timeout d1) t) (\<lambda>t'.
                Ret (False, d1\<lparr>timer := Some t'\<rparr>, evs)))
      else Ret (rdy, d, []))"

text \<open>The whole iteration: \<open>None\<close> when the pump has returned.\<close>

definition pumpIteration ::
  "(json \<Rightarrow> string option) \<Rightarrow> pump_case \<Rightarrow> bool \<Rightarrow> 'v DefaultClientDispatcher \<Rightarrow>
   (bool option \<times> 'v DefaultClientDispatcher \<times> 'v cd_event list) go" where
  "pumpIteration wr pc rdy d =
     bind_go (pumpSelect pc rdy d) (\<lambda>n.
       case n of
         PumpStop d1 \<Rightarrow> Ret (None, d1, [])
       | PumpCheck rdy1 d1 evs1 \<Rightarrow>
           bind_go (pumpDispatch wr rdy1 d1) (\<lambda>(rdy2, d2, evs2). Ret (Some rdy2, d2, evs1 @ evs2)))"

section \<open>A running dispatcher and its environment\<close>

text \<open>
  The state of the dispatcher and of the goroutines around it: the pump (its local \<^verbatim>\<open>rdy\<close>, or
  \<open>None\<close> once it has returned), how many callers of \<^verbatim>\<open>SendRequest\<close> stand before the send to
  \<^verbatim>\<open>requestChannel\<close>, and how many callers of \<^verbatim>\<open>CompleteRequest\<close> and \<^verbatim>\<open>Resume\<close> before the send to
  \<^verbatim>\<open>readyForDispatch\<close>. The last three fields are histories for the statements: the requests that were
  accepted, those that were removed from the queue by a response, a timeout or a failed write,
  and the writes, each with the position of its request in the accepted sequence.
\<close>

record 'v cworld =
  disp :: "'v DefaultClientDispatcher"
  pump :: "bool option"
  senders :: nat
  signals :: nat
  accepted :: "'v RequestBundle list"
  completed :: "'v RequestBundle list"
  written :: "(nat \<times> 'v RequestBundle) list"

abbreviation queued :: "'v DefaultClientDispatcher \<Rightarrow> 'v RequestBundle list" where
  "queued d \<equiv> elements (requestQueue d)"

definition cstart :: "int \<Rightarrow> 'v cworld \<Rightarrow> bool" where
  "cstart cap w \<longleftrightarrow>
     (\<exists>q t cb. NewFIFOClientQueue cap = Ret q \<and>
        w = \<lparr>disp = Start ((SetNetworkClient (SetTimeout t (NewDefaultClientDispatcher q)))
                     \<lparr>onRequestCancel := cb\<rparr>),
             pump = Some True, senders = 0, signals = 0, accepted = [], completed = [],
             written = []\<rparr>)"

text \<open>The requests among the effects that were handed to the network.\<close>

fun writes :: "'v cd_event list \<Rightarrow> 'v RequestBundle list" where
  "writes [] = []"
| "writes (Sent b # evs) = b # writes evs"
| "writes (SendFailed b e # evs) = b # writes evs"
| "writes (Canceled i r e # evs) = writes evs"

text \<open>What has left the front of the queue between two states.\<close>

definition removed ::
  "'v DefaultClientDispatcher \<Rightarrow> 'v DefaultClientDispatcher \<Rightarrow> 'v RequestBundle list" where
  "removed d d' = take (length (queued d) - length (queued d')) (queued d)"

text \<open>
  The steps. Request IDs are not empty: \<^verbatim>\<open>CreateCall\<close> generates them. A response reaches
  \<^verbatim>\<open>CompleteRequest\<close> only with the ID of the pending request (\<^verbatim>\<open>Client.ocppMessageHandler\<close> completes
  what \<^verbatim>\<open>ParseMessage\<close> has matched with the pending request).
\<close>

inductive cstep :: "'v cworld \<Rightarrow> 'v cworld \<Rightarrow> bool" where
  send_push: "bundle_id b \<noteq> '''' \<Longrightarrow> enqueueRequest b (disp w) = (None, d') \<Longrightarrow>
    cstep w (w\<lparr>disp := d', senders := Suc (senders w), accepted := accepted w @ [b]\<rparr>)"
| send_signal: "senders w = Suc n \<Longrightarrow> signalRequest (disp w) = Ret d' \<Longrightarrow>
    cstep w (w\<lparr>disp := d', senders := n\<rparr>)"
| respond: "i \<noteq> '''' \<Longrightarrow> snd (GetPendingRequest i (pendingState (disp w))) \<Longrightarrow>
    finishRequest i (disp w) = (True, d') \<Longrightarrow>
    cstep w (w\<lparr>disp := d', signals := Suc (signals w),
               completed := completed w @ removed (disp w) d'\<rparr>)"
| ready_signal: "signals w = Suc n \<Longrightarrow> signalReady (disp w) = Ret d' \<Longrightarrow>
    cstep w (w\<lparr>disp := d', signals := n\<rparr>)"
| timer_expires: "timer (disp w) = Some t \<Longrightarrow> timer_armed t \<noteq> None \<Longrightarrow>
    cstep w (w\<lparr>disp := (disp w)\<lparr>timer := Some (timer_fire t)\<rparr>\<rparr>)"
| pause: "Pause (disp w) = Ret d' \<Longrightarrow> cstep w (w\<lparr>disp := d'\<rparr>)"
| resume: "ClientDispatcher.resume (disp w) = Ret (sig, d') \<Longrightarrow>
    cstep w (w\<lparr>disp := d', signals := (if sig then Suc (signals w) else signals w)\<rparr>)"
| stop: "Stop (disp w) = Ret d' \<Longrightarrow> cstep w (w\<lparr>disp := d'\<rparr>)"
| pump_iterate: "pump w = Some rdy \<Longrightarrow> pumpSelect pc rdy (disp w) = Ret (PumpCheck rdy1 d1 evs1) \<Longrightarrow>
    pumpDispatch wr rdy1 d1 = Ret (rdy2, d2, evs2) \<Longrightarrow>
    cstep w (w\<lparr>disp := d2, pump := Some rdy2,
      completed := completed w @ removed (disp w) d1 @ removed d1 d2,
      written := written w @
        map (Pair (length (completed w @ removed (disp w) d1))) (writes evs2)\<rparr>)"
| pump_stop: "pump w = Some rdy \<Longrightarrow> pumpSelect pc rdy (disp w) = Ret (PumpStop d1) \<Longrightarrow>
    cstep w (w\<lparr>disp := d1, pump := None\<rparr>)"

section \<open>What the operations do\<close>

text \<open>
  The part of the state the invariant speaks of: the queue, the pending request, the tokens in
  the channels, the timer. The lemmas of this section describe each operation by it.
\<close>

named_theorems cd_defs "the methods of the client dispatcher"

lemmas [cd_defs] =
  Start_def Stop_def IsPaused_def enqueueRequest_def signalRequest_def finishRequest_def
  finishCheck_def finishPop_def signalReady_def CompleteRequest_def dispatchNextRequest_def
  Pause_def resume_def

lemma finishRequest_eq:
  "finishRequest requestId d =
     (case Peek (requestQueue d) of
        None \<Rightarrow> (False, d)
      | Some bundle \<Rightarrow>
          if bundle_id bundle \<noteq> requestId then (False, d)
          else (True, d\<lparr>requestQueue := snd (Pop (requestQueue d)),
                       pendingState := DeletePendingRequest requestId (pendingState d)\<rparr>))"
  by (cases "queued d") (simp_all add: finishRequest_def finishCheck_def finishPop_def Peek_def)

text \<open>Whether a pending request is the one at the front of the queue.\<close>

definition pending_front :: "'v DefaultClientDispatcher \<Rightarrow> bool" where
  "pending_front d \<longleftrightarrow>
     (HasPendingRequest (pendingState d) \<longrightarrow>
       (\<exists>b bs. queued d = b # bs \<and> requestID (pendingState d) = bundle_id b \<and>
          pendingRequest (pendingState d) = Some (bundle_req b)))"

definition timer_ok :: "'v DefaultClientDispatcher \<Rightarrow> bool" where
  "timer_ok d \<longleftrightarrow> (\<exists>t. timer d = Some t \<and> timer_live t)"

definition ready_ok :: "'v DefaultClientDispatcher \<Rightarrow> bool" where
  "ready_ok d \<longleftrightarrow> \<not> chan_closed (readyForDispatch d) \<and> chan_cap (readyForDispatch d) = 1 \<and>
     chan_wf (readyForDispatch d) \<and> (\<forall>x\<in>set (chan_buf (readyForDispatch d)). x)"

definition request_ok :: "'v DefaultClientDispatcher \<Rightarrow> bool" where
  "request_ok d \<longleftrightarrow> (\<exists>c. requestChannel d = Some c \<and> chan_cap c = 1)"

text \<open>Well-formedness: what every operation keeps and what rules out every panic of the pump.\<close>

definition cd_wf :: "'v DefaultClientDispatcher \<Rightarrow> bool" where
  "cd_wf d \<longleftrightarrow> queue_wf (requestQueue d) \<and> pending_front d \<and> timer_ok d \<and> ready_ok d \<and>
     request_ok d \<and> (\<forall>b\<in>set (queued d). bundle_id b \<noteq> '''')"

definition ready_token :: "'v DefaultClientDispatcher \<Rightarrow> bool" where
  "ready_token d \<longleftrightarrow> chan_buf (readyForDispatch d) \<noteq> []"

definition request_token :: "'v DefaultClientDispatcher \<Rightarrow> bool" where
  "request_token d \<longleftrightarrow> (\<exists>c. requestChannel d = Some c \<and> chan_buf c \<noteq> [])"

lemma token_updates [simp]:
  "ready_token (d\<lparr>requestQueue := q\<rparr>) = ready_token d"
  "ready_token (d\<lparr>requestChannel := r\<rparr>) = ready_token d"
  "ready_token (d\<lparr>timer := t\<rparr>) = ready_token d"
  "ready_token (d\<lparr>paused := p\<rparr>) = ready_token d"
  "request_token (d\<lparr>requestQueue := q\<rparr>) = request_token d"
  "request_token (d\<lparr>readyForDispatch := c\<rparr>) = request_token d"
  "request_token (d\<lparr>timer := t\<rparr>) = request_token d"
  "request_token (d\<lparr>paused := p\<rparr>) = request_token d"
  by (simp_all add: ready_token_def request_token_def)

lemma removed_one: "queued d = b # queued d' \<Longrightarrow> removed d d' = [b]"
  by (simp add: removed_def)

lemma removed_same [simp]: "queued d' = queued d \<Longrightarrow> removed d d' = []"
  by (simp add: removed_def)

lemma cd_wf_cong:
  "requestQueue d' = requestQueue d \<Longrightarrow> pendingState d' = pendingState d \<Longrightarrow>
   timer_ok d' \<Longrightarrow> ready_ok d' \<Longrightarrow> request_ok d' \<Longrightarrow> cd_wf d \<Longrightarrow> cd_wf d'"
  by (simp add: cd_wf_def pending_front_def)

lemma enqueueRequest_None:
  assumes "enqueueRequest b d = (None, d')"
  shows "d' = d\<lparr>requestQueue := (requestQueue d)\<lparr>elements := queued d @ [b]\<rparr>\<rparr>"
    and "cd_wf d \<Longrightarrow> bundle_id b \<noteq> '''' \<Longrightarrow> cd_wf d'"
proof -
  from assms obtain q where q: "Push b (requestQueue d) = (None, q)" "d' = d\<lparr>requestQueue := q\<rparr>"
    by (auto simp: enqueueRequest_def split: prod.splits option.splits if_splits)
  then show d': "d' = d\<lparr>requestQueue := (requestQueue d)\<lparr>elements := queued d @ [b]\<rparr>\<rparr>"
    by (simp add: Push_None)
  assume "cd_wf d" "bundle_id b \<noteq> ''''"
  moreover from q \<open>cd_wf d\<close> have "queue_wf (requestQueue d')"
    using queue_wf_ops(1)[of "requestQueue d" b] by (simp add: cd_wf_def)
  ultimately show "cd_wf d'"
    unfolding d' by (auto simp: cd_wf_def pending_front_def timer_ok_def ready_ok_def request_ok_def)
qed

lemma signalRequest_Ret:
  assumes "signalRequest d = Ret d'"
  shows "\<exists>c. requestChannel d = Some c \<and> \<not> chan_closed c \<and> \<not> chan_full c \<and>
      d' = d\<lparr>requestChannel := Some (c\<lparr>chan_buf := chan_buf c @ [True]\<rparr>)\<rparr>"
    and "cd_wf d \<Longrightarrow> cd_wf d' \<and> request_token d'"
proof -
  from assms show *: "\<exists>c. requestChannel d = Some c \<and> \<not> chan_closed c \<and> \<not> chan_full c \<and>
      d' = d\<lparr>requestChannel := Some (c\<lparr>chan_buf := chan_buf c @ [True]\<rparr>)\<rparr>"
    by (auto simp: signalRequest_def chan_send_Ret split: option.splits)
  assume "cd_wf d"
  with * show "cd_wf d' \<and> request_token d'"
    by (auto simp: cd_wf_def pending_front_def timer_ok_def ready_ok_def request_ok_def request_token_def)
qed

lemma signalReady_Ret:
  assumes "signalReady d = Ret d'"
  shows "d' = d\<lparr>readyForDispatch :=
      (readyForDispatch d)\<lparr>chan_buf := chan_buf (readyForDispatch d) @ [True]\<rparr>\<rparr>"
    and "ready_token d'"
    and "cd_wf d \<Longrightarrow> cd_wf d'"
proof -
  from assms show *: "d' = d\<lparr>readyForDispatch :=
      (readyForDispatch d)\<lparr>chan_buf := chan_buf (readyForDispatch d) @ [True]\<rparr>\<rparr>"
    by (auto simp: signalReady_def chan_send_Ret)
  then show "ready_token d'" by (simp add: ready_token_def)
  have "chan_wf (readyForDispatch d')"
    using assms * by (auto simp: signalReady_def chan_send_Ret chan_full_def chan_wf_def)
  moreover assume "cd_wf d"
  ultimately show "cd_wf d'"
    using * by (auto simp: cd_wf_def pending_front_def timer_ok_def ready_ok_def request_ok_def)
qed

lemma finishRequest_True:
  assumes "finishRequest i d = (True, d')"
  shows "\<exists>b. queued d = b # queued d' \<and> bundle_id b = i"
    and "\<exists>q s. d' = d\<lparr>requestQueue := q, pendingState := s\<rparr>"
    and "cd_wf d \<Longrightarrow> cd_wf d' \<and> \<not> HasPendingRequest (pendingState d')"
proof -
  from assms obtain b bs where b: "queued d = b # bs" "bundle_id b = i"
    and d': "d' = d\<lparr>requestQueue := snd (Pop (requestQueue d)),
                 pendingState := DeletePendingRequest i (pendingState d)\<rparr>"
    by (auto simp: finishRequest_eq split: option.splits if_splits)
  from b d' show "\<exists>b. queued d = b # queued d' \<and> bundle_id b = i" by simp
  from d' show "\<exists>q s. d' = d\<lparr>requestQueue := q, pendingState := s\<rparr>" by blast
  assume wf: "cd_wf d"
  with b d' have "\<not> HasPendingRequest (pendingState d')"
    by (auto simp: cd_wf_def pending_front_def state_defs)
  moreover from wf d' b have "queue_wf (requestQueue d')" "\<forall>b\<in>set (queued d'). bundle_id b \<noteq> ''''"
    using queue_wf_ops(2)[of "requestQueue d"] by (auto simp: cd_wf_def)
  ultimately show "cd_wf d' \<and> \<not> HasPendingRequest (pendingState d')"
    using wf d' by (auto simp: cd_wf_def pending_front_def timer_ok_def ready_ok_def request_ok_def)
qed

lemma CompleteRequest_front:
  assumes "CompleteRequest i d = Ret d'" "queued d = b # bs" "bundle_id b = i" "cd_wf d"
  shows "cd_wf d'" "queued d' = bs" "\<not> HasPendingRequest (pendingState d')" "ready_token d'"
    "requestChannel d' = requestChannel d" "timer d' = timer d" "paused d' = paused d"
    "timeout d' = timeout d" "network d' = network d"
proof -
  have fst: "fst (finishRequest i d)"
    using assms(2,3) by (simp add: finishRequest_eq Peek_def)
  obtain d1 where f: "finishRequest i d = (True, d1)" and s: "signalReady d1 = Ret d'"
    using assms(1) fst by (auto simp: CompleteRequest_def split: prod.splits bool.splits)
  note f' = finishRequest_True[OF f] and s' = signalReady_Ret[OF s]
  show "cd_wf d'" using f'(3)[OF assms(4)] s'(3) by simp
  show "queued d' = bs" using f'(1) s'(1) assms(2) by auto
  show "\<not> HasPendingRequest (pendingState d')" using f'(3)[OF assms(4)] s'(1) by simp
  show "ready_token d'" by (rule s'(2))
  show "requestChannel d' = requestChannel d" "timer d' = timer d" "paused d' = paused d"
    "timeout d' = timeout d" "network d' = network d"
    using f'(2) s'(1) by auto
qed

lemma CompleteRequest_Ret_iff:
  assumes "queued d = b # bs" "ready_ok d"
  shows "(\<exists>d'. CompleteRequest (bundle_id b) d = Ret d') \<longleftrightarrow> \<not> ready_token d"
    and "CompleteRequest (bundle_id b) d \<noteq> Panic e"
  using assms
  by (auto simp: CompleteRequest_def finishRequest_eq Peek_def signalReady_def chan_send_def
      chan_full_def ready_ok_def ready_token_def bind_go_eq_Panic Suc_le_eq split: if_splits)

text \<open>
  A dispatch writes the request at the front of the queue once. Either it is then pending, or
  the write failed and the request has been removed.
\<close>

lemma dispatchNextRequest_Ret:
  assumes "dispatchNextRequest wr d = Ret (d', evs)" "cd_wf d"
  shows "\<exists>b bs. queued d = b # bs \<and> writes evs = [b] \<and>
      (HasPendingRequest (pendingState d') \<and> queued d' = b # bs \<and>
         readyForDispatch d' = readyForDispatch d \<or>
       \<not> HasPendingRequest (pendingState d') \<and> queued d' = bs \<and> ready_token d')"
    and "cd_wf d'" "requestChannel d' = requestChannel d" "timer d' = timer d" "paused d' = paused d"
    "timeout d' = timeout d"
proof -
  from assms(1) obtain b bs where b: "queued d = b # bs"
    by (auto simp: dispatchNextRequest_def split: option.splits)
  let ?d1 = "d\<lparr>pendingState := AddPendingRequest (bundle_id b) (bundle_req b) (pendingState d)\<rparr>"
  have wf1: "cd_wf ?d1" and has1: "HasPendingRequest (pendingState ?d1)"
    using assms(2) b
    by (auto simp: cd_wf_def pending_front_def timer_ok_def ready_ok_def request_ok_def state_defs)
  have "d' = ?d1 \<and> evs = [Sent b] \<or>
    (\<exists>e. CompleteRequest (bundle_id b) ?d1 = Ret d' \<and>
       evs = SendFailed b e # canceledEvent d' b InternalError e)"
    using assms(1) b by (auto simp: dispatchNextRequest_def Peek_def Let_def split: option.splits)
  then consider "d' = ?d1" "evs = [Sent b]" |
    e where "CompleteRequest (bundle_id b) ?d1 = Ret d'"
      "evs = SendFailed b e # canceledEvent d' b InternalError e" by blast
  then have "(writes evs = [b] \<and>
      (HasPendingRequest (pendingState d') \<and> queued d' = b # bs \<and>
         readyForDispatch d' = readyForDispatch d \<or>
       \<not> HasPendingRequest (pendingState d') \<and> queued d' = bs \<and> ready_token d')) \<and>
      cd_wf d' \<and> requestChannel d' = requestChannel d \<and> timer d' = timer d \<and>
      paused d' = paused d \<and> timeout d' = timeout d"
  proof cases
    case 1
    then show ?thesis using wf1 has1 b by simp
  next
    case 2
    have q1: "queued ?d1 = b # bs" using b by simp
    note c = CompleteRequest_front[OF 2(1) q1 refl wf1]
    show ?thesis using c 2(2) by (simp add: canceledEvent_def)
  qed
  then show "\<exists>b bs. queued d = b # bs \<and> writes evs = [b] \<and>
      (HasPendingRequest (pendingState d') \<and> queued d' = b # bs \<and>
         readyForDispatch d' = readyForDispatch d \<or>
       \<not> HasPendingRequest (pendingState d') \<and> queued d' = bs \<and> ready_token d')"
    and "cd_wf d'" "requestChannel d' = requestChannel d" "timer d' = timer d" "paused d' = paused d"
    "timeout d' = timeout d"
    using b by blast+
qed

lemma cd_wf_timer: "cd_wf d \<Longrightarrow> timer_live t \<Longrightarrow> cd_wf (d\<lparr>timer := Some t\<rparr>)"
  by (auto simp: cd_wf_def pending_front_def timer_ok_def ready_ok_def request_ok_def)

lemma timer_restart_Ret_live: "timer_restart n t = Ret t' \<Longrightarrow> timer_live t'"
  by (auto simp: timer_restart_def split: prod.splits bool.splits)

lemma Pause_Ret:
  assumes "Pause d = Ret d'" "cd_wf d"
  shows "cd_wf d' \<and> (\<exists>t. d' = d\<lparr>timer := Some t, paused := True\<rparr>)"
  using assms cd_wf_timer[OF assms(2)]
  by (auto simp: Pause_def cd_wf_def pending_front_def timer_ok_def ready_ok_def request_ok_def
      dest: timer_restart_Ret_live split: option.splits)

lemma resume_Ret:
  assumes "resume d = Ret (sig, d')" "cd_wf d"
  shows "cd_wf d'" "sig \<longleftrightarrow> \<not> HasPendingRequest (pendingState d)"
    "requestQueue d' = requestQueue d" "requestChannel d' = requestChannel d"
    "readyForDispatch d' = readyForDispatch d" "pendingState d' = pendingState d" "\<not> paused d'"
proof -
  have wf: "cd_wf (d\<lparr>paused := False\<rparr>)"
    using assms(2)
    by (auto simp: cd_wf_def pending_front_def timer_ok_def ready_ok_def request_ok_def)
  then show "cd_wf d'"
    using assms(1) cd_wf_timer[OF wf]
    by (auto simp: resume_def Let_def split: option.splits if_splits)
  show "sig \<longleftrightarrow> \<not> HasPendingRequest (pendingState d)"
    "requestQueue d' = requestQueue d" "requestChannel d' = requestChannel d"
    "readyForDispatch d' = readyForDispatch d" "pendingState d' = pendingState d" "\<not> paused d'"
    using assms(1) by (auto simp: resume_def Let_def split: option.splits if_splits)
qed

lemma Stop_Ret:
  assumes "Stop d = Ret d'" "cd_wf d"
  shows "cd_wf d' \<and> (\<exists>c. requestChannel d = Some c \<and>
    d' = d\<lparr>requestChannel := Some (c\<lparr>chan_closed := True\<rparr>)\<rparr>)"
  using assms
  by (auto simp: Stop_def chan_close_def cd_wf_def pending_front_def timer_ok_def ready_ok_def
      request_ok_def split: option.splits if_splits)

text \<open>What the three cases of the pump's \<open>select\<close> lead to.\<close>

lemma pumpSelect_Check:
  assumes "pumpSelect pc rdy d = Ret (PumpCheck rdy1 d1 evs1)" "cd_wf d"
  shows "cd_wf d1 \<and> paused d1 = paused d \<and> timeout d1 = timeout d \<and>
    (pc = RequestCase \<and> rdy1 = rdy \<and> queued d1 = queued d \<and> pendingState d1 = pendingState d \<and>
       readyForDispatch d1 = readyForDispatch d \<or>
     pc = TimerCase \<and> rdy1 = rdy \<and> queued d1 = queued d \<and> pendingState d1 = pendingState d \<and>
       readyForDispatch d1 = readyForDispatch d \<and> \<not> HasPendingRequest (pendingState d) \<and>
       requestChannel d1 = requestChannel d \<or>
     pc = TimerCase \<and> rdy1 = rdy \<and> HasPendingRequest (pendingState d) \<and>
       (\<exists>b. queued d = b # queued d1) \<and> \<not> HasPendingRequest (pendingState d1) \<and> ready_token d1 \<or>
     pc = ReadyCase \<and> rdy1 \<and> queued d1 = queued d \<and> pendingState d1 = pendingState d)"
proof (cases pc)
  case RequestCase
  then show ?thesis using assms
    by (auto simp: cd_wf_def pending_front_def timer_ok_def ready_ok_def request_ok_def chan_recv_Some
        split: option.splits)
next
  case ReadyCase
  then show ?thesis using assms
    by (auto simp: cd_wf_def pending_front_def timer_ok_def ready_ok_def request_ok_def chan_recv_def
        chan_wf_def split: list.splits if_splits)
next
  case TimerCase
  from assms TimerCase obtain t where t: "timer d = Some t" "timer_tick t"
    by (auto simp: timer_drain_def split: option.splits if_splits)
  let ?d1 = "d\<lparr>timer := Some (t\<lparr>timer_tick := False\<rparr>)\<rparr>"
  let ?reset = "\<lambda>d. d\<lparr>timer := Some (timer_reset defaultTimeoutTick (t\<lparr>timer_tick := False\<rparr>))\<rparr>"
  show ?thesis
  proof (cases "HasPendingRequest (pendingState d)")
    case False
    with assms TimerCase t have "d1 = ?reset d" "rdy1 = rdy"
      by (auto simp: timer_drain_def Let_def)
    with False TimerCase show ?thesis using assms(2) by (simp add: cd_wf_timer)
  next
    case True
    then obtain b bs where b: "queued d = b # bs"
      using assms(2) by (auto simp: cd_wf_def pending_front_def)
    obtain d2 where d2: "CompleteRequest (bundle_id b) ?d1 = Ret d2" "d1 = ?reset d2" "rdy1 = rdy"
      using assms(1) TimerCase t True b by (auto simp: timer_drain_def Let_def Peek_def)
    define d0 where "d0 = ?reset d"
    have "CompleteRequest (bundle_id b) d0 = Ret (?reset d2)"
      using d2(1) b by (auto simp: d0_def CompleteRequest_def finishRequest_eq Peek_def signalReady_def)
    moreover have "queued d0 = b # bs" "cd_wf d0" using b assms(2) by (simp_all add: d0_def cd_wf_timer)
    ultimately show ?thesis
      using CompleteRequest_front[of "bundle_id b" d0 "?reset d2" b bs] d2 b True TimerCase
      by (simp add: d0_def ready_token_def)
  qed
qed

lemma pumpDispatch_Ret:
  assumes "pumpDispatch wr rdy d = Ret (rdy', d', evs)" "cd_wf d"
  shows "cd_wf d'" "paused d' = paused d" "requestChannel d' = requestChannel d"
    "(paused d \<or> \<not> rdy \<or> queued d = []) \<and> rdy' = rdy \<and> d' = d \<and> evs = [] \<or>
     \<not> paused d \<and> rdy \<and> \<not> rdy' \<and> (\<exists>b bs. queued d = b # bs \<and> writes evs = [b] \<and>
       (HasPendingRequest (pendingState d') \<and> queued d' = b # bs \<or>
        \<not> HasPendingRequest (pendingState d') \<and> queued d' = bs \<and> ready_token d'))"
proof -
  have "cd_wf d' \<and> paused d' = paused d \<and> requestChannel d' = requestChannel d \<and>
    ((paused d \<or> \<not> rdy \<or> queued d = []) \<and> rdy' = rdy \<and> d' = d \<and> evs = [] \<or>
     \<not> paused d \<and> rdy \<and> \<not> rdy' \<and> (\<exists>b bs. queued d = b # bs \<and> writes evs = [b] \<and>
       (HasPendingRequest (pendingState d') \<and> queued d' = b # bs \<or>
        \<not> HasPendingRequest (pendingState d') \<and> queued d' = bs \<and> ready_token d')))"
  proof (cases "paused d \<or> \<not> rdy \<or> queued d = []")
    case True
    then have "d' = d" "rdy' = rdy" "evs = []"
      using assms(1) by (auto simp: pumpDispatch_def IsPaused_def split: if_splits)
    then show ?thesis using True assms(2) by simp
  next
    case False
    then obtain d1 t t' where d1: "dispatchNextRequest wr d = Ret (d1, evs)"
      and t: "timer_restart (timeout d1) t = Ret t'"
      and d': "d' = d1\<lparr>timer := Some t'\<rparr>" "\<not> rdy'"
      using assms(1) by (auto simp: pumpDispatch_def IsPaused_def split: option.splits)
    note D = dispatchNextRequest_Ret[OF d1 assms(2)]
    have "cd_wf d'" using D(2) d' timer_restart_Ret_live[OF t] by (simp add: cd_wf_timer)
    then show ?thesis using D(1,3-6) d' False by (auto simp: ready_token_def)
  qed
  then show "cd_wf d'" "paused d' = paused d" "requestChannel d' = requestChannel d"
    "(paused d \<or> \<not> rdy \<or> queued d = []) \<and> rdy' = rdy \<and> d' = d \<and> evs = [] \<or>
     \<not> paused d \<and> rdy \<and> \<not> rdy' \<and> (\<exists>b bs. queued d = b # bs \<and> writes evs = [b] \<and>
       (HasPendingRequest (pendingState d') \<and> queued d' = b # bs \<or>
        \<not> HasPendingRequest (pendingState d') \<and> queued d' = bs \<and> ready_token d'))"
    by blast+
qed

section \<open>The invariant\<close>

definition wake_ok :: "bool \<Rightarrow> 'v cworld \<Rightarrow> bool" where
  "wake_ok rdy w \<longleftrightarrow>
     (\<not> rdy \<longrightarrow> ready_token (disp w) \<or> 0 < signals w \<or> HasPendingRequest (pendingState (disp w))) \<and>
     (rdy \<longrightarrow> \<not> paused (disp w) \<longrightarrow> queued (disp w) \<noteq> [] \<longrightarrow>
        \<not> HasPendingRequest (pendingState (disp w)) \<longrightarrow>
        request_token (disp w) \<or> 0 < senders w \<or> ready_token (disp w) \<or> 0 < signals w)"

definition cinv :: "'v cworld \<Rightarrow> bool" where
  "cinv w \<longleftrightarrow>
     (case pump w of
        None \<Rightarrow> True
      | Some rdy \<Rightarrow>
          cd_wf (disp w) \<and> wake_ok rdy w \<and>
          hist_ok (accepted w) (completed w) (written w) (queued (disp w))
            (HasPendingRequest (pendingState (disp w))))"

lemma cinv_Some:
  "pump w = Some rdy \<Longrightarrow> cinv w \<longleftrightarrow>
     cd_wf (disp w) \<and> wake_ok rdy w \<and>
     hist_ok (accepted w) (completed w) (written w) (queued (disp w))
       (HasPendingRequest (pendingState (disp w)))"
  by (simp add: cinv_def)

lemma cinv_start: "cstart cap w \<Longrightarrow> cinv w"
  by (auto simp: cstart_def cinv_def cd_wf_def NewFIFOClientQueue_def queue_wf_def wake_ok_def
      pending_front_def timer_ok_def ready_ok_def request_ok_def Start_def SetNetworkClient_def
      SetTimeout_def NewDefaultClientDispatcher_def make_chan_def chan_wf_def state_defs hist_start
      split: if_splits)

lemma cinv_pump_iterate:
  assumes "cinv w" "pump w = Some rdy" "pumpSelect pc rdy (disp w) = Ret (PumpCheck rdy1 d1 evs1)"
    "pumpDispatch wr rdy1 d1 = Ret (rdy2, d2, evs2)"
  shows "cinv (w\<lparr>disp := d2, pump := Some rdy2,
      completed := completed w @ removed (disp w) d1 @ removed d1 d2,
      written := written w @
        map (Pair (length (completed w @ removed (disp w) d1))) (writes evs2)\<rparr>)"
proof -
  have wf: "cd_wf (disp w)" and wake: "wake_ok rdy w"
    and hist: "hist_ok (accepted w) (completed w) (written w) (queued (disp w))
       (HasPendingRequest (pendingState (disp w)))"
    using assms(1,2) by (simp_all add: cinv_Some)
  note S = pumpSelect_Check[OF assms(3) wf]
  then have wf1: "cd_wf d1" by blast
  note D = pumpDispatch_Ret[OF assms(4) wf1]
  have hist1: "hist_ok (accepted w) (completed w @ removed (disp w) d1) (written w) (queued d1)
      (HasPendingRequest (pendingState d1))"
  proof (cases "queued d1 = queued (disp w)")
    case True
    then show ?thesis using S hist by auto
  next
    case False
    then obtain b where b: "queued (disp w) = b # queued d1"
      and "HasPendingRequest (pendingState (disp w))" "\<not> HasPendingRequest (pendingState d1)"
      using S by auto
    then show ?thesis using hist by (simp add: removed_one hist_finish)
  qed
  have "hist_ok (accepted w) (completed w @ removed (disp w) d1 @ removed d1 d2)
      (written w @ map (Pair (length (completed w @ removed (disp w) d1))) (writes evs2)) (queued d2)
      (HasPendingRequest (pendingState d2))"
  proof (cases "writes evs2")
    case Nil
    then have "d2 = d1" using D(4) by auto
    with Nil show ?thesis using hist1 by simp
  next
    case (Cons b bs')
    then obtain bs where b: "queued d1 = b # bs" "writes evs2 = [b]"
      and d2: "HasPendingRequest (pendingState d2) \<and> queued d2 = b # bs \<or>
        \<not> HasPendingRequest (pendingState d2) \<and> queued d2 = bs"
      using D(4) by auto
    have "hist_ok (accepted w) (completed w @ removed (disp w) d1)
      (written w @ [(length (completed w @ removed (disp w) d1), b)]) (b # bs) True"
      by (rule hist_write) (use hist1 b(1) in simp)
    from this hist_finish[OF this] show ?thesis
      using d2 b by (auto simp: removed_one)
  qed
  moreover have "wake_ok rdy2 (w\<lparr>disp := d2\<rparr>)"
    using D(2-4) S wake by (auto simp: wake_ok_def ready_token_def request_token_def)
  ultimately show ?thesis using D(1) by (simp add: cinv_def wake_ok_def)
qed

lemma cinv_respond:
  assumes "cinv w" "i \<noteq> ''''" "snd (GetPendingRequest i (pendingState (disp w)))"
    "finishRequest i (disp w) = (True, d')"
  shows "cinv (w\<lparr>disp := d', signals := Suc (signals w),
               completed := completed w @ removed (disp w) d'\<rparr>)"
proof (cases "pump w")
  case (Some rdy)
  have wf: "cd_wf (disp w)" using assms(1) Some by (simp add: cinv_Some)
  note F = finishRequest_True[OF assms(4)]
  obtain b where b: "queued (disp w) = b # queued d'" using F(1) by blast
  have "HasPendingRequest (pendingState (disp w))"
    using assms(2,3) by (auto simp: state_defs split: if_splits)
  then have "hist_ok (accepted w) (completed w @ [b]) (written w) (queued d') False"
    using assms(1) Some b by (simp add: cinv_Some hist_finish)
  then show ?thesis
    using F(3)[OF wf] b Some by (simp add: cinv_def wake_ok_def removed_one)
qed (simp add: cinv_def)

lemma cinv_step: "cstep w w' \<Longrightarrow> cinv w \<Longrightarrow> cinv w'"
proof (induction rule: cstep.induct)
  case (send_push b w d')
  then show ?case
    using enqueueRequest_None[OF send_push(2)]
    by (auto simp: cinv_def wake_ok_def hist_push split: option.splits)
next
  case (send_signal w n d')
  then show ?case
    using signalRequest_Ret[OF send_signal(2)]
    by (auto simp: cinv_def wake_ok_def ready_token_def split: option.splits)
next
  case (respond i w d')
  then show ?case by (simp add: cinv_respond)
next
  case (ready_signal w n d')
  then show ?case
    using signalReady_Ret[OF ready_signal(2)]
    by (auto simp: cinv_def wake_ok_def split: option.splits)
next
  case (timer_expires w t)
  then show ?case
    by (auto simp: cinv_def wake_ok_def cd_wf_timer ready_token_def request_token_def
        split: option.splits)
next
  case (pause w d')
  then show ?case
    using Pause_Ret[OF pause(1)]
    by (auto simp: cinv_def wake_ok_def ready_token_def split: option.splits)
next
  case (resume w sig d')
  then show ?case
    using resume_Ret[OF resume(1)]
    by (auto simp: cinv_def wake_ok_def ready_token_def split: option.splits)
next
  case (stop w d')
  then show ?case
    using Stop_Ret[OF stop(1)]
    by (auto simp: cinv_def wake_ok_def ready_token_def request_token_def split: option.splits)
next
  case (pump_iterate w rdy pc rdy1 d1 evs1 wr rdy2 d2 evs2)
  then show ?case using cinv_pump_iterate[OF _ pump_iterate(1-3)] by blast
next
  case (pump_stop w rdy pc d1)
  then show ?case by (simp add: cinv_def)
qed

section \<open>Refinement of the pipeline\<close>

definition pipeline_of :: "'v cworld \<Rightarrow> 'v RequestBundle pipeline" where
  "pipeline_of w =
     (case pump w of
        None \<Rightarrow> Down
      | Some _ \<Rightarrow> Up (queued (disp w)) (HasPendingRequest (pendingState (disp w))) (completed w))"

lemma pipeline_pump_iterate:
  assumes "cd_wf d" "pumpSelect pc rdy d = Ret (PumpCheck rdy1 d1 evs1)"
    "pumpDispatch wr rdy1 d1 = Ret (rdy2, d2, evs2)"
  shows "pipeline_step\<^sup>*\<^sup>* (Up (queued d) (HasPendingRequest (pendingState d)) fin)
    (Up (queued d2) (HasPendingRequest (pendingState d2)) (fin @ removed d d1 @ removed d1 d2))"
proof -
  note S = pumpSelect_Check[OF assms(2,1)]
  then have wf1: "cd_wf d1" by blast
  note D = pumpDispatch_Ret[OF assms(3) wf1]
  let ?up = "\<lambda>d fin. Up (queued d) (HasPendingRequest (pendingState d)) fin"
  have "pipeline_step\<^sup>*\<^sup>* (?up d fin) (?up d1 (fin @ removed d d1))"
    using S by (auto simp: removed_one pipeline_finish)
  moreover have "pipeline_step\<^sup>*\<^sup>* (?up d1 fin) (?up d2 (fin @ removed d1 d2))" for fin
  proof (cases "writes evs2")
    case Nil
    then show ?thesis using D(4) by auto
  next
    case (Cons b bs')
    then obtain bs where b: "queued d1 = b # bs"
      and d2: "HasPendingRequest (pendingState d2) \<and> queued d2 = b # bs \<or>
        \<not> HasPendingRequest (pendingState d2) \<and> queued d2 = bs"
      using D(4) by auto
    have 1: "pipeline_step\<^sup>*\<^sup>* (?up d1 fin) (Up (b # bs) True fin)"
      using b by (simp add: pipeline_transmit)
    with rtranclp_trans[OF 1 pipeline_finish] d2 b show ?thesis by (auto simp: removed_one)
  qed
  ultimately show ?thesis by (metis append_assoc rtranclp_trans)
qed

lemma pipeline_sim_step:
  assumes "cinv w" "cstep w w'"
  shows "pipeline_step\<^sup>*\<^sup>* (pipeline_of w) (pipeline_of w')"
proof (cases "pump w")
  case None
  then have "pump w' = None" using assms(2) by (auto elim: cstep.cases)
  then show ?thesis using None by (simp add: pipeline_of_def)
next
  case (Some rdy)
  then have wf: "cd_wf (disp w)" using assms(1) by (simp add: cinv_Some)
  from assms(2) show ?thesis
  proof cases
    case (send_push b d')
    then show ?thesis using Some enqueueRequest_None(1)[OF send_push(3)]
      by (auto simp: pipeline_of_def intro: pipeline_step.submit)
  next
    case (send_signal n d')
    then show ?thesis using Some signalRequest_Ret(1)[OF send_signal(3)]
      by (auto simp: pipeline_of_def)
  next
    case (respond i d')
    have "HasPendingRequest (pendingState (disp w))"
      using respond(2,3) by (auto simp: state_defs split: if_splits)
    then show ?thesis using Some respond(1) finishRequest_True[OF respond(4)] wf
      by (auto simp: pipeline_of_def removed_one pipeline_finish)
  next
    case (ready_signal n d')
    then show ?thesis using Some signalReady_Ret(1)[OF ready_signal(3)] by (simp add: pipeline_of_def)
  next
    case (timer_expires t)
    then show ?thesis using Some by (simp add: pipeline_of_def)
  next
    case (pause d')
    then show ?thesis using Some Pause_Ret[OF pause(2) wf] by (auto simp: pipeline_of_def)
  next
    case (resume sig d')
    then show ?thesis using Some resume_Ret[OF resume(2) wf] by (simp add: pipeline_of_def)
  next
    case (stop d')
    then show ?thesis using Some Stop_Ret[OF stop(2) wf] by (auto simp: pipeline_of_def)
  next
    case (pump_iterate rdy pc rdy1 d1 evs1 wr rdy2 d2 evs2)
    then show ?thesis using pipeline_pump_iterate[OF wf pump_iterate(3,4), of "completed w"]
      by (simp add: pipeline_of_def)
  next
    case (pump_stop rdy pc d1)
    then show ?thesis by (auto simp: pipeline_of_def intro: pipeline_step.shutdown)
  qed
qed

interpretation client_disp: simulation "cstart cap" cstep cinv pipeline_start pipeline_step pipeline_of
  for cap
proof
  show "cstart cap s \<Longrightarrow> cinv s" for s :: "'a cworld" by (rule cinv_start)
  show "cinv s \<Longrightarrow> cstep s t \<Longrightarrow> cinv t" for s t :: "'a cworld" by (rule cinv_step)
  show "cstart cap s \<Longrightarrow> pipeline_start (pipeline_of s)" for s :: "'a cworld"
    by (auto simp: cstart_def pipeline_start_def pipeline_of_def NewFIFOClientQueue_def Start_def
        SetNetworkClient_def SetTimeout_def NewDefaultClientDispatcher_def state_defs split: if_splits)
  show "cinv s \<Longrightarrow> cstep s t \<Longrightarrow> pipeline_step\<^sup>*\<^sup>* (pipeline_of s) (pipeline_of t)"
    for s t :: "'a cworld" by (rule pipeline_sim_step)
qed

section \<open>Concrete runs\<close>

text \<open>
  The step relation as a function of the move that is made, and the runs it gives. Concrete
  schedules are evaluated with it. In \<open>MPump\<close> the option is the error of \<^verbatim>\<open>network.Write\<close>.
\<close>

datatype 'v cmove =
    MPush "'v RequestBundle" | MSignal | MRespond string | MReady | MExpire | MPause | MResume
  | MStop | MPump pump_case "string option"

fun cmake :: "'v cmove \<Rightarrow> 'v cworld \<Rightarrow> 'v cworld option" where
  "cmake (MPush b) w =
     (case enqueueRequest b (disp w) of
        (None, d') \<Rightarrow> if bundle_id b = '''' then None
          else Some (w\<lparr>disp := d', senders := Suc (senders w), accepted := accepted w @ [b]\<rparr>)
      | _ \<Rightarrow> None)"
| "cmake MSignal w =
     (case senders w of 0 \<Rightarrow> None | Suc n \<Rightarrow>
        (case signalRequest (disp w) of Ret d' \<Rightarrow> Some (w\<lparr>disp := d', senders := n\<rparr>) | _ \<Rightarrow> None))"
| "cmake (MRespond i) w =
     (case finishRequest i (disp w) of
        (True, d') \<Rightarrow>
          if i \<noteq> '''' \<and> snd (GetPendingRequest i (pendingState (disp w)))
          then Some (w\<lparr>disp := d', signals := Suc (signals w),
                       completed := completed w @ removed (disp w) d'\<rparr>)
          else None
      | _ \<Rightarrow> None)"
| "cmake MReady w =
     (case signals w of 0 \<Rightarrow> None | Suc n \<Rightarrow>
        (case signalReady (disp w) of Ret d' \<Rightarrow> Some (w\<lparr>disp := d', signals := n\<rparr>) | _ \<Rightarrow> None))"
| "cmake MExpire w =
     (case timer (disp w) of None \<Rightarrow> None | Some t \<Rightarrow>
        if timer_armed t = None then None
        else Some (w\<lparr>disp := (disp w)\<lparr>timer := Some (timer_fire t)\<rparr>\<rparr>))"
| "cmake MPause w = (case Pause (disp w) of Ret d' \<Rightarrow> Some (w\<lparr>disp := d'\<rparr>) | _ \<Rightarrow> None)"
| "cmake MResume w =
     (case resume (disp w) of
        Ret (sig, d') \<Rightarrow>
          Some (w\<lparr>disp := d', signals := (if sig then Suc (signals w) else signals w)\<rparr>)
      | _ \<Rightarrow> None)"
| "cmake MStop w = (case Stop (disp w) of Ret d' \<Rightarrow> Some (w\<lparr>disp := d'\<rparr>) | _ \<Rightarrow> None)"
| "cmake (MPump pc err) w =
     (case pump w of None \<Rightarrow> None | Some rdy \<Rightarrow>
        (case pumpSelect pc rdy (disp w) of
           Ret (PumpStop d1) \<Rightarrow> Some (w\<lparr>disp := d1, pump := None\<rparr>)
         | Ret (PumpCheck rdy1 d1 evs1) \<Rightarrow>
             (case pumpDispatch (\<lambda>_. err) rdy1 d1 of
                Ret (rdy2, d2, evs2) \<Rightarrow>
                  Some (w\<lparr>disp := d2, pump := Some rdy2,
                    completed := completed w @ removed (disp w) d1 @ removed d1 d2,
                    written := written w @
                      map (Pair (length (completed w @ removed (disp w) d1))) (writes evs2)\<rparr>)
              | _ \<Rightarrow> None)
         | _ \<Rightarrow> None))"

fun crun :: "'v cmove list \<Rightarrow> 'v cworld \<Rightarrow> 'v cworld option" where
  "crun [] w = Some w"
| "crun (m # ms) w = (case cmake m w of None \<Rightarrow> None | Some w' \<Rightarrow> crun ms w')"

lemma cmake_cstep: "cmake m w = Some w' \<Longrightarrow> cstep w w'"
proof (cases m)
  case MResume
  assume "cmake m w = Some w'"
  with MResume obtain sig d' where "resume (disp w) = Ret (sig, d')"
    "w' = w\<lparr>disp := d', signals := (if sig then Suc (signals w) else signals w)\<rparr>"
    by (auto split: go.splits prod.splits)
  then show ?thesis by (auto simp only: intro: cstep.resume)
next
  case (MPump pc err)
  assume "cmake m w = Some w'"
  with MPump show ?thesis
    by (auto intro: cstep.pump_iterate cstep.pump_stop simp del: length_append
        split: option.splits go.splits pump_next.splits prod.splits)
qed (auto intro: cstep.intros split: option.splits go.splits prod.splits bool.splits nat.splits if_splits)

lemma crun_cstep: "crun ms w = Some w' \<Longrightarrow> cstep\<^sup>*\<^sup>* w w'"
  by (induction ms arbitrary: w)
    (auto intro: cmake_cstep converse_rtranclp_into_rtranclp split: option.splits)

definition cdemo :: "unit cworld" where
  "cdemo = \<lparr>disp = Start (SetNetworkClient (NewDefaultClientDispatcher \<lparr>elements = [], capacity = 10\<rparr>)),
     pump = Some True, senders = 0, signals = 0, accepted = [], completed = [], written = []\<rparr>"

definition demo_bundle :: "string \<Rightarrow> unit RequestBundle" where
  "demo_bundle i = \<lparr>bundle_Call = \<lparr>Call_MessageTypeId = CALL, Call_UniqueId = i, Call_Action = ''Heartbeat'',
     Call_Payload = ()\<rparr>, bundle_Data = JNull\<rparr>"

lemma cdemo_start: "cstart 10 cdemo"
  by (auto simp: cstart_def cdemo_def NewFIFOClientQueue_def Start_def SetNetworkClient_def
      SetTimeout_def NewDefaultClientDispatcher_def)

section \<open>The pump does not panic\<close>

definition pump_enabled :: "pump_case \<Rightarrow> 'v DefaultClientDispatcher \<Rightarrow> bool" where
  "pump_enabled pc d \<longleftrightarrow>
     (case pc of
        RequestCase \<Rightarrow> (\<exists>c. requestChannel d = Some c \<and> (chan_buf c \<noteq> [] \<or> chan_closed c))
      | TimerCase \<Rightarrow> (\<exists>t. timer d = Some t \<and> timer_tick t)
      | ReadyCase \<Rightarrow> ready_token d)"

lemma dispatchNextRequest_cases:
  assumes "cd_wf d" "queued d \<noteq> []"
  shows "dispatchNextRequest wr d \<noteq> Panic e"
    and "\<not> ready_token d \<or> (\<forall>x. wr x = None) \<Longrightarrow> \<exists>r. dispatchNextRequest wr d = Ret r"
proof -
  obtain b bs where b: "queued d = b # bs" using assms(2) by (cases "queued d") auto
  let ?d1 = "d\<lparr>pendingState := AddPendingRequest (bundle_id b) (bundle_req b) (pendingState d)\<rparr>"
  have q1: "queued ?d1 = b # bs" "ready_ok ?d1"
    using assms(1) b by (auto simp: cd_wf_def ready_ok_def)
  note C = CompleteRequest_Ret_iff[OF q1]
  show "dispatchNextRequest wr d \<noteq> Panic e"
    using C(2) b by (auto simp: dispatchNextRequest_def Peek_def Let_def bind_go_eq_Panic split: option.splits)
  assume "\<not> ready_token d \<or> (\<forall>x. wr x = None)"
  then show "\<exists>r. dispatchNextRequest wr d = Ret r"
    using C(1) b by (auto simp: dispatchNextRequest_def Peek_def Let_def ready_token_def split: option.splits)
qed

lemma pumpDispatch_cases:
  assumes "cd_wf d"
  shows "pumpDispatch wr rdy d \<noteq> Panic e"
    and "\<not> rdy \<or> \<not> ready_token d \<or> (\<forall>x. wr x = None) \<Longrightarrow> \<exists>r. pumpDispatch wr rdy d = Ret r"
proof -
  have live: "\<exists>t t'. timer d1 = Some t \<and> timer_restart (timeout d1) t = Ret t'"
    if "dispatchNextRequest wr d = Ret (d1, evs)" for d1 evs
    using dispatchNextRequest_Ret(2)[OF that assms]
    using timer_restart_live by (fastforce simp: cd_wf_def timer_ok_def)
  have eq: "pumpDispatch wr rdy d = (case dispatchNextRequest wr d of
      Ret (d1, evs) \<Rightarrow> Ret (False, d1\<lparr>timer := Some (case timer_restart (timeout d1) (the (timer d1)) of
        Ret t' \<Rightarrow> t')\<rparr>, evs) | Panic e \<Rightarrow> Panic e | Block \<Rightarrow> Block)"
    if "\<not> paused d" "rdy" "queued d \<noteq> []"
    using live that by (cases "dispatchNextRequest wr d") (fastforce simp: pumpDispatch_def IsPaused_def)+
  have idle: "pumpDispatch wr rdy d = Ret (rdy, d, [])" if "paused d \<or> \<not> rdy \<or> queued d = []"
    using that by (auto simp: pumpDispatch_def IsPaused_def)
  show "pumpDispatch wr rdy d \<noteq> Panic e"
    using dispatchNextRequest_cases(1)[OF assms] eq idle
    by (cases "paused d \<or> \<not> rdy \<or> queued d = []") (auto split: go.splits)
  assume "\<not> rdy \<or> \<not> ready_token d \<or> (\<forall>x. wr x = None)"
  then show "\<exists>r. pumpDispatch wr rdy d = Ret r"
    using dispatchNextRequest_cases(2)[OF assms, of wr] eq idle
    by (cases "paused d \<or> \<not> rdy \<or> queued d = []") (auto split: go.splits)
qed

lemma pumpSelect_cases:
  assumes "cd_wf d"
  shows "pumpSelect pc rdy d \<noteq> Panic e"
    and "pump_enabled pc d \<Longrightarrow> pc = TimerCase \<longrightarrow> \<not> ready_token d \<Longrightarrow> \<exists>n. pumpSelect pc rdy d = Ret n"
proof -
  have C: "(\<exists>d'. CompleteRequest (bundle_id b) (d\<lparr>timer := t\<rparr>) = Ret d') \<longleftrightarrow> \<not> ready_token d"
    "CompleteRequest (bundle_id b) (d\<lparr>timer := t\<rparr>) \<noteq> Panic e" if "queued d = b # bs" for b bs t
    using CompleteRequest_Ret_iff[of "d\<lparr>timer := t\<rparr>" b bs] that assms
    by (auto simp: cd_wf_def ready_ok_def)
  have P: "HasPendingRequest (pendingState d) \<Longrightarrow> \<exists>b bs. queued d = b # bs"
    using assms by (auto simp: cd_wf_def pending_front_def)
  obtain q where q: "FIFOClientQueue_Init (requestQueue d) = Ret q"
    using assms by (auto simp: cd_wf_def queue_wf_def FIFOClientQueue_Init_def)
  obtain c t where ct: "requestChannel d = Some c" "timer d = Some t"
    using assms by (auto simp: cd_wf_def request_ok_def timer_ok_def)
  have recv: "chan_recv c \<noteq> Panic e" for c :: "bool chan" and e
    by (simp add: chan_recv_def split: list.splits)
  show "pumpSelect pc rdy d \<noteq> Panic e"
    using C(2) P by (cases pc)
      (auto simp: ct q recv bind_go_eq_Panic timer_drain_def Let_def Peek_def split: option.splits)
  assume "pump_enabled pc d" "pc = TimerCase \<longrightarrow> \<not> ready_token d"
  then show "\<exists>n. pumpSelect pc rdy d = Ret n"
  proof (cases pc)
    case TimerCase
    with \<open>pump_enabled pc d\<close> ct have "timer_tick t" by (simp add: pump_enabled_def)
    with C(1) P TimerCase \<open>pc = TimerCase \<longrightarrow> _\<close> show ?thesis
      by (cases "queued d") (auto simp: ct timer_drain_def Let_def Peek_def)
  qed (auto simp: pump_enabled_def ct q chan_recv_def ready_token_def
      split: list.splits option.splits)
qed

text \<open>Consuming the token of a \<open>ReadyCase\<close> empties the channel, whose buffer has one place.\<close>

lemma pumpSelect_ReadyCase:
  assumes "pumpSelect ReadyCase rdy d = Ret (PumpCheck rdy1 d1 evs)" "cd_wf d"
  shows "\<not> ready_token d1"
  using assms
  by (auto simp: chan_recv_def ready_token_def cd_wf_def ready_ok_def chan_wf_def
      split: list.splits if_splits)

section \<open>Progress\<close>

lemma pumpDispatch_writes:
  assumes "cd_wf d" "\<not> paused d" "queued d = b # bs"
  shows "\<exists>d'. pumpDispatch (\<lambda>_. None) True d = Ret (False, d', [Sent b]) \<and> queued d' = b # bs \<and>
    HasPendingRequest (pendingState d')"
proof -
  let ?d1 = "d\<lparr>pendingState := AddPendingRequest (bundle_id b) (bundle_req b) (pendingState d)\<rparr>"
  have disp: "dispatchNextRequest (\<lambda>_. None) d = Ret (?d1, [Sent b])"
    using assms(3) by (simp add: dispatchNextRequest_def Peek_def Let_def)
  obtain t t' where t: "timer d = Some t" "timer_restart (timeout d) t = Ret t'"
    using assms(1) timer_restart_live by (fastforce simp: cd_wf_def timer_ok_def)
  have "bundle_id b \<noteq> ''''" using assms(1,3) by (simp add: cd_wf_def)
  then show ?thesis
    using assms(2,3) disp t by (auto simp: pumpDispatch_def IsPaused_def state_defs)
qed

text \<open>A pump that is woken while it may send writes the request at the front of the queue.\<close>

lemma pump_writes_front:
  assumes "cd_wf (disp w)" "pump w = Some rdy" "\<not> paused (disp w)" "queued (disp w) = b # bs"
    and wake: "ready_token (disp w) \<or> rdy \<and> request_token (disp w)"
  shows "\<exists>w'. cstep w w' \<and> (length (completed w), b) \<in> set (written w') \<and>
    completed w' = completed w \<and> queued (disp w') = b # bs \<and> HasPendingRequest (pendingState (disp w'))"
proof -
  obtain pc d1 where s: "pumpSelect pc rdy (disp w) = Ret (PumpCheck True d1 [])"
    and d1: "queued d1 = queued (disp w)" "paused d1 = paused (disp w)"
  proof (cases "ready_token (disp w)")
    case True
    then have "\<exists>d1. pumpSelect ReadyCase rdy (disp w) = Ret (PumpCheck True d1 []) \<and>
        queued d1 = queued (disp w) \<and> paused d1 = paused (disp w)"
      using assms(1) by (auto simp: ready_token_def cd_wf_def ready_ok_def chan_recv_def split: list.splits)
    then show ?thesis using that by blast
  next
    case False
    with wake have "\<exists>d1. pumpSelect RequestCase rdy (disp w) = Ret (PumpCheck True d1 []) \<and>
        queued d1 = queued (disp w) \<and> paused d1 = paused (disp w)"
      by (auto simp: request_token_def chan_recv_def split: list.splits)
    then show ?thesis using that by blast
  qed
  have "cd_wf d1" using pumpSelect_Check[OF s assms(1)] by blast
  then obtain d2 where d2: "pumpDispatch (\<lambda>_. None) True d1 = Ret (False, d2, [Sent b])"
    "queued d2 = b # bs" "HasPendingRequest (pendingState d2)"
    using pumpDispatch_writes[of d1 b bs] assms(3,4) d1 by auto
  show ?thesis
    using cstep.pump_iterate[OF assms(2) s d2(1)] d1(1) d2(2,3) assms(4)
    by (intro exI conjI) (assumption, simp_all)
qed

lemma front_written:
  assumes inv: "cinv w" and p: "pump w = Some rdy" "\<not> paused (disp w)" and q: "queued (disp w) = b # bs"
    and c: "requestChannel (disp w) = Some c" "\<not> chan_closed c"
  shows "\<exists>w'. cstep\<^sup>*\<^sup>* w w' \<and> (length (completed w), b) \<in> set (written w') \<and>
    completed w' = completed w \<and> queued (disp w') = b # bs \<and> HasPendingRequest (pendingState (disp w'))"
proof -
  note I = inv[unfolded cinv_Some[OF p(1)]]
  then have wf: "cd_wf (disp w)" by blast
  have go: ?thesis if "cstep\<^sup>*\<^sup>* w v" "cd_wf (disp v)" "pump v = pump w" "\<not> paused (disp v)"
    "queued (disp v) = queued (disp w)" "completed v = completed w"
    "ready_token (disp v) \<or> rdy \<and> request_token (disp v)" for v
  proof -
    have "pump v = Some rdy" "queued (disp v) = b # bs" using that p q by simp_all
    from pump_writes_front[OF that(2) this(1) that(4) this(2) that(7)] that(1,6) show ?thesis
      using rtranclp.rtrancl_into_rtrancl[of cstep w v] by auto
  qed
  consider "HasPendingRequest (pendingState (disp w))" | "ready_token (disp w)" |
    "\<not> ready_token (disp w)" "0 < signals w" | "rdy" "request_token (disp w)" |
    "rdy" "\<not> request_token (disp w)" "0 < senders w"
    using I p q by (auto simp: wake_ok_def)
  then show ?thesis
  proof cases
    case 1
    with I q have "(length (completed w), b) \<in> set (written w)" by (auto intro: hist_front)
    with 1 q show ?thesis by blast
  next
    case 2
    then show ?thesis using go[of w] wf p by auto
  next
    case 3
    then obtain n d' where n: "signals w = Suc n" "signalReady (disp w) = Ret d'"
      using wf by (auto simp: gr0_conv_Suc signalReady_def chan_send_def chan_full_def cd_wf_def
          ready_ok_def ready_token_def)
    then show ?thesis
      using go[OF r_into_rtranclp[of cstep, OF cstep.ready_signal[OF n]]] signalReady_Ret[OF n(2)] wf p by simp
  next
    case 4
    then show ?thesis using go[of w] wf p by auto
  next
    case 5
    then obtain n d' where n: "senders w = Suc n" "signalRequest (disp w) = Ret d'"
      using wf c by (auto simp: gr0_conv_Suc signalRequest_def chan_send_def chan_full_def cd_wf_def
          request_ok_def request_token_def)
    then show ?thesis
      using go[OF r_into_rtranclp[of cstep, OF cstep.send_signal[OF n]]] signalRequest_Ret[OF n(2)] wf p 5(1)
      by auto
  qed
qed

section \<open>Properties\<close>

text \<open>The states reached by the demonstration runs: a move that is not possible leads back to the start.\<close>

definition run_from :: "'v cworld \<Rightarrow> 'v cmove list \<Rightarrow> 'v cworld" where
  "run_from w ms = (case crun ms w of Some w' \<Rightarrow> w' | None \<Rightarrow> w)"

lemma run_from_steps: "cstep\<^sup>*\<^sup>* w (run_from w ms)"
  by (auto simp: run_from_def intro: crun_cstep split: option.splits)

definition cdemo_at :: "unit cmove list \<Rightarrow> unit cworld" where
  "cdemo_at ms = run_from cdemo ms"

lemma cdemo_at_reach: "reach (cstart 10) cstep (cdemo_at ms)"
  unfolding cdemo_at_def
  by (rule reach_steps[of _ _ cdemo]) (auto intro: reach.reach_start cdemo_start run_from_steps)

definition demo_sent :: "unit cworld" where
  "demo_sent = cdemo_at [MPush (demo_bundle ''a''), MSignal, MPump RequestCase None, MPush (demo_bundle ''b'')]"

lemma demo_sent_reach: "reach (cstart 10) cstep demo_sent"
  unfolding demo_sent_def by (rule cdemo_at_reach)

lemma demo_sent_facts:
  "pump demo_sent = Some False" "paused (disp demo_sent) = False" "completed demo_sent = []"
  "queued (disp demo_sent) = [demo_bundle ''a'', demo_bundle ''b'']"
  "HasPendingRequest (pendingState (disp demo_sent))"
  "timer (disp demo_sent) = Some (NewTimer defaultMessageTimeout)"
  "requestChannel (disp demo_sent) = Some (make_chan 1)"
  by code_simp+

text \<open>
  C8: No request is lost, duplicated or reordered by the queue of a running client dispatcher:
  in every state the pump, the callers and the timer can reach, the accepted requests are those
  that were completed (answered, timed out, or refused by the network) followed by those in the
  queue, in order. Writes to the network follow the order of acceptance, each write carries the
  request at its position, and everything that was completed had been written.
\<close>
theorem client_fifo:
  assumes "reach (cstart cap) cstep w" "pump w = Some rdy"
  shows "accepted w = completed w @ elements (requestQueue (disp w)) \<and>
    sorted (map fst (written w)) \<and>
    (\<forall>k b. (k, b) \<in> set (written w) \<longrightarrow>
       k \<le> length (completed w) \<and> k < length (accepted w) \<and> accepted w ! k = b) \<and>
    (\<forall>k < length (completed w). k \<in> fst ` set (written w))"
proof -
  have h: "hist_ok (accepted w) (completed w) (written w) (queued (disp w))
       (HasPendingRequest (pendingState (disp w)))"
    using client_disp.reach_inv[OF assms(1)] cinv_Some[OF assms(2)] by blast
  then show ?thesis
    using hist_written[OF h] hist_acc[OF h] unfolding hist_ok_def hist_seq_def by blast
qed

theorem client_fifo_witness:
  "pump demo_sent = Some False \<and> accepted demo_sent = completed demo_sent @ elements (requestQueue (disp demo_sent))"
  using client_fifo[OF demo_sent_reach demo_sent_facts(1)] demo_sent_facts(1) by blast

text \<open>
  C9: At most one request is outstanding. While a request is pending it is the one at the front
  of the queue, the response that is matched with it is matched with its own payload, it has been
  written, and no request behind it has been.
\<close>
theorem client_one_outstanding:
  assumes "reach (cstart cap) cstep w" "pump w = Some rdy"
    and "HasPendingRequest (pendingState (disp w))"
  shows "\<exists>b bs. elements (requestQueue (disp w)) = b # bs \<and>
    GetPendingRequest (bundle_id b) (pendingState (disp w)) = (Some (bundle_req b), True) \<and>
    (length (completed w), b) \<in> set (written w) \<and>
    (\<forall>k c. (k, c) \<in> set (written w) \<longrightarrow> k \<le> length (completed w))"
proof -
  have I: "cd_wf (disp w)" and h: "hist_ok (accepted w) (completed w) (written w) (queued (disp w)) True"
    using client_disp.reach_inv[OF assms(1)] cinv_Some[OF assms(2)] assms(3) by auto
  obtain b bs where b: "queued (disp w) = b # bs" "requestID (pendingState (disp w)) = bundle_id b"
    "pendingRequest (pendingState (disp w)) = Some (bundle_req b)"
    using I assms(3) by (auto simp: cd_wf_def pending_front_def)
  have "(length (completed w), b) \<in> set (written w)"
    using h b(1) by (simp add: hist_front)
  then show ?thesis
    using b hist_written[OF h] by (auto simp: GetPendingRequest_def)
qed

theorem client_one_outstanding_witness:
  "HasPendingRequest (pendingState (disp demo_sent)) \<and>
   (\<exists>b bs. elements (requestQueue (disp demo_sent)) = b # bs \<and>
     GetPendingRequest (bundle_id b) (pendingState (disp demo_sent)) = (Some (bundle_req b), True))"
  using client_one_outstanding[OF demo_sent_reach demo_sent_facts(1,5)] demo_sent_facts(5) by blast




definition demo_expired :: "unit cworld" where
  "demo_expired = cdemo_at [MPush (demo_bundle ''a''), MSignal, MPump RequestCase None, MExpire]"



definition demo_queued :: "unit cworld" where
  "demo_queued = cdemo_at [MPush (demo_bundle ''a'')]"




section \<open>Stopping and starting again\<close>

text \<open>
  \<open>stale i d\<close>: the ID \<open>i\<close> is pending although no queued request has it. No operation of the
  dispatcher leaves this condition.
\<close>

definition stale :: "string \<Rightarrow> 'v DefaultClientDispatcher \<Rightarrow> bool" where
  "stale i d \<longleftrightarrow> requestID (pendingState d) = i \<and> (\<forall>b\<in>set (queued d). bundle_id b \<noteq> i)"

lemma stale_finish: "stale i d \<Longrightarrow> finishRequest j d = (x, d') \<Longrightarrow> stale i d'"
  by (auto simp: stale_def finishRequest_eq DeletePendingRequest_def dest: list.set_sel(2)
      split: option.splits if_splits)

lemma stale_updates [simp]:
  "stale i (d\<lparr>readyForDispatch := r\<rparr>) = stale i d" "stale i (d\<lparr>requestChannel := c\<rparr>) = stale i d"
  "stale i (d\<lparr>timer := t\<rparr>) = stale i d" "stale i (d\<lparr>paused := p\<rparr>) = stale i d"
  by (simp_all add: stale_def)

lemma stale_signal:
  "stale i d \<Longrightarrow> signalReady d = Ret d' \<Longrightarrow> stale i d'"
  "stale i d \<Longrightarrow> signalRequest d = Ret d' \<Longrightarrow> stale i d'"
  by (auto simp: signalReady_def signalRequest_def split: option.splits)

lemma stale_Complete: "stale i d \<Longrightarrow> CompleteRequest j d = Ret d' \<Longrightarrow> stale i d'"
  by (auto simp: CompleteRequest_def dest: stale_finish stale_signal split: prod.splits bool.splits)

lemma stale_dispatch:
  assumes "stale i d" "i \<noteq> ''''" "dispatchNextRequest wr d = Ret (d', evs)"
  shows "stale i d'"
proof -
  obtain b bs where b: "queued d = b # bs"
    using assms(3) by (auto simp: dispatchNextRequest_def split: option.splits)
  let ?d1 = "d\<lparr>pendingState := AddPendingRequest (bundle_id b) (bundle_req b) (pendingState d)\<rparr>"
  have "stale i ?d1" using assms(1,2) by (auto simp: stale_def AddPendingRequest_def)
  then show ?thesis
    using assms(3) b stale_Complete
    by (auto simp: dispatchNextRequest_def Peek_def Let_def split: option.splits)
qed

lemma stale_select:
  "stale i d \<Longrightarrow> pumpSelect pc rdy d = Ret (PumpCheck rdy1 d1 evs) \<Longrightarrow> stale i d1"
  "stale i d \<Longrightarrow> pumpSelect pc rdy d = Ret (PumpStop d1) \<Longrightarrow> stale i d1"
proof -
  assume d: "stale i d"
  show "pumpSelect pc rdy d = Ret (PumpCheck rdy1 d1 evs) \<Longrightarrow> stale i d1"
    using d stale_Complete[of i "d\<lparr>timer := _\<rparr>"]
    by (cases pc) (auto simp: Let_def Peek_def split: option.splits if_splits list.splits)
  show "pumpSelect pc rdy d = Ret (PumpStop d1) \<Longrightarrow> stale i d1"
    using d by (cases pc) (auto simp: Let_def Peek_def stale_def FIFOClientQueue_Init_def
        split: option.splits if_splits list.splits)
qed

lemma stale_pumpDispatch:
  "stale i d \<Longrightarrow> i \<noteq> '''' \<Longrightarrow> pumpDispatch wr rdy d = Ret (rdy', d', evs) \<Longrightarrow> stale i d'"
  using stale_dispatch[of i d wr] by (auto simp: pumpDispatch_def split: option.splits if_splits)

lemma stale_cstep:
  assumes "cstep w w'" "i \<noteq> ''''" "stale i (disp w)" "\<forall>b\<in>set (accepted w'). bundle_id b \<noteq> i"
  shows "stale i (disp w')"
  using assms(1)
proof cases
  case (send_push b d')
  have "bundle_id b \<noteq> i" using assms(4) send_push(1) by simp
  then show ?thesis using send_push(1) enqueueRequest_None(1)[OF send_push(3)] assms(3)
    by (auto simp: stale_def)
next
  case (send_signal n d')
  then show ?thesis using stale_signal(2)[OF assms(3)] by simp
next
  case (respond j d')
  then show ?thesis using stale_finish[OF assms(3)] by simp
next
  case (ready_signal n d')
  then show ?thesis using stale_signal(1)[OF assms(3)] by simp
next
  case (timer_expires t)
  then show ?thesis using assms(3) by simp
next
  case (pause d')
  then show ?thesis using assms(3) by (auto simp: Pause_def split: option.splits)
next
  case (resume sig d')
  then show ?thesis using assms(3) by (auto simp: resume_def Let_def split: option.splits if_splits)
next
  case (stop d')
  then show ?thesis using assms(3) by (auto simp: Stop_def split: option.splits)
next
  case (pump_iterate rdy pc rdy1 d1 evs1 wr rdy2 d2 evs2)
  then show ?thesis
    using stale_pumpDispatch[OF stale_select(1)[OF assms(3) pump_iterate(3)] assms(2) pump_iterate(4)]
    by simp
next
  case (pump_stop rdy pc d1)
  then show ?thesis using stale_select(2)[OF assms(3) pump_stop(3)] by simp
qed

lemma accepted_mono: "cstep\<^sup>*\<^sup>* w w' \<Longrightarrow> set (accepted w) \<subseteq> set (accepted w')"
  by (induction rule: rtranclp_induct) (auto elim!: cstep.cases)

lemma stale_steps:
  "cstep\<^sup>*\<^sup>* w w' \<Longrightarrow> i \<noteq> '''' \<Longrightarrow> stale i (disp w) \<Longrightarrow> \<forall>b\<in>set (accepted w'). bundle_id b \<noteq> i \<Longrightarrow>
     stale i (disp w')"
proof (induction rule: rtranclp_induct)
  case (step u v)
  have "set (accepted u) \<subseteq> set (accepted v)" using accepted_mono[of u v] step.hyps(2) by blast
  with step show ?case using stale_cstep[OF step.hyps(2)] by blast
qed simp

text \<open>Starting a stopped dispatcher: a new channel, a new timer, a new pump.\<close>

definition restart :: "'v cworld \<Rightarrow> 'v cworld" where
  "restart w = w\<lparr>disp := Start (disp w), pump := Some True, accepted := [], completed := [], written := []\<rparr>"

text \<open>
  A request that is pending when the dispatcher is stopped stays pending for ever: the stop
  empties the queue and not the pending state. After a new start, whatever happens, no request
  with another ID is ever recorded as pending, so the response to every new request is taken
  for an unsolicited one.
\<close>
theorem client_restart_stale:
  assumes "reach (cstart cap) cstep w" "pump w = None"
    and "requestID (pendingState (disp w)) = i" "i \<noteq> ''''" "elements (requestQueue (disp w)) = []"
    and "cstep\<^sup>*\<^sup>* (restart w) w'" "\<forall>b\<in>set (accepted w'). bundle_id b \<noteq> i"
  shows "\<forall>j. j \<noteq> i \<longrightarrow> GetPendingRequest j (pendingState (disp w')) = (None, False)"
proof -
  have "stale i (disp (restart w))"
    using assms(3,5) by (simp add: restart_def stale_def Start_def)
  from stale_steps[OF assms(6,4) this assms(7)] show ?thesis
    by (simp add: stale_def GetPendingRequest_def)
qed

definition demo_stopped :: "unit cworld" where
  "demo_stopped = cdemo_at [MPush (demo_bundle ''a''), MSignal, MPump RequestCase None, MStop,
     MPump RequestCase None]"

definition demo_again :: "unit cworld" where
  "demo_again = run_from (restart demo_stopped)
     [MPush (demo_bundle ''b''), MSignal, MPump RequestCase None]"

theorem client_restart_stale_witness:
  "written demo_again = [(0, demo_bundle ''b'')] \<and>
   GetPendingRequest ''b'' (pendingState (disp demo_again)) = (None, False)"
proof -
  have f: "pump demo_stopped = None" "requestID (pendingState (disp demo_stopped)) = ''a''"
    "elements (requestQueue (disp demo_stopped)) = []"
    "map bundle_id (accepted demo_again) = [''b'']" "written demo_again = [(0, demo_bundle ''b'')]"
    by code_simp+
  have ids: "\<forall>b\<in>set (accepted demo_again). bundle_id b \<noteq> ''a''" using f(4) by auto
  have r: "reach (cstart 10) cstep demo_stopped" unfolding demo_stopped_def by (rule cdemo_at_reach)
  have s: "cstep\<^sup>*\<^sup>* (restart demo_stopped) demo_again"
    unfolding demo_again_def by (rule run_from_steps)
  from client_restart_stale[OF r f(1,2) _ f(3) s ids] f(5) show ?thesis by simp
qed

section \<open>Overlapping removals\<close>

text \<open>
  The check of the front of the queue and the removal are not atomic. When a response and a
  timeout complete the same request and both check before either removes, two requests leave the
  queue: the second one is dropped, whether or not it was ever written, and nothing is pending.
\<close>
theorem client_complete_overlap:
  assumes "elements (requestQueue d) = a # b # bs" "requestID (pendingState d) = bundle_id a"
    and "d' = finishPop (bundle_id a) (finishPop (bundle_id a) d)"
  shows "finishCheck (bundle_id a) d \<and> elements (requestQueue d') = bs \<and>
    \<not> HasPendingRequest (pendingState d')"
  using assms by (auto simp: cd_defs Peek_def state_defs)

theorem client_complete_overlap_witness:
  "elements (requestQueue (disp demo_sent)) = [demo_bundle ''a'', demo_bundle ''b''] \<and>
   written demo_sent = [(0, demo_bundle ''a'')] \<and>
   elements (requestQueue (finishPop ''a'' (finishPop ''a'' (disp demo_sent)))) = []"
proof -
  have f: "requestID (pendingState (disp demo_sent)) = bundle_id (demo_bundle ''a'')"
    "bundle_id (demo_bundle ''a'') = ''a''" "written demo_sent = [(0, demo_bundle ''a'')]"
    by code_simp+
  from client_complete_overlap[OF demo_sent_facts(4) f(1) refl] f demo_sent_facts(4)
  show ?thesis by simp
qed

end
