(* ===== verification/ServerDispatcher.thy ===== *)
theory ServerDispatcher
  imports ClientDispatcher
begin

text \<open>
  \<^verbatim>\<open>ocppj/dispatcher.go\<close>, \<^verbatim>\<open>DefaultServerDispatcher\<close>: one queue of outgoing requests per client, one
  goroutine that sends them (\<^verbatim>\<open>messagePump\<close>), one goroutine per request that waits for its timeout.

  As for the client, a method is split at its channel sends, and each piece is one step of the
  relation \<open>sstep\<close>. The local variables of the pump keep their values from one iteration to the
  next, as in the source; the queue it holds is a reference that may have left the map.
\<close>

section \<open>The dispatcher\<close>

record 'v DefaultServerDispatcher =
  sd_queueMap :: "'v RequestBundle FIFOQueueMap"
  sd_requestChannel :: "string chan option"
  sd_readyForDispatch :: "string chan"
  sd_pendingState :: "'v serverState"
  sd_timeout :: int
  sd_timerC :: "string chan option"
  sd_running :: bool
  sd_stoppedC :: "unit chan option"
  sd_onRequestCancel :: bool
  sd_network :: bool

text \<open>
  A context is identified by a number. The zero value of the struct has neither a context nor a
  cancel function; the dispatcher sets both or none.
\<close>

record clientTimeoutContext =
  ctx :: "nat option"

definition noContext :: clientTimeoutContext where
  "noContext = \<lparr>ctx = None\<rparr>"

definition isActive :: "clientTimeoutContext \<Rightarrow> bool" where
  "isActive c \<longleftrightarrow> ctx c \<noteq> None"

text \<open>
  Effects: writes to the network, calls of the cancellation callback, contexts that are cancelled
  and goroutines \<^verbatim>\<open>waitForTimeout\<close> that are started.
\<close>

datatype 'v sd_event =
    ServerSent string "'v RequestBundle"
  | ServerSendFailed string "'v RequestBundle" string
  | ServerCanceled string string 'v Error
  | CancelContext nat
  | StartTimeout string nat

definition NewDefaultServerDispatcher ::
  "'v RequestBundle FIFOQueueMap \<Rightarrow> 'v DefaultServerDispatcher" where
  "NewDefaultServerDispatcher queueMap =
     \<lparr>sd_queueMap = queueMap, sd_requestChannel = None, sd_readyForDispatch = make_chan 1,
      sd_pendingState = NewServerState, sd_timeout = defaultMessageTimeout, sd_timerC = None,
      sd_running = False, sd_stoppedC = None, sd_onRequestCancel = False, sd_network = False\<rparr>"

definition ServerDispatcher_Start :: "'v DefaultServerDispatcher \<Rightarrow> 'v DefaultServerDispatcher" where
  "ServerDispatcher_Start d =
     d\<lparr>sd_requestChannel := Some (make_chan 20), sd_timerC := Some (make_chan 10),
       sd_stoppedC := Some (make_chan 1), sd_running := True\<rparr>"

definition ServerDispatcher_IsRunning :: "'v DefaultServerDispatcher \<Rightarrow> bool" where
  "ServerDispatcher_IsRunning d \<longleftrightarrow> sd_running d"

definition ServerDispatcher_Stop :: "'v DefaultServerDispatcher \<Rightarrow> 'v DefaultServerDispatcher go" where
  "ServerDispatcher_Stop d =
     (let d1 = d\<lparr>sd_running := False\<rparr>
      in case sd_stoppedC d1 of
           None \<Rightarrow> Panic ''close of nil channel''
         | Some c \<Rightarrow> bind_go (chan_close c) (\<lambda>c'. Ret (d1\<lparr>sd_stoppedC := Some c'\<rparr>)))"

definition ServerDispatcher_SetTimeout ::
  "int \<Rightarrow> 'v DefaultServerDispatcher \<Rightarrow> 'v DefaultServerDispatcher" where
  "ServerDispatcher_SetTimeout t d = d\<lparr>sd_timeout := t\<rparr>"

definition SetNetworkServer :: "'v DefaultServerDispatcher \<Rightarrow> 'v DefaultServerDispatcher" where
  "SetNetworkServer d = d\<lparr>sd_network := True\<rparr>"

definition ServerDispatcher_SetOnRequestCanceled ::
  "'v DefaultServerDispatcher \<Rightarrow> 'v DefaultServerDispatcher" where
  "ServerDispatcher_SetOnRequestCanceled d = d\<lparr>sd_onRequestCancel := True\<rparr>"

definition ServerDispatcher_SetPendingRequestState ::
  "'v serverState \<Rightarrow> 'v DefaultServerDispatcher \<Rightarrow> 'v DefaultServerDispatcher" where
  "ServerDispatcher_SetPendingRequestState s d = d\<lparr>sd_pendingState := s\<rparr>"

definition CreateClient :: "string \<Rightarrow> 'v DefaultServerDispatcher \<Rightarrow> 'v DefaultServerDispatcher go" where
  "CreateClient clientID d =
     (if ServerDispatcher_IsRunning d
      then bind_go (GetOrCreate clientID (sd_queueMap d)) (\<lambda>(_, m). Ret (d\<lparr>sd_queueMap := m\<rparr>))
      else Ret d)"

text \<open>The send both \<^verbatim>\<open>DeleteClient\<close> and \<^verbatim>\<open>SendRequest\<close> end with.\<close>

definition signalClient :: "string \<Rightarrow> 'v DefaultServerDispatcher \<Rightarrow> 'v DefaultServerDispatcher go" where
  "signalClient clientID d =
     (case sd_requestChannel d of
        None \<Rightarrow> Block
      | Some c \<Rightarrow> bind_go (chan_send c clientID) (\<lambda>c'. Ret (d\<lparr>sd_requestChannel := Some c'\<rparr>)))"

text \<open>\<^verbatim>\<open>DeleteClient\<close> up to its send, and whether it goes on to send.\<close>

definition removeClient ::
  "string \<Rightarrow> 'v DefaultServerDispatcher \<Rightarrow> bool \<times> 'v DefaultServerDispatcher" where
  "removeClient clientID d =
     (let d1 = d\<lparr>sd_queueMap := FIFOQueueMap_Remove clientID (sd_queueMap d)\<rparr>
      in (ServerDispatcher_IsRunning d1, d1))"

definition DeleteClient :: "string \<Rightarrow> 'v DefaultServerDispatcher \<Rightarrow> 'v DefaultServerDispatcher go" where
  "DeleteClient clientID d =
     (case removeClient clientID d of
        (True, d') \<Rightarrow> signalClient clientID d'
      | (False, d') \<Rightarrow> Ret d')"

definition enqueueClientRequest ::
  "string \<Rightarrow> 'v RequestBundle \<Rightarrow> 'v DefaultServerDispatcher \<Rightarrow>
   string option \<times> 'v DefaultServerDispatcher" where
  "enqueueClientRequest clientID req d =
     (if \<not> sd_network d
      then (Some (''cannot send request '' @ bundle_id req @ '', no network server was set''), d)
      else case FIFOQueueMap_Get clientID (sd_queueMap d) of
        None \<Rightarrow> (Some (''cannot send request '' @ bundle_id req @ '', no client '' @ clientID @ '' exists''), d)
      | Some r \<Rightarrow>
          (case Push req (heap (sd_queueMap d) r) of
             (Some err, q) \<Rightarrow> (Some err, d\<lparr>sd_queueMap := upd_queue r q (sd_queueMap d)\<rparr>)
           | (None, q) \<Rightarrow> (None, d\<lparr>sd_queueMap := upd_queue r q (sd_queueMap d)\<rparr>)))"

definition ServerDispatcher_SendRequest ::
  "string \<Rightarrow> 'v RequestBundle \<Rightarrow> 'v DefaultServerDispatcher \<Rightarrow>
   (string option \<times> 'v DefaultServerDispatcher) go" where
  "ServerDispatcher_SendRequest clientID req d =
     (case enqueueClientRequest clientID req d of
        (Some err, d') \<Rightarrow> Ret (Some err, d')
      | (None, d') \<Rightarrow> bind_go (signalClient clientID d') (\<lambda>d''. Ret (None, d'')))"

text \<open>\<^verbatim>\<open>CompleteRequest\<close> up to its send, and whether it goes on to send.\<close>

definition finishClientRequest ::
  "string \<Rightarrow> string \<Rightarrow> 'v DefaultServerDispatcher \<Rightarrow> bool \<times> 'v DefaultServerDispatcher" where
  "finishClientRequest clientID rid d =
     (case FIFOQueueMap_Get clientID (sd_queueMap d) of
        None \<Rightarrow> (False, d)
      | Some r \<Rightarrow>
          (case Peek (heap (sd_queueMap d) r) of
             None \<Rightarrow> (False, d)
           | Some bundle \<Rightarrow>
               if bundle_id bundle \<noteq> rid then (False, d)
               else (True, d\<lparr>sd_queueMap :=
                              upd_queue r (snd (Pop (heap (sd_queueMap d) r))) (sd_queueMap d),
                            sd_pendingState :=
                              serverState_DeletePendingRequest clientID rid (sd_pendingState d)\<rparr>)))"

definition signalClientReady ::
  "string \<Rightarrow> 'v DefaultServerDispatcher \<Rightarrow> 'v DefaultServerDispatcher go" where
  "signalClientReady clientID d =
     bind_go (chan_send (sd_readyForDispatch d) clientID) (\<lambda>c. Ret (d\<lparr>sd_readyForDispatch := c\<rparr>))"

definition ServerDispatcher_CompleteRequest ::
  "string \<Rightarrow> string \<Rightarrow> 'v DefaultServerDispatcher \<Rightarrow> 'v DefaultServerDispatcher go" where
  "ServerDispatcher_CompleteRequest clientID rid d =
     (case finishClientRequest clientID rid d of
        (False, d') \<Rightarrow> Ret d'
      | (True, d') \<Rightarrow> signalClientReady clientID d')"

definition clientCanceledEvent ::
  "'v DefaultServerDispatcher \<Rightarrow> string \<Rightarrow> 'v RequestBundle \<Rightarrow> ErrorCode \<Rightarrow> string \<Rightarrow>
   'v sd_event list" where
  "clientCanceledEvent d clientID bundle code description =
     (if sd_onRequestCancel d
      then [ServerCanceled clientID (bundle_id bundle) (bundle_req bundle)
              (NewError code description (bundle_id bundle))]
      else [])"

text \<open>\<open>fresh\<close> is the identity of the context that \<^verbatim>\<open>context.WithTimeout\<close> would create.\<close>

definition dispatchNextClientRequest ::
  "(string \<Rightarrow> json \<Rightarrow> string option) \<Rightarrow> nat \<Rightarrow> string \<Rightarrow> 'v DefaultServerDispatcher \<Rightarrow>
   (clientTimeoutContext \<times> 'v DefaultServerDispatcher \<times> 'v sd_event list) go" where
  "dispatchNextClientRequest wr fresh clientID d =
     (case FIFOQueueMap_Get clientID (sd_queueMap d) of
        None \<Rightarrow> Ret (noContext, d, [])
      | Some r \<Rightarrow>
          (case Peek (heap (sd_queueMap d) r) of
             None \<Rightarrow> Panic ''nil pointer dereference''
           | Some bundle \<Rightarrow>
               (let d1 = d\<lparr>sd_pendingState :=
                      serverState_AddPendingRequest clientID (bundle_id bundle) (bundle_req bundle)
                        (sd_pendingState d)\<rparr>
                in case wr clientID (bundle_Data bundle) of
                     Some err \<Rightarrow>
                       bind_go (ServerDispatcher_CompleteRequest clientID (bundle_id bundle) d1) (\<lambda>d2.
                         Ret (noContext, d2,
                           ServerSendFailed clientID bundle err #
                           clientCanceledEvent d2 clientID bundle InternalError err))
                   | None \<Rightarrow>
                       Ret (if sd_timeout d1 > 0 then \<lparr>ctx = Some fresh\<rparr> else noContext,
                            d1, [ServerSent clientID bundle]))))"

section \<open>The message pump\<close>

text \<open>
  The local variables of \<^verbatim>\<open>messagePump\<close> that live across iterations, and the counter for contexts.
  \<^verbatim>\<open>ok\<close> and \<^verbatim>\<open>clientCtx\<close> are assigned before every use and are not kept.
\<close>

record pump_locals =
  pl_clientID :: string
  pl_rdy :: bool
  pl_clientQueue :: "ref option"
  pl_contexts :: "string \<rightharpoonup> clientTimeoutContext"
  pl_fresh :: nat

definition initial_locals :: pump_locals where
  "initial_locals = \<lparr>pl_clientID = '''', pl_rdy = False, pl_clientQueue = None,
     pl_contexts = Map.empty, pl_fresh = 0\<rparr>"

datatype server_case = StoppedCase | ClientRequestCase | ClientTimerCase | ClientReadyCase

datatype 'v server_next =
    ServerStop "'v DefaultServerDispatcher"
  | ServerContinue pump_locals "'v DefaultServerDispatcher" "'v sd_event list"
  | ServerCheck pump_locals "'v DefaultServerDispatcher" "'v sd_event list"

text \<open>\<^verbatim>\<open>clientCtx.cancel()\<close> when the context is there.\<close>

definition cancelEvents :: "clientTimeoutContext \<Rightarrow> 'v sd_event list" where
  "cancelEvents c = (case ctx c of None \<Rightarrow> [] | Some i \<Rightarrow> [CancelContext i])"

definition contextOf :: "string \<Rightarrow> pump_locals \<Rightarrow> clientTimeoutContext" where
  "contextOf clientID l = (case pl_contexts l clientID of None \<Rightarrow> noContext | Some c \<Rightarrow> c)"

text \<open>Cancelling the timeout of a client that has an active one.\<close>

definition resetContext :: "string \<Rightarrow> pump_locals \<Rightarrow> pump_locals" where
  "resetContext clientID l =
     (if isActive (contextOf clientID l)
      then l\<lparr>pl_contexts := (pl_contexts l)(clientID \<mapsto> noContext)\<rparr> else l)"

text \<open>
  The bodies of the three cases. A request was announced for a client: without a queue the client
  has gone; otherwise the pump may send if no timeout is running for the client.
\<close>

definition clientRequested ::
  "string \<Rightarrow> pump_locals \<Rightarrow> 'v DefaultServerDispatcher \<Rightarrow> 'v server_next" where
  "clientRequested clientID l d =
     (let q = FIFOQueueMap_Get clientID (sd_queueMap d);
          l1 = l\<lparr>pl_clientID := clientID, pl_clientQueue := q\<rparr>
      in case q of
           None \<Rightarrow>
             ServerContinue (l1\<lparr>pl_contexts := (pl_contexts l1)(clientID := None)\<rparr>) d
               (cancelEvents (contextOf clientID l1))
         | Some _ \<Rightarrow>
             ServerCheck
               (l1\<lparr>pl_rdy := (case pl_contexts l1 clientID of
                                 None \<Rightarrow> True
                               | Some cc \<Rightarrow> \<not> isActive cc)\<rparr>) d [])"

text \<open>A client is ready again: its timeout is cancelled.\<close>

definition clientReady ::
  "string \<Rightarrow> pump_locals \<Rightarrow> 'v DefaultServerDispatcher \<Rightarrow> 'v server_next" where
  "clientReady clientID l d =
     (let q = FIFOQueueMap_Get clientID (sd_queueMap d);
          l1 = resetContext clientID (l\<lparr>pl_clientID := clientID, pl_clientQueue := q\<rparr>)
      in ServerCheck (if q \<noteq> None then l1\<lparr>pl_rdy := True\<rparr> else l1) d
           (cancelEvents (contextOf clientID l)))"

text \<open>A timeout: the pending request of the client is removed.\<close>

definition clientTimedOut ::
  "string \<Rightarrow> pump_locals \<Rightarrow> 'v DefaultServerDispatcher \<Rightarrow> 'v server_next go" where
  "clientTimedOut clientID l d =
     (let evs = cancelEvents (contextOf clientID l);
          l1 = resetContext clientID (l\<lparr>pl_clientID := clientID\<rparr>)
      in if serverState_HasPendingRequest clientID (sd_pendingState d) then
           (case FIFOQueueMap_Get clientID (sd_queueMap d) of
              None \<Rightarrow> Panic ''nil pointer dereference''
            | Some r \<Rightarrow>
                (case Peek (heap (sd_queueMap d) r) of
                   None \<Rightarrow> Panic ''nil pointer dereference''
                 | Some bundle \<Rightarrow>
                     bind_go (ServerDispatcher_CompleteRequest clientID (bundle_id bundle) d) (\<lambda>d1.
                       Ret (ServerCheck l1 d1
                         (evs @ clientCanceledEvent d1 clientID bundle GenericError
                                  ''Request timed out'')))))
         else Ret (ServerCheck l1 d evs))"

text \<open>A receive from a closed channel gives the empty string.\<close>

definition zero_or_string :: "string option \<Rightarrow> string" where
  "zero_or_string v = (case v of None \<Rightarrow> '''' | Some x \<Rightarrow> x)"

fun serverSelect ::
  "server_case \<Rightarrow> pump_locals \<Rightarrow> 'v DefaultServerDispatcher \<Rightarrow> 'v server_next go" where
  "serverSelect StoppedCase l d =
     (case sd_stoppedC d of
        None \<Rightarrow> Block
      | Some c \<Rightarrow>
          bind_go (chan_recv c) (\<lambda>(_, c').
            Ret (ServerStop (d\<lparr>sd_stoppedC := Some c', sd_queueMap := FIFOQueueMap_Init (sd_queueMap d)\<rparr>))))"
| "serverSelect ClientRequestCase l d =
     (case sd_requestChannel d of
        None \<Rightarrow> Block
      | Some c \<Rightarrow>
          bind_go (chan_recv c) (\<lambda>(v, c').
            Ret (clientRequested (zero_or_string v) l (d\<lparr>sd_requestChannel := Some c'\<rparr>))))"
| "serverSelect ClientTimerCase l d =
     (case sd_timerC d of
        None \<Rightarrow> Block
      | Some c \<Rightarrow>
          bind_go (chan_recv c) (\<lambda>(v, c').
            let d1 = d\<lparr>sd_timerC := Some c'\<rparr>
            in case v of
                 None \<Rightarrow> Ret (ServerContinue (l\<lparr>pl_clientID := ''''\<rparr>) d1 [])
               | Some clientID \<Rightarrow> clientTimedOut clientID l d1))"
| "serverSelect ClientReadyCase l d =
     bind_go (chan_recv (sd_readyForDispatch d)) (\<lambda>(v, c').
       Ret (clientReady (zero_or_string v) l (d\<lparr>sd_readyForDispatch := c'\<rparr>)))"

definition serverDispatch ::
  "(string \<Rightarrow> json \<Rightarrow> string option) \<Rightarrow> pump_locals \<Rightarrow> 'v DefaultServerDispatcher \<Rightarrow>
   (pump_locals \<times> 'v DefaultServerDispatcher \<times> 'v sd_event list) go" where
  "serverDispatch wr l d =
     (case pl_clientQueue l of
        Some r \<Rightarrow>
          if pl_rdy l \<and> \<not> IsEmpty (heap (sd_queueMap d) r) then
            bind_go (dispatchNextClientRequest wr (pl_fresh l) (pl_clientID l) d) (\<lambda>(c, d1, evs).
              Ret (l\<lparr>pl_contexts := (pl_contexts l)(pl_clientID l \<mapsto> c), pl_rdy := False,
                     pl_fresh := Suc (pl_fresh l)\<rparr>, d1,
                   evs @ (case ctx c of None \<Rightarrow> [] | Some i \<Rightarrow> [StartTimeout (pl_clientID l) i])))
          else Ret (l, d, [])
      | None \<Rightarrow> Ret (l, d, []))"

definition serverIteration ::
  "(string \<Rightarrow> json \<Rightarrow> string option) \<Rightarrow> server_case \<Rightarrow> pump_locals \<Rightarrow> 'v DefaultServerDispatcher \<Rightarrow>
   (pump_locals option \<times> 'v DefaultServerDispatcher \<times> 'v sd_event list) go" where
  "serverIteration wr pc l d =
     bind_go (serverSelect pc l d) (\<lambda>n.
       case n of
         ServerStop d1 \<Rightarrow> Ret (None, d1, [])
       | ServerContinue l1 d1 evs1 \<Rightarrow> Ret (Some l1, d1, evs1)
       | ServerCheck l1 d1 evs1 \<Rightarrow>
           bind_go (serverDispatch wr l1 d1) (\<lambda>(l2, d2, evs2). Ret (Some l2, d2, evs1 @ evs2)))"

text \<open>
  \<^verbatim>\<open>waitForTimeout\<close> once its context is done: on an expired deadline the client is announced to the
  pump, if the dispatcher is still running; on a cancelled one nothing happens.
\<close>

definition waitForTimeout ::
  "string \<Rightarrow> bool \<Rightarrow> 'v DefaultServerDispatcher \<Rightarrow> 'v DefaultServerDispatcher go" where
  "waitForTimeout clientID deadlineExceeded d =
     (if deadlineExceeded \<and> sd_running d then
        (case sd_timerC d of
           None \<Rightarrow> Block
         | Some c \<Rightarrow> bind_go (chan_send c clientID) (\<lambda>c'. Ret (d\<lparr>sd_timerC := Some c'\<rparr>)))
      else Ret d)"

section \<open>A running dispatcher and its environment\<close>

text \<open>
  The dispatcher, the locals of its pump (\<open>None\<close> once it has returned) and the goroutines around
  it, each known by its client: callers that stand before the send to \<^verbatim>\<open>requestChannel\<close>, callers
  that stand before the send to \<^verbatim>\<open>readyForDispatch\<close>, timeouts that run, timeouts that have expired
  and stand before the send to \<^verbatim>\<open>timerC\<close>, and disconnections whose pending request is still to be
  cleared (\<^verbatim>\<open>Server.onClientDisconnected\<close> deletes the queue first). The histories are those of the
  current connection of each client.
\<close>

record 'v sworld =
  sdisp :: "'v DefaultServerDispatcher"
  spump :: "pump_locals option"
  ssenders :: "string list"
  ssignals :: "string list"
  swaiting :: "(nat \<times> string) list"
  sexpired :: "string list"
  sclearing :: "string list"
  saccepted :: "string \<Rightarrow> 'v RequestBundle list"
  scompleted :: "string \<Rightarrow> 'v RequestBundle list"
  swritten :: "string \<Rightarrow> (nat \<times> 'v RequestBundle) list"

definition clientQueue :: "string \<Rightarrow> 'v DefaultServerDispatcher \<Rightarrow> 'v RequestBundle list" where
  "clientQueue c d = (case queueOf c (sd_queueMap d) of None \<Rightarrow> [] | Some q \<Rightarrow> elements q)"

definition connected :: "string \<Rightarrow> 'v DefaultServerDispatcher \<Rightarrow> bool" where
  "connected c d \<longleftrightarrow> queueOf c (sd_queueMap d) \<noteq> None"

definition sstart :: "int \<Rightarrow> 'v sworld \<Rightarrow> bool" where
  "sstart cap w \<longleftrightarrow> 0 \<le> cap \<and>
     (\<exists>t cb. w = \<lparr>sdisp = ServerDispatcher_Start ((SetNetworkServer (ServerDispatcher_SetTimeout t
                     (NewDefaultServerDispatcher (NewFIFOQueueMap cap))))\<lparr>sd_onRequestCancel := cb\<rparr>),
       spump = Some initial_locals, ssenders = [], ssignals = [], swaiting = [], sexpired = [],
       sclearing = [], saccepted = (\<lambda>_. []), scompleted = (\<lambda>_. []), swritten = (\<lambda>_. [])\<rparr>)"

fun server_writes :: "'v sd_event list \<Rightarrow> (string \<times> 'v RequestBundle) list" where
  "server_writes [] = []"
| "server_writes (ServerSent c b # evs) = (c, b) # server_writes evs"
| "server_writes (ServerSendFailed c b e # evs) = (c, b) # server_writes evs"
| "server_writes (e # evs) = server_writes evs"

fun timeouts_after :: "'v sd_event list \<Rightarrow> (nat \<times> string) list \<Rightarrow> (nat \<times> string) list" where
  "timeouts_after [] ws = ws"
| "timeouts_after (CancelContext i # evs) ws = timeouts_after evs (filter (\<lambda>(j, _). j \<noteq> i) ws)"
| "timeouts_after (StartTimeout c i # evs) ws = timeouts_after evs (ws @ [(i, c)])"
| "timeouts_after (e # evs) ws = timeouts_after evs ws"

definition left_queue ::
  "string \<Rightarrow> 'v DefaultServerDispatcher \<Rightarrow> 'v DefaultServerDispatcher \<Rightarrow> 'v RequestBundle list" where
  "left_queue c d d' = take (length (clientQueue c d) - length (clientQueue c d')) (clientQueue c d)"

inductive sstep :: "'v sworld \<Rightarrow> 'v sworld \<Rightarrow> bool" where
  srv_send: "bundle_id b \<noteq> '''' \<Longrightarrow> enqueueClientRequest c b (sdisp w) = (None, d') \<Longrightarrow>
    sstep w (w\<lparr>sdisp := d', ssenders := c # ssenders w,
               saccepted := (saccepted w)(c := saccepted w c @ [b])\<rparr>)"
| srv_signal: "c \<in> set (ssenders w) \<Longrightarrow> signalClient c (sdisp w) = Ret d' \<Longrightarrow>
    sstep w (w\<lparr>sdisp := d', ssenders := remove1 c (ssenders w)\<rparr>)"
| srv_respond: "i \<noteq> '''' \<Longrightarrow> snd (GetPendingRequest i (stateOf c (sd_pendingState (sdisp w)))) \<Longrightarrow>
    finishClientRequest c i (sdisp w) = (True, d') \<Longrightarrow>
    sstep w (w\<lparr>sdisp := d', ssignals := c # ssignals w,
               scompleted := (scompleted w)(c := scompleted w c @ left_queue c (sdisp w) d')\<rparr>)"
| srv_ready: "c \<in> set (ssignals w) \<Longrightarrow> signalClientReady c (sdisp w) = Ret d' \<Longrightarrow>
    sstep w (w\<lparr>sdisp := d', ssignals := remove1 c (ssignals w)\<rparr>)"
| srv_connect: "CreateClient c (sdisp w) = Ret d' \<Longrightarrow> sstep w (w\<lparr>sdisp := d'\<rparr>)"
| srv_disconnect: "removeClient c (sdisp w) = (sig, d') \<Longrightarrow>
    sstep w (w\<lparr>sdisp := d', ssenders := (if sig then c # ssenders w else ssenders w),
               sclearing := c # sclearing w, saccepted := (saccepted w)(c := []),
               scompleted := (scompleted w)(c := []), swritten := (swritten w)(c := [])\<rparr>)"
| srv_clear: "c \<in> set (sclearing w) \<Longrightarrow>
    sstep w (w\<lparr>sdisp := (sdisp w)\<lparr>sd_pendingState := ClearClientPendingRequest c (sd_pendingState (sdisp w))\<rparr>,
               sclearing := remove1 c (sclearing w)\<rparr>)"
| srv_expire: "(i, c) \<in> set (swaiting w) \<Longrightarrow>
    sstep w (w\<lparr>swaiting := remove1 (i, c) (swaiting w), sexpired := c # sexpired w\<rparr>)"
| srv_timeout: "c \<in> set (sexpired w) \<Longrightarrow> waitForTimeout c True (sdisp w) = Ret d' \<Longrightarrow>
    sstep w (w\<lparr>sdisp := d', sexpired := remove1 c (sexpired w)\<rparr>)"
| srv_stop: "ServerDispatcher_Stop (sdisp w) = Ret d' \<Longrightarrow> sstep w (w\<lparr>sdisp := d'\<rparr>)"
| srv_pump_stop: "spump w = Some l \<Longrightarrow> serverSelect pc l (sdisp w) = Ret (ServerStop d1) \<Longrightarrow>
    sstep w (w\<lparr>sdisp := d1, spump := None\<rparr>)"
| srv_pump_continue: "spump w = Some l \<Longrightarrow>
    serverSelect pc l (sdisp w) = Ret (ServerContinue l1 d1 evs1) \<Longrightarrow>
    sstep w (w\<lparr>sdisp := d1, spump := Some l1, swaiting := timeouts_after evs1 (swaiting w)\<rparr>)"
| srv_pump: "spump w = Some l \<Longrightarrow>
    serverSelect pc l (sdisp w) = Ret (ServerCheck l1 d1 evs1) \<Longrightarrow>
    serverDispatch wr l1 d1 = Ret (l2, d2, evs2) \<Longrightarrow> c = pl_clientID l1 \<Longrightarrow>
    fin = scompleted w c @ left_queue c (sdisp w) d1 \<Longrightarrow>
    sstep w (w\<lparr>sdisp := d2, spump := Some l2, swaiting := timeouts_after (evs1 @ evs2) (swaiting w),
      scompleted := (scompleted w)(c := fin @ left_queue c d1 d2),
      swritten := (swritten w)(c := swritten w c @
        map (\<lambda>(_, b). (length fin, b)) (server_writes evs2))\<rparr>)"

section \<open>What the operations do\<close>

abbreviation pendingOf :: "string \<Rightarrow> 'v DefaultServerDispatcher \<Rightarrow> (string \<times> 'v) option" where
  "pendingOf c d \<equiv> pending (stateOf c (sd_pendingState d))"

text \<open>Nothing has changed for a client: its queue and its pending request.\<close>

definition same_client ::
  "string \<Rightarrow> 'v DefaultServerDispatcher \<Rightarrow> 'v DefaultServerDispatcher \<Rightarrow> bool" where
  "same_client e d d' \<longleftrightarrow>
     queueOf e (sd_queueMap d') = queueOf e (sd_queueMap d) \<and> pendingOf e d' = pendingOf e d"

definition sd_wf :: "'v DefaultServerDispatcher \<Rightarrow> bool" where
  "sd_wf d \<longleftrightarrow> map_wf (sd_queueMap d) \<and> server_wf (sd_pendingState d) \<and>
     (\<forall>c. \<forall>b\<in>set (clientQueue c d). bundle_id b \<noteq> '''')"

text \<open>The pending request of a client is the one at the front of its queue.\<close>

definition matched :: "string \<Rightarrow> 'v DefaultServerDispatcher \<Rightarrow> bool" where
  "matched c d \<longleftrightarrow>
     (\<forall>i r. pendingOf c d = Some (i, r) \<longrightarrow>
        (\<exists>b bs. clientQueue c d = b # bs \<and> bundle_id b = i \<and> bundle_req b = r))"

lemma same_client_refl [simp]: "same_client e d d"
  by (simp add: same_client_def)

lemma same_client_trans: "same_client e d d1 \<Longrightarrow> same_client e d1 d2 \<Longrightarrow> same_client e d d2"
  by (simp add: same_client_def)

lemma same_clientD:
  "same_client e d d' \<Longrightarrow> clientQueue e d' = clientQueue e d"
  "same_client e d d' \<Longrightarrow> matched e d' = matched e d"
  by (simp_all add: same_client_def clientQueue_def matched_def)

lemma sd_updates [simp]:
  "same_client e d (d'\<lparr>sd_requestChannel := rc\<rparr>) = same_client e d d'"
  "same_client e d (d'\<lparr>sd_readyForDispatch := rd\<rparr>) = same_client e d d'"
  "same_client e d (d'\<lparr>sd_timerC := tc\<rparr>) = same_client e d d'"
  "same_client e d (d'\<lparr>sd_running := run\<rparr>) = same_client e d d'"
  "same_client e d (d'\<lparr>sd_stoppedC := sc\<rparr>) = same_client e d d'"
  "sd_wf (d\<lparr>sd_running := run\<rparr>) = sd_wf d"
  "sd_wf (d\<lparr>sd_stoppedC := sc\<rparr>) = sd_wf d"
  "sd_wf (d\<lparr>sd_requestChannel := rc\<rparr>) = sd_wf d"
  "sd_wf (d\<lparr>sd_readyForDispatch := rd\<rparr>) = sd_wf d"
  "sd_wf (d\<lparr>sd_timerC := tc\<rparr>) = sd_wf d"
  "matched c (d\<lparr>sd_requestChannel := rc\<rparr>) = matched c d"
  "matched c (d\<lparr>sd_readyForDispatch := rd\<rparr>) = matched c d"
  "matched c (d\<lparr>sd_timerC := tc\<rparr>) = matched c d"
  "clientQueue c (d\<lparr>sd_requestChannel := rc\<rparr>) = clientQueue c d"
  "clientQueue c (d\<lparr>sd_readyForDispatch := rd\<rparr>) = clientQueue c d"
  "clientQueue c (d\<lparr>sd_timerC := tc\<rparr>) = clientQueue c d"
  by (simp_all add: same_client_def sd_wf_def matched_def clientQueue_def)

text \<open>The queue behind the reference of a client is the queue of that client and of no other.\<close>

lemma clientQueue_upd:
  assumes "map_wf (sd_queueMap d)" "data (sd_queueMap d) c = Some r"
  shows "clientQueue c d = elements (heap (sd_queueMap d) r)"
    and "clientQueue e (d\<lparr>sd_queueMap := upd_queue r q (sd_queueMap d)\<rparr>) =
      (if e = c then elements q else clientQueue e d)"
    and "e \<noteq> c \<Longrightarrow> same_client e d (d\<lparr>sd_queueMap := upd_queue r q (sd_queueMap d)\<rparr>)"
  using queueOf_upd[OF assms, of e q] assms(2)
  by (auto simp: clientQueue_def queueOf_def same_client_def)

lemma finishClientRequest_True:
  assumes "finishClientRequest c i d = (True, d')" "sd_wf d"
  shows "sd_wf d'" "\<exists>b. clientQueue c d = b # clientQueue c d' \<and> bundle_id b = i"
    "matched c d \<Longrightarrow> matched c d'" "e \<noteq> c \<Longrightarrow> same_client e d d'"
proof -
  from assms(1) obtain r b bs where r: "data (sd_queueMap d) c = Some r"
    and b: "elements (heap (sd_queueMap d) r) = b # bs" "bundle_id b = i"
    and d': "d' = d\<lparr>sd_queueMap := upd_queue r (snd (Pop (heap (sd_queueMap d) r))) (sd_queueMap d),
        sd_pendingState := serverState_DeletePendingRequest c i (sd_pendingState d)\<rparr>"
    by (auto simp: finishClientRequest_def FIFOQueueMap_Get_def split: option.splits if_splits)
  have m: "map_wf (sd_queueMap d)" using assms(2) by (simp add: sd_wf_def)
  note Q = clientQueue_upd[OF m r]
  have q: "clientQueue e d' = (if e = c then bs else clientQueue e d)" for e
    using Q(2)[of e] b d' by (simp add: clientQueue_def)
  have qc: "clientQueue c d = b # bs" using Q(1) b by simp
  show "\<exists>b. clientQueue c d = b # clientQueue c d' \<and> bundle_id b = i"
    using q qc b(2) by simp
  have "queue_wf (heap (sd_queueMap d) r)" using m r by (auto simp: map_wf_def)
  then have "map_wf (sd_queueMap d')"
    using d' map_wf_upd[OF m queue_wf_ops(2)] by simp
  moreover have "\<forall>b'\<in>set bs. bundle_id b' \<noteq> ''''"
    using assms(2) qc unfolding sd_wf_def by (metis list.set_intros(2))
  ultimately show "sd_wf d'" using assms(2) d' q
    by (auto simp: sd_wf_def split: if_splits)
  show "matched c d \<Longrightarrow> matched c d'"
    using server.del_pend[of "sd_pendingState d" c i] assms(2) qc b(2) d'
    by (auto simp: matched_def sd_wf_def split: option.splits if_splits)
  show "e \<noteq> c \<Longrightarrow> same_client e d d'"
    using Q(3)[of e] d' by (simp add: same_client_def pending_stateOf_Delete)
qed

lemma CompleteClientRequest_Ret:
  assumes "ServerDispatcher_CompleteRequest c i d = Ret d'" "sd_wf d"
  shows "sd_wf d'" "matched c d \<Longrightarrow> matched c d'" "e \<noteq> c \<Longrightarrow> same_client e d d'"
    and "clientQueue c d = b # bs \<Longrightarrow> bundle_id b = i \<Longrightarrow> clientQueue c d' = bs"
proof -
  consider "finishClientRequest c i d = (False, d')" |
    d1 where "finishClientRequest c i d = (True, d1)" "signalClientReady c d1 = Ret d'"
    using assms(1) by (auto simp: ServerDispatcher_CompleteRequest_def split: prod.splits bool.splits)
  then have *: "(finishClientRequest c i d = (False, d') \<and> d' = d) \<or>
    (\<exists>d1 rd. finishClientRequest c i d = (True, d1) \<and> d' = d1\<lparr>sd_readyForDispatch := rd\<rparr>)"
    by cases (auto simp: signalClientReady_def finishClientRequest_def split: option.splits if_splits)
  then show "sd_wf d'" "matched c d \<Longrightarrow> matched c d'" "e \<noteq> c \<Longrightarrow> same_client e d d'"
    using finishClientRequest_True[OF _ assms(2)] assms(2) by auto
  show "clientQueue c d' = bs" if q: "clientQueue c d = b # bs" "bundle_id b = i"
  proof -
    have "fst (finishClientRequest c i d)"
      using q by (auto simp: finishClientRequest_def clientQueue_def queueOf_def FIFOQueueMap_Get_def
          Peek_def split: option.splits)
    then show ?thesis using * finishClientRequest_True(2)[OF _ assms(2), of c i] q by auto
  qed
qed

lemma pl_clientID_reset [simp]: "pl_clientID (resetContext x l) = pl_clientID l"
  by (simp add: resetContext_def)

lemma writes_cancelEvents [simp]: "server_writes (cancelEvents x) = []"
  by (simp add: cancelEvents_def split: option.splits)

lemma server_writes_append [simp]: "server_writes (xs @ ys) = server_writes xs @ server_writes ys"
  by (induction xs rule: server_writes.induct) auto

lemma writes_canceled [simp]: "server_writes (clientCanceledEvent d c b code e) = []"
  by (simp add: clientCanceledEvent_def)

lemma writes_start [simp]:
  "server_writes (case ctx cc of None \<Rightarrow> [] | Some i \<Rightarrow> [StartTimeout x i]) = []"
  by (simp split: option.splits)

lemma matched_Add:
  assumes "sd_wf d" "clientQueue c d = b # bs" "matched c d"
  shows "matched c (d\<lparr>sd_pendingState :=
    serverState_AddPendingRequest c (bundle_id b) (bundle_req b) (sd_pendingState d)\<rparr>)"
proof -
  have "server_wf (sd_pendingState d)" using assms(1) by (simp add: sd_wf_def)
  from server.add_pend[OF this, of c "bundle_id b" "bundle_req b"] show ?thesis
    using assms(2,3) by (auto simp: matched_def clientQueue_def split: option.splits if_splits)
qed

lemma dispatchNextClientRequest_Ret:
  assumes "dispatchNextClientRequest wr n c d = Ret (cc, d', evs)" "sd_wf d"
  shows "sd_wf d'" "matched c d \<Longrightarrow> matched c d'" "e \<noteq> c \<Longrightarrow> same_client e d d'"
    and "server_writes evs = [] \<and> clientQueue c d' = clientQueue c d \<or>
      (\<exists>b bs. clientQueue c d = b # bs \<and> server_writes evs = [(c, b)] \<and>
         (clientQueue c d' = b # bs \<or> clientQueue c d' = bs))"
proof -
  have "sd_wf d' \<and> (matched c d \<longrightarrow> matched c d') \<and> (e \<noteq> c \<longrightarrow> same_client e d d') \<and>
    (server_writes evs = [] \<and> clientQueue c d' = clientQueue c d \<or>
      (\<exists>b bs. clientQueue c d = b # bs \<and> server_writes evs = [(c, b)] \<and>
         (clientQueue c d' = b # bs \<or> clientQueue c d' = bs)))"
  proof (cases "FIFOQueueMap_Get c (sd_queueMap d)")
  case None
  then show ?thesis
    using assms by (auto simp: dispatchNextClientRequest_def)
next
  case (Some r)
  then obtain b bs where b: "elements (heap (sd_queueMap d) r) = b # bs"
    using assms(1) by (auto simp: dispatchNextClientRequest_def split: option.splits)
  have q: "clientQueue c d = b # bs"
    using Some b by (simp add: clientQueue_def queueOf_def FIFOQueueMap_Get_def)
  define d1 where "d1 = d\<lparr>sd_pendingState :=
    serverState_AddPendingRequest c (bundle_id b) (bundle_req b) (sd_pendingState d)\<rparr>"
  have q1: "clientQueue f d1 = clientQueue f d" for f by (simp add: d1_def clientQueue_def)
  have wf1: "sd_wf d1" using assms(2) q1 by (simp add: sd_wf_def d1_def)
  have m1: "matched c d \<Longrightarrow> matched c d1" unfolding d1_def by (rule matched_Add[OF assms(2) q])
  have s1: "e \<noteq> c \<Longrightarrow> same_client e d d1" by (simp add: same_client_def d1_def)
  have "d' = d1 \<and> server_writes evs = [(c, b)] \<or>
    ServerDispatcher_CompleteRequest c (bundle_id b) d1 = Ret d' \<and> server_writes evs = [(c, b)]"
    using assms(1) Some b
    by (auto simp: dispatchNextClientRequest_def Peek_def Let_def d1_def split: option.splits)
  then show ?thesis
  proof
    assume "d' = d1 \<and> server_writes evs = [(c, b)]"
    then show ?thesis using wf1 m1 s1 q q1 by simp
  next
    assume c: "ServerDispatcher_CompleteRequest c (bundle_id b) d1 = Ret d' \<and> server_writes evs = [(c, b)]"
    note C = CompleteClientRequest_Ret[OF conjunct1[OF c] wf1]
    show ?thesis
      using C(1,2) C(3)[of e] C(4)[of b bs] c m1 s1 q q1[of c] by (auto intro: same_client_trans)
  qed
  qed
  then show "sd_wf d'" "matched c d \<Longrightarrow> matched c d'" "e \<noteq> c \<Longrightarrow> same_client e d d'"
    "server_writes evs = [] \<and> clientQueue c d' = clientQueue c d \<or>
      (\<exists>b bs. clientQueue c d = b # bs \<and> server_writes evs = [(c, b)] \<and>
         (clientQueue c d' = b # bs \<or> clientQueue c d' = bs))"
    by blast+
qed

lemma clientTimedOut_Ret:
  assumes "clientTimedOut c l d = Ret n"
  shows "\<exists>l1 d1 evs. n = ServerCheck l1 d1 evs \<and> pl_clientID l1 = c \<and> server_writes evs = [] \<and>
    (d1 = d \<or> (\<exists>b bs. clientQueue c d = b # bs \<and>
       ServerDispatcher_CompleteRequest c (bundle_id b) d = Ret d1))"
proof (cases "serverState_HasPendingRequest c (sd_pendingState d)")
  case True
  then obtain r where r: "data (sd_queueMap d) c = Some r"
    using assms by (auto simp: clientTimedOut_def FIFOQueueMap_Get_def Let_def split: option.splits)
  with True assms obtain b bs where "elements (heap (sd_queueMap d) r) = b # bs"
    by (auto simp: clientTimedOut_def FIFOQueueMap_Get_def Let_def split: option.splits)
  with True r assms show ?thesis
    by (auto simp: clientTimedOut_def FIFOQueueMap_Get_def Let_def Peek_def clientQueue_def queueOf_def)
qed (use assms in \<open>auto simp: clientTimedOut_def Let_def\<close>)

lemma clientRequested_cases:
  "(\<exists>l1 evs. clientRequested c l d = ServerContinue l1 d evs) \<or>
   (\<exists>l1. clientRequested c l d = ServerCheck l1 d [] \<and> pl_clientID l1 = c)"
  by (auto simp: clientRequested_def Let_def split: option.splits)

lemma clientReady_Check:
  "\<exists>l1 evs. clientReady c l d = ServerCheck l1 d evs \<and> pl_clientID l1 = c \<and> server_writes evs = []"
  by (simp add: clientReady_def Let_def)

lemma serverSelect_Continue:
  assumes "serverSelect pc l d = Ret (ServerContinue l1 d1 evs)"
  shows "\<exists>rc tc. d1 = d\<lparr>sd_requestChannel := rc\<rparr> \<or> d1 = d\<lparr>sd_timerC := tc\<rparr>"
proof (cases pc)
  case StoppedCase
  then show ?thesis using assms by (auto split: option.splits)
next
  case ClientRequestCase
  then obtain v c where "clientRequested v l (d\<lparr>sd_requestChannel := Some c\<rparr>) = ServerContinue l1 d1 evs"
    using assms by (auto split: option.splits)
  then show ?thesis using clientRequested_cases[of v l "d\<lparr>sd_requestChannel := Some c\<rparr>"] by auto
next
  case ClientTimerCase
  then show ?thesis using assms
    by (auto simp: Let_def dest!: clientTimedOut_Ret split: option.splits)
next
  case ClientReadyCase
  then obtain v c where "clientReady v l (d\<lparr>sd_readyForDispatch := c\<rparr>) = ServerContinue l1 d1 evs"
    using assms by auto
  then show ?thesis using clientReady_Check[of v l "d\<lparr>sd_readyForDispatch := c\<rparr>"] by auto
qed

lemma serverSelect_Continue_writes:
  assumes "serverSelect pc l d = Ret (ServerContinue l1 d1 evs)"
  shows "server_writes evs = []"
proof (cases pc)
  case ClientTimerCase
  then show ?thesis using assms
    by (auto simp: Let_def dest!: clientTimedOut_Ret split: option.splits)
next
  case ClientRequestCase
  then obtain v c where "clientRequested v l (d\<lparr>sd_requestChannel := Some c\<rparr>) = ServerContinue l1 d1 evs"
    using assms by (auto split: option.splits)
  then show ?thesis by (auto simp: clientRequested_def Let_def split: option.splits)
qed (use assms in \<open>auto simp: clientReady_def Let_def split: option.splits\<close>)

lemma serverSelect_Check:
  assumes "serverSelect pc l d = Ret (ServerCheck l1 d1 evs)" "sd_wf d" "c = pl_clientID l1"
  shows "sd_wf d1" "matched c d \<Longrightarrow> matched c d1" "e \<noteq> c \<Longrightarrow> same_client e d d1"
    and "clientQueue c d1 = clientQueue c d \<or> (\<exists>b. clientQueue c d = b # clientQueue c d1)"
    and "server_writes evs = []"
proof -
  consider (request) rc where "d1 = d\<lparr>sd_requestChannel := rc\<rparr>" "server_writes evs = []"
    | (ready) rd where "d1 = d\<lparr>sd_readyForDispatch := rd\<rparr>" "server_writes evs = []"
    | (timer) tc where "clientTimedOut c l (d\<lparr>sd_timerC := tc\<rparr>) = Ret (ServerCheck l1 d1 evs)"
  proof (cases pc)
    case ClientTimerCase
    then obtain x tc where "clientTimedOut x l (d\<lparr>sd_timerC := tc\<rparr>) = Ret (ServerCheck l1 d1 evs)"
      using assms(1) by (auto simp: Let_def split: option.splits)
    moreover from clientTimedOut_Ret[OF this] have "x = c" using assms(3) by auto
    ultimately show ?thesis using that(3) by blast
  next
    case ClientRequestCase
    then obtain v ch where "clientRequested v l (d\<lparr>sd_requestChannel := Some ch\<rparr>) = ServerCheck l1 d1 evs"
      using assms(1) by (auto split: option.splits)
    then show ?thesis using clientRequested_cases[of v l "d\<lparr>sd_requestChannel := Some ch\<rparr>"] that(1) by auto
  next
    case ClientReadyCase
    then obtain v ch where "clientReady v l (d\<lparr>sd_readyForDispatch := ch\<rparr>) = ServerCheck l1 d1 evs"
      using assms(1) by auto
    then show ?thesis using clientReady_Check[of v l "d\<lparr>sd_readyForDispatch := ch\<rparr>"] that(2) by auto
  qed (use assms(1) in \<open>auto split: option.splits\<close>)
  then have "sd_wf d1 \<and> (matched c d \<longrightarrow> matched c d1) \<and> (e \<noteq> c \<longrightarrow> same_client e d d1) \<and>
    (clientQueue c d1 = clientQueue c d \<or> (\<exists>b. clientQueue c d = b # clientQueue c d1)) \<and>
    server_writes evs = []"
  proof cases
    case timer
    have wf: "sd_wf (d\<lparr>sd_timerC := tc\<rparr>)" using assms(2) by simp
    from clientTimedOut_Ret[OF timer] have ev: "server_writes evs = []"
      and "d1 = d\<lparr>sd_timerC := tc\<rparr> \<or> (\<exists>b bs. clientQueue c d = b # bs \<and>
        ServerDispatcher_CompleteRequest c (bundle_id b) (d\<lparr>sd_timerC := tc\<rparr>) = Ret d1)" by auto
    then consider "d1 = d\<lparr>sd_timerC := tc\<rparr>" | b bs where "clientQueue c d = b # bs"
        "ServerDispatcher_CompleteRequest c (bundle_id b) (d\<lparr>sd_timerC := tc\<rparr>) = Ret d1" by blast
    then show ?thesis
    proof cases
      case 2
      note C = CompleteClientRequest_Ret[OF 2(2) wf]
      show ?thesis using C(1,2) C(3)[of e] C(4)[of b bs] 2(1) ev by (auto simp: same_client_def)
    qed (use assms(2) ev in simp)
  qed (use assms(2) in simp_all)
  then show "sd_wf d1" "matched c d \<Longrightarrow> matched c d1" "e \<noteq> c \<Longrightarrow> same_client e d d1"
    "clientQueue c d1 = clientQueue c d \<or> (\<exists>b. clientQueue c d = b # clientQueue c d1)"
    "server_writes evs = []"
    by blast+
qed

lemma serverDispatch_Ret:
  assumes "serverDispatch wr l d = Ret (l2, d2, evs)" "sd_wf d" "c = pl_clientID l"
  shows "sd_wf d2" "matched c d \<Longrightarrow> matched c d2" "e \<noteq> c \<Longrightarrow> same_client e d d2"
    and "server_writes evs = [] \<and> clientQueue c d2 = clientQueue c d \<or>
      (\<exists>b bs. clientQueue c d = b # bs \<and> server_writes evs = [(c, b)] \<and>
         (clientQueue c d2 = b # bs \<or> clientQueue c d2 = bs))"
proof -
  consider "d2 = d" "evs = []" | cc evs' where
    "dispatchNextClientRequest wr (pl_fresh l) c d = Ret (cc, d2, evs')"
    "server_writes evs = server_writes evs'"
  proof (cases "\<exists>r. pl_clientQueue l = Some r \<and> pl_rdy l \<and> \<not> IsEmpty (heap (sd_queueMap d) r)")
    case True
    then show ?thesis using assms(1,3) that(2) by (auto simp: serverDispatch_def)
  next
    case False
    then show ?thesis using assms(1) that(1) by (auto simp: serverDispatch_def split: option.splits if_splits)
  qed
  then have "sd_wf d2 \<and> (matched c d \<longrightarrow> matched c d2) \<and> (e \<noteq> c \<longrightarrow> same_client e d d2) \<and>
    (server_writes evs = [] \<and> clientQueue c d2 = clientQueue c d \<or>
      (\<exists>b bs. clientQueue c d = b # bs \<and> server_writes evs = [(c, b)] \<and>
         (clientQueue c d2 = b # bs \<or> clientQueue c d2 = bs)))"
  proof cases
    case 2
    note D = dispatchNextClientRequest_Ret[OF 2(1) assms(2)]
    show ?thesis using D(1,2,4) D(3)[of e] 2(2) by simp
  qed (use assms(2) in simp)
  then show "sd_wf d2" "matched c d \<Longrightarrow> matched c d2" "e \<noteq> c \<Longrightarrow> same_client e d d2"
    "server_writes evs = [] \<and> clientQueue c d2 = clientQueue c d \<or>
      (\<exists>b bs. clientQueue c d = b # bs \<and> server_writes evs = [(c, b)] \<and>
         (clientQueue c d2 = b # bs \<or> clientQueue c d2 = bs))"
    by blast+
qed

section \<open>The invariant\<close>

definition sinv :: "'v sworld \<Rightarrow> bool" where
  "sinv w \<longleftrightarrow>
     (spump w \<noteq> None \<longrightarrow>
        sd_wf (sdisp w) \<and>
        (\<forall>c. c \<notin> set (sclearing w) \<longrightarrow> matched c (sdisp w)) \<and>
        (\<forall>c. hist_seq (saccepted w c) (scompleted w c) (swritten w c) (clientQueue c (sdisp w))))"

lemma left_queue_one: "clientQueue c d = b # clientQueue c d' \<Longrightarrow> left_queue c d d' = [b]"
  by (simp add: left_queue_def)

lemma left_queue_same [simp]: "clientQueue c d' = clientQueue c d \<Longrightarrow> left_queue c d d' = []"
  by (simp add: left_queue_def)

text \<open>A step that is about one client needs to be looked at for that client only.\<close>

lemma sinv_client:
  assumes "sinv w" "spump w \<noteq> None" "sd_wf d'" "\<And>e. e \<noteq> c \<Longrightarrow> same_client e (sdisp w) d'"
    and "sdisp w' = d'" "\<And>e. e \<noteq> c \<Longrightarrow> e \<notin> set (sclearing w') \<Longrightarrow> e \<notin> set (sclearing w)"
    and "\<And>e. e \<noteq> c \<Longrightarrow> saccepted w' e = saccepted w e \<and> scompleted w' e = scompleted w e \<and>
      swritten w' e = swritten w e"
    and "c \<notin> set (sclearing w') \<Longrightarrow> matched c d'"
    and "hist_seq (saccepted w' c) (scompleted w' c) (swritten w' c) (clientQueue c d')"
  shows "sinv w'"
proof -
  have "matched e d'" if "e \<notin> set (sclearing w')" for e
    using that assms(1,2,4,6,8) same_clientD(2)[of e "sdisp w" d'] by (cases "e = c") (auto simp: sinv_def)
  moreover have "hist_seq (saccepted w' e) (scompleted w' e) (swritten w' e) (clientQueue e d')" for e
    using assms(1,2,4,7,9) same_clientD(1)[of e "sdisp w" d'] by (cases "e = c") (auto simp: sinv_def)
  ultimately show ?thesis using assms(3,5) by (simp add: sinv_def)
qed

lemma sinv_pump:
  assumes "sinv w" "spump w = Some l" "serverSelect pc l (sdisp w) = Ret (ServerCheck l1 d1 evs1)"
    "serverDispatch wr l1 d1 = Ret (l2, d2, evs2)" "c = pl_clientID l1"
    "fin = scompleted w c @ left_queue c (sdisp w) d1"
  shows "sinv (w\<lparr>sdisp := d2, spump := Some l2, swaiting := timeouts_after (evs1 @ evs2) (swaiting w),
      scompleted := (scompleted w)(c := fin @ left_queue c d1 d2),
      swritten := (swritten w)(c := swritten w c @
        map (\<lambda>(_, b). (length fin, b)) (server_writes evs2))\<rparr>)" (is "sinv ?w'")
proof -
  have wf: "sd_wf (sdisp w)" and h: "hist_seq (saccepted w c) (scompleted w c) (swritten w c) (clientQueue c (sdisp w))"
    and m: "c \<notin> set (sclearing w) \<Longrightarrow> matched c (sdisp w)"
    using assms(1,2) by (simp_all add: sinv_def)
  note S = serverSelect_Check[OF assms(3) wf assms(5)]
  note D = serverDispatch_Ret[OF assms(4) S(1) assms(5)]
  have h1: "hist_seq (saccepted w c) fin (swritten w c) (clientQueue c d1)"
    using S(4)
  proof
    assume "\<exists>b. clientQueue c (sdisp w) = b # clientQueue c d1"
    then obtain b where b: "clientQueue c (sdisp w) = b # clientQueue c d1" by blast
    from h[unfolded b] have "hist_seq (saccepted w c) (scompleted w c @ [b]) (swritten w c) (clientQueue c d1)"
      by (rule hist_seq_finish)
    then show ?thesis using assms(6) left_queue_one[OF b] by simp
  qed (use h assms(6) in simp)
  have "hist_seq (saccepted w c) (fin @ left_queue c d1 d2) (swritten w c @
        map (\<lambda>(_, b). (length fin, b)) (server_writes evs2)) (clientQueue c d2)"
  proof (cases "server_writes evs2")
    case Nil
    then show ?thesis using D(4) h1 by simp
  next
    case (Cons x xs)
    then obtain b bs where b: "clientQueue c d1 = b # bs" "server_writes evs2 = [(c, b)]"
      "clientQueue c d2 = b # bs \<or> clientQueue c d2 = bs" using D(4) by auto
    have h2: "hist_seq (saccepted w c) fin (swritten w c @ [(length fin, b)]) (b # bs)"
      by (rule hist_seq_write) (use h1 b(1) in simp)
    from b(3) show ?thesis
    proof
      assume "clientQueue c d2 = b # bs"
      then show ?thesis using b(1,2) h2 by simp
    next
      assume q: "clientQueue c d2 = bs"
      then have "left_queue c d1 d2 = [b]" using b(1) by (simp add: left_queue_one)
      then show ?thesis using b(2) hist_seq_finish[OF h2] q by simp
    qed
  qed
  moreover have "matched c d2" if "c \<notin> set (sclearing w)" using D(2) S(2) m[OF that] by blast
  moreover have "same_client e (sdisp w) d2" if "e \<noteq> c" for e
    using same_client_trans[OF S(3)[OF that] D(3)[OF that]] .
  ultimately show ?thesis
    using sinv_client[of w d2 c ?w'] assms(1,2) D(1) by simp
qed

lemma enqueueClientRequest_None:
  assumes "enqueueClientRequest c b d = (None, d')" "sd_wf d" "bundle_id b \<noteq> ''''"
  shows "sd_wf d'" "clientQueue c d' = clientQueue c d @ [b]" "matched c d \<Longrightarrow> matched c d'"
    "e \<noteq> c \<Longrightarrow> same_client e d d'"
proof -
  from assms(1) obtain r q where r: "data (sd_queueMap d) c = Some r"
    and q: "Push b (heap (sd_queueMap d) r) = (None, q)"
    and d': "d' = d\<lparr>sd_queueMap := upd_queue r q (sd_queueMap d)\<rparr>"
    by (auto simp: enqueueClientRequest_def FIFOQueueMap_Get_def split: option.splits if_splits prod.splits)
  have m: "map_wf (sd_queueMap d)" using assms(2) by (simp add: sd_wf_def)
  note Q = clientQueue_upd[OF m r]
  have q': "elements q = clientQueue c d @ [b]" using q Q(1) by (simp add: Push_None)
  then show qc: "clientQueue c d' = clientQueue c d @ [b]" using Q(2)[of c] d' by simp
  have "queue_wf q"
    using queue_wf_ops(1)[of "heap (sd_queueMap d) r" b] m r q by (auto simp: map_wf_def)
  then have "map_wf (sd_queueMap d')" using d' map_wf_upd[OF m] by simp
  moreover have "\<forall>x\<in>set (clientQueue e d'). bundle_id x \<noteq> ''''" for e
    using assms(2,3) Q(2)[of e q] d' q' by (auto simp: sd_wf_def)
  ultimately show "sd_wf d'" using assms(2) d' by (auto simp: sd_wf_def)
  show "matched c d \<Longrightarrow> matched c d'" using qc d' by (fastforce simp: matched_def)
  show "e \<noteq> c \<Longrightarrow> same_client e d d'" using Q(3) d' by simp
qed

lemma CreateClient_Ret:
  assumes "CreateClient c d = Ret d'" "sd_wf d"
  shows "sd_wf d'" "clientQueue e d' = clientQueue e d" "matched e d \<Longrightarrow> matched e d'"
    "e \<noteq> c \<Longrightarrow> same_client e d d'"
proof -
  obtain r m' where m': "GetOrCreate c (sd_queueMap d) = Ret (r, m')" "map_wf m'"
    "queueOf c m' = (case queueOf c (sd_queueMap d) of
        None \<Rightarrow> Some \<lparr>elements = [], capacity = queueCapacity (sd_queueMap d)\<rparr> | Some q \<Rightarrow> Some q)"
    "\<forall>e. e \<noteq> c \<longrightarrow> queueOf e m' = queueOf e (sd_queueMap d)"
    using GetOrCreate_total[of "sd_queueMap d" c] assms(2) by (auto simp: sd_wf_def)
  have d': "d' = d \<or> d' = d\<lparr>sd_queueMap := m'\<rparr>"
    using assms(1) m'(1) by (auto simp: CreateClient_def split: if_splits)
  have q: "clientQueue e d' = clientQueue e d" for e
    using d' m'(3,4) by (cases "e = c") (auto simp: clientQueue_def split: option.splits)
  then show "clientQueue e d' = clientQueue e d" .
  show "sd_wf d'" using d' m'(2) assms(2) q by (auto simp: sd_wf_def)
  show "matched e d \<Longrightarrow> matched e d'" using d' q by (auto simp: matched_def)
  show "e \<noteq> c \<Longrightarrow> same_client e d d'" using d' m'(4) by (auto simp: same_client_def)
qed

lemma removeClient_eq:
  assumes "removeClient c d = (sig, d')" "sd_wf d"
  shows "sd_wf d'" "clientQueue c d' = []" "e \<noteq> c \<Longrightarrow> same_client e d d'"
proof -
  have d': "d' = d\<lparr>sd_queueMap := FIFOQueueMap_Remove c (sd_queueMap d)\<rparr>"
    using assms(1) by (simp add: removeClient_def Let_def)
  then show "clientQueue c d' = []" by (simp add: clientQueue_def)
  show s: "e \<noteq> c \<Longrightarrow> same_client e d d'" for e using d' by (simp add: same_client_def)
  have "clientQueue e d' = (if e = c then [] else clientQueue e d)" for e
    using d' by (simp add: clientQueue_def)
  then show "sd_wf d'" using assms(2) d' by (auto simp: sd_wf_def map_wf_Remove)
qed

lemma clear_eq:
  "e \<noteq> c \<Longrightarrow> same_client e d (d\<lparr>sd_pendingState := ClearClientPendingRequest c (sd_pendingState d)\<rparr>)"
  "matched c (d\<lparr>sd_pendingState := ClearClientPendingRequest c (sd_pendingState d)\<rparr>)"
  "sd_wf d \<Longrightarrow> sd_wf (d\<lparr>sd_pendingState := ClearClientPendingRequest c (sd_pendingState d)\<rparr>)"
  "clientQueue e (d\<lparr>sd_pendingState := ps\<rparr>) = clientQueue e d"
  by (simp_all add: same_client_def matched_def pending_def NewClientState_def sd_wf_def clientQueue_def)

text \<open>Steps that touch no queue and no pending request.\<close>

lemma sinv_same:
  assumes "sinv w" "\<And>e. same_client e (sdisp w) (sdisp w')" "sd_wf (sdisp w) \<Longrightarrow> sd_wf (sdisp w')"
    "spump w' \<noteq> None \<Longrightarrow> spump w \<noteq> None" "sclearing w' = sclearing w" "saccepted w' = saccepted w"
    "scompleted w' = scompleted w" "swritten w' = swritten w"
  shows "sinv w'"
  using assms same_clientD[OF assms(2)] by (auto simp: sinv_def)

lemma sinv_send:
  assumes "sinv w" "bundle_id b \<noteq> ''''" "enqueueClientRequest c b (sdisp w) = (None, d')"
  shows "sinv (w\<lparr>sdisp := d', ssenders := c # ssenders w,
               saccepted := (saccepted w)(c := saccepted w c @ [b])\<rparr>)" (is "sinv ?w'")
proof (cases "spump w = None")
  case False
  then have wf: "sd_wf (sdisp w)" using assms(1) by (simp add: sinv_def)
  note E = enqueueClientRequest_None[OF assms(3) wf assms(2)]
  show ?thesis
    by (rule sinv_client[of w d' c]) (use E assms(1) False in \<open>auto simp: sinv_def hist_seq_push\<close>)
qed (simp add: sinv_def)

lemma sinv_respond:
  assumes "sinv w" "finishClientRequest c i (sdisp w) = (True, d')"
  shows "sinv (w\<lparr>sdisp := d', ssignals := c # ssignals w,
               scompleted := (scompleted w)(c := scompleted w c @ left_queue c (sdisp w) d')\<rparr>)" (is "sinv ?w'")
proof (cases "spump w = None")
  case False
  then have wf: "sd_wf (sdisp w)"
    and h: "hist_seq (saccepted w c) (scompleted w c) (swritten w c) (clientQueue c (sdisp w))"
    using assms(1) by (simp_all add: sinv_def)
  note F = finishClientRequest_True[OF assms(2) wf]
  obtain b where b: "clientQueue c (sdisp w) = b # clientQueue c d'" using F(2) by blast
  have h': "hist_seq (saccepted w c) (scompleted w c @ left_queue c (sdisp w) d') (swritten w c) (clientQueue c d')"
    using hist_seq_finish[of "saccepted w c" "scompleted w c" "swritten w c" b] h b left_queue_one[OF b] by simp
  show ?thesis
    by (rule sinv_client[of w d' c]) (use F(1,3,4) assms(1) False h' in \<open>auto simp: sinv_def\<close>)
qed (simp add: sinv_def)

lemma sinv_disconnect:
  assumes "sinv w" "removeClient c (sdisp w) = (sig, d')"
  shows "sinv (w\<lparr>sdisp := d', ssenders := (if sig then c # ssenders w else ssenders w),
               sclearing := c # sclearing w, saccepted := (saccepted w)(c := []),
               scompleted := (scompleted w)(c := []), swritten := (swritten w)(c := [])\<rparr>)" (is "sinv ?w'")
proof (cases "spump w = None")
  case False
  then have wf: "sd_wf (sdisp w)" using assms(1) by (simp add: sinv_def)
  note R = removeClient_eq[OF assms(2) wf]
  show ?thesis
    by (rule sinv_client[of w d' c]) (use R assms(1) False hist_seq_start in \<open>auto simp: sinv_def\<close>)
qed (simp add: sinv_def)

lemma sinv_clear:
  assumes "sinv w"
  shows "sinv (w\<lparr>sdisp := (sdisp w)\<lparr>sd_pendingState := ClearClientPendingRequest c (sd_pendingState (sdisp w))\<rparr>,
               sclearing := remove1 c (sclearing w)\<rparr>)" (is "sinv ?w'")
proof (cases "spump w = None")
  case False
  show ?thesis
    by (rule sinv_client[of w "sdisp ?w'" c])
      (use assms False in \<open>auto simp: sinv_def in_set_remove1 clear_eq\<close>)
qed (simp add: sinv_def)

lemma signal_same:
  "signalClient c d = Ret d' \<Longrightarrow> same_client e d d' \<and> (sd_wf d \<longrightarrow> sd_wf d')"
  "signalClientReady c d = Ret d' \<Longrightarrow> same_client e d d' \<and> (sd_wf d \<longrightarrow> sd_wf d')"
  "waitForTimeout c x d = Ret d' \<Longrightarrow> same_client e d d' \<and> (sd_wf d \<longrightarrow> sd_wf d')"
  "ServerDispatcher_Stop d = Ret d' \<Longrightarrow> same_client e d d' \<and> (sd_wf d \<longrightarrow> sd_wf d')"
  by (auto simp: signalClient_def signalClientReady_def waitForTimeout_def ServerDispatcher_Stop_def
      Let_def split: option.splits if_splits)

lemma queueOf_New [simp]: "queueOf c (NewFIFOQueueMap cap) = None"
  by (simp add: queueOf_def NewFIFOQueueMap_def)

lemma sinv_start: "sstart cap w \<Longrightarrow> sinv w"
  by (auto simp: sstart_def sinv_def sd_wf_def ServerDispatcher_Start_def SetNetworkServer_def
      ServerDispatcher_SetTimeout_def NewDefaultServerDispatcher_def map_wf_New clientQueue_def
      matched_def pending_def NewClientState_def hist_seq_start)

lemma sinv_step: "sstep w w' \<Longrightarrow> sinv w \<Longrightarrow> sinv w'"
proof (induction rule: sstep.induct)
  case (srv_send b c w d')
  show ?case by (rule sinv_send[OF srv_send(3,1,2)])
next
  case (srv_signal c w d')
  show ?case by (rule sinv_same[of w]) (use signal_same(1)[OF srv_signal(2)] srv_signal(3) in auto)
next
  case (srv_respond i c w d')
  show ?case by (rule sinv_respond[OF srv_respond(4,3)])
next
  case (srv_ready c w d')
  show ?case by (rule sinv_same[of w]) (use signal_same(2)[OF srv_ready(2)] srv_ready(3) in auto)
next
  case (srv_connect c w d')
  show ?case
  proof (cases "spump w = None")
    case False
    then have wf: "sd_wf (sdisp w)" using srv_connect(2) by (simp add: sinv_def)
    note C = CreateClient_Ret[OF srv_connect(1) wf]
    show ?thesis using C(1-3) False srv_connect(2) by (simp add: sinv_def)
  qed (simp add: sinv_def)
next
  case (srv_disconnect c w sig d')
  show ?case by (rule sinv_disconnect[OF srv_disconnect(2,1)])
next
  case (srv_clear c w)
  show ?case by (rule sinv_clear[OF srv_clear(2)])
next
  case (srv_expire i c w)
  then show ?case by (simp add: sinv_def)
next
  case (srv_timeout c w d')
  show ?case by (rule sinv_same[of w]) (use signal_same(3)[OF srv_timeout(2)] srv_timeout(3) in auto)
next
  case (srv_stop w d')
  show ?case by (rule sinv_same[of w]) (use signal_same(4)[OF srv_stop(1)] srv_stop(2) in auto)
next
  case (srv_pump_stop w l pc d1)
  then show ?case by (simp add: sinv_def)
next
  case (srv_pump_continue w l pc l1 d1 evs1)
  from serverSelect_Continue[OF srv_pump_continue(2)]
  have "same_client e (sdisp w) d1 \<and> (sd_wf (sdisp w) \<longrightarrow> sd_wf d1)" for e by auto
  then show ?case by (intro sinv_same[OF srv_pump_continue(3)]) (use srv_pump_continue(1) in auto)
next
  case (srv_pump w l pc l1 d1 evs1 wr l2 d2 evs2 c fin)
  show ?case by (rule sinv_pump[OF srv_pump(6) srv_pump(1-5)])
qed

interpretation server_disp: inductive_invariant "sstart cap" sstep sinv for cap
  by unfold_locales (auto intro: sinv_start sinv_step)

section \<open>Concrete runs\<close>

datatype 'v smove =
    SConnect string | SDisconnect string | SClear string | SSend string "'v RequestBundle"
  | SSignal string | SRespond string string | SReady string | SExpire nat string | STimeout string
  | SStop | SPump server_case "string option"

fun smake :: "'v smove \<Rightarrow> 'v sworld \<Rightarrow> 'v sworld option" where
  "smake (SConnect c) w =
     (case CreateClient c (sdisp w) of Ret d' \<Rightarrow> Some (w\<lparr>sdisp := d'\<rparr>) | _ \<Rightarrow> None)"
| "smake (SDisconnect c) w =
     (case removeClient c (sdisp w) of (sig, d') \<Rightarrow>
        Some (w\<lparr>sdisp := d', ssenders := (if sig then c # ssenders w else ssenders w),
               sclearing := c # sclearing w, saccepted := (saccepted w)(c := []),
               scompleted := (scompleted w)(c := []), swritten := (swritten w)(c := [])\<rparr>))"
| "smake (SClear c) w =
     (if c \<in> set (sclearing w)
      then Some (w\<lparr>sdisp := (sdisp w)\<lparr>sd_pendingState := ClearClientPendingRequest c (sd_pendingState (sdisp w))\<rparr>,
               sclearing := remove1 c (sclearing w)\<rparr>) else None)"
| "smake (SSend c b) w =
     (case enqueueClientRequest c b (sdisp w) of
        (None, d') \<Rightarrow> if bundle_id b = '''' then None
          else Some (w\<lparr>sdisp := d', ssenders := c # ssenders w,
               saccepted := (saccepted w)(c := saccepted w c @ [b])\<rparr>)
      | _ \<Rightarrow> None)"
| "smake (SSignal c) w =
     (if c \<in> set (ssenders w) then
        (case signalClient c (sdisp w) of
           Ret d' \<Rightarrow> Some (w\<lparr>sdisp := d', ssenders := remove1 c (ssenders w)\<rparr>) | _ \<Rightarrow> None) else None)"
| "smake (SRespond c i) w =
     (case finishClientRequest c i (sdisp w) of
        (True, d') \<Rightarrow>
          if i \<noteq> '''' \<and> snd (GetPendingRequest i (stateOf c (sd_pendingState (sdisp w))))
          then Some (w\<lparr>sdisp := d', ssignals := c # ssignals w,
               scompleted := (scompleted w)(c := scompleted w c @ left_queue c (sdisp w) d')\<rparr>)
          else None
      | _ \<Rightarrow> None)"
| "smake (SReady c) w =
     (if c \<in> set (ssignals w) then
        (case signalClientReady c (sdisp w) of
           Ret d' \<Rightarrow> Some (w\<lparr>sdisp := d', ssignals := remove1 c (ssignals w)\<rparr>) | _ \<Rightarrow> None) else None)"
| "smake (SExpire i c) w =
     (if (i, c) \<in> set (swaiting w)
      then Some (w\<lparr>swaiting := remove1 (i, c) (swaiting w), sexpired := c # sexpired w\<rparr>) else None)"
| "smake (STimeout c) w =
     (if c \<in> set (sexpired w) then
        (case waitForTimeout c True (sdisp w) of
           Ret d' \<Rightarrow> Some (w\<lparr>sdisp := d', sexpired := remove1 c (sexpired w)\<rparr>) | _ \<Rightarrow> None) else None)"
| "smake SStop w =
     (case ServerDispatcher_Stop (sdisp w) of Ret d' \<Rightarrow> Some (w\<lparr>sdisp := d'\<rparr>) | _ \<Rightarrow> None)"
| "smake (SPump pc err) w =
     (case spump w of None \<Rightarrow> None | Some l \<Rightarrow>
        (case serverSelect pc l (sdisp w) of
           Ret (ServerStop d1) \<Rightarrow> Some (w\<lparr>sdisp := d1, spump := None\<rparr>)
         | Ret (ServerContinue l1 d1 evs1) \<Rightarrow>
             Some (w\<lparr>sdisp := d1, spump := Some l1, swaiting := timeouts_after evs1 (swaiting w)\<rparr>)
         | Ret (ServerCheck l1 d1 evs1) \<Rightarrow>
             (case serverDispatch (\<lambda>_ _. err) l1 d1 of
                Ret (l2, d2, evs2) \<Rightarrow>
                  (let c = pl_clientID l1; fin = scompleted w c @ left_queue c (sdisp w) d1 in
                   Some (w\<lparr>sdisp := d2, spump := Some l2,
                     swaiting := timeouts_after (evs1 @ evs2) (swaiting w),
                     scompleted := (scompleted w)(c := fin @ left_queue c d1 d2),
                     swritten := (swritten w)(c := swritten w c @
                       map (\<lambda>(_, b). (length fin, b)) (server_writes evs2))\<rparr>))
              | _ \<Rightarrow> None)
         | _ \<Rightarrow> None))"

fun srun :: "'v smove list \<Rightarrow> 'v sworld \<Rightarrow> 'v sworld option" where
  "srun [] w = Some w"
| "srun (m # ms) w = (case smake m w of None \<Rightarrow> None | Some w' \<Rightarrow> srun ms w')"

lemma smake_pump_sstep: "smake (SPump pc err) w = Some w' \<Longrightarrow> sstep w w'"
  by (auto simp: Let_def simp del: length_append map_append append_assoc
      intro: sstep.srv_pump sstep.srv_pump_continue sstep.srv_pump_stop
      split: option.splits go.splits server_next.splits prod.splits)

lemma smake_sstep: "smake m w = Some w' \<Longrightarrow> sstep w w'"
proof (cases m)
  case (SDisconnect c)
  assume "smake m w = Some w'"
  then show ?thesis
    using sstep.srv_disconnect[of c w] SDisconnect by (auto simp: removeClient_def Let_def)
next
  case (SPump pc err)
  assume "smake m w = Some w'"
  then show ?thesis using smake_pump_sstep SPump by blast
qed (auto intro: sstep.intros split: go.splits prod.splits bool.splits option.splits if_splits)

lemma srun_sstep: "srun ms w = Some w' \<Longrightarrow> sstep\<^sup>*\<^sup>* w w'"
  by (induction ms arbitrary: w)
    (auto intro: smake_sstep converse_rtranclp_into_rtranclp split: option.splits)

definition sdemo :: "unit sworld" where
  "sdemo = \<lparr>sdisp = ServerDispatcher_Start (SetNetworkServer (NewDefaultServerDispatcher (NewFIFOQueueMap 0))),
     spump = Some initial_locals, ssenders = [], ssignals = [], swaiting = [], sexpired = [],
     sclearing = [], saccepted = (\<lambda>_. []), scompleted = (\<lambda>_. []), swritten = (\<lambda>_. [])\<rparr>"

definition sdemo_at :: "unit sworld \<Rightarrow> unit smove list \<Rightarrow> unit sworld" where
  "sdemo_at w ms = (case srun ms w of Some w' \<Rightarrow> w' | None \<Rightarrow> w)"

lemma sdemo_start: "sstart 0 (sdemo\<lparr>sdisp := (sdisp sdemo)\<lparr>sd_timeout := t\<rparr>\<rparr>)"
  by (auto simp: sstart_def sdemo_def ServerDispatcher_Start_def SetNetworkServer_def
      ServerDispatcher_SetTimeout_def NewDefaultServerDispatcher_def)

lemma sdemo_start_default: "sstart 0 sdemo"
  using sdemo_start[of defaultMessageTimeout]
  by (simp add: sdemo_def ServerDispatcher_Start_def SetNetworkServer_def NewDefaultServerDispatcher_def)

lemma sdemo_at_reach: "sstart 0 w \<Longrightarrow> reach (sstart 0) sstep (sdemo_at w ms)"
proof -
  assume w: "sstart 0 w"
  have "sstep\<^sup>*\<^sup>* w (sdemo_at w ms)"
    by (auto simp: sdemo_at_def intro: srun_sstep split: option.splits)
  moreover have "reach (sstart 0) sstep w" using w by (rule reach.reach_start)
  ultimately show ?thesis by (blast intro: reach_steps)
qed

definition demo_two :: "unit smove list" where
  "demo_two = [SConnect ''A'', SConnect ''B'',
     SSend ''A'' (demo_bundle ''a1''), SSignal ''A'', SPump ClientRequestCase None,
     SSend ''B'' (demo_bundle ''b1''), SSignal ''B'', SPump ClientRequestCase None]"

definition demo_both :: "unit sworld" where
  "demo_both = sdemo_at sdemo (demo_two @ [SSend ''A'' (demo_bundle ''a2'')])"

lemma demo_both_reach: "reach (sstart 0) sstep demo_both"
  unfolding demo_both_def by (rule sdemo_at_reach[OF sdemo_start_default])

lemma demo_both_facts:
  "spump demo_both \<noteq> None" "sclearing demo_both = []"
  "clientQueue ''A'' (sdisp demo_both) = [demo_bundle ''a1'', demo_bundle ''a2'']"
  "swritten demo_both ''A'' = [(0, demo_bundle ''a1'')]" "scompleted demo_both ''A'' = []"
  "pending (stateOf ''A'' (sd_pendingState (sdisp demo_both))) = Some (''a1'', ())"
  by code_simp+

section \<open>Properties\<close>

text \<open>
  C15: For every client of a running server dispatcher, in every reachable state of the pump, the
  callers, the timeouts, connections and disconnections: the requests accepted since the client
  connected are those that were completed followed by those in its queue, in order, and the
  writes to that client follow the order of acceptance, each with the request at its position.
\<close>
theorem server_fifo:
  assumes "reach (sstart cap) sstep w" "spump w \<noteq> None"
  shows "saccepted w c = scompleted w c @ clientQueue c (sdisp w) \<and>
    sorted (map fst (swritten w c)) \<and>
    (\<forall>k b. (k, b) \<in> set (swritten w c) \<longrightarrow>
       k \<le> length (scompleted w c) \<and> k < length (saccepted w c) \<and> saccepted w c ! k = b)"
proof -
  have h: "hist_seq (saccepted w c) (scompleted w c) (swritten w c) (clientQueue c (sdisp w))"
    using server_disp.reach_inv[OF assms(1)] assms(2) by (simp add: sinv_def)
  show ?thesis
    using hist_seq_acc[OF h] hist_seq_written[OF h] h unfolding hist_seq_def by blast
qed

theorem server_fifo_witness:
  "saccepted demo_both ''A'' = [demo_bundle ''a1'', demo_bundle ''a2'']"
  using server_fifo[OF demo_both_reach demo_both_facts(1), of "''A''"] demo_both_facts by simp

text \<open>
  C16: At most one request per client is outstanding: unless a disconnection of the client is
  being processed, its pending request is the one at the front of its queue, with that request's
  payload, so the response that is matched with it completes that request and no other.
\<close>
theorem server_one_outstanding:
  assumes "reach (sstart cap) sstep w" "spump w \<noteq> None" "c \<notin> set (sclearing w)"
    and "i \<noteq> ''''" "GetPendingRequest i (stateOf c (sd_pendingState (sdisp w))) = (Some r, True)"
  shows "\<exists>b bs. clientQueue c (sdisp w) = b # bs \<and> bundle_id b = i \<and> bundle_req b = r"
proof -
  have m: "matched c (sdisp w)" and wf: "server_wf (sd_pendingState (sdisp w))"
    using server_disp.reach_inv[OF assms(1)] assms(2,3) by (simp_all add: sinv_def sd_wf_def)
  have "pendingOf c (sdisp w) = Some (i, r)"
    using server.get_pend[OF wf assms(4), of c] assms(5)
    by (auto simp: GetClientState_eq split: option.splits if_splits)
  with m show ?thesis by (auto simp: matched_def)
qed

theorem server_one_outstanding_witness:
  "GetPendingRequest ''a1'' (stateOf ''A'' (sd_pendingState (sdisp demo_both))) = (Some (), True) \<and>
   (\<exists>b bs. clientQueue ''A'' (sdisp demo_both) = b # bs \<and> bundle_id b = ''a1'')"
proof -
  have g: "GetPendingRequest ''a1'' (stateOf ''A'' (sd_pendingState (sdisp demo_both))) = (Some (), True)"
    by code_simp
  have n: "''A'' \<notin> set (sclearing demo_both)" by (simp add: demo_both_facts)
  from server_one_outstanding[OF demo_both_reach demo_both_facts(1) n _ g] g show ?thesis by auto
qed

text \<open>
  C17: Clients do not interfere: whatever case an iteration of the server's pump takes, it leaves
  the queue and the pending request of every client but one as they are and writes to that one
  client only.
\<close>
theorem server_isolation:
  assumes "reach (sstart cap) sstep w" "spump w = Some l"
    and "serverIteration wr pc l (sdisp w) = Ret (Some l', d', evs)" "e \<noteq> pl_clientID l'"
  shows "queueOf e (sd_queueMap d') = queueOf e (sd_queueMap (sdisp w)) \<and>
    pending (stateOf e (sd_pendingState d')) = pending (stateOf e (sd_pendingState (sdisp w))) \<and>
    e \<notin> fst ` set (server_writes evs)"
proof -
  have wf: "sd_wf (sdisp w)"
    using server_disp.reach_inv[OF assms(1)] assms(2) by (simp add: sinv_def)
  consider "serverSelect pc l (sdisp w) = Ret (ServerContinue l' d' evs)" |
    l1 d1 evs1 evs2 where "serverSelect pc l (sdisp w) = Ret (ServerCheck l1 d1 evs1)"
      "serverDispatch wr l1 d1 = Ret (l', d', evs2)" "evs = evs1 @ evs2"
  proof (cases "serverSelect pc l (sdisp w)")
    case (Ret n)
    then show ?thesis using assms(3) that by (cases n) (auto simp: serverIteration_def)
  qed (use assms(3) in \<open>simp_all add: serverIteration_def\<close>)
  then have "same_client e (sdisp w) d' \<and> e \<notin> fst ` set (server_writes evs)"
  proof cases
    case 1
    then show ?thesis using serverSelect_Continue[OF 1] serverSelect_Continue_writes[OF 1] by auto
  next
    case 2
    have c: "pl_clientID l' = pl_clientID l1"
      using 2(2) by (auto simp: serverDispatch_def split: option.splits if_splits)
    note S = serverSelect_Check[OF 2(1) wf refl]
    note D = serverDispatch_Ret[OF 2(2) S(1) refl]
    have e: "e \<noteq> pl_clientID l1" using assms(4) c by simp
    have "e \<notin> fst ` set (server_writes evs2)" using D(4) e by auto
    then show ?thesis using same_client_trans[OF S(3)[OF e] D(3)[OF e]] S(5) 2(3) by simp
  qed
  then show ?thesis by (simp add: same_client_def)
qed

definition demo_timeout :: "unit sworld" where
  "demo_timeout = sdemo_at sdemo (demo_two @ [SExpire 0 ''A'', STimeout ''A''])"

lemma demo_timeout_iteration:
  "case spump demo_timeout of None \<Rightarrow> False
   | Some l \<Rightarrow> (case serverIteration (\<lambda>_ _. None) ClientTimerCase l (sdisp demo_timeout) of
       Ret (Some l', d', _) \<Rightarrow> pl_clientID l' = ''A'' \<and> clientQueue ''A'' d' = []
     | _ \<Rightarrow> False)"
  by code_simp

theorem server_isolation_witness:
  "\<exists>l l' d' evs. spump demo_timeout = Some l \<and>
     serverIteration (\<lambda>_ _. None) ClientTimerCase l (sdisp demo_timeout) = Ret (Some l', d', evs) \<and>
     ''B'' \<noteq> pl_clientID l' \<and> clientQueue ''A'' d' = [] \<and>
     pending (stateOf ''B'' (sd_pendingState d')) = Some (''b1'', ())"
proof -
  obtain l l' d' evs where l: "spump demo_timeout = Some l"
    and r: "serverIteration (\<lambda>_ _. None) ClientTimerCase l (sdisp demo_timeout) = Ret (Some l', d', evs)"
    "pl_clientID l' = ''A''" "clientQueue ''A'' d' = []"
  proof (cases "spump demo_timeout")
    case None
    with demo_timeout_iteration show ?thesis by simp
  next
    case (Some l)
    with demo_timeout_iteration that show ?thesis
      by (cases "serverIteration (\<lambda>_ _. None) ClientTimerCase l (sdisp demo_timeout)")
        (auto split: option.splits)
  qed
  have B: "pending (stateOf ''B'' (sd_pendingState (sdisp demo_timeout))) = Some (''b1'', ())"
    by code_simp
  have "reach (sstart 0) sstep demo_timeout"
    unfolding demo_timeout_def by (rule sdemo_at_reach[OF sdemo_start_default])
  from server_isolation[OF this l r(1), of "''B''"] r l B show ?thesis by auto
qed

text \<open>
  C18: A timeout for one client can crash the server. The pump keeps \<^verbatim>\<open>rdy\<close> and \<^verbatim>\<open>clientQueue\<close> of the
  last client that had nothing to send; when a request for that client has been queued and, before
  its announcement is read, a timeout of another client is, the pump dispatches for the client
  that timed out, whose queue is empty, and dereferences a nil pointer.
\<close>
theorem server_timeout_panic:
  "\<exists>(w :: unit sworld) l. reach (sstart 0) sstep w \<and> spump w = Some l \<and>
     serverIteration (\<lambda>_ _. None) ClientTimerCase l (sdisp w) = Panic ''nil pointer dereference''"
proof -
  let ?w = "sdemo_at sdemo (demo_two @ [SRespond ''B'' ''b1'', SReady ''B'', SPump ClientReadyCase None,
    SSend ''B'' (demo_bundle ''b2''), SExpire 0 ''A'', STimeout ''A''])"
  have "case spump ?w of None \<Rightarrow> False
    | Some l \<Rightarrow> (case serverIteration (\<lambda>_ _. None) ClientTimerCase l (sdisp ?w) of
        Panic e \<Rightarrow> e = ''nil pointer dereference'' | _ \<Rightarrow> False)"
    by code_simp
  then show ?thesis
    using sdemo_at_reach[OF sdemo_start_default] by (auto split: option.splits go.splits)
qed

text \<open>
  C19: A response of one client and a timeout of another can stop the server's pump for good:
  the response leaves a token in \<^verbatim>\<open>readyForDispatch\<close>, whose buffer has one place; the pump, which is
  the only reader, takes the timeout first and blocks when it completes the request.
\<close>
theorem server_pump_self_deadlock:
  "\<exists>(w :: unit sworld) l. reach (sstart 0) sstep w \<and> spump w = Some l \<and>
     sd_timerC (sdisp w) = Some \<lparr>chan_buf = [''A''], chan_cap = 10, chan_closed = False\<rparr> \<and>
     serverIteration (\<lambda>_ _. None) ClientTimerCase l (sdisp w) = Block"
proof -
  let ?w = "sdemo_at sdemo (demo_two @ [SRespond ''B'' ''b1'', SReady ''B'', SExpire 0 ''A'', STimeout ''A''])"
  have "case spump ?w of None \<Rightarrow> False
    | Some l \<Rightarrow> (case serverIteration (\<lambda>_ _. None) ClientTimerCase l (sdisp ?w) of
        Block \<Rightarrow> True | _ \<Rightarrow> False)"
    by code_simp
  moreover have "sd_timerC (sdisp ?w) = Some \<lparr>chan_buf = [''A''], chan_cap = 10, chan_closed = False\<rparr>"
    by code_simp
  ultimately show ?thesis
    using sdemo_at_reach[OF sdemo_start_default] by (auto split: option.splits go.splits)
qed

text \<open>
  With the timeout disabled the pump takes every client for ready, because it reads that off
  the timeout context: each further request makes it write the pending one again.
\<close>
theorem server_no_timeout_writes_twice:
  "\<exists>(w :: unit sworld) b. reach (sstart 0) sstep w \<and> scompleted w ''A'' = [] \<and>
     swritten w ''A'' = [(0, b), (0, b)]"
proof -
  let ?s = "sdemo\<lparr>sdisp := (sdisp sdemo)\<lparr>sd_timeout := 0\<rparr>\<rparr>"
  let ?w = "sdemo_at ?s [SConnect ''A'', SSend ''A'' (demo_bundle ''a1''), SSignal ''A'', SPump ClientRequestCase None,
     SSend ''A'' (demo_bundle ''a2''), SSignal ''A'', SPump ClientRequestCase None]"
  have "scompleted ?w ''A'' = []" "swritten ?w ''A'' = [(0, demo_bundle ''a1''), (0, demo_bundle ''a1'')]"
    by code_simp+
  then show ?thesis using sdemo_at_reach[OF sdemo_start[of 0]] by blast
qed

end
