(* ===== verification/Endpoints.thy ===== *)
theory Endpoints
  imports ServerDispatcher
begin

text \<open>
  \<^verbatim>\<open>ocppj/client.go\<close> and \<^verbatim>\<open>ocppj/server.go\<close>: the two ends of a connection. An endpoint creates and
  sends requests through its dispatcher, sends responses and errors directly, and handles what
  the peer sends. The websocket is a parameter: \<open>wr\<close> is its \<^verbatim>\<open>Write\<close> (\<open>Some err\<close> for an error).
  Callbacks of the application are effects; a callback that is not set is \<open>False\<close> in the state.
  The effects of a call that blocks or panics are not recorded.

  \<^verbatim>\<open>NewClient\<close> and \<^verbatim>\<open>NewServer\<close> give the dispatcher and the endpoint the same state object, so
  \<^verbatim>\<open>RequestState\<close> is the pending state of the dispatcher.
\<close>

datatype 'v ep_event =
    Wrote json
  | WriteFailed json string
  | GotRequest 'v string string
  | GotResponse 'v string
  | GotError Error "json option"
  | PeerConnected
  | PeerDisconnected

text \<open>A message that goes to the network directly: the error and the effect.\<close>

definition writeDirect :: "(json \<Rightarrow> string option) \<Rightarrow> json \<Rightarrow> string option \<times> 'v ep_event list" where
  "writeDirect wr j =
     (case wr j of None \<Rightarrow> (None, [Wrote j]) | Some err \<Rightarrow> (Some err, [WriteFailed j err]))"

section \<open>Client\<close>

record ('ty, 'v) Client =
  cl_endpoint :: "'ty Endpoint"
  cl_Id :: string
  cl_requestHandler :: bool
  cl_responseHandler :: bool
  cl_errorHandler :: bool
  cl_onDisconnectedHandler :: bool
  cl_onReconnectedHandler :: bool
  cl_invalidMessageHook :: "(Error \<Rightarrow> json \<Rightarrow> json list \<Rightarrow> Error option) option"
  cl_dispatcher :: "'v DefaultClientDispatcher"

abbreviation cl_RequestState :: "('ty, 'v) Client \<Rightarrow> 'v clientState" where
  "cl_RequestState c \<equiv> pendingState (cl_dispatcher c)"

text \<open>The default dispatcher has a queue of ten requests.\<close>

definition NewClient ::
  "string \<Rightarrow> bool \<Rightarrow> 'v DefaultClientDispatcher option \<Rightarrow> 'v clientState option \<Rightarrow> 'ty Profile list \<Rightarrow>
   ('ty, 'v) Client go" where
  "NewClient i wsClient dispatcher stateHandler profiles =
     (if \<not> wsClient then Panic ''wsClient parameter cannot be nil''
      else let endpoint = fold AddProfile profiles \<lparr>dialect = NoDialect, Profiles = []\<rparr>;
               st = (case stateHandler of None \<Rightarrow> NewClientState | Some s \<Rightarrow> s)
      in bind_go (case dispatcher of
                    None \<Rightarrow> bind_go (NewFIFOClientQueue 10) (\<lambda>q. Ret (NewDefaultClientDispatcher q))
                  | Some d \<Rightarrow> Ret d) (\<lambda>d.
           Ret \<lparr>cl_endpoint = endpoint, cl_Id = i, cl_requestHandler = False, cl_responseHandler = False,
                cl_errorHandler = False, cl_onDisconnectedHandler = False,
                cl_onReconnectedHandler = False, cl_invalidMessageHook = None,
                cl_dispatcher = SetPendingRequestState st (SetNetworkClient d)\<rparr>))"

definition SetRequestHandler :: "('ty, 'v) Client \<Rightarrow> ('ty, 'v) Client" where
  "SetRequestHandler c = c\<lparr>cl_requestHandler := True\<rparr>"

definition SetResponseHandler :: "('ty, 'v) Client \<Rightarrow> ('ty, 'v) Client" where
  "SetResponseHandler c = c\<lparr>cl_responseHandler := True\<rparr>"

definition SetErrorHandler :: "('ty, 'v) Client \<Rightarrow> ('ty, 'v) Client" where
  "SetErrorHandler c = c\<lparr>cl_errorHandler := True\<rparr>"

definition SetInvalidMessageHook ::
  "(Error \<Rightarrow> json \<Rightarrow> json list \<Rightarrow> Error option) \<Rightarrow> ('ty, 'v) Client \<Rightarrow> ('ty, 'v) Client" where
  "SetInvalidMessageHook hook c = c\<lparr>cl_invalidMessageHook := Some hook\<rparr>"

definition SetOnDisconnectedHandler :: "('ty, 'v) Client \<Rightarrow> ('ty, 'v) Client" where
  "SetOnDisconnectedHandler c = c\<lparr>cl_onDisconnectedHandler := True\<rparr>"

definition SetOnReconnectedHandler :: "('ty, 'v) Client \<Rightarrow> ('ty, 'v) Client" where
  "SetOnReconnectedHandler c = c\<lparr>cl_onReconnectedHandler := True\<rparr>"

definition Client_SetOnRequestCanceled :: "('ty, 'v) Client \<Rightarrow> ('ty, 'v) Client" where
  "Client_SetOnRequestCanceled c = c\<lparr>cl_dispatcher := SetOnRequestCanceled (cl_dispatcher c)\<rparr>"

text \<open>\<open>wsStart\<close> is \<^verbatim>\<open>WsClient.Start\<close>: the dispatcher runs only when the connection is there.\<close>

definition Client_Start ::
  "(string \<Rightarrow> string option) \<Rightarrow> string \<Rightarrow> ('ty, 'v) Client \<Rightarrow> string option \<times> ('ty, 'v) Client" where
  "Client_Start wsStart serverURL c =
     (case wsStart (serverURL @ ''/'' @ cl_Id c) of
        None \<Rightarrow> (None, c\<lparr>cl_dispatcher := Start (cl_dispatcher c)\<rparr>)
      | Some err \<Rightarrow> (Some err, c))"

definition StartWithRetries :: "('ty, 'v) Client \<Rightarrow> ('ty, 'v) Client" where
  "StartWithRetries c = c\<lparr>cl_dispatcher := Start (cl_dispatcher c)\<rparr>"

text \<open>\<^verbatim>\<open>Stop\<close> stops the websocket, then a dispatcher that runs, and waits for the websocket's cleanup.\<close>

definition Client_Stop :: "('ty, 'v) Client \<Rightarrow> ('ty, 'v) Client go" where
  "Client_Stop c =
     (if IsRunning (cl_dispatcher c)
      then bind_go (Stop (cl_dispatcher c)) (\<lambda>d. Ret (c\<lparr>cl_dispatcher := d\<rparr>))
      else Ret c)"

text \<open>\<open>ven\<close> is the package variable \<^verbatim>\<open>validationEnabled\<close>, \<open>uid\<close> the next generated message ID.\<close>

definition Client_SendRequest ::
  "('ty, 'v) lib \<Rightarrow> bool \<Rightarrow> string \<Rightarrow> 'v \<Rightarrow> ('ty, 'v) Client \<Rightarrow>
   (goerr option \<times> ('ty, 'v) Client) go" where
  "Client_SendRequest L ven uid request c =
     (if \<not> IsRunning (cl_dispatcher c)
      then Ret (Some (EPlain ''ocppj client is not started, couldn't send request''), c)
      else case CreateCall L ven (cl_endpoint c) uid request of
        Inl err \<Rightarrow> Ret (Some err, c)
      | Inr call \<Rightarrow>
          (case Call_MarshalJSON L call of
             Inl err \<Rightarrow> Ret (Some (EPlain err), c)
           | Inr jsonMessage \<Rightarrow>
               bind_go (SendRequest \<lparr>bundle_Call = call, bundle_Data = jsonMessage\<rparr> (cl_dispatcher c))
                 (\<lambda>(err, d). Ret (map_option EPlain err, c\<lparr>cl_dispatcher := d\<rparr>))))"

definition Client_SendResponse ::
  "('ty, 'v) lib \<Rightarrow> bool \<Rightarrow> (json \<Rightarrow> string option) \<Rightarrow> ('ty, 'v) Client \<Rightarrow> string \<Rightarrow> 'v \<Rightarrow>
   goerr option \<times> 'v ep_event list" where
  "Client_SendResponse L ven wr c requestId response =
     (case CreateCallResult L ven (cl_endpoint c) response requestId of
        Inl err \<Rightarrow> (Some err, [])
      | Inr callResult \<Rightarrow>
          (case CallResult_MarshalJSON L callResult of
             Inl err \<Rightarrow> (Some (EOcpp (NewError GenericError err requestId)), [])
           | Inr jsonMessage \<Rightarrow>
               (case writeDirect wr jsonMessage of
                  (Some err, evs) \<Rightarrow> (Some (EOcpp (NewError GenericError err requestId)), evs)
                | (None, evs) \<Rightarrow> (None, evs))))"

definition Client_SendError ::
  "('ty, 'v) lib \<Rightarrow> bool \<Rightarrow> (json \<Rightarrow> string option) \<Rightarrow> ('ty, 'v) Client \<Rightarrow> string \<Rightarrow> ErrorCode \<Rightarrow>
   string \<Rightarrow> json option \<Rightarrow> goerr option \<times> 'v ep_event list" where
  "Client_SendError L ven wr c requestId errorCode description details =
     (case CreateCallError L ven requestId errorCode description details of
        Inl err \<Rightarrow> (Some err, [])
      | Inr callError \<Rightarrow>
          (case CallError_MarshalJSON callError of
             Inl err \<Rightarrow> (Some (EOcpp (NewError GenericError err requestId)), [])
           | Inr jsonMessage \<Rightarrow>
               (case writeDirect wr jsonMessage of
                  (Some err, evs) \<Rightarrow> (Some (EOcpp (NewError GenericError err requestId)), evs)
                | (None, evs) \<Rightarrow> (None, evs))))"

text \<open>
  The error that is reported for a message that could not be parsed: the one of the hook, if
  there is a hook and it returns one, with the message ID of the original error.
\<close>

definition hookedError ::
  "(Error \<Rightarrow> json \<Rightarrow> json list \<Rightarrow> Error option) option \<Rightarrow> Error \<Rightarrow> json \<Rightarrow> json list \<Rightarrow> Error" where
  "hookedError hook ocppErr raw parsedJson =
     (case hook of
        None \<Rightarrow> ocppErr
      | Some h \<Rightarrow>
          (case h ocppErr raw parsedJson of
             None \<Rightarrow> ocppErr
           | Some err2 \<Rightarrow> err2\<lparr>MessageId := MessageId ocppErr\<rparr>))"

definition Client_ocppMessageHandler ::
  "('ty, 'v) lib \<Rightarrow> bool \<Rightarrow> (json \<Rightarrow> string option) \<Rightarrow> json \<Rightarrow> ('ty, 'v) Client \<Rightarrow>
   (goerr option \<times> ('ty, 'v) Client \<times> 'v ep_event list) go" where
  "Client_ocppMessageHandler L ven wr raw c =
     (case ParseRawJsonMessage raw of
        Inl err \<Rightarrow> Ret (Some (EPlain err), c, [])
      | Inr parsedJson \<Rightarrow>
          bind_go (ParseMessage L (cl_endpoint c) parsedJson (cl_RequestState c)) (\<lambda>result.
            case result of
              Inl err \<Rightarrow>
                (let ocppErr = hookedError (cl_invalidMessageHook c) err raw parsedJson
                 in if MessageId ocppErr \<noteq> '''' then
                      (case Client_SendError L ven wr c (MessageId ocppErr) (Code ocppErr)
                              (Description ocppErr) None of
                         (Some err2, evs) \<Rightarrow> Ret (Some err2, c, evs)
                       | (None, evs) \<Rightarrow> Ret (Some (EOcpp ocppErr), c, evs))
                    else Ret (Some (EOcpp ocppErr), c, []))
            | Inr None \<Rightarrow> Ret (None, c, [])
            | Inr (Some (MCall call)) \<Rightarrow>
                if cl_requestHandler c
                then Ret (None, c, [GotRequest (Call_Payload call) (Call_UniqueId call) (Call_Action call)])
                else Panic ''nil pointer dereference''
            | Inr (Some (MCallResult r)) \<Rightarrow>
                bind_go (CompleteRequest (CallResult_UniqueId r) (cl_dispatcher c)) (\<lambda>d.
                  Ret (None, c\<lparr>cl_dispatcher := d\<rparr>,
                    if cl_responseHandler c then [GotResponse (CallResult_Payload r) (CallResult_UniqueId r)]
                    else []))
            | Inr (Some (MCallError e)) \<Rightarrow>
                bind_go (CompleteRequest (CallError_UniqueId e) (cl_dispatcher c)) (\<lambda>d.
                  Ret (None, c\<lparr>cl_dispatcher := d\<rparr>,
                    if cl_errorHandler c
                    then [GotError (NewError (CallError_ErrorCode e) (CallError_ErrorDescription e)
                                      (CallError_UniqueId e)) (CallError_ErrorDetails e)]
                    else []))))"

text \<open>The error that \<^verbatim>\<open>HandleFailedResponseError\<close> sends instead of a response.\<close>

definition failedResponseError ::
  "('ty, 'v) lib \<Rightarrow> string \<Rightarrow> goerr \<Rightarrow> string \<Rightarrow> Error" where
  "failedResponseError L rid err feature =
     (case err of
        EValidation validationErr \<Rightarrow> errorFromValidation L validationErr rid feature
      | EOcpp e \<Rightarrow> e
      | EPlain msg \<Rightarrow> NewError GenericError msg rid)"

definition Client_HandleFailedResponseError ::
  "('ty, 'v) lib \<Rightarrow> bool \<Rightarrow> (json \<Rightarrow> string option) \<Rightarrow> ('ty, 'v) Client \<Rightarrow> string \<Rightarrow> goerr \<Rightarrow> string \<Rightarrow>
   'v ep_event list" where
  "Client_HandleFailedResponseError L ven wr c rid err feature =
     (let responseErr = failedResponseError L rid err feature
      in snd (Client_SendError L ven wr c rid (Code responseErr) (Description responseErr) None))"

definition Client_onDisconnected ::
  "('ty, 'v) Client \<Rightarrow> (('ty, 'v) Client \<times> 'v ep_event list) go" where
  "Client_onDisconnected c =
     bind_go (Pause (cl_dispatcher c)) (\<lambda>d.
       Ret (c\<lparr>cl_dispatcher := d\<rparr>, if cl_onDisconnectedHandler c then [PeerDisconnected] else []))"

definition Client_onReconnected ::
  "('ty, 'v) Client \<Rightarrow> (('ty, 'v) Client \<times> 'v ep_event list) go" where
  "Client_onReconnected c =
     bind_go (Resume (cl_dispatcher c)) (\<lambda>d.
       Ret (c\<lparr>cl_dispatcher := d\<rparr>, if cl_onReconnectedHandler c then [PeerConnected] else []))"

section \<open>Server\<close>

text \<open>Effects of the server carry the client they concern.\<close>

record ('ty, 'v) Server =
  sv_endpoint :: "'ty Endpoint"
  sv_newClientHandler :: bool
  sv_disconnectedClientHandler :: bool
  sv_requestHandler :: bool
  sv_responseHandler :: bool
  sv_errorHandler :: bool
  sv_invalidMessageHook :: "(string \<Rightarrow> Error \<Rightarrow> json \<Rightarrow> json list \<Rightarrow> Error option) option"
  sv_dispatcher :: "'v DefaultServerDispatcher"

type_synonym 'v sv_event = "string \<times> 'v ep_event"

text \<open>Without a state handler the server shares the one the default dispatcher was made with.\<close>

definition NewServer ::
  "'v DefaultServerDispatcher option \<Rightarrow> 'v serverState option \<Rightarrow> 'ty Profile list \<Rightarrow> ('ty, 'v) Server" where
  "NewServer dispatcher stateHandler profiles =
     (let d = (case dispatcher of
                 None \<Rightarrow> NewDefaultServerDispatcher (NewFIFOQueueMap 0)
               | Some d \<Rightarrow> d);
          st = (case stateHandler of None \<Rightarrow> sd_pendingState d | Some s \<Rightarrow> s)
      in \<lparr>sv_endpoint = fold AddProfile profiles \<lparr>dialect = NoDialect, Profiles = []\<rparr>,
          sv_newClientHandler = False, sv_disconnectedClientHandler = False,
          sv_requestHandler = False, sv_responseHandler = False, sv_errorHandler = False,
          sv_invalidMessageHook = None,
          sv_dispatcher = ServerDispatcher_SetPendingRequestState st (SetNetworkServer d)\<rparr>)"

definition Server_SetRequestHandler :: "('ty, 'v) Server \<Rightarrow> ('ty, 'v) Server" where
  "Server_SetRequestHandler s = s\<lparr>sv_requestHandler := True\<rparr>"

definition Server_SetResponseHandler :: "('ty, 'v) Server \<Rightarrow> ('ty, 'v) Server" where
  "Server_SetResponseHandler s = s\<lparr>sv_responseHandler := True\<rparr>"

definition Server_SetErrorHandler :: "('ty, 'v) Server \<Rightarrow> ('ty, 'v) Server" where
  "Server_SetErrorHandler s = s\<lparr>sv_errorHandler := True\<rparr>"

definition Server_SetInvalidMessageHook ::
  "(string \<Rightarrow> Error \<Rightarrow> json \<Rightarrow> json list \<Rightarrow> Error option) \<Rightarrow> ('ty, 'v) Server \<Rightarrow> ('ty, 'v) Server" where
  "Server_SetInvalidMessageHook hook s = s\<lparr>sv_invalidMessageHook := Some hook\<rparr>"

definition SetCanceledRequestHandler :: "('ty, 'v) Server \<Rightarrow> ('ty, 'v) Server" where
  "SetCanceledRequestHandler s =
     s\<lparr>sv_dispatcher := ServerDispatcher_SetOnRequestCanceled (sv_dispatcher s)\<rparr>"

definition SetNewClientHandler :: "('ty, 'v) Server \<Rightarrow> ('ty, 'v) Server" where
  "SetNewClientHandler s = s\<lparr>sv_newClientHandler := True\<rparr>"

definition SetDisconnectedClientHandler :: "('ty, 'v) Server \<Rightarrow> ('ty, 'v) Server" where
  "SetDisconnectedClientHandler s = s\<lparr>sv_disconnectedClientHandler := True\<rparr>"

definition Server_Start :: "('ty, 'v) Server \<Rightarrow> ('ty, 'v) Server" where
  "Server_Start s = s\<lparr>sv_dispatcher := ServerDispatcher_Start (sv_dispatcher s)\<rparr>"

definition Server_Stop :: "('ty, 'v) Server \<Rightarrow> ('ty, 'v) Server go" where
  "Server_Stop s =
     bind_go (ServerDispatcher_Stop (sv_dispatcher s)) (\<lambda>d. Ret (s\<lparr>sv_dispatcher := d\<rparr>))"

definition Server_SendRequest ::
  "('ty, 'v) lib \<Rightarrow> bool \<Rightarrow> string \<Rightarrow> string \<Rightarrow> 'v \<Rightarrow> ('ty, 'v) Server \<Rightarrow>
   (goerr option \<times> ('ty, 'v) Server) go" where
  "Server_SendRequest L ven uid clientID request s =
     (if \<not> ServerDispatcher_IsRunning (sv_dispatcher s)
      then Ret (Some (EPlain ''ocppj server is not started, couldn't send request''), s)
      else case CreateCall L ven (sv_endpoint s) uid request of
        Inl err \<Rightarrow> Ret (Some err, s)
      | Inr call \<Rightarrow>
          (case Call_MarshalJSON L call of
             Inl err \<Rightarrow> Ret (Some (EPlain err), s)
           | Inr jsonMessage \<Rightarrow>
               bind_go (ServerDispatcher_SendRequest clientID
                          \<lparr>bundle_Call = call, bundle_Data = jsonMessage\<rparr> (sv_dispatcher s))
                 (\<lambda>(err, d). Ret (map_option EPlain err, s\<lparr>sv_dispatcher := d\<rparr>))))"

definition Server_SendResponse ::
  "('ty, 'v) lib \<Rightarrow> bool \<Rightarrow> (string \<Rightarrow> json \<Rightarrow> string option) \<Rightarrow> ('ty, 'v) Server \<Rightarrow> string \<Rightarrow> string \<Rightarrow> 'v \<Rightarrow>
   goerr option \<times> 'v sv_event list" where
  "Server_SendResponse L ven wr s clientID requestId response =
     (case CreateCallResult L ven (sv_endpoint s) response requestId of
        Inl err \<Rightarrow> (Some err, [])
      | Inr callResult \<Rightarrow>
          (case CallResult_MarshalJSON L callResult of
             Inl err \<Rightarrow> (Some (EOcpp (NewError GenericError err requestId)), [])
           | Inr jsonMessage \<Rightarrow>
               (case writeDirect (wr clientID) jsonMessage of
                  (Some err, evs) \<Rightarrow>
                    (Some (EOcpp (NewError GenericError err requestId)), map (Pair clientID) evs)
                | (None, evs) \<Rightarrow> (None, map (Pair clientID) evs))))"

definition Server_SendError ::
  "('ty, 'v) lib \<Rightarrow> bool \<Rightarrow> (string \<Rightarrow> json \<Rightarrow> string option) \<Rightarrow> ('ty, 'v) Server \<Rightarrow> string \<Rightarrow> string \<Rightarrow>
   ErrorCode \<Rightarrow> string \<Rightarrow> json option \<Rightarrow> goerr option \<times> 'v sv_event list" where
  "Server_SendError L ven wr s clientID requestId errorCode description details =
     (case CreateCallError L ven requestId errorCode description details of
        Inl err \<Rightarrow> (Some err, [])
      | Inr callError \<Rightarrow>
          (case CallError_MarshalJSON callError of
             Inl err \<Rightarrow> (Some (EOcpp (NewError GenericError err requestId)), [])
           | Inr jsonMessage \<Rightarrow>
               (case writeDirect (wr clientID) jsonMessage of
                  (Some err, evs) \<Rightarrow>
                    (Some (EOcpp (NewError GenericError err requestId)), map (Pair clientID) evs)
                | (None, evs) \<Rightarrow> (None, map (Pair clientID) evs))))"

text \<open>Unlike the client, the server checks that there is a handler for requests.\<close>

definition Server_ocppMessageHandler ::
  "('ty, 'v) lib \<Rightarrow> bool \<Rightarrow> (string \<Rightarrow> json \<Rightarrow> string option) \<Rightarrow> string \<Rightarrow> json \<Rightarrow> ('ty, 'v) Server \<Rightarrow>
   (goerr option \<times> ('ty, 'v) Server \<times> 'v sv_event list) go" where
  "Server_ocppMessageHandler L ven wr clientID raw s0 =
     (case ParseRawJsonMessage raw of
        Inl err \<Rightarrow> Ret (Some (EPlain err), s0, [])
      | Inr parsedJson \<Rightarrow>
          (case GetClientState clientID (sd_pendingState (sv_dispatcher s0)) of
             (pend, st) \<Rightarrow>
               let s = s0\<lparr>sv_dispatcher := (sv_dispatcher s0)\<lparr>sd_pendingState := st\<rparr>\<rparr>
               in bind_go (ParseMessage L (sv_endpoint s) parsedJson pend) (\<lambda>result.
                    case result of
                      Inl err \<Rightarrow>
                        (let ocppErr = hookedError (map_option (\<lambda>h. h clientID) (sv_invalidMessageHook s))
                                         err raw parsedJson
                         in if MessageId ocppErr \<noteq> '''' then
                              (case Server_SendError L ven wr s clientID (MessageId ocppErr) (Code ocppErr)
                                      (Description ocppErr) None of
                                 (Some err2, evs) \<Rightarrow> Ret (Some err2, s, evs)
                               | (None, evs) \<Rightarrow> Ret (Some (EOcpp ocppErr), s, evs))
                            else Ret (Some (EOcpp ocppErr), s, []))
                    | Inr None \<Rightarrow> Ret (None, s, [])
                    | Inr (Some (MCall call)) \<Rightarrow>
                        Ret (None, s,
                          if sv_requestHandler s
                          then [(clientID, GotRequest (Call_Payload call) (Call_UniqueId call) (Call_Action call))]
                          else [])
                    | Inr (Some (MCallResult r)) \<Rightarrow>
                        bind_go (ServerDispatcher_CompleteRequest clientID (CallResult_UniqueId r)
                                   (sv_dispatcher s)) (\<lambda>d.
                          Ret (None, s\<lparr>sv_dispatcher := d\<rparr>,
                            if sv_responseHandler s
                            then [(clientID, GotResponse (CallResult_Payload r) (CallResult_UniqueId r))]
                            else []))
                    | Inr (Some (MCallError e)) \<Rightarrow>
                        bind_go (ServerDispatcher_CompleteRequest clientID (CallError_UniqueId e)
                                   (sv_dispatcher s)) (\<lambda>d.
                          Ret (None, s\<lparr>sv_dispatcher := d\<rparr>,
                            if sv_errorHandler s
                            then [(clientID, GotError (NewError (CallError_ErrorCode e)
                                     (CallError_ErrorDescription e) (CallError_UniqueId e))
                                     (CallError_ErrorDetails e))]
                            else [])))))"

definition Server_HandleFailedResponseError ::
  "('ty, 'v) lib \<Rightarrow> bool \<Rightarrow> (string \<Rightarrow> json \<Rightarrow> string option) \<Rightarrow> ('ty, 'v) Server \<Rightarrow> string \<Rightarrow> string \<Rightarrow>
   goerr \<Rightarrow> string \<Rightarrow> 'v sv_event list" where
  "Server_HandleFailedResponseError L ven wr s clientID rid err feature =
     (let responseErr = failedResponseError L rid err feature
      in snd (Server_SendError L ven wr s clientID rid (Code responseErr) (Description responseErr) None))"

definition onClientConnected ::
  "string \<Rightarrow> ('ty, 'v) Server \<Rightarrow> (('ty, 'v) Server \<times> 'v sv_event list) go" where
  "onClientConnected clientID s =
     bind_go (CreateClient clientID (sv_dispatcher s)) (\<lambda>d.
       Ret (s\<lparr>sv_dispatcher := d\<rparr>,
            if sv_newClientHandler s then [(clientID, PeerConnected)] else []))"

definition onClientDisconnected ::
  "string \<Rightarrow> ('ty, 'v) Server \<Rightarrow> (('ty, 'v) Server \<times> 'v sv_event list) go" where
  "onClientDisconnected clientID s =
     bind_go (DeleteClient clientID (sv_dispatcher s)) (\<lambda>d.
       Ret (s\<lparr>sv_dispatcher := d\<lparr>sd_pendingState := ClearClientPendingRequest clientID (sd_pendingState d)\<rparr>\<rparr>,
            if sv_disconnectedClientHandler s then [(clientID, PeerDisconnected)] else []))"

section \<open>Facts about the handlers\<close>

lemma ParseRaw_JArr [simp]: "ParseRawJsonMessage (JArr arr) = Inr arr"
  by (simp add: ParseRawJsonMessage_def)

lemma hookedError_id [simp]: "MessageId (hookedError h e raw arr) = MessageId e"
  by (simp add: hookedError_def split: option.splits)

text \<open>A direct write has one effect, and the error tells which.\<close>

lemma writeDirect_eq:
  "writeDirect wr j = (wr j, [case wr j of None \<Rightarrow> Wrote j | Some e \<Rightarrow> WriteFailed j e])"
  by (simp add: writeDirect_def split: option.splits)

text \<open>The encoding of an error reply.\<close>

definition errorReply :: "string \<Rightarrow> ErrorCode \<Rightarrow> string \<Rightarrow> json" where
  "errorReply i code description =
     JArr [JNum CALL_ERROR 0, JStr i, JStr code, JStr description, JObj []]"

lemma Client_SendError_eq:
  "Client_SendError L ven wr c i code desc None =
     (case CreateCallError L ven i code desc None of
        Inl err \<Rightarrow> (Some err, [])
      | Inr _ \<Rightarrow>
          (case wr (errorReply i code desc) of
             None \<Rightarrow> (None, [Wrote (errorReply i code desc)])
           | Some e \<Rightarrow> (Some (EOcpp (NewError GenericError e i)), [WriteFailed (errorReply i code desc) e])))"
  by (auto simp: Client_SendError_def CreateCallError_def Let_def CallError_MarshalJSON_def
      ocppMessageToJson_def jsonMarshal_def writeDirect_def errorReply_def split: option.splits)

lemma Server_SendError_eq:
  "Server_SendError L ven wr s c i code desc None =
     (case CreateCallError L ven i code desc None of
        Inl err \<Rightarrow> (Some err, [])
      | Inr _ \<Rightarrow>
          (case wr c (errorReply i code desc) of
             None \<Rightarrow> (None, [(c, Wrote (errorReply i code desc))])
           | Some e \<Rightarrow>
               (Some (EOcpp (NewError GenericError e i)), [(c, WriteFailed (errorReply i code desc) e)])))"
  by (auto simp: Server_SendError_def CreateCallError_def Let_def CallError_MarshalJSON_def
      ocppMessageToJson_def jsonMarshal_def writeDirect_def errorReply_def split: option.splits)

section \<open>The interface the application layers rely on\<close>

text \<open>
  Sending replies: an error or a response is written at most once, and the result says whether
  the write succeeded. \<open>replied\<close> recognises a successful write. The application layers of both
  protocol versions answer a request through this interface.
\<close>

definition replyWith ::
  "(string \<Rightarrow> ErrorCode \<Rightarrow> string \<Rightarrow> goerr option \<times> 'e list) \<Rightarrow>
   (string \<Rightarrow> 'v \<Rightarrow> goerr option \<times> 'e list) \<Rightarrow> (string \<Rightarrow> goerr \<Rightarrow> string \<Rightarrow> 'e list) \<Rightarrow>
   (goerr \<Rightarrow> string) \<Rightarrow> ('v \<Rightarrow> string) \<Rightarrow> string \<Rightarrow> 'v option \<Rightarrow> goerr option \<Rightarrow> string \<Rightarrow>
   'e list \<times> goerr option" where
  "replyWith sendErr sendRes handleFailed txt feature emptyText confirmation err requestId =
     (case err of
        Some e \<Rightarrow>
          (case (case e of
                   EOcpp oe \<Rightarrow> sendErr requestId (Code oe) (Description oe)
                 | _ \<Rightarrow> sendErr requestId InternalError (txt e)) of
             (None, evs) \<Rightarrow> (evs, None)
           | (Some e2, evs) \<Rightarrow> (evs @ handleFailed requestId e2 '''', Some e2))
      | None \<Rightarrow>
          (case confirmation of
             None \<Rightarrow>
               (snd (sendErr requestId GenericError emptyText), Some (EPlain emptyText))
           | Some conf \<Rightarrow>
               (case sendRes requestId conf of
                  (None, evs) \<Rightarrow> (evs, None)
                | (Some e2, evs) \<Rightarrow> (evs @ handleFailed requestId e2 (feature conf), Some e2))))"

locale replier =
  fixes sendErr :: "string \<Rightarrow> ErrorCode \<Rightarrow> string \<Rightarrow> goerr option \<times> 'e list"
    and sendRes :: "string \<Rightarrow> 'v \<Rightarrow> goerr option \<times> 'e list"
    and handleFailed :: "string \<Rightarrow> goerr \<Rightarrow> string \<Rightarrow> 'e list"
    and replied :: "string \<Rightarrow> 'e \<Rightarrow> bool"
  assumes err_one: "sendErr i code d = (e, evs) \<Longrightarrow>
      if e = None then \<exists>x. evs = [x] \<and> replied i x else \<forall>x\<in>set evs. \<not> replied i x"
    and res_one: "sendRes i v = (e, evs) \<Longrightarrow>
      if e = None then \<exists>x. evs = [x] \<and> replied i x else \<forall>x\<in>set evs. \<not> replied i x"
    and failed_err: "\<exists>code d. handleFailed i err f = snd (sendErr i code d)"
begin

lemma err_filter: "filter (replied i) (snd (sendErr i code d)) = [] \<or>
    (\<exists>x. filter (replied i) (snd (sendErr i code d)) = [x])"
  using err_one[of i code d] by (cases "sendErr i code d") (auto split: if_splits)

text \<open>However the application answers, the peer gets at most one reply to a request.\<close>

lemma reply_at_most_once:
  "length (filter (replied i)
     (fst (replyWith sendErr sendRes handleFailed txt feature et conf err i))) \<le> 1"
proof -
  have f: "length (filter (replied i) (handleFailed i e g)) \<le> 1" for e g
    using failed_err[of i e g] err_filter[of i] by (metis One_nat_def le_numeral_extra(4) length_0_conv
        length_Cons zero_le_one)
  have e: "length (filter (replied i) (snd (sendErr i code d))) \<le> 1" for code d
    using err_filter[of i code d] by auto
  have none: "sendErr i code d = (Some x, evs) \<Longrightarrow> filter (replied i) evs = []"
    "sendRes i v = (Some x, evs) \<Longrightarrow> filter (replied i) evs = []" for code d x evs v
    using err_one[of i code d "Some x" evs] res_one[of i v "Some x" evs] by auto
  have one: "sendErr i code d = (None, evs) \<Longrightarrow> length (filter (replied i) evs) \<le> 1"
    "sendRes i v = (None, evs) \<Longrightarrow> length (filter (replied i) evs) \<le> 1" for code d evs v
    using err_one[of i code d None evs] res_one[of i v None evs] by auto
  show ?thesis
    using f e none one by (auto simp: replyWith_def split: option.splits prod.splits goerr.splits)
qed

text \<open>When nothing is reported to the application, the peer got exactly one reply.\<close>

lemma reply_exactly_once:
  assumes "replyWith sendErr sendRes handleFailed txt feature et conf err i = (evs, None)"
  shows "\<exists>x. evs = [x] \<and> replied i x"
proof -
  have "sendErr i code d = (None, evs) \<Longrightarrow> \<exists>x. evs = [x] \<and> replied i x"
    "sendRes i v = (None, evs) \<Longrightarrow> \<exists>x. evs = [x] \<and> replied i x" for code d v
    using err_one[of i code d None evs] res_one[of i v None evs] by simp_all
  then show ?thesis
    using assms by (auto simp: replyWith_def split: option.splits prod.splits goerr.splits)
qed

text \<open>
  If the error sent in place of a failed reply gets through, the peer gets a reply in any case.
\<close>

lemma reply_answered:
  assumes "\<And>code d e evs f. sendErr i code d = (Some e, evs) \<Longrightarrow>
      length (filter (replied i) (handleFailed i e f)) = 1"
    and "\<And>v e evs f. sendRes i v = (Some e, evs) \<Longrightarrow> length (filter (replied i) (handleFailed i e f)) = 1"
    and "\<And>d. fst (sendErr i GenericError d) = None"
  shows "length (filter (replied i)
     (fst (replyWith sendErr sendRes handleFailed txt feature et conf err i))) = 1"
proof -
  have none: "sendErr i code d = (Some x, evs) \<Longrightarrow> filter (replied i) evs = []"
    "sendRes i v = (Some x, evs) \<Longrightarrow> filter (replied i) evs = []" for code d x evs v
    using err_one[of i code d "Some x" evs] res_one[of i v "Some x" evs] by auto
  have one: "sendErr i code d = (None, evs) \<Longrightarrow> length (filter (replied i) evs) = 1"
    "sendRes i v = (None, evs) \<Longrightarrow> length (filter (replied i) evs) = 1" for code d evs v
    using err_one[of i code d None evs] res_one[of i v None evs] by auto
  have empty: "length (filter (replied i) (snd (sendErr i GenericError d))) = 1" for d
    using assms(3)[of d] one(1)[of GenericError d] by (cases "sendErr i GenericError d") auto
  show ?thesis
    using assms(1,2) none one empty
    by (auto simp: replyWith_def split: option.splits prod.splits goerr.splits)
qed

end

text \<open>A reply to the request \<open>i\<close> that has reached the network.\<close>

fun replies :: "string \<Rightarrow> 'v ep_event \<Rightarrow> bool" where
  "replies i (Wrote (JArr (_ # JStr j # _))) \<longleftrightarrow> j = i"
| "replies i _ \<longleftrightarrow> False"

definition server_replies :: "string \<Rightarrow> string \<Rightarrow> 'v sv_event \<Rightarrow> bool" where
  "server_replies c i x \<longleftrightarrow> fst x = c \<and> replies i (snd x)"

lemma CallResult_Marshal_Inr:
  "CallResult_MarshalJSON L r = Inr j \<Longrightarrow>
     \<exists>p. marshal L (CallResult_Payload r) = Inr p \<and>
       j = JArr [JNum (CallResult_MessageTypeId r) 0, JStr (CallResult_UniqueId r), p]"
  by (cases "marshal L (CallResult_Payload r)")
    (auto simp: CallResult_MarshalJSON_def jsonMarshal_def split: sum.splits)

lemma CreateCallResult_Inr:
  "CreateCallResult L ven ep v i = Inr r \<Longrightarrow>
     r = \<lparr>CallResult_MessageTypeId = CALL_RESULT, CallResult_UniqueId = i, CallResult_Payload = v\<rparr>"
  by (auto simp: CreateCallResult_def Let_def split: option.splits if_splits)

lemma Client_SendResponse_one:
  assumes "Client_SendResponse L ven wr c i v = (e, evs)"
  shows "if e = None then \<exists>x. evs = [x] \<and> replies i x else \<forall>x\<in>set evs. \<not> replies i x"
proof (cases "CreateCallResult L ven (cl_endpoint c) v i")
  case (Inl err)
  with assms show ?thesis by (auto simp: Client_SendResponse_def)
next
  case (Inr r)
  note r = CreateCallResult_Inr[OF Inr]
  show ?thesis
  proof (cases "CallResult_MarshalJSON L r")
    case (Inl err)
    with assms Inr show ?thesis by (auto simp: Client_SendResponse_def)
  next
    case j: (Inr j)
    obtain p where p: "j = JArr [JNum (CallResult_MessageTypeId r) 0, JStr (CallResult_UniqueId r), p]"
      using CallResult_Marshal_Inr[OF j] by blast
    show ?thesis
      using assms Inr j by (auto simp: Client_SendResponse_def writeDirect_def p r split: option.splits)
  qed
qed

lemma Server_Client_SendResponse:
  "cl_endpoint cl = sv_endpoint s \<Longrightarrow> Server_SendResponse L ven wr s c i v =
     (case Client_SendResponse L ven (wr c) cl i v of (e, evs) \<Rightarrow> (e, map (Pair c) evs))"
  by (simp add: Server_SendResponse_def Client_SendResponse_def split: sum.splits option.splits prod.splits)

lemma Server_SendResponse_one:
  fixes s :: "('ty, 'v) Server"
  assumes "Server_SendResponse L ven wr s c i v = (e, evs)"
  shows "if e = None then \<exists>x. evs = [x] \<and> server_replies c i x else \<forall>x\<in>set evs. \<not> server_replies c i x"
proof -
  obtain cl :: "('ty, 'v) Client" where "cl_endpoint cl = sv_endpoint s"
    by (rule that) (rule Client.select_convs(1))
  from Server_Client_SendResponse[OF this, of L ven wr c i v] assms obtain evs' where
    e: "Client_SendResponse L ven (wr c) cl i v = (e, evs')" and "evs = map (Pair c) evs'"
    by (auto split: prod.splits)
  then show ?thesis
    using Client_SendResponse_one[OF e] by (auto simp: server_replies_def split: if_splits)
qed

interpretation client_reply: replier "\<lambda>i code d. Client_SendError L ven wr c i code d None"
  "Client_SendResponse L ven wr c" "Client_HandleFailedResponseError L ven wr c" replies
  for L ven wr c
proof
  show "Client_SendError L ven wr c i code d None = (e, evs) \<Longrightarrow>
      if e = None then \<exists>x. evs = [x] \<and> replies i x else \<forall>x\<in>set evs. \<not> replies i x" for i code d e evs
    by (auto simp: Client_SendError_eq errorReply_def split: option.splits sum.splits)
  show "Client_SendResponse L ven wr c i v = (e, evs) \<Longrightarrow>
      if e = None then \<exists>x. evs = [x] \<and> replies i x else \<forall>x\<in>set evs. \<not> replies i x" for i v e evs
    by (rule Client_SendResponse_one)
  show "\<exists>code d. Client_HandleFailedResponseError L ven wr c i err f =
      snd (Client_SendError L ven wr c i code d None)" for i err f
    by (auto simp: Client_HandleFailedResponseError_def Let_def)
qed

interpretation server_reply: replier "\<lambda>i code d. Server_SendError L ven wr s c i code d None"
  "Server_SendResponse L ven wr s c" "Server_HandleFailedResponseError L ven wr s c" "server_replies c"
  for L ven wr s c
proof
  show "Server_SendError L ven wr s c i code d None = (e, evs) \<Longrightarrow>
      if e = None then \<exists>x. evs = [x] \<and> server_replies c i x else \<forall>x\<in>set evs. \<not> server_replies c i x"
    for i code d e evs
    by (auto simp: Server_SendError_eq errorReply_def server_replies_def split: option.splits sum.splits)
  show "if e = None then \<exists>x. evs = [x] \<and> server_replies c i x else \<forall>x\<in>set evs. \<not> server_replies c i x"
    if "Server_SendResponse L ven wr s c i v = (e, evs)" for i v e evs
    by (rule Server_SendResponse_one[OF that])
  show "\<exists>code d. Server_HandleFailedResponseError L ven wr s c i err f =
      snd (Server_SendError L ven wr s c i code d None)" for i err f
    by (auto simp: Server_HandleFailedResponseError_def Let_def)
qed

text \<open>
  Over a network that works, with a validator that accepts errors under the given ID with valid
  codes, a failed reply is always replaced by an error that gets through: the errors of the
  sending operations carry valid codes themselves.
\<close>

definition accepts_errors :: "('ty, 'v) lib \<Rightarrow> bool \<Rightarrow> string \<Rightarrow> bool" where
  "accepts_errors L ven i \<longleftrightarrow>
     (\<forall>code d. IsErrorCodeValid code \<longrightarrow> (\<exists>e. CreateCallError L ven i code d None = Inr e))"

lemma valid_codes [simp]:
  "IsErrorCodeValid GenericError" "IsErrorCodeValid NotSupported" "IsErrorCodeValid NotImplemented"
  "IsErrorCodeValid InternalError"
  by (simp_all add: IsErrorCodeValid_def)

lemma SendError_valid:
  assumes "accepts_errors L ven i" "IsErrorCodeValid code"
  shows "wr (errorReply i code d) = None \<Longrightarrow>
      Client_SendError L ven wr c i code d None = (None, [Wrote (errorReply i code d)])"
    and "wr' cid (errorReply i code d) = None \<Longrightarrow>
      Server_SendError L ven wr' s cid i code d None = (None, [(cid, Wrote (errorReply i code d))])"
proof -
  obtain e where "CreateCallError L ven i code d None = Inr e"
    using assms by (auto simp: accepts_errors_def)
  then show "wr (errorReply i code d) = None \<Longrightarrow>
      Client_SendError L ven wr c i code d None = (None, [Wrote (errorReply i code d)])"
    "wr' cid (errorReply i code d) = None \<Longrightarrow>
      Server_SendError L ven wr' s cid i code d None = (None, [(cid, Wrote (errorReply i code d))])"
    by (simp_all add: Client_SendError_eq Server_SendError_eq)
qed

lemma replies_errorReply [simp]: "replies i (Wrote (errorReply i code d))"
  by (simp add: errorReply_def)

definition valid_error :: "goerr \<Rightarrow> bool" where
  "valid_error e \<longleftrightarrow> (case e of EOcpp oe \<Rightarrow> IsErrorCodeValid (Code oe) | _ \<Rightarrow> True)"

lemma failedResponseError_valid: "valid_error e \<Longrightarrow> IsErrorCodeValid (Code (failedResponseError L i e f))"
  by (auto simp: failedResponseError_def valid_error_def errorFromValidation_valid split: goerr.splits)

lemma Client_handleFailed_one:
  "accepts_errors L ven i \<Longrightarrow> (\<And>j. wr j = None) \<Longrightarrow> valid_error e \<Longrightarrow>
     length (filter (replies i) (Client_HandleFailedResponseError L ven wr c i e f)) = 1"
  by (simp add: Client_HandleFailedResponseError_def Let_def SendError_valid failedResponseError_valid)

lemma Server_handleFailed_one:
  "accepts_errors L ven i \<Longrightarrow> (\<And>j. wr cid j = None) \<Longrightarrow> valid_error e \<Longrightarrow>
     length (filter (server_replies cid i) (Server_HandleFailedResponseError L ven wr s cid i e f)) = 1"
  by (simp add: Server_HandleFailedResponseError_def Let_def SendError_valid failedResponseError_valid
      server_replies_def)

lemma send_errors_valid:
  "Client_SendError L ven wr c i code d None = (Some e, evs) \<Longrightarrow> valid_error e"
  "Client_SendResponse L ven wr c i v = (Some e, evs) \<Longrightarrow> valid_error e"
  "Server_SendError L ven wr' s cid i code d None = (Some e, evs') \<Longrightarrow> valid_error e"
  "Server_SendResponse L ven wr' s cid i v = (Some e, evs') \<Longrightarrow> valid_error e"
  by (auto simp: Client_SendError_def Client_SendResponse_def Server_SendError_def Server_SendResponse_def
      CreateCallError_def CreateCallResult_def Let_def valid_error_def
      split: sum.splits option.splits prod.splits if_splits)

section \<open>What the handlers do\<close>

text \<open>
  An endpoint with a dialect whose pending request, if there is one, belongs to a supported
  feature. \<^verbatim>\<open>SendRequest\<close> checks the feature before the request is queued.
\<close>

definition endpoint_ok :: "('ty, 'v) lib \<Rightarrow> 'ty Endpoint \<Rightarrow> 'v clientState \<Rightarrow> bool" where
  "endpoint_ok L ep st \<longleftrightarrow> dialect ep \<noteq> NoDialect \<and> state_wf st \<and>
     (case pending st of None \<Rightarrow> True
      | Some (i, r) \<Rightarrow> GetProfileForFeature ep (featureName L r) \<noteq> None)"

lemma ParseMessage_outcome:
  assumes "endpoint_ok L ep st"
  obtains (rejected) e where "ParseMessage L ep arr st = Ret (Inl e)"
  | (ignored) "ParseMessage L ep arr st = Ret (Inr None)"
  | (call) c where "ParseMessage L ep arr st = Ret (Inr (Some (MCall c)))"
  | (result) r req where "ParseMessage L ep arr st = Ret (Inr (Some (MCallResult r)))"
      "pending st = Some (CallResult_UniqueId r, req)"
  | (error) e req where "ParseMessage L ep arr st = Ret (Inr (Some (MCallError e)))"
      "pending st = Some (CallError_UniqueId e, req)"
proof -
  have ok: "dialect ep \<noteq> NoDialect" "state_wf st"
    "\<And>i r. pending st = Some (i, r) \<Longrightarrow> GetProfileForFeature ep (featureName L r) \<noteq> None"
    using assms by (auto simp: endpoint_ok_def)
  obtain res where res: "ParseMessage L ep arr st = Ret res"
    using ParseMessage_returns[OF ok(1,2)] ok(3) by blast
  show thesis
  proof (cases res)
    case (Inl e) with res rejected show thesis by simp
  next
    case (Inr m)
    show thesis
    proof (cases m)
      case None with res Inr ignored show thesis by simp
    next
      case (Some msg)
      have a: "ParseMessage L ep arr st = Ret (Inr (Some msg))" using res Inr Some by simp
      note m = ParseMessage_message[OF a ok(1,2)]
      show thesis using a m ok(3) call result error by (cases msg) auto
    qed
  qed
qed

text \<open>In a well-formed dispatcher a pending request is the first of the queue.\<close>

lemma cd_wf_state: "cd_wf d \<Longrightarrow> state_wf (pendingState d)"
  by (auto simp: cd_wf_def pending_front_def state_wf_def HasPendingRequest_def)

lemma pending_finish:
  assumes "cd_wf d" "pending (pendingState d) = Some (i, req)"
  obtains b d1 where "queued d = b # queued d1" "bundle_id b = i" "bundle_req b = req" "i \<noteq> ''''"
    "finishRequest i d = (True, d1)" "CompleteRequest i d = signalReady d1"
    "snd (GetPendingRequest i (pendingState d))"
proof -
  have p: "requestID (pendingState d) = i" "i \<noteq> ''''" "pendingRequest (pendingState d) = Some req"
    using assms(2) by (auto simp: pending_def split: if_splits)
  with assms(1) obtain b bs where b: "queued d = b # bs" "bundle_id b = i" "bundle_req b = req"
    by (auto simp: cd_wf_def pending_front_def HasPendingRequest_def)
  then have f: "fst (finishRequest i d)" by (simp add: finishRequest_eq Peek_def)
  obtain d1 where d1: "finishRequest i d = (True, d1)"
    using f by (cases "finishRequest i d") auto
  obtain b' where b': "queued d = b' # queued d1" using finishRequest_True(1)[OF d1] by blast
  have "snd (GetPendingRequest i (pendingState d))" by (simp add: GetPendingRequest_def p)
  then show thesis using b b' p d1 by (auto intro: that simp: CompleteRequest_def)
qed

text \<open>The requests whose outcome is reported to the application.\<close>

fun delivered :: "'v ep_event list \<Rightarrow> string list" where
  "delivered [] = []"
| "delivered (GotResponse v i # evs) = i # delivered evs"
| "delivered (GotError e details # evs) = MessageId e # delivered evs"
| "delivered (_ # evs) = delivered evs"

lemma delivered_SendError [simp]: "delivered (snd (Client_SendError L ven wr c i code desc None)) = []"
  by (simp add: Client_SendError_eq split: sum.splits option.splits)

text \<open>The handler in terms of what the parser returns.\<close>

lemma Client_handler_raw:
  "Client_ocppMessageHandler L ven wr raw c = Ret (err, c', evs) \<Longrightarrow>
     (\<exists>arr. ParseRawJsonMessage raw = Inr arr) \<or> c' = c \<and> evs = [] \<and> (\<exists>e. err = Some (EPlain e))"
  by (auto simp: Client_ocppMessageHandler_def split: sum.splits)

lemma Client_handler_rejected:
  assumes "ParseRawJsonMessage raw = Inr arr"
    and "ParseMessage L (cl_endpoint c) arr (cl_RequestState c) = Ret (Inl e)"
  defines "oe \<equiv> hookedError (cl_invalidMessageHook c) e raw arr"
  shows "Client_ocppMessageHandler L ven wr raw c =
    (if MessageId e = '''' then Ret (Some (EOcpp oe), c, [])
     else case Client_SendError L ven wr c (MessageId e) (Code oe) (Description oe) None of
       (err2, evs) \<Rightarrow> Ret (Some (case err2 of None \<Rightarrow> EOcpp oe | Some x \<Rightarrow> x), c, evs))"
  using assms by (simp add: Client_ocppMessageHandler_def Let_def split: prod.splits option.splits)

lemma Client_handler_completes:
  assumes "ParseRawJsonMessage raw = Inr arr" "cl_responseHandler c" "cl_errorHandler c"
  shows "ParseMessage L (cl_endpoint c) arr (cl_RequestState c) = Ret (Inr (Some (MCallResult r))) \<Longrightarrow>
      Client_ocppMessageHandler L ven wr raw c =
        bind_go (CompleteRequest (CallResult_UniqueId r) (cl_dispatcher c)) (\<lambda>d.
          Ret (None, c\<lparr>cl_dispatcher := d\<rparr>, [GotResponse (CallResult_Payload r) (CallResult_UniqueId r)]))"
    and "ParseMessage L (cl_endpoint c) arr (cl_RequestState c) = Ret (Inr (Some (MCallError e))) \<Longrightarrow>
      Client_ocppMessageHandler L ven wr raw c =
        bind_go (CompleteRequest (CallError_UniqueId e) (cl_dispatcher c)) (\<lambda>d.
          Ret (None, c\<lparr>cl_dispatcher := d\<rparr>,
            [GotError (NewError (CallError_ErrorCode e) (CallError_ErrorDescription e)
               (CallError_UniqueId e)) (CallError_ErrorDetails e)]))"
  using assms by (simp_all add: Client_ocppMessageHandler_def)

text \<open>Completing the pending request is two steps of the dispatcher: the removal and the signal.\<close>

lemma complete_steps:
  assumes "pump w = Some rdy" "cd_wf (disp w)" "pending (pendingState (disp w)) = Some (i, req)"
    and "CompleteRequest i (disp w) = Ret d'"
  shows "\<exists>w'. cstep\<^sup>*\<^sup>* w w' \<and> disp w' = d' \<and> pump w' = pump w \<and> signals w' = signals w \<and>
    accepted w' = accepted w \<and> map bundle_id (completed w') = map bundle_id (completed w) @ [i]"
proof -
  from assms(2,3) obtain b d1 where b: "queued (disp w) = b # queued d1" "bundle_id b = i" "i \<noteq> ''''"
    and f: "finishRequest i (disp w) = (True, d1)" "CompleteRequest i (disp w) = signalReady d1"
    "snd (GetPendingRequest i (pendingState (disp w)))"
    by (rule pending_finish)
  let ?w1 = "w\<lparr>disp := d1, signals := Suc (signals w), completed := completed w @ removed (disp w) d1\<rparr>"
  let ?w2 = "?w1\<lparr>disp := d', signals := signals w\<rparr>"
  have "cstep w ?w1" using b(3) f(3,1) by (rule cstep.respond)
  moreover have "cstep ?w1 ?w2" using f(2) assms(4) by (intro cstep.ready_signal) simp_all
  ultimately have "cstep\<^sup>*\<^sup>* w ?w2" by (meson converse_rtranclp_into_rtranclp r_into_rtranclp)
  then show ?thesis using removed_one[OF b(1)] b(2) by (intro exI[of _ ?w2]) simp
qed

section \<open>A concrete exchange\<close>

text \<open>A client whose dispatcher has written a request and waits for the response.\<close>

definition plainBundle :: "(string \<times> json) RequestBundle" where
  "plainBundle = \<lparr>bundle_Call = \<lparr>Call_MessageTypeId = CALL, Call_UniqueId = ''42'',
     Call_Action = ''Heartbeat'', Call_Payload = (''Heartbeat'', JObj [])\<rparr>,
     bundle_Data = JArr [JNum CALL 0, JStr ''42'', JStr ''Heartbeat'', JObj []]\<rparr>"

definition plainStart :: "(string \<times> json) cworld" where
  "plainStart = \<lparr>disp = Start (SetNetworkClient (NewDefaultClientDispatcher \<lparr>elements = [], capacity = 10\<rparr>)),
     pump = Some True, senders = 0, signals = 0, accepted = [], completed = [], written = []\<rparr>"

definition plainWorld :: "(string \<times> json) cworld" where
  "plainWorld = run_from plainStart [MPush plainBundle, MSignal, MPump RequestCase None]"

definition plainClient :: "(string, string \<times> json) Client" where
  "plainClient = \<lparr>cl_endpoint = plainEndpoint, cl_Id = ''cp1'', cl_requestHandler = True,
     cl_responseHandler = True, cl_errorHandler = True, cl_onDisconnectedHandler = False,
     cl_onReconnectedHandler = False, cl_invalidMessageHook = None, cl_dispatcher = disp plainWorld\<rparr>"

definition plainServer :: "(string, string \<times> json) Server" where
  "plainServer = (NewServer None None [])\<lparr>sv_endpoint := plainEndpoint, sv_requestHandler := True\<rparr>"

lemma plainStart_cstart: "cstart 10 plainStart"
  by (auto simp: cstart_def plainStart_def NewFIFOClientQueue_def Start_def SetNetworkClient_def
      SetTimeout_def NewDefaultClientDispatcher_def)

lemma plainWorld_reach: "reach (cstart 10) cstep plainWorld"
  unfolding plainWorld_def
  by (rule reach_steps[of _ _ plainStart]) (auto intro: reach.reach_start plainStart_cstart run_from_steps)

lemma plainWorld_facts:
  "pump plainWorld = Some False" "completed plainWorld = []"
  "pending (pendingState (disp plainWorld)) = Some (''42'', ''Heartbeat'', JObj [])"
  "ready_token (disp plainWorld) = False"
  by code_simp+

lemma plainWorld_wf: "cd_wf (disp plainWorld)"
  using client_disp.reach_inv[OF plainWorld_reach] cinv_Some[OF plainWorld_facts(1)] by blast

lemma plainClient_simps [simp]:
  "cl_dispatcher plainClient = disp plainWorld" "cl_endpoint plainClient = plainEndpoint"
  "cl_requestHandler plainClient" "cl_responseHandler plainClient" "cl_errorHandler plainClient"
  by (simp_all add: plainClient_def)

lemma plainClient_ok: "endpoint_ok plainLib (cl_endpoint plainClient) (cl_RequestState plainClient)"
  using cd_wf_state[OF plainWorld_wf]
  by (simp add: endpoint_ok_def plainWorld_facts plainEndpoint_Heartbeat plainLib_def)

section \<open>Properties of the endpoints\<close>

text \<open>
  C20: A client with a request handler, whose dispatcher is in a reachable state, never panics on
  what the server sends, whatever it is. The handler returns, or it waits for the pump to take
  the token that is in \<^verbatim>\<open>readyForDispatch\<close>.
\<close>

theorem client_handler_total:
  assumes "reach (cstart cap) cstep w" "pump w = Some rdy" "cl_dispatcher c = disp w"
    and "endpoint_ok L (cl_endpoint c) (cl_RequestState c)" "cl_requestHandler c"
  shows "(\<exists>r. Client_ocppMessageHandler L ven wr raw c = Ret r) \<or>
    Client_ocppMessageHandler L ven wr raw c = Block \<and> ready_token (cl_dispatcher c)"
proof -
  have wf: "cd_wf (cl_dispatcher c)"
    using client_disp.reach_inv[OF assms(1)] cinv_Some[OF assms(2)] assms(3) by simp
  have complete: "(\<exists>d'. CompleteRequest i (cl_dispatcher c) = Ret d') \<or>
      CompleteRequest i (cl_dispatcher c) = Block \<and> ready_token (cl_dispatcher c)"
    if "pending (cl_RequestState c) = Some (i, req)" for i req
    using wf that
  proof (rule pending_finish)
    fix b d1 assume "queued (cl_dispatcher c) = b # queued d1" "bundle_id b = i"
    with CompleteRequest_Ret_iff[of "cl_dispatcher c" b "queued d1"] wf show ?thesis
      by (cases "CompleteRequest i (cl_dispatcher c)") (auto simp: cd_wf_def)
  qed
  show ?thesis
  proof (cases "ParseRawJsonMessage raw")
    case (Inl err) then show ?thesis by (simp add: Client_ocppMessageHandler_def)
  next
    case (Inr arr)
    from assms(4) show ?thesis
    proof (cases rule: ParseMessage_outcome[where arr = arr])
      case (rejected e)
      then show ?thesis
        by (auto simp: Client_handler_rejected[OF Inr] split: prod.splits)
    next
      case (result r req)
      with complete[OF result(2)] Inr show ?thesis
        by (auto simp: Client_ocppMessageHandler_def)
    next
      case (error e req)
      with complete[OF error(2)] Inr show ?thesis
        by (auto simp: Client_ocppMessageHandler_def)
    qed (use assms(5) Inr in \<open>auto simp: Client_ocppMessageHandler_def\<close>)
  qed
qed

theorem client_handler_total_witness:
  "\<exists>r. Client_ocppMessageHandler plainLib True (\<lambda>_. None) (JStr ''garbage'') plainClient = Ret r"
  using client_handler_total[OF plainWorld_reach plainWorld_facts(1) plainClient_simps(1) plainClient_ok,
      of True "\<lambda>_. None" "JStr ''garbage''"]
  by (simp add: plainWorld_facts)

text \<open>
  C21: The handler is a run of the dispatcher, so what holds of the dispatcher's reachable states
  holds of a client that handles messages. The outcomes it reports to the application are those of
  the requests it completes: each response and each error is reported for the one request that
  leaves the queue, and a message that reports nothing completes nothing.
\<close>

theorem client_handler_steps:
  assumes "reach (cstart cap) cstep w" "pump w = Some rdy" "cl_dispatcher c = disp w"
    and "endpoint_ok L (cl_endpoint c) (cl_RequestState c)" "cl_responseHandler c" "cl_errorHandler c"
    and "Client_ocppMessageHandler L ven wr raw c = Ret (err, c', evs)"
  shows "\<exists>w'. cstep\<^sup>*\<^sup>* w w' \<and> disp w' = cl_dispatcher c' \<and> pump w' = pump w \<and> signals w' = signals w \<and>
    accepted w' = accepted w \<and> map bundle_id (completed w') = map bundle_id (completed w) @ delivered evs"
proof -
  have wf: "cd_wf (disp w)"
    using client_disp.reach_inv[OF assms(1)] cinv_Some[OF assms(2)] by simp
  have same: ?thesis if "cl_dispatcher c' = disp w" "delivered evs = []"
    using that by (intro exI[of _ w]) simp
  have complete: ?thesis
    if "pending (cl_RequestState c) = Some (i, req)" "CompleteRequest i (cl_dispatcher c) = Ret d'"
      "cl_dispatcher c' = d'" "delivered evs = [i]" for i req d'
    using complete_steps[OF assms(2) wf, of i req d'] that assms(3) by simp
  show ?thesis
  proof (cases "ParseRawJsonMessage raw")
    case (Inl e)
    with assms(3,7) same show ?thesis by (simp add: Client_ocppMessageHandler_def)
  next
    case (Inr arr)
    from assms(4) show ?thesis
    proof (cases rule: ParseMessage_outcome[where arr = arr])
      case (rejected e)
      let ?oe = "hookedError (cl_invalidMessageHook c) e raw arr"
      obtain x y where xy: "Client_SendError L ven wr c (MessageId e) (Code ?oe) (Description ?oe) None = (x, y)"
        by (cases "Client_SendError L ven wr c (MessageId e) (Code ?oe) (Description ?oe) None")
      then have "delivered y = []" by (metis delivered_SendError snd_conv)
      with assms(3,7) xy show ?thesis
        by (intro same) (auto simp: Client_handler_rejected[OF Inr rejected] split: if_splits)
    next
      case (result r req)
      from assms(7) obtain d' where "CompleteRequest (CallResult_UniqueId r) (cl_dispatcher c) = Ret d'"
        "cl_dispatcher c' = d'" "delivered evs = [CallResult_UniqueId r]"
        by (auto simp: Client_handler_completes(1)[OF Inr assms(5,6) result(1)] bind_go_eq_Ret)
      then show ?thesis by (rule complete[OF result(2)])
    next
      case (error e req)
      from assms(7) obtain d' where "CompleteRequest (CallError_UniqueId e) (cl_dispatcher c) = Ret d'"
        "cl_dispatcher c' = d'" "delivered evs = [CallError_UniqueId e]"
        by (auto simp: Client_handler_completes(2)[OF Inr assms(5,6) error(1)] bind_go_eq_Ret)
      then show ?thesis by (rule complete[OF error(2)])
    qed (use assms(3,7) Inr same in \<open>auto simp: Client_ocppMessageHandler_def split: if_splits\<close>)
  qed
qed

lemma plain_response:
  "\<exists>c'. Client_ocppMessageHandler plainLib True (\<lambda>_. None) (JArr [JNum 3 0, JStr ''42'', JObj []])
     plainClient = Ret (None, c', [GotResponse (''Heartbeat'', JObj []) ''42''])"
proof -
  have "case Client_ocppMessageHandler plainLib True (\<lambda>_. None) (JArr [JNum 3 0, JStr ''42'', JObj []])
     plainClient of Ret (None, c', evs) \<Rightarrow> evs = [GotResponse (''Heartbeat'', JObj []) ''42''] | _ \<Rightarrow> False"
    by code_simp
  then show ?thesis by (auto split: go.splits prod.splits option.splits)
qed

theorem client_handler_steps_witness:
  "\<exists>w'. cstep\<^sup>*\<^sup>* plainWorld w' \<and> map bundle_id (completed w') = [''42'']"
proof -
  obtain c' where c': "Client_ocppMessageHandler plainLib True (\<lambda>_. None)
      (JArr [JNum 3 0, JStr ''42'', JObj []]) plainClient =
      Ret (None, c', [GotResponse (''Heartbeat'', JObj []) ''42''])"
    using plain_response by blast
  show ?thesis
    using client_handler_steps[OF plainWorld_reach plainWorld_facts(1) plainClient_simps(1)
        plainClient_ok plainClient_simps(4,5) c'] plainWorld_facts(2) by auto
qed

text \<open>
  The server's handler on the state of the client that sent the message. Looking the state up may
  create it, which changes no client's pending request.
\<close>

definition looked_up :: "string \<Rightarrow> ('ty, 'v) Server \<Rightarrow> ('ty, 'v) Server" where
  "looked_up clientID s = s\<lparr>sv_dispatcher := (sv_dispatcher s)\<lparr>sd_pendingState :=
     snd (GetClientState clientID (sd_pendingState (sv_dispatcher s)))\<rparr>\<rparr>"

lemma looked_up_simps [simp]:
  "sv_endpoint (looked_up c s) = sv_endpoint s"
  "sv_invalidMessageHook (looked_up c s) = sv_invalidMessageHook s"
  "sv_requestHandler (looked_up c s) = sv_requestHandler s"
  "sd_queueMap (sv_dispatcher (looked_up c s)) = sd_queueMap (sv_dispatcher s)"
  "stateOf e (sd_pendingState (sv_dispatcher (looked_up c s))) = stateOf e (sd_pendingState (sv_dispatcher s))"
  by (simp_all add: looked_up_def GetClientState_eq)

lemma Server_SendError_looked_up [simp]:
  "Server_SendError L ven wr (looked_up c s) = Server_SendError L ven wr s"
  by (simp add: Server_SendError_def fun_eq_iff)

lemma Server_handler_call:
  assumes "ParseMessage L (sv_endpoint s) arr (stateOf cid (sd_pendingState (sv_dispatcher s))) =
      Ret (Inr (Some (MCall call)))"
    and "sv_requestHandler s"
  shows "Server_ocppMessageHandler L ven wr cid (JArr arr) s =
    Ret (None, looked_up cid s, [(cid, GotRequest (Call_Payload call) (Call_UniqueId call) (Call_Action call))])"
proof -
  obtain st where g: "GetClientState cid (sd_pendingState (sv_dispatcher s)) =
      (stateOf cid (sd_pendingState (sv_dispatcher s)), st)"
    by (metis GetClientState_eq(1) surjective_pairing)
  then show ?thesis using assms by (simp add: Server_ocppMessageHandler_def looked_up_def)
qed

lemma Server_handler_rejected:
  assumes "ParseRawJsonMessage raw = Inr arr"
    and "ParseMessage L (sv_endpoint s) arr (stateOf cid (sd_pendingState (sv_dispatcher s))) = Ret (Inl e)"
  defines "oe \<equiv> hookedError (map_option (\<lambda>h. h cid) (sv_invalidMessageHook s)) e raw arr"
  shows "Server_ocppMessageHandler L ven wr cid raw s =
    (if MessageId e = '''' then Ret (Some (EOcpp oe), looked_up cid s, [])
     else case Server_SendError L ven wr s cid (MessageId e) (Code oe) (Description oe) None of
       (err2, evs) \<Rightarrow> Ret (Some (case err2 of None \<Rightarrow> EOcpp oe | Some x \<Rightarrow> x), looked_up cid s, evs))"
proof -
  obtain st where g: "GetClientState cid (sd_pendingState (sv_dispatcher s)) =
      (stateOf cid (sd_pendingState (sv_dispatcher s)), st)"
    by (metis GetClientState_eq(1) surjective_pairing)
  have "Server_SendError L ven wr (s\<lparr>sv_dispatcher := (sv_dispatcher s)\<lparr>sd_pendingState := st\<rparr>\<rparr>) =
      Server_SendError L ven wr s"
    by (simp add: Server_SendError_def fun_eq_iff)
  then show ?thesis
    using assms g by (simp add: Server_ocppMessageHandler_def looked_up_def Let_def
        split: prod.splits option.splits)
qed

text \<open>
  C22: A message that the server cannot parse is answered to its sender only, under the message's
  own ID, with the code and the description of the hook if there is one; the answer is one write.
  There is none if the error has no ID or the validator refuses the answer. The call queues and
  every client's pending request stay as they were.
\<close>

theorem server_rejects:
  assumes "ParseRawJsonMessage raw = Inr arr"
    and "ParseMessage L (sv_endpoint s) arr (stateOf cid (sd_pendingState (sv_dispatcher s))) = Ret (Inl e)"
    and "oe = hookedError (map_option (\<lambda>h. h cid) (sv_invalidMessageHook s)) e raw arr"
    and "reply = errorReply (MessageId e) (Code oe) (Description oe)"
  shows "\<exists>err s' evs. Server_ocppMessageHandler L ven wr cid raw s = Ret (Some err, s', evs) \<and>
    evs = (if MessageId e = '''' \<or>
               (\<exists>x. CreateCallError L ven (MessageId e) (Code oe) (Description oe) None = Inl x) then []
           else [(cid, case wr cid reply of None \<Rightarrow> Wrote reply | Some x \<Rightarrow> WriteFailed reply x)]) \<and>
    sd_queueMap (sv_dispatcher s') = sd_queueMap (sv_dispatcher s) \<and>
    (\<forall>c. stateOf c (sd_pendingState (sv_dispatcher s')) = stateOf c (sd_pendingState (sv_dispatcher s)))"
  using assms(3,4)
  by (auto simp: Server_handler_rejected[OF assms(1,2)] Server_SendError_eq
      split: sum.splits option.splits)

lemma plainServer_simps [simp]:
  "sv_endpoint plainServer = plainEndpoint" "sv_requestHandler plainServer"
  "sv_invalidMessageHook plainServer = None"
  "stateOf c (sd_pendingState (sv_dispatcher plainServer)) = NewClientState"
  by (simp_all add: plainServer_def NewServer_def Let_def ServerDispatcher_SetPendingRequestState_def
      SetNetworkServer_def NewDefaultServerDispatcher_def)

theorem server_rejects_witness:
  "\<exists>err s'. Server_ocppMessageHandler plainLib True (\<lambda>_ _. None) ''cp1''
      (JArr [JNum 2 0, JStr ''7'', JStr ''Unknown'', JObj []]) plainServer =
    Ret (Some err, s', [(''cp1'', Wrote (errorReply ''7'' NotSupported ''Unsupported feature Unknown''))])"
proof -
  have p: "ParseMessage plainLib (sv_endpoint plainServer) [JNum 2 0, JStr ''7'', JStr ''Unknown'', JObj []]
      (stateOf ''cp1'' (sd_pendingState (sv_dispatcher plainServer))) =
      Ret (Inl (NewError NotSupported ''Unsupported feature Unknown'' ''7''))"
    by (simp add: ParseMessage_def Let_def CALL_def parseCall_def GetProfileForFeature_def
        plainEndpoint_def SupportsFeature_NewProfile)
  show ?thesis
    using server_rejects[OF ParseRaw_JArr p refl refl, of True "\<lambda>_ _. None"]
    by (auto simp: hookedError_def CreateCallError_def plainLib_def Let_def)
qed

lemma SendRequest_Ret_None:
  assumes "SendRequest b d = Ret (None, d')"
  shows "queued d' = queued d @ [b]"
proof -
  obtain d1 where d1: "enqueueRequest b d = (None, d1)" "signalRequest d1 = Ret d'"
    using assms by (auto simp: SendRequest_def split: prod.splits option.splits)
  then show ?thesis using enqueueRequest_None(1)[OF d1(1)] signalRequest_Ret(1)[OF d1(2)] by auto
qed

lemma Client_SendRequest_Ret_None:
  assumes "Client_SendRequest L ven uid req c = Ret (None, c')"
  obtains call j where "CreateCall L ven (cl_endpoint c) uid req = Inr call"
    "Call_MarshalJSON L call = Inr j"
    "queued (cl_dispatcher c') = queued (cl_dispatcher c) @ [\<lparr>bundle_Call = call, bundle_Data = j\<rparr>]"
  using assms SendRequest_Ret_None
  by (fastforce simp: Client_SendRequest_def bind_go_eq_Ret split: if_splits sum.splits)

lemma CreateCall_Inr:
  "CreateCall L ven ep uid req = Inr call \<Longrightarrow>
     call = \<lparr>Call_MessageTypeId = CALL, Call_UniqueId = uid, Call_Action = featureName L req,
             Call_Payload = req\<rparr>"
  by (auto simp: CreateCall_def Let_def split: option.splits if_splits)

lemma request_to_server:
  assumes "Client_SendRequest L True uid req c = Ret (None, c')" "uid \<noteq> ''''"
    and "GetProfileForFeature (sv_endpoint s) (featureName L req) = Some p"
    and "Features p (featureName L req) = Some f"
    and "\<And>j. marshal L req = Inr j \<Longrightarrow>
           unmarshal L (GetRequestType f) (if j = JNull then JObj [] else j) = Inr req"
    and "sv_requestHandler s"
  shows "\<exists>b s'. elements (requestQueue (cl_dispatcher c')) = elements (requestQueue (cl_dispatcher c)) @ [b] \<and>
    bundle_id b = uid \<and>
    Server_ocppMessageHandler L ven wr cid (bundle_Data b) s =
      Ret (None, s', [(cid, GotRequest req uid (featureName L req))])"
proof -
  obtain call j where call: "CreateCall L True (cl_endpoint c) uid req = Inr call"
    and j: "Call_MarshalJSON L call = Inr j"
    and q: "queued (cl_dispatcher c') = queued (cl_dispatcher c) @ [\<lparr>bundle_Call = call, bundle_Data = j\<rparr>]"
    using assms(1) by (rule Client_SendRequest_Ret_None)
  note c = CreateCall_Inr[OF call]
  obtain m where m: "marshal L req = Inr m"
    using j by (cases "marshal L req") (auto simp: c Call_MarshalJSON_def jsonMarshal_def)
  obtain arr where arr: "j = JArr arr"
    "ParseMessage L (sv_endpoint s) arr (stateOf cid (sd_pendingState (sv_dispatcher s))) =
       Ret (Inr (Some (MCall call)))"
    using call_wire[OF call assms(2) m assms(3,4) assms(5)[OF m]] j by auto
  show ?thesis
    using q c arr(1) Server_handler_call[OF arr(2) assms(6), of ven wr] by auto
qed

text \<open>
  C23: From the application of the client to the application of the server. A request that
  \<^verbatim>\<open>SendRequest\<close> accepts is appended to the queue of the client's dispatcher, and what that queue
  holds for the network is what the server's handler turns into the same request, under the same
  ID and action, for the application. The server must support the feature, and its codec must
  decode what the client's has encoded.
\<close>

theorem request_delivered:
  assumes "Client_SendRequest L True uid req c = Ret (None, c')" "uid \<noteq> ''''"
    and "GetProfileForFeature (sv_endpoint s) (featureName L req) = Some p"
    and "Features p (featureName L req) = Some f"
    and "\<And>j. marshal L req = Inr j \<Longrightarrow>
           unmarshal L (GetRequestType f) (if j = JNull then JObj [] else j) = Inr req"
    and "sv_requestHandler s"
  shows "\<exists>b s'. elements (requestQueue (cl_dispatcher c')) = elements (requestQueue (cl_dispatcher c)) @ [b] \<and>
    bundle_id b = uid \<and>
    Server_ocppMessageHandler L ven wr cid (bundle_Data b) s =
      Ret (None, s', [(cid, GotRequest req uid (featureName L req))])"
  using assms by (rule request_to_server)

lemma plain_Heartbeat:
  "sv_endpoint s = plainEndpoint \<Longrightarrow>
     GetProfileForFeature (sv_endpoint s) (featureName plainLib (''Heartbeat'', j)) =
       Some (NewProfile ''core'' [\<lparr>GetFeatureName = ''Heartbeat'', GetRequestType = ''Heartbeat'',
        GetResponseType = ''Heartbeat''\<rparr>])"
  "cl_endpoint c = plainEndpoint \<Longrightarrow>
     GetProfileForFeature (cl_endpoint c) (featureName plainLib (''Heartbeat'', j)) =
       Some (NewProfile ''core'' [\<lparr>GetFeatureName = ''Heartbeat'', GetRequestType = ''Heartbeat'',
        GetResponseType = ''Heartbeat''\<rparr>])"
  "Features (NewProfile ''core'' [\<lparr>GetFeatureName = ''Heartbeat'', GetRequestType = ''Heartbeat'',
        GetResponseType = ''Heartbeat''\<rparr>]) (featureName plainLib (''Heartbeat'', j)) =
     Some \<lparr>GetFeatureName = ''Heartbeat'', GetRequestType = ''Heartbeat'',
        GetResponseType = ''Heartbeat''\<rparr>"
  "marshal plainLib (t, j) = Inr j" "unmarshal plainLib t j = Inr (t, j)"
  by (simp_all add: plainLib_def plainEndpoint_Heartbeat plainEndpoint_feature)

definition idleClient :: "(string, string \<times> json) Client" where
  "idleClient = plainClient\<lparr>cl_dispatcher := disp plainStart\<rparr>"

theorem request_delivered_witness:
  "\<exists>c' b s'. Client_SendRequest plainLib True ''42'' (''Heartbeat'', JObj []) idleClient = Ret (None, c') \<and>
     elements (requestQueue (cl_dispatcher c')) = [b] \<and>
     Server_ocppMessageHandler plainLib True (\<lambda>_ _. None) ''cp1'' (bundle_Data b) plainServer =
       Ret (None, s', [(''cp1'', GotRequest (''Heartbeat'', JObj []) ''42'' ''Heartbeat'')])"
proof -
  have "case Client_SendRequest plainLib True ''42'' (''Heartbeat'', JObj []) idleClient of
      Ret (None, c') \<Rightarrow> True | _ \<Rightarrow> False" "elements (requestQueue (cl_dispatcher idleClient)) = []"
    by code_simp+
  then obtain c' where c': "Client_SendRequest plainLib True ''42'' (''Heartbeat'', JObj []) idleClient =
      Ret (None, c')" and e: "elements (requestQueue (cl_dispatcher idleClient)) = []"
    by (auto split: go.splits prod.splits option.splits)
  show ?thesis
    using request_delivered[OF c' _ plain_Heartbeat(1)[OF plainServer_simps(1)] plain_Heartbeat(3) _
        plainServer_simps(2), of True "\<lambda>_ _. None" "''cp1''"] c' e
    by (auto simp: plain_Heartbeat(4,5)) (simp add: plainLib_def)
qed

lemma Server_SendResponse_None:
  assumes "Server_SendResponse L ven wr s cid uid conf = (None, evs)"
  obtains r j where "CreateCallResult L ven (sv_endpoint s) conf uid = Inr r"
    "CallResult_MarshalJSON L r = Inr j" "evs = [(cid, Wrote j)]"
  using assms by (fastforce simp: Server_SendResponse_def writeDirect_eq split: sum.splits option.splits)

text \<open>
  C24: From the application of the server back to that of the client. A response that the server
  has written under the ID of the client's pending request is handed to the client's application
  with the same payload; the request leaves the queue of the client's dispatcher and nothing is
  pending any more.
\<close>

theorem response_delivered:
  assumes "Server_SendResponse L True wr s cid uid conf = (None, evs)"
    and "cd_wf (cl_dispatcher c)" "\<not> ready_token (cl_dispatcher c)" "cl_responseHandler c"
    and "pending (cl_RequestState c) = Some (uid, req)"
    and "GetProfileForFeature (cl_endpoint c) (featureName L req) = Some p"
    and "Features p (featureName L req) = Some f"
    and "\<And>j. marshal L conf = Inr j \<Longrightarrow>
           unmarshal L (GetResponseType f) (if j = JNull then JObj [] else j) = Inr conf"
  shows "\<exists>j c'. evs = [(cid, Wrote j)] \<and>
    Client_ocppMessageHandler L ven wr' j c = Ret (None, c', [GotResponse conf uid]) \<and>
    elements (requestQueue (cl_dispatcher c')) = tl (elements (requestQueue (cl_dispatcher c))) \<and>
    \<not> HasPendingRequest (cl_RequestState c')"
proof -
  obtain r j where r: "CreateCallResult L True (sv_endpoint s) conf uid = Inr r"
    and j: "CallResult_MarshalJSON L r = Inr j" and evs: "evs = [(cid, Wrote j)]"
    using assms(1) by (rule Server_SendResponse_None)
  note r' = CreateCallResult_Inr[OF r]
  obtain m where m: "marshal L conf = Inr m" using CallResult_Marshal_Inr[OF j] r' by auto
  obtain b d1 where b: "queued (cl_dispatcher c) = b # queued d1" "bundle_id b = uid" "uid \<noteq> ''''"
    using assms(2,5) by (rule pending_finish)
  obtain arr where arr: "j = JArr arr" "ParseMessage L (cl_endpoint c) arr (cl_RequestState c) =
      Ret (Inr (Some (MCallResult r)))"
    using call_result_wire[OF r b(3) m cd_wf_state[OF assms(2)] assms(5-7) assms(8)[OF m]] j by auto
  obtain d' where d': "CompleteRequest uid (cl_dispatcher c) = Ret d'"
    using CompleteRequest_Ret_iff(1)[OF b(1)] assms(2,3) b(2) by (auto simp: cd_wf_def)
  note q = CompleteRequest_front(2,3)[OF d' b(1,2) assms(2)]
  have "Client_ocppMessageHandler L ven wr' j c =
      Ret (None, c\<lparr>cl_dispatcher := d'\<rparr>, [GotResponse conf uid])"
    using assms(4) arr d' r' by (simp add: Client_ocppMessageHandler_def)
  then show ?thesis using evs q b(1) by simp
qed

theorem response_delivered_witness:
  "\<exists>j c'. Server_SendResponse plainLib True (\<lambda>_ _. None) plainServer ''cp1'' ''42'' (''Heartbeat'', JStr ''now'') =
      (None, [(''cp1'', Wrote j)]) \<and>
    Client_ocppMessageHandler plainLib True (\<lambda>_. None) j plainClient =
      Ret (None, c', [GotResponse (''Heartbeat'', JStr ''now'') ''42''])"
proof -
  have s: "Server_SendResponse plainLib True (\<lambda>_ _. None) plainServer ''cp1'' ''42''
      (''Heartbeat'', JStr ''now'') =
      (None, [(''cp1'', Wrote (JArr [JNum CALL_RESULT 0, JStr ''42'', JStr ''now'']))])"
    by (simp add: Server_SendResponse_def CreateCallResult_def Let_def plainEndpoint_Heartbeat plainLib_def
        CallResult_MarshalJSON_def jsonMarshal_def writeDirect_def)
  show ?thesis
    using response_delivered[OF s _ _ _ _ plain_Heartbeat(2)[OF plainClient_simps(2)] plain_Heartbeat(3),
        of "JObj []" True "\<lambda>_. None"] s
    by (auto simp: plain_Heartbeat(4,5) plainWorld_wf plainWorld_facts)
qed

end
