(* ===== verification/Codec.thy ===== *)
theory Codec
  imports GoJson Endpoints
begin

text \<open>
  What the endpoints use of a set of message packages, whatever the version of the protocol: the
  payload codec as the library record \<open>lib\<close> of the protocol layer, and the validation tags. The
  locale \<open>message_set\<close> collects what the endpoints rely on; it is interpreted on the features of
  OCPP 1.6 and of OCPP 2.0.1. The validator package stays a parameter.
\<close>

section \<open>Comparing strings by evaluation\<close>

text \<open>
  Evaluation by rewriting compares all characters of two strings, also behind the first
  difference. \<open>eqStr\<close> stops there. Sets of strings are tries: a node has a character, whether a
  string ends here, the tries below it and the nodes beside it. The facts about the message types
  are evaluated with them. The empty string is in no trie.
\<close>

fun eqStr :: "string \<Rightarrow> string \<Rightarrow> bool" where
  "eqStr [] ys = (case ys of [] \<Rightarrow> True | _ \<Rightarrow> False)"
| "eqStr (x # xs) ys = (case ys of [] \<Rightarrow> False | y # ys' \<Rightarrow> (if x = y then eqStr xs ys' else False))"

fun lookupStr :: "(string \<times> 'b) list \<Rightarrow> string \<Rightarrow> 'b option" where
  "lookupStr [] s = None"
| "lookupStr (x # xs) s = (if eqStr (fst x) s then Some (snd x) else lookupStr xs s)"

lemma eqStr_iff [simp]: "eqStr s t \<longleftrightarrow> s = t"
  by (induction s t rule: eqStr.induct) (auto split: list.splits)

lemma lookupStr_iff [simp]: "lookupStr xs s = map_of xs s"
  by (induction xs) auto

datatype trie = Tip | Nd char bool trie trie

fun isin :: "trie \<Rightarrow> string \<Rightarrow> bool" where
  "isin Tip s = False"
| "isin (Nd c b below beside) [] = False"
| "isin (Nd c b below beside) [x] = (if x = c then b else isin beside [x])"
| "isin (Nd c b below beside) (x # y # s) = (if x = c then isin below (y # s) else isin beside (x # y # s))"

fun branch :: "string \<Rightarrow> trie" where
  "branch [] = Tip"
| "branch [x] = Nd x True Tip Tip"
| "branch (x # y # s) = Nd x False (branch (y # s)) Tip"

fun addStr :: "trie \<Rightarrow> string \<Rightarrow> trie" where
  "addStr Tip s = branch s"
| "addStr (Nd c b below beside) [] = Nd c b below beside"
| "addStr (Nd c b below beside) [x] =
     (if x = c then Nd c True below beside else Nd c b below (addStr beside [x]))"
| "addStr (Nd c b below beside) (x # y # s) =
     (if x = c then Nd c b (addStr below (y # s)) beside else Nd c b below (addStr beside (x # y # s)))"

lemma isin_Nil [simp]: "\<not> isin t []"
  by (cases t) simp_all

lemma isin_branch: "isin (branch s) (x # u) \<longleftrightarrow> x # u = s"
proof (induction s arbitrary: x u rule: branch.induct)
  case (2 y)
  then show ?case by (cases u) auto
next
  case (3 y z s)
  then show ?case by (cases u) auto
qed simp

lemma isin_addStr_Cons: "isin (addStr t s) (x # u) \<longleftrightarrow> isin t (x # u) \<or> x # u = s"
proof (induction t s arbitrary: x u rule: addStr.induct)
  case (1 s)
  then show ?case by (simp add: isin_branch)
next
  case (3 c b below beside y)
  then show ?case by (cases u) auto
next
  case (4 c b below beside y z s)
  then show ?case by (cases u) auto
qed simp

lemma isin_addStr: "isin (addStr t s) u \<longleftrightarrow> isin t u \<or> s \<noteq> [] \<and> u = s"
  by (cases u) (auto simp: isin_addStr_Cons)

definition trieOf :: "string list \<Rightarrow> trie" where
  "trieOf ss = foldl addStr Tip ss"

lemma isin_trieOf: "isin (trieOf ss) s \<Longrightarrow> s \<in> set ss"
proof -
  have "isin (foldl addStr t ss) s \<Longrightarrow> isin t s \<or> s \<in> set ss" for t
    by (induction ss arbitrary: t) (simp, fastforce simp: isin_addStr)
  from this[of Tip] show "isin (trieOf ss) s \<Longrightarrow> s \<in> set ss" by (simp add: trieOf_def)
qed

fun freshStrs :: "trie \<Rightarrow> string list \<Rightarrow> bool" where
  "freshStrs t [] = True"
| "freshStrs t (s # ss) =
     (case s of [] \<Rightarrow> False | _ \<Rightarrow> (if isin t s then False else freshStrs (addStr t s) ss))"

lemma freshStrs_distinct: "freshStrs t ss \<Longrightarrow> distinct ss \<and> (\<forall>s\<in>set ss. \<not> isin t s)"
proof (induction ss arbitrary: t)
  case (Cons s ss)
  then have s: "\<not> isin t s" "freshStrs (addStr t s) ss" "s \<noteq> []" by (simp_all split: list.splits if_splits)
  with Cons.IH[OF s(2)] show ?case by (auto simp: isin_addStr)
qed simp

lemma distinctStr: "freshStrs Tip ss \<Longrightarrow> distinct ss"
  by (simp add: freshStrs_distinct)

definition distinctNames :: "string list \<Rightarrow> bool" where
  "distinctNames ss = (if freshStrs Tip ss then True else distinct ss)"

lemma type_ok_struct:
  "type_ok (TStruct n fs) \<longleftrightarrow>
     distinctNames (map fieldName fs) \<and> distinctNames (map jsonName fs) \<and> fields_ok fs"
  by (auto simp: distinctNames_def distinctStr)

lemmas type_ok_code [code] = type_ok.simps(1-8) type_ok_struct

section \<open>The library of a set of features\<close>

text \<open>
  The method \<^verbatim>\<open>GetFeatureName\<close> of the request and response structs. Other types do not implement
  \<^verbatim>\<open>ocpp.Request\<close> or \<^verbatim>\<open>ocpp.Response\<close>.
\<close>

definition featureNameIn :: "gotype Feature list \<Rightarrow> gotype \<Rightarrow> string" where
  "featureNameIn features t =
     (case find (\<lambda>f. GetRequestType f = t \<or> GetResponseType f = t) features of
        Some f \<Rightarrow> GetFeatureName f
      | None \<Rightarrow> '''')"

definition codecLib ::
  "gotype Feature list \<Rightarrow> (string \<Rightarrow> string + gotime) \<Rightarrow> (message Message \<Rightarrow> field_error list) \<Rightarrow>
   (field_error list \<Rightarrow> string) \<Rightarrow> (gotype, message) lib" where
  "codecLib features parse validate txt =
     \<lparr>featureName = (\<lambda>m. featureNameIn features (fst m)),
      marshal = (\<lambda>m. Inr (encode (fst m) (snd m))),
      unmarshal = (\<lambda>t j. map_sum id (Pair t) (decode parse t j (zero t))),
      validateStruct = validate, validationText = txt\<rparr>"

lemma codecLib_simps [simp]:
  "featureName (codecLib fs p V x) m = featureNameIn fs (fst m)"
  "marshal (codecLib fs p V x) m = Inr (encode (fst m) (snd m))"
  "unmarshal (codecLib fs p V x) t j = map_sum id (Pair t) (decode p t j (zero t))"
  "validateStruct (codecLib fs p V x) = V"
  by (simp_all add: codecLib_def)

definition typesOf :: "gotype Feature list \<Rightarrow> gotype list" where
  "typesOf features = concat (map (\<lambda>f. [GetRequestType f, GetResponseType f]) features)"

lemma typesOf_iff:
  "t \<in> set (typesOf fs) \<longleftrightarrow> (\<exists>f\<in>set fs. t = GetRequestType f \<or> t = GetResponseType f)"
  by (auto simp: typesOf_def)

lemma typesOf_unique:
  "distinct (typesOf fs) \<Longrightarrow> f \<in> set fs \<Longrightarrow> g \<in> set fs \<Longrightarrow>
   t = GetRequestType f \<or> t = GetResponseType f \<Longrightarrow> t = GetRequestType g \<or> t = GetResponseType g \<Longrightarrow> g = f"
  by (induction fs) (auto simp: typesOf_def)

text \<open>The name of a struct type without its package, by which the types of a version differ.\<close>

fun structName :: "gotype \<Rightarrow> string" where
  "structName (TStruct n fs) = tl (dropWhile (\<lambda>c. c \<noteq> CHR ''.'') n)"
| "structName _ = ''''"

fun isStruct :: "gotype \<Rightarrow> bool" where
  "isStruct (TStruct n fs) \<longleftrightarrow> True"
| "isStruct _ \<longleftrightarrow> False"

text \<open>Whether a feature is found through the profiles, with its own types.\<close>

definition registeredIn :: "gotype Profile list \<Rightarrow> gotype Feature \<Rightarrow> bool" where
  "registeredIn profiles f \<longleftrightarrow>
     (case find (\<lambda>p. SupportsFeature p (GetFeatureName f)) profiles of
        None \<Rightarrow> False
      | Some p \<Rightarrow> Features p (GetFeatureName f) = Some f)"

lemma registeredIn_profiles:
  assumes "profiles = map (\<lambda>(n, fs). NewProfile n fs) groups"
    and "distinct (map GetFeatureName (concat (map snd groups)))"
  shows "list_all (registeredIn profiles) (concat (map snd groups))"
  using assms
proof (induction groups arbitrary: profiles)
  case (Cons g groups)
  obtain n fs where g: "g = (n, fs)" by (cases g)
  have d: "distinct (map GetFeatureName fs)" using Cons.prems(2) g by simp
  have "registeredIn profiles f" if "f \<in> set fs" for f
    using that d Cons.prems(1) g GetFeature_NewProfile[of fs f n]
    by (simp add: registeredIn_def SupportsFeature_NewProfile GetFeature_def)
  moreover have "registeredIn profiles f" if f: "f \<in> set (concat (map snd groups))" for f
  proof -
    have "GetFeatureName f \<notin> GetFeatureName ` set fs" using Cons.prems(2) g f by auto
    moreover have "registeredIn (map (\<lambda>(n, fs). NewProfile n fs) groups) f"
      using Cons.IH[OF refl] Cons.prems(2) g f by (auto simp: list_all_iff)
    ultimately show ?thesis
      using Cons.prems(1) g by (simp add: registeredIn_def SupportsFeature_NewProfile)
  qed
  ultimately show ?case using g by (auto simp: list_all_iff)
qed simp

lemma registered_group:
  assumes "profiles = map (\<lambda>(n, fs). NewProfile n fs) groups"
    and "distinct (map GetFeatureName (concat (map snd groups)))"
    and "f \<in> set (concat (map snd groups))" "Profiles ep = profiles"
  obtains n fs where "(n, fs) \<in> set groups" "f \<in> set fs"
    "GetProfileForFeature ep (GetFeatureName f) = Some (NewProfile n fs)"
proof -
  have "\<exists>n fs. (n, fs) \<in> set groups \<and> f \<in> set fs \<and>
      find (\<lambda>p. SupportsFeature p (GetFeatureName f)) (map (\<lambda>(n, fs). NewProfile n fs) groups) = Some (NewProfile n fs)"
    using assms(2,3)
  proof (induction groups)
    case (Cons g groups)
    obtain n fs where g: "g = (n, fs)" by (cases g)
    show ?case
    proof (cases "f \<in> set fs")
      case True
      with g show ?thesis by (auto simp: SupportsFeature_NewProfile)
    next
      case False
      with Cons.prems g have f: "f \<in> set (concat (map snd groups))" by simp
      then have "GetFeatureName f \<notin> GetFeatureName ` set fs" using Cons.prems(1) g by auto
      moreover obtain n' fs' where "(n', fs') \<in> set groups" "f \<in> set fs'"
        "find (\<lambda>p. SupportsFeature p (GetFeatureName f)) (map (\<lambda>(n, fs). NewProfile n fs) groups) =
           Some (NewProfile n' fs')"
        using Cons.IH Cons.prems(1) g f by auto
      ultimately show ?thesis
        using g by (auto simp: SupportsFeature_NewProfile)
    qed
  qed simp
  then show ?thesis using that assms(1,4) by (auto simp: GetProfileForFeature_def)
qed

locale message_set =
  fixes features :: "gotype Feature list" and profiles :: "gotype Profile list"
  assumes types_ok: "list_all type_ok (typesOf features)"
    and types_struct: "list_all isStruct (typesOf features)"
    and types_names: "distinct (map structName (typesOf features))"
    and registered: "list_all (registeredIn profiles) features"
begin

lemma type_in:
  "f \<in> set features \<Longrightarrow> t = GetRequestType f \<or> t = GetResponseType f \<Longrightarrow> t \<in> set (typesOf features)"
  by (auto simp: typesOf_iff)

lemma feature_profile:
  assumes "f \<in> set features" "Profiles ep = profiles"
  obtains p where "GetProfileForFeature ep (GetFeatureName f) = Some p"
    "Features p (GetFeatureName f) = Some f"
  using assms registered
  by (fastforce simp: list_all_iff registeredIn_def GetProfileForFeature_def split: option.splits)

lemma featureNameIn_feature:
  assumes "f \<in> set features" "t = GetRequestType f \<or> t = GetResponseType f"
  shows "featureNameIn features t = GetFeatureName f"
proof -
  have d: "distinct (typesOf features)" using types_names by (simp add: distinct_map)
  obtain g where g: "find (\<lambda>f. GetRequestType f = t \<or> GetResponseType f = t) features = Some g"
    using assms by (cases "find (\<lambda>f. GetRequestType f = t \<or> GetResponseType f = t) features")
      (auto simp: find_None_iff)
  then have "g \<in> set features" "t = GetRequestType g \<or> t = GetResponseType g"
    by (auto simp: find_Some_iff)
  with typesOf_unique[OF d assms(1) _ assms(2)] have "g = f" by blast
  with g show ?thesis by (simp add: featureNameIn_def)
qed

lemma encode_struct: "t \<in> set (typesOf features) \<Longrightarrow> wt t v \<Longrightarrow> encode t v \<noteq> JNull"
  using types_struct
  by (intro encode_nonnull) (auto simp: list_all_iff nullable_def elim!: isStruct.elims)

text \<open>The law that the protocol layer asks of its codec.\<close>

lemma codec_law:
  assumes "t \<in> set (typesOf features)" "wt t v" "faithful p t v"
  shows "unmarshal (codecLib features p V x) t (if encode t v = JNull then JObj [] else encode t v) = Inr (t, v)"
  using decode_encode(1)[of t v p] types_ok assms encode_struct[OF assms(1,2)] by (simp add: list_all_iff)

lemma roundtrip:
  assumes "f \<in> set features" "t = GetRequestType f \<or> t = GetResponseType f" "wt t v" "faithful p t v"
  shows "unmarshal (codecLib features p V x) t (encode t v) = Inr (t, v) \<and>
    featureName (codecLib features p V x) (t, v) = GetFeatureName f"
  using codec_law[OF type_in[OF assms(1,2)] assms(3,4), of V x]
    encode_struct[OF type_in[OF assms(1,2)] assms(3)] featureNameIn_feature[OF assms(1,2)]
  by simp

lemma decoded_typed:
  assumes "f \<in> set features" "t = GetRequestType f \<or> t = GetResponseType f"
    and "unmarshal (codecLib features p V x) t j = Inr m"
  shows "fst m = t \<and> wt t (snd m) \<and> featureName (codecLib features p V x) m = GetFeatureName f"
  using assms(3) decode_wt(1)[of t "zero t" p j] types_ok type_in[OF assms(1,2)] wt_zero(1)
    featureNameIn_feature[OF assms(1,2)]
  by (auto simp: map_sum_eq_Inr list_all_iff)

text \<open>A request that a client accepts reaches the application of a server with the same profiles.\<close>

lemma delivered:
  assumes "Client_SendRequest (codecLib features p V x) True uid (t, v) c = Ret (None, c')" "uid \<noteq> ''''"
    and "f \<in> set features" "t = GetRequestType f" "wt t v" "faithful p t v"
    and "Profiles (sv_endpoint s) = profiles" "sv_requestHandler s"
  shows "\<exists>b s'. elements (requestQueue (cl_dispatcher c')) = elements (requestQueue (cl_dispatcher c)) @ [b] \<and>
    bundle_id b = uid \<and>
    Server_ocppMessageHandler (codecLib features p V x) ven wr cid (bundle_Data b) s =
      Ret (None, s', [(cid, GotRequest (t, v) uid (GetFeatureName f))])"
proof -
  have n: "featureName (codecLib features p V x) (t, v) = GetFeatureName f"
    using featureNameIn_feature[OF assms(3)] assms(4) by simp
  obtain pr where pr: "GetProfileForFeature (sv_endpoint s) (GetFeatureName f) = Some pr"
    "Features pr (GetFeatureName f) = Some f"
    using assms(3,7) by (rule feature_profile)
  have "unmarshal (codecLib features p V x) (GetRequestType f) (if j = JNull then JObj [] else j) = Inr (t, v)"
    if "marshal (codecLib features p V x) (t, v) = Inr j" for j
    using codec_law[OF type_in[OF assms(3)] assms(5,6), of V x] that assms(4) by auto
  then show ?thesis
    using request_to_server[OF assms(1,2), of s pr f ven wr cid] pr n assms(8) by simp
qed

end

section \<open>Validation tags\<close>

text \<open>The tags of a field: the parts of the \<^verbatim>\<open>validate\<close> tag between commas, without parameters.\<close>

fun splitOn :: "char \<Rightarrow> string \<Rightarrow> string list" where
  "splitOn c [] = [[]]"
| "splitOn c (x # xs) =
     (if x = c then [] # splitOn c xs
      else case splitOn c xs of [] \<Rightarrow> [[x]] | s # ss \<Rightarrow> (x # s) # ss)"

definition tagNames :: "string \<Rightarrow> string list" where
  "tagNames tag =
     (if tag = '''' then []
      else map (\<lambda>t. takeWhile (\<lambda>c. c \<noteq> CHR ''='') t) (splitOn (CHR '','') tag))"

text \<open>The tags used in the repository that the validator package defines itself.\<close>

definition builtinTags :: "string list" where
  "builtinTags = [''required'', ''omitempty'', ''dive'', ''unique'', ''max'', ''min'', ''gte'', ''lte'',
     ''gt'', ''lt'', ''uri'', ''url'']"

fun allTags :: "gotype \<Rightarrow> string list" and fieldsTags :: "gofield list \<Rightarrow> string list" where
  "allTags TString = []"
| "allTags TInt = []"
| "allTags TFloat = []"
| "allTags TBool = []"
| "allTags TIface = []"
| "allTags TTime = []"
| "allTags (TPtr t) = allTags t"
| "allTags (TSlice t) = allTags t"
| "allTags (TStruct n fs) = fieldsTags fs"
| "fieldsTags [] = []"
| "fieldsTags (Field g n oe tag t # fs) = tagNames tag @ allTags t @ fieldsTags fs"

text \<open>What is evaluated once for all message types of a version.\<close>

definition typeOk :: "trie \<Rightarrow> gotype \<Rightarrow> bool" where
  "typeOk known t \<longleftrightarrow> type_ok t \<and> isStruct t \<and> list_all (isin known) (allTags t)"

lemma typeOk_all:
  assumes "list_all (typeOk (trieOf known)) ts"
  shows "list_all type_ok ts" "list_all isStruct ts"
    "list_all (\<lambda>t. list_all (\<lambda>tag. tag \<in> set known) (allTags t)) ts"
  using assms by (auto simp: list_all_iff typeOk_def dest: isin_trieOf)

end
