(* ===== verification/Codec16.thy ===== *)
theory Codec16
  imports Messages16 Codec
begin

text \<open>
  What the endpoints use of the OCPP 1.6 messages: the registered validation functions, the
  features of the six profiles, and the payload codec of these features.
\<close>

section \<open>Registered validations\<close>

definition types_validators :: "(string \<times> (string \<Rightarrow> bool)) list" where
  "types_validators =
     [(''authorizationStatus16'', isValidAuthorizationStatus),
      (''chargingProfilePurpose16'', isValidChargingProfilePurpose),
      (''chargingProfileKind16'', isValidChargingProfileKind),
      (''recurrencyKind16'', isValidRecurrencyKind),
      (''chargingRateUnit16'', isValidChargingRateUnit),
      (''remoteStartStopStatus16'', isValidRemoteStartStopStatus),
      (''readingContext16'', isValidReadingContext),
      (''valueFormat'', isValidValueFormat),
      (''measurand16'', isValidMeasurand),
      (''phase16'', isValidPhase),
      (''location16'', isValidLocation),
      (''unitOfMeasure'', isValidUnitOfMeasure)]"

text \<open>The registrations in the \<^verbatim>\<open>init\<close> functions of the message packages.\<close>

definition message_validators :: "(string \<times> (string \<Rightarrow> bool)) list" where
  "message_validators =
     [(''registrationStatus16'', isValidRegistrationStatus),
      (''availabilityType'', isValidAvailabilityType),
      (''availabilityStatus'', isValidAvailabilityStatus),
      (''configurationStatus'', isValidConfigurationStatus),
      (''cacheStatus16'', isValidClearCacheStatus),
      (''dataTransferStatus16'', isValidDataTransferStatus),
      (''resetType16'', isValidResetType),
      (''resetStatus16'', isValidResetStatus),
      (''chargePointErrorCode'', isValidChargePointErrorCode),
      (''chargePointStatus'', isValidChargePointStatus),
      (''reason'', isValidReason),
      (''unlockStatus16'', isValidUnlockStatus),
      (''diagnosticsStatus'', isValidDiagnosticsStatus),
      (''firmwareStatus16'', isValidFirmwareStatus),
      (''updateStatus'', isValidUpdateStatus),
      (''updateType16'', isValidUpdateType),
      (''triggerMessageStatus16'', isValidTriggerMessageStatus),
      (''messageTrigger16'', isValidMessageTrigger),
      (''cancelReservationStatus16'', isValidCancelReservationStatus),
      (''reservationStatus'', isValidReservationStatus),
      (''clearChargingProfileStatus16'', isValidClearChargingProfileStatus),
      (''compositeScheduleStatus'', isValidGetCompositeScheduleStatus),
      (''chargingProfileStatus16'', isValidChargingProfileStatus)]"

definition validators16 :: "(string \<times> (string \<Rightarrow> bool)) list" where
  "validators16 = types_validators @ message_validators"

text \<open>The struct-level validation of \<^verbatim>\<open>HeartbeatConfirmation\<close>: whether an error is reported.\<close>

definition validateHeartbeatConfirmation :: "goval \<Rightarrow> bool" where
  "validateHeartbeatConfirmation confirmation =
     DateTimeIsNull (case confirmation of
         VStruct vs \<Rightarrow> (case fieldOf ''CurrentTime'' vs of VPtr (VTime t) \<Rightarrow> Some t | _ \<Rightarrow> None)
       | _ \<Rightarrow> None)"

section \<open>Features and profiles\<close>

definition profiles16 :: "gotype Profile list" where
  "profiles16 = [core_Profile, localauth_Profile, firmware_Profile, reservation_Profile,
     remotetrigger_Profile, smartcharging_Profile]"

definition features16 :: "gotype Feature list" where
  "features16 = core_features @ localauth_features @ firmware_features @ reservation_features @
     remotetrigger_features @ smartcharging_features"

definition lib16 ::
  "(string \<Rightarrow> string + gotime) \<Rightarrow> (message Message \<Rightarrow> field_error list) \<Rightarrow> (field_error list \<Rightarrow> string) \<Rightarrow>
   (gotype, message) lib" where
  "lib16 = codecLib features16"

text \<open>The message packages keep what the endpoints rely on.\<close>

lemma types16_ok: "list_all (typeOk (trieOf (builtinTags @ map fst validators16))) (typesOf features16)"
  by code_simp

lemma types16_names: "distinct (map structName (typesOf features16))"
  by (rule distinctStr) code_simp

lemma features16_names: "distinct (map GetFeatureName features16)"
  by (rule distinctStr) code_simp

lemma profiles16_features: "list_all (registeredIn profiles16) features16"
proof -
  let ?groups = "[(''Core'', core_features), (''LocalAuthListManagement'', localauth_features),
    (''FirmwareManagement'', firmware_features), (''Reservation'', reservation_features),
    (''RemoteTrigger'', remotetrigger_features), (''SmartCharging'', smartcharging_features)]"
  have "profiles16 = map (\<lambda>(n, fs). NewProfile n fs) ?groups"
    by (simp add: profiles16_def core_Profile_def localauth_Profile_def firmware_Profile_def
        reservation_Profile_def remotetrigger_Profile_def smartcharging_Profile_def)
  moreover have "features16 = concat (map snd ?groups)" by (simp add: features16_def)
  ultimately show ?thesis using registeredIn_profiles[of profiles16 ?groups] features16_names by simp
qed

interpretation msgs16: message_set features16 profiles16
  using typeOk_all[OF types16_ok] types16_names profiles16_features by unfold_locales simp_all

section \<open>Properties\<close>


definition demo_time :: gotime where
  "demo_time = \<lparr>t_sec = 1700000000, t_nsec = 0\<rparr>"

definition demo_parse :: "string \<Rightarrow> string + gotime" where
  "demo_parse s = (if s = ''2023-11-14T22:13:20Z'' then Inr demo_time else Inl ''unexpected'')"

definition demo_boot :: goval where
  "demo_boot = snd (NewBootNotificationConfirmation (Some demo_time) 300 ''Accepted'')"

lemma demo_boot_facts:
  "wt BootNotificationConfirmation demo_boot"
  "faithful demo_parse BootNotificationConfirmation demo_boot"
  "BootNotificationConfirmation = GetResponseType BootNotificationFeature"
  "encode BootNotificationConfirmation demo_boot =
     JObj [(''currentTime'', JStr ''2023-11-14T22:13:20Z''), (''interval'', JNum 300 0),
       (''status'', JStr ''Accepted'')]"
  by code_simp+

lemma BootNotificationFeature_mem: "BootNotificationFeature \<in> set features16"
  by (simp add: features16_def core_features_def)


text \<open>
  Whatever JSON the peer sends as a payload, a message that the codec accepts is a well-typed
  value of the feature's type: the right fields with values of the right types, integers within
  64 bits. So the type assertions on requests and responses of a known action cannot fail.
\<close>

theorem decode16_typed:
  assumes "f \<in> set features16" "t = GetRequestType f \<or> t = GetResponseType f"
    and "unmarshal (lib16 p V x) t j = Inr m"
  shows "fst m = t \<and> wt t (snd m) \<and> featureName (lib16 p V x) m = GetFeatureName f"
  using msgs16.decoded_typed[OF assms(1,2) assms(3)[unfolded lib16_def]] by (auto simp: lib16_def)

theorem decode16_typed_witness:
  "\<exists>m. unmarshal (lib16 demo_parse (\<lambda>_. []) (\<lambda>_. '''')) BootNotificationRequest
      (JObj [(''CHARGEPOINTMODEL'', JStr ''m''), (''unknown'', JNull)]) = Inr m \<and>
    wt BootNotificationRequest (snd m)"
proof -
  have "BootNotificationRequest = GetRequestType BootNotificationFeature"
    by (simp add: BootNotificationFeature_def)
  moreover have "\<exists>m. unmarshal (lib16 demo_parse (\<lambda>_. []) (\<lambda>_. '''')) BootNotificationRequest
      (JObj [(''CHARGEPOINTMODEL'', JStr ''m''), (''unknown'', JNull)]) = Inr m"
  proof -
    have "case decode demo_parse BootNotificationRequest
      (JObj [(''CHARGEPOINTMODEL'', JStr ''m''), (''unknown'', JNull)]) (zero BootNotificationRequest) of
      Inr v \<Rightarrow> True | Inl e \<Rightarrow> False" by code_simp
    then show ?thesis by (auto simp: lib16_def map_sum_eq_Inr split: sum.splits)
  qed
  ultimately show ?thesis
    using decode16_typed[OF BootNotificationFeature_mem disjI1] by blast
qed

text \<open>
  No message type of OCPP 1.6 names an undefined validation tag, on which the validator
  package would panic: every tag, also in nested structs, is built in or registered by an \<^verbatim>\<open>init\<close>
  function of these packages. No tag is registered twice.
\<close>

theorem tags16_defined:
  "list_all (\<lambda>t. list_all (\<lambda>tag. tag \<in> set (builtinTags @ map fst validators16)) (allTags t)) (typesOf features16) \<and>
   distinct (builtinTags @ map fst validators16)"
proof -
  have "distinct (builtinTags @ map fst validators16)" by (rule distinctStr) code_simp
  with typeOk_all(3)[OF types16_ok] show ?thesis by simp
qed


definition client16 :: "(gotype, message) Client" where
  "client16 = \<lparr>cl_endpoint = \<lparr>dialect = V16, Profiles = profiles16\<rparr>, cl_Id = ''cp1'', cl_requestHandler = True,
     cl_responseHandler = True, cl_errorHandler = True, cl_onDisconnectedHandler = False,
     cl_onReconnectedHandler = False, cl_invalidMessageHook = None,
     cl_dispatcher = Start (SetNetworkClient (NewDefaultClientDispatcher \<lparr>elements = [], capacity = 10\<rparr>))\<rparr>"

definition server16 :: "(gotype, message) Server" where
  "server16 = (NewServer None None profiles16)\<lparr>sv_requestHandler := True\<rparr>"

lemma fold_AddProfile: "Profiles (fold AddProfile ps ep) = Profiles ep @ ps"
  by (induction ps arbitrary: ep) (simp_all add: AddProfile_def)

lemma server16_simps: "Profiles (sv_endpoint server16) = profiles16" "sv_requestHandler server16"
  by (simp_all add: server16_def NewServer_def Let_def fold_AddProfile)


end
