(* ===== verification/CallbackQueue.thy ===== *)
theory CallbackQueue
  imports Prelude
begin

text \<open>
  \<^verbatim>\<open>internal/callbackqueue/callbackqueue.go\<close>: per client, the callbacks of the requests that
  have been sent and not yet answered, in the order in which they were sent. The callback
  values are a type parameter. The mutex makes each method atomic.
\<close>

record 'cb CallbackQueue =
  callbacks :: "string \<rightharpoonup> 'cb list"

definition New :: "'cb CallbackQueue" where
  "New = \<lparr>callbacks = Map.empty\<rparr>"

text \<open>\<^verbatim>\<open>cq.callbacks[id]\<close> of an absent key is the nil slice.\<close>

definition callbacksOf :: "'cb CallbackQueue \<Rightarrow> string \<Rightarrow> 'cb list" where
  "callbacksOf cq cid = (case callbacks cq cid of None \<Rightarrow> [] | Some cbs \<Rightarrow> cbs)"

text \<open>
  \<open>TryQueue\<close> runs \<^verbatim>\<open>try\<close> on the state \<open>w\<close> of the rest of the program (it never touches the
  queue, whose mutex is held); \<open>Some err\<close> is a non-nil error.
\<close>

definition TryQueue ::
  "string \<Rightarrow> ('w \<Rightarrow> 'e option \<times> 'w) \<Rightarrow> 'cb \<Rightarrow> 'w \<Rightarrow> 'cb CallbackQueue \<Rightarrow>
   'e option \<times> 'w \<times> 'cb CallbackQueue" where
  "TryQueue cid try callback w cq =
     (let cq1 = cq\<lparr>callbacks := (callbacks cq)(cid \<mapsto> callbacksOf cq cid @ [callback])\<rparr>
      in case try w of
           (None, w') \<Rightarrow> (None, w', cq1)
         | (Some err, w') \<Rightarrow>
             (let rest = butlast (callbacksOf cq1 cid);
                  cq2 = cq1\<lparr>callbacks := (callbacks cq1)(cid \<mapsto> rest)\<rparr>
              in (Some err, w',
                  if rest = [] then cq2\<lparr>callbacks := (callbacks cq2)(cid := None)\<rparr> else cq2)))"

definition Dequeue :: "string \<Rightarrow> 'cb CallbackQueue \<Rightarrow> ('cb option \<times> 'cb CallbackQueue) go" where
  "Dequeue cid cq =
     (case callbacks cq cid of
        None \<Rightarrow> Ret (None, cq)
      | Some [] \<Rightarrow> Panic ''Internal CallbackQueue inconsistency''
      | Some [cb] \<Rightarrow> Ret (Some cb, cq\<lparr>callbacks := (callbacks cq)(cid := None)\<rparr>)
      | Some (cb # cbs) \<Rightarrow> Ret (Some cb, cq\<lparr>callbacks := (callbacks cq)(cid \<mapsto> cbs)\<rparr>))"

section \<open>Invariant: no empty list is stored\<close>

definition cq_wf :: "'cb CallbackQueue \<Rightarrow> bool" where
  "cq_wf cq \<longleftrightarrow> (\<forall>cid. callbacks cq cid \<noteq> Some [])"

lemma cq_wf_New [simp]: "cq_wf New"
  by (simp add: cq_wf_def New_def)

lemma callbacksOf_New [simp]: "callbacksOf New cid = []"
  by (simp add: callbacksOf_def New_def)

lemma cq_eqI:
  "cq_wf a \<Longrightarrow> cq_wf b \<Longrightarrow> (\<And>cid. callbacksOf a cid = callbacksOf b cid) \<Longrightarrow> a = b"
proof -
  assume wf: "cq_wf a" "cq_wf b" and eq: "\<And>cid. callbacksOf a cid = callbacksOf b cid"
  have "callbacks a cid = callbacks b cid" for cid
    using wf eq[of cid] by (auto simp: cq_wf_def callbacksOf_def split: option.splits)
  then have "callbacks a = callbacks b" ..
  then show "a = b" by simp
qed

lemma TryQueue_ok:
  assumes "try w = (None, w')"
  shows "TryQueue cid try cb w cq =
    (None, w', cq\<lparr>callbacks := (callbacks cq)(cid \<mapsto> callbacksOf cq cid @ [cb])\<rparr>)"
  using assms by (simp add: TryQueue_def Let_def)

lemma TryQueue_fail:
  assumes "cq_wf cq" "try w = (Some e, w')"
  shows "TryQueue cid try cb w cq = (Some e, w', cq)"
proof -
  have "callbacks cq cid = None \<or> (\<exists>cbs. callbacks cq cid = Some cbs \<and> cbs \<noteq> [])"
    using assms(1) by (cases "callbacks cq cid") (auto simp: cq_wf_def)
  then show ?thesis
    using assms(2) by (cases cq) (auto simp: TryQueue_def Let_def callbacksOf_def fun_upd_idem)
qed

lemma TryQueue_wf: "cq_wf cq \<Longrightarrow> TryQueue cid try cb w cq = (r, w', cq') \<Longrightarrow> cq_wf cq'"
proof (cases "try w")
  case (Pair r' w'')
  assume wf: "cq_wf cq" and q: "TryQueue cid try cb w cq = (r, w', cq')"
  show ?thesis
  proof (cases r')
    case None
    with Pair q wf show ?thesis by (auto simp: TryQueue_ok cq_wf_def split: if_splits)
  next
    case (Some e)
    with Pair q wf show ?thesis by (auto simp: TryQueue_fail)
  qed
qed

lemma callbacksOf_TryQueue_ok:
  assumes "TryQueue cid try cb w cq = (None, w', cq')"
  shows "callbacksOf cq' i = (if i = cid then callbacksOf cq i @ [cb] else callbacksOf cq i)"
  using assms
  by (auto simp: TryQueue_def Let_def callbacksOf_def split: prod.splits option.splits)

lemma Dequeue_cases:
  assumes "cq_wf cq"
  shows "(callbacksOf cq cid = [] \<and> Dequeue cid cq = Ret (None, cq)) \<or>
    (\<exists>cb cbs cq'. callbacksOf cq cid = cb # cbs \<and> Dequeue cid cq = Ret (Some cb, cq') \<and>
       cq_wf cq' \<and> (\<forall>i. callbacksOf cq' i = (if i = cid then cbs else callbacksOf cq i)))"
proof (cases "callbacks cq cid")
  case None
  then show ?thesis by (simp add: callbacksOf_def Dequeue_def)
next
  case (Some cbs)
  with assms have "cbs \<noteq> []" by (auto simp: cq_wf_def)
  then obtain c cs where "cbs = c # cs" by (cases cbs) auto
  with Some assms show ?thesis
    by (cases cs) (auto simp: callbacksOf_def Dequeue_def cq_wf_def)
qed

section \<open>Draining the callbacks of one client\<close>

text \<open>
  The loop \<^verbatim>\<open>for cb, ok := cq.Dequeue(id); ok; cb, ok = cq.Dequeue(id)\<close> that both endpoints run
  when a connection ends: the callbacks it visits, in order.
\<close>

lemma Dequeue_length:
  "Dequeue cid cq = Ret (Some cb, cq') \<Longrightarrow> length (callbacksOf cq' cid) < length (callbacksOf cq cid)"
  by (auto simp: Dequeue_def callbacksOf_def split: option.splits list.splits)

function drainCallbacks :: "string \<Rightarrow> 'cb CallbackQueue \<Rightarrow> ('cb list \<times> 'cb CallbackQueue) go" where
  "drainCallbacks cid cq =
     (case Dequeue cid cq of
        Ret (Some cb, cq') \<Rightarrow>
          bind_go (drainCallbacks cid cq') (\<lambda>(cbs, cq''). Ret (cb # cbs, cq''))
      | Ret (None, cq') \<Rightarrow> Ret ([], cq')
      | Panic e \<Rightarrow> Panic e
      | Block \<Rightarrow> Block)"
  by pat_completeness auto
termination
  by (relation "measure (\<lambda>(cid, cq). length (callbacksOf cq cid))") (auto intro: Dequeue_length)

declare drainCallbacks.simps [simp del]

section \<open>The interface the endpoints rely on\<close>

text \<open>
  What the charge point and the central system need of the queue: a list of callbacks per
  client, appended to by a successful send, left alone by a failed one, and consumed from the
  front.
\<close>

locale callback_fifo =
  fixes wf :: "'q \<Rightarrow> bool"
    and view :: "'q \<Rightarrow> string \<Rightarrow> 'cb list"
    and enq :: "string \<Rightarrow> 'cb \<Rightarrow> bool \<Rightarrow> 'q \<Rightarrow> 'q"
    and deq :: "string \<Rightarrow> 'q \<Rightarrow> ('cb option \<times> 'q) go"
  assumes enq_wf: "wf q \<Longrightarrow> wf (enq i cb ok q)"
    and enq_view: "wf q \<Longrightarrow> view (enq i cb ok q) j = (if i = j \<and> ok then view q j @ [cb] else view q j)"
    and deq_empty: "wf q \<Longrightarrow> view q i = [] \<Longrightarrow> deq i q = Ret (None, q)"
    and deq_cons: "wf q \<Longrightarrow> view q i = cb # cbs \<Longrightarrow>
      \<exists>q'. deq i q = Ret (Some cb, q') \<and> wf q' \<and> view q' = (view q)(i := cbs)"
begin

lemma deq_total: "wf q \<Longrightarrow> \<exists>r q'. deq i q = Ret (r, q') \<and> wf q'"
  by (cases "view q i") (auto dest: deq_empty deq_cons)

text \<open>A callback enqueued last is reached after exactly the callbacks in front of it.\<close>

lemma deq_enq:
  assumes "wf q"
  shows "\<exists>q'. deq i (enq i cb True q) = Ret (Some (hd (view q i @ [cb])), q') \<and>
    view q' i = tl (view q i @ [cb]) \<and> (\<forall>j. j \<noteq> i \<longrightarrow> view q' j = view q j)"
proof -
  obtain c cs where c: "view q i @ [cb] = c # cs" by (cases "view q i") auto
  have "view (enq i cb True q) i = c # cs" using assms c by (simp add: enq_view)
  from deq_cons[OF enq_wf[OF assms] this] obtain q' where
    "deq i (enq i cb True q) = Ret (Some c, q')" "view q' = (view (enq i cb True q))(i := cs)"
    by blast
  with assms c show ?thesis by (auto simp: enq_view)
qed

end

text \<open>The queue of the source provides it: \<open>ok\<close> says whether the send inside \<^verbatim>\<open>TryQueue\<close> succeeded.\<close>

definition enqueue :: "string \<Rightarrow> 'cb \<Rightarrow> bool \<Rightarrow> 'cb CallbackQueue \<Rightarrow> 'cb CallbackQueue" where
  "enqueue cid cb ok cq =
     snd (snd (TryQueue cid (\<lambda>w. (if ok then None else Some (), w)) cb () cq))"

lemma enqueue_cases:
  "cq_wf cq \<Longrightarrow> enqueue cid cb ok cq =
     (if ok then cq\<lparr>callbacks := (callbacks cq)(cid \<mapsto> callbacksOf cq cid @ [cb])\<rparr> else cq)"
  by (simp add: enqueue_def TryQueue_ok TryQueue_fail)

lemma enqueue_wf: "cq_wf cq \<Longrightarrow> cq_wf (enqueue i cb ok cq)"
  by (simp add: enqueue_cases cq_wf_def)

lemma enqueue_view:
  "cq_wf cq \<Longrightarrow> callbacksOf (enqueue i cb ok cq) j =
     (if i = j \<and> ok then callbacksOf cq j @ [cb] else callbacksOf cq j)"
  by (simp add: enqueue_cases callbacksOf_def)

lemma Dequeue_empty: "cq_wf cq \<Longrightarrow> callbacksOf cq i = [] \<Longrightarrow> Dequeue i cq = Ret (None, cq)"
  using Dequeue_cases[of cq i] by simp

lemma Dequeue_cons:
  assumes "cq_wf cq" "callbacksOf cq i = cb # cbs"
  shows "\<exists>cq'. Dequeue i cq = Ret (Some cb, cq') \<and> cq_wf cq' \<and>
    callbacksOf cq' = (callbacksOf cq)(i := cbs)"
proof -
  from Dequeue_cases[OF assms(1), of i] assms(2) obtain cq' where
    "Dequeue i cq = Ret (Some cb, cq')" "cq_wf cq'"
    and v: "\<forall>j. callbacksOf cq' j = (if j = i then cbs else callbacksOf cq j)"
    by auto
  moreover from v have "callbacksOf cq' = (callbacksOf cq)(i := cbs)" by (auto intro!: ext)
  ultimately show ?thesis by blast
qed

interpretation cbq: callback_fifo cq_wf callbacksOf enqueue Dequeue
  by unfold_locales (fact enqueue_wf enqueue_view Dequeue_empty Dequeue_cons)+

lemma drainCallbacks_eq:
  assumes "cq_wf cq"
  shows "\<exists>cq'. drainCallbacks cid cq = Ret (callbacksOf cq cid, cq') \<and> cq_wf cq' \<and>
    callbacksOf cq' = (callbacksOf cq)(cid := [])"
  using assms
proof (induction cid cq rule: drainCallbacks.induct)
  case (1 cid cq)
  show ?case
  proof (cases "callbacksOf cq cid")
    case Nil
    with 1(2) have "drainCallbacks cid cq = Ret (callbacksOf cq cid, cq)"
      by (simp add: drainCallbacks.simps[of cid cq] Dequeue_empty)
    with 1(2) fun_upd_idem[of "callbacksOf cq", OF Nil, symmetric] show ?thesis
      by (intro exI[of _ cq] conjI) assumption+
  next
    case (Cons cb cbs)
    from cbq.deq_cons[OF 1(2) Cons] obtain q' where q': "Dequeue cid cq = Ret (Some cb, q')"
      "cq_wf q'" "callbacksOf q' = (callbacksOf cq)(cid := cbs)"
      by blast
    from 1(1)[OF q'(1) refl refl q'(2)] obtain q'' where q'':
      "drainCallbacks cid q' = Ret (callbacksOf q' cid, q'')" "cq_wf q''"
      "callbacksOf q'' = (callbacksOf q')(cid := [])"
      by blast
    from q'(1,3) q''(1) have "drainCallbacks cid cq = Ret (cb # cbs, q'')"
      by (simp add: drainCallbacks.simps[of cid cq])
    with q'(3) q''(2,3) Cons show ?thesis by (intro exI[of _ q'']) simp
  qed
qed

end
