(* ===== verification/Facade16.thy ===== *)
theory Facade16
  imports Codec16 CallbackQueue
begin

text \<open>
  What the charge point and the central system of OCPP 1.6 (\<^verbatim>\<open>ocpp1.6/charge_point.go\<close> and
  \<^verbatim>\<open>ocpp1.6/central_system.go\<close>) have in common: the error channel of the application, queueing a
  callback together with a request, replying to a request, the application's handlers and
  the methods of the API that wrap one request.
\<close>

section \<open>Errors reported to the application\<close>

text \<open>\<^verbatim>\<open>error(err)\<close>: nothing without a channel, else a send to a channel with room for one.\<close>

definition reportError :: "goerr \<Rightarrow> goerr chan option \<Rightarrow> goerr chan option go" where
  "reportError err errC =
     (case errC of
        None \<Rightarrow> Ret None
      | Some ch \<Rightarrow> bind_go (chan_send ch err) (\<lambda>ch'. Ret (Some ch')))"

definition errorsChannel :: "goerr chan option \<Rightarrow> goerr chan option" where
  "errorsChannel errC = (case errC of None \<Rightarrow> Some (make_chan 1) | Some ch \<Rightarrow> Some ch)"

section \<open>Queueing a callback with its request\<close>

text \<open>\<^verbatim>\<open>TryQueue\<close> with a send that may panic or block, which it then does with the queue locked.\<close>

definition tryQueueGo ::
  "string \<Rightarrow> ('w \<Rightarrow> ('e option \<times> 'w) go) \<Rightarrow> 'cb \<Rightarrow> 'w \<Rightarrow> 'cb CallbackQueue \<Rightarrow>
   ('e option \<times> 'w \<times> 'cb CallbackQueue) go" where
  "tryQueueGo cid try cb w cq = bind_go (try w) (\<lambda>r. Ret (TryQueue cid (\<lambda>_. r) cb w cq))"

lemma tryQueueGo_Ret:
  "tryQueueGo cid try cb w cq = Ret (e, w', cq') \<Longrightarrow> cq_wf cq \<Longrightarrow>
     try w = Ret (e, w') \<and> cq_wf cq' \<and>
     (\<forall>i. callbacksOf cq' i = (if i = cid \<and> e = None then callbacksOf cq i @ [cb] else callbacksOf cq i))"
proof -
  assume a: "tryQueueGo cid try cb w cq = Ret (e, w', cq')" and wf: "cq_wf cq"
  then obtain r where r: "try w = Ret r" "TryQueue cid (\<lambda>_. r) cb w cq = (e, w', cq')"
    by (auto simp: tryQueueGo_def)
  show ?thesis
  proof (cases e)
    case None
    with r TryQueue_wf[OF wf r(2)] callbacksOf_TryQueue_ok[of cid "\<lambda>_. r" cb w cq w' cq'] show ?thesis
      by (cases r) (auto simp: TryQueue_def Let_def split: option.splits)
  next
    case (Some x)
    with r have f: "r = (Some x, w')" by (cases r) (auto simp: TryQueue_def Let_def split: option.splits)
    with r wf have "cq' = cq" by (simp add: TryQueue_fail)
    with r wf f Some show ?thesis by simp
  qed
qed

section \<open>Handlers and API methods\<close>

text \<open>
  A handler interface such as \<^verbatim>\<open>core.ChargePointHandler\<close>, by method name: the confirmation (\<open>None\<close> for
  nil) and the error. What the application does besides is not modelled.
\<close>

type_synonym appHandler = "string \<Rightarrow> message \<Rightarrow> message option \<times> goerr option"

datatype handlerKind = Core | LocalAuthList | Firmware | Reservation | RemoteTrigger | SmartCharging

text \<open>The switch over \<^verbatim>\<open>profile.Name\<close>; other names are not checked.\<close>

definition profileKind :: "string \<Rightarrow> handlerKind option" where
  "profileKind name =
     (if name = ''Core'' then Some Core
      else if name = ''LocalAuthListManagement'' then Some LocalAuthList
      else if name = ''FirmwareManagement'' then Some Firmware
      else if name = ''Reservation'' then Some Reservation
      else if name = ''RemoteTrigger'' then Some RemoteTrigger
      else if name = ''SmartCharging'' then Some SmartCharging
      else None)"

text \<open>
  A method of the API sends one request, built by a constructor and changed by the \<^verbatim>\<open>props\<close>
  functions, and asserts the type of the response.
\<close>

record apiCall =
  api_request :: message
  api_response :: gotype

definition apiRequest :: "message \<Rightarrow> (goval \<Rightarrow> goval) list \<Rightarrow> message" where
  "apiRequest request props = (fst request, fold (\<lambda>fn v. fn v) props (snd request))"

text \<open>The type assertion \<^verbatim>\<open>x.(*T)\<close>.\<close>

definition assertType :: "gotype \<Rightarrow> message option \<Rightarrow> message go" where
  "assertType t x =
     (case x of
        None \<Rightarrow> Panic ''interface conversion: interface is nil''
      | Some m \<Rightarrow> if fst m = t then Ret m else Panic ''interface conversion'')"

section \<open>The reply sent to the peer\<close>

text \<open>Whichever way a reply is attempted, \<open>notifyText\<close> is what the application is told of a failure.\<close>

definition replyFailed ::
  "string \<Rightarrow> string \<Rightarrow> string \<Rightarrow> (goerr \<Rightarrow> string) \<Rightarrow> message option \<Rightarrow> goerr option \<Rightarrow> goerr \<Rightarrow> goerr" where
  "replyFailed errText1 emptyText confText txt confirmation err e =
     (case err of
        Some _ \<Rightarrow> EPlain (errText1 @ txt e)
      | None \<Rightarrow> (case confirmation of None \<Rightarrow> EPlain emptyText | Some _ \<Rightarrow> EPlain (confText @ txt e)))"

text \<open>A reply by a client endpoint, and by a server endpoint to the client \<open>cid\<close>.\<close>

definition clientReply ::
  "(gotype, message) lib \<Rightarrow> bool \<Rightarrow> (json \<Rightarrow> string option) \<Rightarrow> (gotype, message) Client \<Rightarrow> string \<Rightarrow>
   message option \<Rightarrow> goerr option \<Rightarrow> string \<Rightarrow> message ep_event list \<times> goerr option" where
  "clientReply L ven wr c emptyText confirmation err requestId =
     replyWith (\<lambda>i code d. Client_SendError L ven wr c i code d None) (Client_SendResponse L ven wr c)
       (Client_HandleFailedResponseError L ven wr c) (errText L) (featureName L) emptyText confirmation err requestId"

definition serverReply ::
  "(gotype, message) lib \<Rightarrow> bool \<Rightarrow> (string \<Rightarrow> json \<Rightarrow> string option) \<Rightarrow> (gotype, message) Server \<Rightarrow> string \<Rightarrow>
   string \<Rightarrow> message option \<Rightarrow> goerr option \<Rightarrow> string \<Rightarrow> message sv_event list \<times> goerr option" where
  "serverReply L ven wr s cid emptyText confirmation err requestId =
     replyWith (\<lambda>i code d. Server_SendError L ven wr s cid i code d None) (Server_SendResponse L ven wr s cid)
       (Server_HandleFailedResponseError L ven wr s cid) (errText L) (featureName L) emptyText confirmation err requestId"

text \<open>A network that delivers and a validator that accepts errors with valid codes.\<close>

definition answerable :: "(gotype, message) lib \<Rightarrow> bool \<Rightarrow> (json \<Rightarrow> string option) \<Rightarrow> string \<Rightarrow> bool" where
  "answerable L ven wr i \<longleftrightarrow> accepts_errors L ven i \<and> (\<forall>j. wr j = None)"

lemma client_error_once:
  "length (filter (replies i) (snd (Client_SendError L ven wr c i code d None))) \<le> 1"
  "answerable L ven wr i \<Longrightarrow> IsErrorCodeValid code \<Longrightarrow>
     length (filter (replies i) (snd (Client_SendError L ven wr c i code d None))) = 1"
  using client_reply.err_filter[where L = L and ven = ven and wr = wr and c = c, of i code d]
    SendError_valid(1)[of L ven i code wr d c]
  by (auto simp: answerable_def)

lemma client_reply_once:
  "length (filter (replies i) (fst (clientReply L ven wr c et conf err i))) \<le> 1"
  "answerable L ven wr i \<Longrightarrow> length (filter (replies i) (fst (clientReply L ven wr c et conf err i))) = 1"
proof -
  show "length (filter (replies i) (fst (clientReply L ven wr c et conf err i))) \<le> 1"
    unfolding clientReply_def by (rule client_reply.reply_at_most_once)
  show "length (filter (replies i) (fst (clientReply L ven wr c et conf err i))) = 1" if "answerable L ven wr i"
    unfolding clientReply_def using that
    by (intro client_reply.reply_answered Client_handleFailed_one)
      (auto simp: answerable_def SendError_valid dest: send_errors_valid)
qed

lemma server_error_once:
  "length (filter (server_replies cid i) (snd (Server_SendError L ven wr s cid i code d None))) \<le> 1"
  "answerable L ven (wr cid) i \<Longrightarrow> IsErrorCodeValid code \<Longrightarrow>
     length (filter (server_replies cid i) (snd (Server_SendError L ven wr s cid i code d None))) = 1"
  using server_reply.err_filter[where L = L and ven = ven and wr = wr and s = s and c = cid, of i code d]
    SendError_valid(2)[of L ven i code wr cid d s]
  by (auto simp: answerable_def server_replies_def)

lemma server_reply_once:
  "length (filter (server_replies cid i) (fst (serverReply L ven wr s cid et conf err i))) \<le> 1"
  "answerable L ven (wr cid) i \<Longrightarrow>
     length (filter (server_replies cid i) (fst (serverReply L ven wr s cid et conf err i))) = 1"
proof -
  show "length (filter (server_replies cid i) (fst (serverReply L ven wr s cid et conf err i))) \<le> 1"
    unfolding serverReply_def by (rule server_reply.reply_at_most_once)
  show "length (filter (server_replies cid i) (fst (serverReply L ven wr s cid et conf err i))) = 1"
    if "answerable L ven (wr cid) i"
    unfolding serverReply_def using that
    by (intro server_reply.reply_answered Server_handleFailed_one)
      (auto simp: answerable_def SendError_valid server_replies_def dest: send_errors_valid)
qed

end
