(* ===== verification/ChargePoint.thy ===== *)
theory ChargePoint
  imports Facade16
begin

text \<open>
  \<^verbatim>\<open>ocpp1.6/charge_point.go\<close> and \<^verbatim>\<open>NewChargePoint\<close> of \<^verbatim>\<open>ocpp1.6/v16.go\<close>. \<open>L\<close> is the message library,
  \<open>ven\<close> and \<open>wr\<close> are as for the endpoints. Effects are those of the endpoint and the callbacks
  that are invoked.

  The synchronous \<^verbatim>\<open>SendRequest\<close> is two definitions: queueing the request with a callback that
  sends to a channel of its own (numbered \<open>n\<close>), and waiting for that channel or \<^verbatim>\<open>stopC\<close>.
\<close>

datatype callback = AsyncResponse nat | UserCallback nat

datatype cp_event =
    Net "message ep_event"
  | Invoked callback "message option" "goerr option"

record chargePoint =
  cp_client :: "(gotype, message) Client"
  cp_coreHandler :: "appHandler option"
  cp_localAuthListHandler :: "appHandler option"
  cp_firmwareHandler :: "appHandler option"
  cp_reservationHandler :: "appHandler option"
  cp_remoteTriggerHandler :: "appHandler option"
  cp_smartChargingHandler :: "appHandler option"
  cp_confirmationHandler :: "message chan"
  cp_errorHandler :: "goerr chan"
  cp_callbacks :: "callback CallbackQueue"
  cp_stopC :: "unit chan option"
  cp_errC :: "goerr chan option"

section \<open>Construction\<close>

text \<open>
  \<^verbatim>\<open>NewChargePoint\<close>: without an endpoint, a client with an unbounded queue and the six profiles.
  The handlers it registers on the client are the operations below.
\<close>

definition NewChargePoint :: "string \<Rightarrow> (gotype, message) Client option \<Rightarrow> chargePoint go" where
  "NewChargePoint i endpoint =
     bind_go (case endpoint of
         Some c \<Rightarrow> Ret c
       | None \<Rightarrow> bind_go (NewFIFOClientQueue 0) (\<lambda>q.
           NewClient i True (Some (NewDefaultClientDispatcher q)) None profiles16)) (\<lambda>c.
       let c1 = c\<lparr>cl_endpoint := SetDialect V16 (cl_endpoint c)\<rparr>;
           c2 = SetRequestHandler (SetErrorHandler (SetResponseHandler (Client_SetOnRequestCanceled c1)))
       in Ret \<lparr>cp_client = c2, cp_coreHandler = None, cp_localAuthListHandler = None,
               cp_firmwareHandler = None, cp_reservationHandler = None, cp_remoteTriggerHandler = None,
               cp_smartChargingHandler = None, cp_confirmationHandler = make_chan 1,
               cp_errorHandler = make_chan 1, cp_callbacks = New, cp_stopC = None, cp_errC = None\<rparr>)"

definition cp_error :: "goerr \<Rightarrow> chargePoint \<Rightarrow> chargePoint go" where
  "cp_error err cp = bind_go (reportError err (cp_errC cp)) (\<lambda>ch. Ret (cp\<lparr>cp_errC := ch\<rparr>))"

definition onRequestTimeout :: "Error \<Rightarrow> chargePoint \<Rightarrow> chargePoint go" where
  "onRequestTimeout err cp =
     bind_go (chan_send (cp_errorHandler cp) (EOcpp err)) (\<lambda>ch. Ret (cp\<lparr>cp_errorHandler := ch\<rparr>))"

text \<open>The response and error handlers registered on the client.\<close>

definition onResponse :: "message \<Rightarrow> chargePoint \<Rightarrow> chargePoint go" where
  "onResponse confirmation cp =
     bind_go (chan_send (cp_confirmationHandler cp) confirmation)
       (\<lambda>ch. Ret (cp\<lparr>cp_confirmationHandler := ch\<rparr>))"

definition onError :: "Error \<Rightarrow> chargePoint \<Rightarrow> chargePoint go" where
  "onError err cp =
     bind_go (chan_send (cp_errorHandler cp) (EOcpp err)) (\<lambda>ch. Ret (cp\<lparr>cp_errorHandler := ch\<rparr>))"

definition Errors :: "chargePoint \<Rightarrow> chargePoint" where
  "Errors cp = cp\<lparr>cp_errC := errorsChannel (cp_errC cp)\<rparr>"

section \<open>The methods that send one request\<close>

definition BootNotification :: "string \<Rightarrow> string \<Rightarrow> (goval \<Rightarrow> goval) list \<Rightarrow> apiCall" where
  "BootNotification chargePointModel chargePointVendor props =
     \<lparr>api_request = apiRequest (NewBootNotificationRequest chargePointModel chargePointVendor) props,
      api_response = BootNotificationConfirmation\<rparr>"

definition Authorize :: "string \<Rightarrow> (goval \<Rightarrow> goval) list \<Rightarrow> apiCall" where
  "Authorize idTag props =
     \<lparr>api_request = apiRequest (NewAuthorizationRequest idTag) props,
      api_response = AuthorizeConfirmation\<rparr>"

definition cp_DataTransfer :: "string \<Rightarrow> (goval \<Rightarrow> goval) list \<Rightarrow> apiCall" where
  "cp_DataTransfer vendorId props =
     \<lparr>api_request = apiRequest (NewDataTransferRequest vendorId) props,
      api_response = DataTransferConfirmation\<rparr>"

definition Heartbeat :: "(goval \<Rightarrow> goval) list \<Rightarrow> apiCall" where
  "Heartbeat props =
     \<lparr>api_request = apiRequest NewHeartbeatRequest props, api_response = HeartbeatConfirmation\<rparr>"

definition MeterValues :: "int \<Rightarrow> goval \<Rightarrow> (goval \<Rightarrow> goval) list \<Rightarrow> apiCall" where
  "MeterValues connectorId meterValues props =
     \<lparr>api_request = apiRequest (NewMeterValuesRequest connectorId meterValues) props,
      api_response = MeterValuesConfirmation\<rparr>"

definition StartTransaction ::
  "int \<Rightarrow> string \<Rightarrow> int \<Rightarrow> gotime option \<Rightarrow> (goval \<Rightarrow> goval) list \<Rightarrow> apiCall" where
  "StartTransaction connectorId idTag meterStart timestamp props =
     \<lparr>api_request = apiRequest (NewStartTransactionRequest connectorId idTag meterStart timestamp) props,
      api_response = StartTransactionConfirmation\<rparr>"

definition StopTransaction ::
  "int \<Rightarrow> gotime option \<Rightarrow> int \<Rightarrow> (goval \<Rightarrow> goval) list \<Rightarrow> apiCall" where
  "StopTransaction meterStop timestamp transactionId props =
     \<lparr>api_request = apiRequest (NewStopTransactionRequest meterStop timestamp transactionId) props,
      api_response = StopTransactionConfirmation\<rparr>"

definition StatusNotification :: "int \<Rightarrow> string \<Rightarrow> string \<Rightarrow> (goval \<Rightarrow> goval) list \<Rightarrow> apiCall" where
  "StatusNotification connectorId errorCode status props =
     \<lparr>api_request = apiRequest (NewStatusNotificationRequest connectorId errorCode status) props,
      api_response = StatusNotificationConfirmation\<rparr>"

definition DiagnosticsStatusNotification :: "string \<Rightarrow> (goval \<Rightarrow> goval) list \<Rightarrow> apiCall" where
  "DiagnosticsStatusNotification status props =
     \<lparr>api_request = apiRequest (NewDiagnosticsStatusNotificationRequest status) props,
      api_response = DiagnosticsStatusNotificationConfirmation\<rparr>"

definition FirmwareStatusNotification :: "string \<Rightarrow> (goval \<Rightarrow> goval) list \<Rightarrow> apiCall" where
  "FirmwareStatusNotification status props =
     \<lparr>api_request = apiRequest (NewFirmwareStatusNotificationRequest status) props,
      api_response = FirmwareStatusNotificationConfirmation\<rparr>"

section \<open>Registering handlers\<close>

definition SetCoreHandler :: "appHandler \<Rightarrow> chargePoint \<Rightarrow> chargePoint" where
  "SetCoreHandler handler cp = cp\<lparr>cp_coreHandler := Some handler\<rparr>"

definition SetLocalAuthListHandler :: "appHandler \<Rightarrow> chargePoint \<Rightarrow> chargePoint" where
  "SetLocalAuthListHandler handler cp = cp\<lparr>cp_localAuthListHandler := Some handler\<rparr>"

definition SetFirmwareManagementHandler :: "appHandler \<Rightarrow> chargePoint \<Rightarrow> chargePoint" where
  "SetFirmwareManagementHandler handler cp = cp\<lparr>cp_firmwareHandler := Some handler\<rparr>"

definition SetReservationHandler :: "appHandler \<Rightarrow> chargePoint \<Rightarrow> chargePoint" where
  "SetReservationHandler handler cp = cp\<lparr>cp_reservationHandler := Some handler\<rparr>"

definition SetRemoteTriggerHandler :: "appHandler \<Rightarrow> chargePoint \<Rightarrow> chargePoint" where
  "SetRemoteTriggerHandler handler cp = cp\<lparr>cp_remoteTriggerHandler := Some handler\<rparr>"

definition SetSmartChargingHandler :: "appHandler \<Rightarrow> chargePoint \<Rightarrow> chargePoint" where
  "SetSmartChargingHandler handler cp = cp\<lparr>cp_smartChargingHandler := Some handler\<rparr>"

section \<open>Sending requests\<close>

definition cp_queueRequest ::
  "(gotype, message) lib \<Rightarrow> bool \<Rightarrow> string \<Rightarrow> callback \<Rightarrow> message \<Rightarrow> chargePoint \<Rightarrow>
   (goerr option \<times> chargePoint) go" where
  "cp_queueRequest L ven uid cb request cp =
     bind_go (tryQueueGo ''main'' (Client_SendRequest L ven uid request) cb (cp_client cp) (cp_callbacks cp))
       (\<lambda>(err, c, cq). Ret (err, cp\<lparr>cp_client := c, cp_callbacks := cq\<rparr>))"

definition cp_unsupported :: "string \<Rightarrow> goerr" where
  "cp_unsupported name = EPlain (''feature '' @ name @
     '' is unsupported on charge point (missing profile), cannot send request'')"

definition cp_SendRequest ::
  "(gotype, message) lib \<Rightarrow> bool \<Rightarrow> string \<Rightarrow> nat \<Rightarrow> message \<Rightarrow> chargePoint \<Rightarrow>
   (goerr option \<times> chargePoint) go" where
  "cp_SendRequest L ven uid n request cp =
     (case GetProfileForFeature (cl_endpoint (cp_client cp)) (featureName L request) of
        None \<Rightarrow> Ret (Some (cp_unsupported (featureName L request)), cp)
      | Some _ \<Rightarrow> cp_queueRequest L ven uid (AsyncResponse n) request cp)"

text \<open>
  The \<^verbatim>\<open>select\<close> that waits for the result. \<open>async\<close> is the channel of the call, which its callback
  sends to; \<open>stopped\<close> says which ready case is taken.
\<close>

definition cp_awaitResponse ::
  "(gotype, message) lib \<Rightarrow> bool \<Rightarrow> message \<Rightarrow> (message option \<times> goerr option) chan \<Rightarrow> chargePoint \<Rightarrow>
   (message option \<times> goerr option) go" where
  "cp_awaitResponse L stopped request async cp =
     (if stopped then
        (case cp_stopC cp of
           Some ch \<Rightarrow> if chan_closed ch \<or> chan_buf ch \<noteq> [] then
             Ret (None, Some (EPlain (''client stopped while waiting for response to '' @ featureName L request)))
             else Block
         | None \<Rightarrow> Block)
      else bind_go (chan_recv async) (\<lambda>(r, _). Ret (case r of
        Some res \<Rightarrow> res
      | None \<Rightarrow> (None, Some (EPlain (''internal error while receiving result for '' @
          featureName L request @ '' request''))))))"

text \<open>What a method of the API returns, given what \<^verbatim>\<open>SendRequest\<close> returned.\<close>

definition cp_apiResult ::
  "apiCall \<Rightarrow> message option \<times> goerr option \<Rightarrow> (message option \<times> goerr option) go" where
  "cp_apiResult call res =
     (case res of
        (confirmation, Some err) \<Rightarrow> Ret (None, Some err)
      | (confirmation, None) \<Rightarrow> bind_go (assertType (api_response call) confirmation) (\<lambda>m. Ret (Some m, None)))"

definition cp_sendable :: "string list" where
  "cp_sendable = [''Authorize'', ''BootNotification'', ''DataTransfer'', ''Heartbeat'', ''MeterValues'',
     ''StartTransaction'', ''StopTransaction'', ''StatusNotification'', ''DiagnosticsStatusNotification'',
     ''FirmwareStatusNotification'']"

definition cp_SendRequestAsync ::
  "(gotype, message) lib \<Rightarrow> bool \<Rightarrow> string \<Rightarrow> nat \<Rightarrow> message \<Rightarrow> chargePoint \<Rightarrow>
   (goerr option \<times> chargePoint) go" where
  "cp_SendRequestAsync L ven uid k request cp =
     (case GetProfileForFeature (cl_endpoint (cp_client cp)) (featureName L request) of
        None \<Rightarrow> Ret (Some (cp_unsupported (featureName L request)), cp)
      | Some _ \<Rightarrow>
          if featureName L request \<in> set cp_sendable
          then cp_queueRequest L ven uid (UserCallback k) request cp
          else Ret (Some (EPlain (''unsupported action '' @ featureName L request @
                 '' on charge point, cannot send request'')), cp))"

section \<open>The handler of responses\<close>

text \<open>
  One iteration of \<^verbatim>\<open>asyncCallbackHandler\<close>, by the case of the \<^verbatim>\<open>select\<close> that is taken. \<open>False\<close> in the
  result says that the goroutine returns. The channels are never closed, so a receive gives a value.
\<close>

datatype async_case = ConfirmationCase | ErrorCase | StopCase

definition clearCallbacks :: "bool \<Rightarrow> chargePoint \<Rightarrow> (chargePoint \<times> cp_event list) go" where
  "clearCallbacks invokeCallback cp =
     bind_go (drainCallbacks ''main'' (cp_callbacks cp)) (\<lambda>(cbs, cq).
       Ret (cp\<lparr>cp_callbacks := cq\<rparr>,
         if invokeCallback then
           map (\<lambda>cb. Invoked cb None (Some (EOcpp (NewError GenericError
             ''client stopped, no response received from server'' '''')))) cbs
         else []))"

definition asyncCallbackHandler ::
  "(gotype, message) lib \<Rightarrow> async_case \<Rightarrow> chargePoint \<Rightarrow> (bool \<times> chargePoint \<times> cp_event list) go" where
  "asyncCallbackHandler L c cp =
     (case c of
        ConfirmationCase \<Rightarrow>
          (case chan_buf (cp_confirmationHandler cp) of
             [] \<Rightarrow> Block
           | confirmation # rest \<Rightarrow>
               let cp1 = cp\<lparr>cp_confirmationHandler := (cp_confirmationHandler cp)\<lparr>chan_buf := rest\<rparr>\<rparr>
               in bind_go (Dequeue ''main'' (cp_callbacks cp1)) (\<lambda>(cb, cq).
                    let cp2 = cp1\<lparr>cp_callbacks := cq\<rparr>
                    in case cb of
                         Some callback \<Rightarrow> Ret (True, cp2, [Invoked callback (Some confirmation) None])
                       | None \<Rightarrow>
                           bind_go (cp_error (EPlain (''no handler available for incoming response '' @
                             featureName L confirmation)) cp2) (\<lambda>cp3. Ret (True, cp3, []))))
      | ErrorCase \<Rightarrow>
          (case chan_buf (cp_errorHandler cp) of
             [] \<Rightarrow> Block
           | protoError # rest \<Rightarrow>
               let cp1 = cp\<lparr>cp_errorHandler := (cp_errorHandler cp)\<lparr>chan_buf := rest\<rparr>\<rparr>
               in bind_go (Dequeue ''main'' (cp_callbacks cp1)) (\<lambda>(cb, cq).
                    let cp2 = cp1\<lparr>cp_callbacks := cq\<rparr>
                    in case cb of
                         Some callback \<Rightarrow> Ret (True, cp2, [Invoked callback None (Some protoError)])
                       | None \<Rightarrow>
                           bind_go (cp_error (EPlain (''no handler available for error '' @
                             errText L protoError)) cp2) (\<lambda>cp3. Ret (True, cp3, []))))
      | StopCase \<Rightarrow>
          (case cp_stopC cp of
             None \<Rightarrow> Block
           | Some ch \<Rightarrow>
               if chan_closed ch \<or> chan_buf ch \<noteq> []
               then bind_go (clearCallbacks False cp) (\<lambda>(cp', evs). Ret (False, cp', evs))
               else Block))"

section \<open>Start and stop\<close>

text \<open>\<open>True\<close> in the result of \<open>cp_Start\<close> says that the handler of responses was started.\<close>

definition cp_Start ::
  "(string \<Rightarrow> string option) \<Rightarrow> string \<Rightarrow> chargePoint \<Rightarrow> string option \<times> bool \<times> chargePoint" where
  "cp_Start wsStart centralSystemUrl cp =
     (let cp1 = cp\<lparr>cp_stopC := Some (make_chan 1)\<rparr>
      in case Client_Start wsStart centralSystemUrl (cp_client cp1) of
           (err, c) \<Rightarrow> (err, err = None, cp1\<lparr>cp_client := c\<rparr>))"

definition cp_Stop :: "chargePoint \<Rightarrow> chargePoint go" where
  "cp_Stop cp =
     bind_go (Client_Stop (cp_client cp)) (\<lambda>c.
       case cp_stopC cp of
         None \<Rightarrow> Panic ''close of nil channel''
       | Some ch \<Rightarrow>
           bind_go (chan_close ch) (\<lambda>ch'.
             let cp1 = cp\<lparr>cp_client := c, cp_stopC := Some ch'\<rparr>
             in case cp_errC cp1 of
                  None \<Rightarrow> Ret cp1
                | Some e \<Rightarrow> bind_go (chan_close e) (\<lambda>_. Ret (cp1\<lparr>cp_errC := None\<rparr>))))"

section \<open>Incoming requests\<close>

definition cp_replyError ::
  "(gotype, message) lib \<Rightarrow> bool \<Rightarrow> (json \<Rightarrow> string option) \<Rightarrow> string \<Rightarrow> ErrorCode \<Rightarrow> string \<Rightarrow> string \<Rightarrow>
   chargePoint \<Rightarrow> (chargePoint \<times> cp_event list) go" where
  "cp_replyError L ven wr requestId code description notify cp =
     (case Client_SendError L ven wr (cp_client cp) requestId code description None of
        (None, evs) \<Rightarrow> Ret (cp, map Net evs)
      | (Some e, evs) \<Rightarrow>
          bind_go (cp_error (EPlain (''replying cs to request '' @ requestId @ notify @ errText L e)) cp)
            (\<lambda>cp'. Ret (cp', map Net evs)))"

definition cp_notImplementedError ::
  "(gotype, message) lib \<Rightarrow> bool \<Rightarrow> (json \<Rightarrow> string option) \<Rightarrow> string \<Rightarrow> string \<Rightarrow> chargePoint \<Rightarrow>
   (chargePoint \<times> cp_event list) go" where
  "cp_notImplementedError L ven wr requestId action cp =
     cp_replyError L ven wr requestId NotImplemented (''no handler for action '' @ action @ '' implemented'')
       '' with 'not implemented': '' cp"

definition cp_notSupportedError ::
  "(gotype, message) lib \<Rightarrow> bool \<Rightarrow> (json \<Rightarrow> string option) \<Rightarrow> string \<Rightarrow> string \<Rightarrow> chargePoint \<Rightarrow>
   (chargePoint \<times> cp_event list) go" where
  "cp_notSupportedError L ven wr requestId action cp =
     cp_replyError L ven wr requestId NotSupported (''unsupported action '' @ action @ '' on charge point'')
       '' with 'not supported': '' cp"

definition cp_sendResponse ::
  "(gotype, message) lib \<Rightarrow> bool \<Rightarrow> (json \<Rightarrow> string option) \<Rightarrow> message option \<Rightarrow> goerr option \<Rightarrow> string \<Rightarrow>
   chargePoint \<Rightarrow> (chargePoint \<times> cp_event list) go" where
  "cp_sendResponse L ven wr confirmation err requestId cp =
     (let emptyText = ''empty confirmation to request '' @ requestId
      in case clientReply L ven wr (cp_client cp) emptyText confirmation err requestId of
           (evs, None) \<Rightarrow> Ret (cp, map Net evs)
         | (evs, Some e) \<Rightarrow>
             bind_go (cp_error (replyFailed
                 (''replying to request '' @ requestId @ '' with 'internal error' failed: '') emptyText
                 (''failed responding to request '' @ requestId @ '': '') (errText L) confirmation err e) cp)
               (\<lambda>cp'. Ret (cp', map Net evs)))"

text \<open>The switch over the action: the handler, the method it calls and the type of its argument.\<close>

definition cp_actions :: "(string \<times> handlerKind \<times> string \<times> gotype) list" where
  "cp_actions =
     [(''ChangeAvailability'', Core, ''OnChangeAvailability'', ChangeAvailabilityRequest),
      (''ChangeConfiguration'', Core, ''OnChangeConfiguration'', ChangeConfigurationRequest),
      (''ClearCache'', Core, ''OnClearCache'', ClearCacheRequest),
      (''DataTransfer'', Core, ''OnDataTransfer'', DataTransferRequest),
      (''GetConfiguration'', Core, ''OnGetConfiguration'', GetConfigurationRequest),
      (''RemoteStartTransaction'', Core, ''OnRemoteStartTransaction'', RemoteStartTransactionRequest),
      (''RemoteStopTransaction'', Core, ''OnRemoteStopTransaction'', RemoteStopTransactionRequest),
      (''Reset'', Core, ''OnReset'', ResetRequest),
      (''UnlockConnector'', Core, ''OnUnlockConnector'', UnlockConnectorRequest),
      (''GetLocalListVersion'', LocalAuthList, ''OnGetLocalListVersion'', GetLocalListVersionRequest),
      (''SendLocalList'', LocalAuthList, ''OnSendLocalList'', SendLocalListRequest),
      (''GetDiagnostics'', Firmware, ''OnGetDiagnostics'', GetDiagnosticsRequest),
      (''UpdateFirmware'', Firmware, ''OnUpdateFirmware'', UpdateFirmwareRequest),
      (''ReserveNow'', Reservation, ''OnReserveNow'', ReserveNowRequest),
      (''CancelReservation'', Reservation, ''OnCancelReservation'', CancelReservationRequest),
      (''TriggerMessage'', RemoteTrigger, ''OnTriggerMessage'', TriggerMessageRequest),
      (''SetChargingProfile'', SmartCharging, ''OnSetChargingProfile'', SetChargingProfileRequest),
      (''ClearChargingProfile'', SmartCharging, ''OnClearChargingProfile'', ClearChargingProfileRequest),
      (''GetCompositeSchedule'', SmartCharging, ''OnGetCompositeSchedule'', GetCompositeScheduleRequest)]"

fun cp_handler :: "handlerKind \<Rightarrow> chargePoint \<Rightarrow> appHandler option" where
  "cp_handler Core cp = cp_coreHandler cp"
| "cp_handler LocalAuthList cp = cp_localAuthListHandler cp"
| "cp_handler Firmware cp = cp_firmwareHandler cp"
| "cp_handler Reservation cp = cp_reservationHandler cp"
| "cp_handler RemoteTrigger cp = cp_remoteTriggerHandler cp"
| "cp_handler SmartCharging cp = cp_smartChargingHandler cp"

definition cp_processRequest ::
  "(gotype, message) lib \<Rightarrow> bool \<Rightarrow> (json \<Rightarrow> string option) \<Rightarrow> message \<Rightarrow> string \<Rightarrow> string \<Rightarrow>
   chargePoint \<Rightarrow> (chargePoint \<times> cp_event list) go" where
  "cp_processRequest L ven wr request requestId action cp =
     (case map_of cp_actions action of
        None \<Rightarrow> cp_notSupportedError L ven wr requestId action cp
      | Some (kind, method, argType) \<Rightarrow>
          (case cp_handler kind cp of
             None \<Rightarrow> Panic ''nil pointer dereference''
           | Some h \<Rightarrow>
               bind_go (assertType argType (Some request)) (\<lambda>req.
                 case h method req of
                   (confirmation, err) \<Rightarrow> cp_sendResponse L ven wr confirmation err requestId cp)))"

definition cp_handleIncomingRequest ::
  "(gotype, message) lib \<Rightarrow> bool \<Rightarrow> (json \<Rightarrow> string option) \<Rightarrow> message \<Rightarrow> string \<Rightarrow> string \<Rightarrow>
   chargePoint \<Rightarrow> (chargePoint \<times> cp_event list) go" where
  "cp_handleIncomingRequest L ven wr request requestId action cp =
     (case GetProfileForFeature (cl_endpoint (cp_client cp)) action of
        None \<Rightarrow> cp_notImplementedError L ven wr requestId action cp
      | Some profile \<Rightarrow>
          (case profileKind (Name profile) of
             Some kind \<Rightarrow>
               (case cp_handler kind cp of
                  None \<Rightarrow> cp_notSupportedError L ven wr requestId action cp
                | Some _ \<Rightarrow> cp_processRequest L ven wr request requestId action cp)
           | None \<Rightarrow> cp_processRequest L ven wr request requestId action cp))"

section \<open>Every request is answered\<close>

definition cp_replies :: "string \<Rightarrow> cp_event \<Rightarrow> bool" where
  "cp_replies i ev = (case ev of Net e \<Rightarrow> replies i e | _ \<Rightarrow> False)"

lemma filter_Net [simp]: "filter (cp_replies i) (map Net evs) = map Net (filter (replies i) evs)"
  by (induction evs) (simp_all add: cp_replies_def)

lemma cp_replyError_replies:
  assumes "cp_replyError L ven wr i code d notify cp = Ret (cp', evs)"
  shows "length (filter (cp_replies i) evs) \<le> 1"
    and "answerable L ven wr i \<Longrightarrow> IsErrorCodeValid code \<Longrightarrow> length (filter (cp_replies i) evs) = 1"
proof -
  have evs: "evs = map Net (snd (Client_SendError L ven wr (cp_client cp) i code d None))"
    using assms by (auto simp: cp_replyError_def split: option.splits prod.splits)
  show "length (filter (cp_replies i) evs) \<le> 1"
    "answerable L ven wr i \<Longrightarrow> IsErrorCodeValid code \<Longrightarrow> length (filter (cp_replies i) evs) = 1"
    using client_error_once[where i = i and L = L and ven = ven and wr = wr and c = "cp_client cp" and code = code and d = d] evs by simp_all
qed

lemma cp_sendResponse_replies:
  assumes "cp_sendResponse L ven wr conf err i cp = Ret (cp', evs)"
  shows "length (filter (cp_replies i) evs) \<le> 1"
    and "answerable L ven wr i \<Longrightarrow> length (filter (cp_replies i) evs) = 1"
proof -
  have evs: "evs = map Net (fst (clientReply L ven wr (cp_client cp) (''empty confirmation to request '' @ i) conf err i))"
    using assms by (auto simp: cp_sendResponse_def clientReply_def Let_def split: option.splits prod.splits)
  show "length (filter (cp_replies i) evs) \<le> 1"
    "answerable L ven wr i \<Longrightarrow> length (filter (cp_replies i) evs) = 1"
    using client_reply_once[where i = i and L = L and ven = ven and wr = wr and c = "cp_client cp" and et = "''empty confirmation to request '' @ i"
        and conf = conf and err = err] evs by simp_all
qed

lemma cp_processRequest_replies:
  assumes "cp_processRequest L ven wr request i action cp = Ret (cp', evs)"
  shows "length (filter (cp_replies i) evs) \<le> 1 \<and>
    (answerable L ven wr i \<longrightarrow> length (filter (cp_replies i) evs) = 1)"
proof (cases "map_of cp_actions action")
  case None
  with assms cp_replyError_replies show ?thesis
    by (auto simp: cp_processRequest_def cp_notSupportedError_def)
next
  case (Some a)
  obtain kind meth argType where a: "a = (kind, meth, argType)" by (cases a)
  obtain h where h: "cp_handler kind cp = Some h"
    using assms Some a by (auto simp: cp_processRequest_def split: option.splits)
  obtain conf err where r: "h meth request = (conf, err)" by (cases "h meth request")
  have "cp_sendResponse L ven wr conf err i cp = Ret (cp', evs)"
    using assms Some a h r by (auto simp: cp_processRequest_def assertType_def split: if_splits)
  then show ?thesis using cp_sendResponse_replies by blast
qed

text \<open>
  C28: The charge point answers every request it handles at most once. Over a network that
  delivers, and with a validator that accepts errors with valid codes, it answers exactly once:
  whether the action is unknown, its profile has no handler, or the application's handler returns
  a confirmation, nothing, an error, or a confirmation that cannot be encoded or is invalid.
\<close>

theorem cp_answers_once:
  assumes "cp_handleIncomingRequest L ven wr request i action cp = Ret (cp', evs)"
  shows "length (filter (cp_replies i) evs) \<le> 1 \<and>
    (answerable L ven wr i \<longrightarrow> length (filter (cp_replies i) evs) = 1)"
  using assms cp_processRequest_replies[of L ven wr request i action cp cp' evs]
  by (auto simp: cp_handleIncomingRequest_def cp_notImplementedError_def cp_notSupportedError_def
      dest: cp_replyError_replies split: option.splits)

definition demo_lib :: "(gotype, message) lib" where
  "demo_lib = lib16 demo_parse (\<lambda>_. []) (\<lambda>_. '''')"

definition demo_cp :: chargePoint where
  "demo_cp = SetCoreHandler (\<lambda>m req. (Some (NewClearCacheConfirmation ''Accepted''), None))
     \<lparr>cp_client = client16, cp_coreHandler = None, cp_localAuthListHandler = None,
      cp_firmwareHandler = None, cp_reservationHandler = None, cp_remoteTriggerHandler = None,
      cp_smartChargingHandler = None, cp_confirmationHandler = make_chan 1,
      cp_errorHandler = make_chan 1, cp_callbacks = New, cp_stopC = None, cp_errC = None\<rparr>"

lemma demo_answerable: "answerable demo_lib ven (\<lambda>_. None) i"
  by (simp add: answerable_def accepts_errors_def CreateCallError_def demo_lib_def lib16_def Let_def)

theorem cp_answers_once_witness:
  "\<exists>cp' evs. cp_handleIncomingRequest demo_lib True (\<lambda>_. None) NewClearCacheRequest ''7'' ''ClearCache'' demo_cp =
     Ret (cp', evs) \<and> length (filter (cp_replies ''7'') evs) = 1"
proof -
  have "case cp_handleIncomingRequest demo_lib True (\<lambda>_. None) NewClearCacheRequest ''7'' ''ClearCache'' demo_cp of
      Ret r \<Rightarrow> True | _ \<Rightarrow> False"
    by code_simp
  then obtain cp' evs where h: "cp_handleIncomingRequest demo_lib True (\<lambda>_. None) NewClearCacheRequest ''7''
      ''ClearCache'' demo_cp = Ret (cp', evs)"
    by (auto split: go.splits)
  with cp_answers_once[OF h] demo_answerable show ?thesis by blast
qed

section \<open>The parts together\<close>

text \<open>
  What the handlers that \<^verbatim>\<open>NewChargePoint\<close> registers do with the effects of the client's message
  handler and of the dispatcher's pump. Both run in the goroutine that caused the effect.
\<close>

definition cp_deliver ::
  "(gotype, message) lib \<Rightarrow> bool \<Rightarrow> (json \<Rightarrow> string option) \<Rightarrow> message ep_event \<Rightarrow> chargePoint \<Rightarrow>
   (chargePoint \<times> cp_event list) go" where
  "cp_deliver L ven wr ev cp =
     (case ev of
        GotResponse v i \<Rightarrow> bind_go (onResponse v cp) (\<lambda>cp'. Ret (cp', []))
      | GotError e details \<Rightarrow> bind_go (onError e cp) (\<lambda>cp'. Ret (cp', []))
      | GotRequest v i action \<Rightarrow> cp_handleIncomingRequest L ven wr v i action cp
      | _ \<Rightarrow> Ret (cp, [Net ev]))"

fun cp_deliverAll ::
  "(gotype, message) lib \<Rightarrow> bool \<Rightarrow> (json \<Rightarrow> string option) \<Rightarrow> message ep_event list \<Rightarrow> chargePoint \<Rightarrow>
   (chargePoint \<times> cp_event list) go" where
  "cp_deliverAll L ven wr [] cp = Ret (cp, [])"
| "cp_deliverAll L ven wr (ev # evs) cp =
     bind_go (cp_deliver L ven wr ev cp) (\<lambda>(cp', es).
       bind_go (cp_deliverAll L ven wr evs cp') (\<lambda>(cp'', es'). Ret (cp'', es @ es')))"

definition cp_receive ::
  "(gotype, message) lib \<Rightarrow> bool \<Rightarrow> (json \<Rightarrow> string option) \<Rightarrow> json \<Rightarrow> chargePoint \<Rightarrow>
   (chargePoint \<times> cp_event list) go" where
  "cp_receive L ven wr raw cp =
     bind_go (Client_ocppMessageHandler L ven wr raw (cp_client cp)) (\<lambda>(err, c, evs).
       cp_deliverAll L ven wr evs (cp\<lparr>cp_client := c\<rparr>))"

fun cp_canceled :: "message cd_event list \<Rightarrow> chargePoint \<Rightarrow> chargePoint go" where
  "cp_canceled [] cp = Ret cp"
| "cp_canceled (Canceled i r e # evs) cp = bind_go (onRequestTimeout e cp) (cp_canceled evs)"
| "cp_canceled (_ # evs) cp = cp_canceled evs cp"

definition cp_pump ::
  "(json \<Rightarrow> string option) \<Rightarrow> pump_case \<Rightarrow> bool \<Rightarrow> chargePoint \<Rightarrow> (bool option \<times> chargePoint) go" where
  "cp_pump wr pc rdy cp =
     bind_go (pumpIteration wr pc rdy (cl_dispatcher (cp_client cp))) (\<lambda>(rdy', d, evs).
       bind_go (cp_canceled evs (cp\<lparr>cp_client := (cp_client cp)\<lparr>cl_dispatcher := d\<rparr>\<rparr>)) (\<lambda>cp'.
         Ret (rdy', cp')))"

text \<open>A schedule of the charge point's goroutines; the flag is the pump's \<^verbatim>\<open>rdy\<close>.\<close>

datatype cp_move =
    CpSend string nat message
  | CpPump pump_case
  | CpExpire
  | CpReceive json
  | CpHandle async_case

fun cp_make :: "(gotype, message) lib \<Rightarrow> cp_move \<Rightarrow> bool \<times> chargePoint \<Rightarrow>
    ((bool \<times> chargePoint) \<times> cp_event list) go" where
  "cp_make L (CpSend uid n request) (rdy, cp) =
     bind_go (cp_SendRequest L True uid n request cp) (\<lambda>(err, cp'). Ret ((rdy, cp'), []))"
| "cp_make L (CpPump pc) (rdy, cp) =
     bind_go (cp_pump (\<lambda>_. None) pc rdy cp) (\<lambda>(rdy', cp').
       Ret ((case rdy' of Some r \<Rightarrow> r | None \<Rightarrow> rdy, cp'), []))"
| "cp_make L CpExpire (rdy, cp) =
     (let c = cp_client cp; d = cl_dispatcher c
      in Ret ((rdy, cp\<lparr>cp_client := c\<lparr>cl_dispatcher := d\<lparr>timer := map_option timer_fire (timer d)\<rparr>\<rparr>\<rparr>), []))"
| "cp_make L (CpReceive raw) (rdy, cp) =
     bind_go (cp_receive L True (\<lambda>_. None) raw cp) (\<lambda>(cp', evs). Ret ((rdy, cp'), evs))"
| "cp_make L (CpHandle c) (rdy, cp) =
     bind_go (asyncCallbackHandler L c cp) (\<lambda>(alive, cp', evs). Ret ((rdy, cp'), evs))"

fun cp_moves :: "(gotype, message) lib \<Rightarrow> cp_move list \<Rightarrow> bool \<times> chargePoint \<Rightarrow>
    ((bool \<times> chargePoint) \<times> cp_event list) go" where
  "cp_moves L [] s = Ret (s, [])"
| "cp_moves L (m # ms) s =
     bind_go (cp_make L m s) (\<lambda>(s', evs). bind_go (cp_moves L ms s') (\<lambda>(s'', evs'). Ret (s'', evs @ evs')))"

lemma go_case_Ret:
  "(case m of Ret (s, evs) \<Rightarrow> P s evs | _ \<Rightarrow> False) \<Longrightarrow> \<exists>s evs. m = Ret (s, evs) \<and> P s evs"
  by (auto split: go.splits)

definition swap_run :: "((bool \<times> chargePoint) \<times> cp_event list) go" where
  "swap_run =
     bind_go (NewChargePoint ''cp1'' None) (\<lambda>cp.
       case cp_Start (\<lambda>_. None) ''ws://csms'' cp of (err, started, cp1) \<Rightarrow>
         cp_moves demo_lib
           [CpSend ''1'' 0 (api_request (BootNotification ''m'' ''v'' [])), CpPump RequestCase,
            CpSend ''2'' 1 (api_request (Heartbeat [])), CpPump RequestCase,
            CpExpire, CpPump TimerCase, CpPump ReadyCase,
            CpReceive (JArr [JNum 3 0, JStr ''2'', JObj [(''currentTime'', JStr ''2023-11-14T22:13:20Z'')]]),
            CpHandle ConfirmationCase] (True, cp1))"

text \<open>
  C29: A charge point may hand a response to the wrong caller. Responses and errors reach
  \<^verbatim>\<open>asyncCallbackHandler\<close> through two channels, and it takes the oldest callback for whichever it
  reads first. Here a boot notification times out, a heartbeat is answered, and the handler reads
  the response before the timeout: the caller of \<^verbatim>\<open>BootNotification\<close> gets the response to the
  heartbeat, on which its type assertion panics.
\<close>

theorem cp_responses_swapped:
  "\<exists>s. swap_run = Ret (s, [Invoked (AsyncResponse 0) (Some (NewHeartbeatConfirmation (Some demo_time))) None]) \<and>
     chan_buf (cp_errorHandler (snd s)) = [EOcpp (NewError GenericError ''Request timed out'' ''1'')] \<and>
     cp_apiResult (BootNotification ''m'' ''v'' []) (Some (NewHeartbeatConfirmation (Some demo_time)), None) =
       Panic ''interface conversion''"
proof -
  have run: "case swap_run of
      Ret (s, evs) \<Rightarrow> evs = [Invoked (AsyncResponse 0) (Some (NewHeartbeatConfirmation (Some demo_time))) None] \<and>
        chan_buf (cp_errorHandler (snd s)) = [EOcpp (NewError GenericError ''Request timed out'' ''1'')]
    | _ \<Rightarrow> False"
    by code_simp
  have api: "cp_apiResult (BootNotification ''m'' ''v'' [])
      (Some (NewHeartbeatConfirmation (Some demo_time)), None) = Panic ''interface conversion''"
    by code_simp
  from go_case_Ret[OF run] api show ?thesis by blast
qed

end
