(* ===== verification/CentralSystem.thy ===== *)
theory CentralSystem
  imports ChargePoint
begin

text \<open>
  \<^verbatim>\<open>ocpp1.6/central_system.go\<close> and \<^verbatim>\<open>NewCentralSystem\<close> of \<^verbatim>\<open>ocpp1.6/v16.go\<close>: the central system over the
  server endpoint, with one queue of callbacks per charge point. \<open>L\<close>, \<open>ven\<close> and \<open>wr\<close> are as for
  the endpoints. A goroutine that a handler starts is run when it is started.
\<close>

text \<open>
  A callback is known by a number. The methods of the API wrap the callback of the application in
  one that asserts the type of the confirmation.
\<close>

datatype cs_callback = CsCallback nat "gotype option"

datatype cs_event =
    SNet "message sv_event"
  | SInvoked string nat "message option" "goerr option"

type_synonym csHandler = "string \<Rightarrow> appHandler"

record centralSystem =
  cs_server :: "(gotype, message) Server"
  cs_coreHandler :: "csHandler option"
  cs_localAuthListHandler :: "csHandler option"
  cs_firmwareHandler :: "csHandler option"
  cs_reservationHandler :: "csHandler option"
  cs_remoteTriggerHandler :: "csHandler option"
  cs_smartChargingHandler :: "csHandler option"
  cs_callbackQueue :: "cs_callback CallbackQueue"
  cs_errC :: "goerr chan option"

section \<open>Construction\<close>

definition newCentralSystem :: "(gotype, message) Server option \<Rightarrow> centralSystem go" where
  "newCentralSystem server =
     (case server of
        None \<Rightarrow> Panic ''server must not be nil''
      | Some s \<Rightarrow>
          Ret \<lparr>cs_server = s\<lparr>sv_endpoint := SetDialect V16 (sv_endpoint s)\<rparr>, cs_coreHandler = None,
               cs_localAuthListHandler = None, cs_firmwareHandler = None, cs_reservationHandler = None,
               cs_remoteTriggerHandler = None, cs_smartChargingHandler = None,
               cs_callbackQueue = New, cs_errC = None\<rparr>)"

text \<open>The handlers that \<^verbatim>\<open>NewCentralSystem\<close> registers on the server are the operations below.\<close>

definition NewCentralSystem :: "(gotype, message) Server option \<Rightarrow> centralSystem go" where
  "NewCentralSystem endpoint =
     bind_go (newCentralSystem (Some (case endpoint of
         None \<Rightarrow> NewServer None None profiles16
       | Some s \<Rightarrow> s))) (\<lambda>cs.
       Ret (cs\<lparr>cs_server := SetCanceledRequestHandler (Server_SetErrorHandler
                (Server_SetResponseHandler (Server_SetRequestHandler (cs_server cs))))\<rparr>))"

definition cs_error :: "goerr \<Rightarrow> centralSystem \<Rightarrow> centralSystem go" where
  "cs_error err cs = bind_go (reportError err (cs_errC cs)) (\<lambda>ch. Ret (cs\<lparr>cs_errC := ch\<rparr>))"

definition cs_Errors :: "centralSystem \<Rightarrow> centralSystem" where
  "cs_Errors cs = cs\<lparr>cs_errC := errorsChannel (cs_errC cs)\<rparr>"

section \<open>The methods that send one request\<close>

definition ChangeAvailability :: "int \<Rightarrow> string \<Rightarrow> (goval \<Rightarrow> goval) list \<Rightarrow> apiCall" where
  "ChangeAvailability connectorId availabilityType props =
     \<lparr>api_request = apiRequest (NewChangeAvailabilityRequest connectorId availabilityType) props,
      api_response = ChangeAvailabilityConfirmation\<rparr>"

definition ChangeConfiguration :: "string \<Rightarrow> string \<Rightarrow> (goval \<Rightarrow> goval) list \<Rightarrow> apiCall" where
  "ChangeConfiguration key val props =
     \<lparr>api_request = apiRequest (NewChangeConfigurationRequest key val) props,
      api_response = ChangeConfigurationConfirmation\<rparr>"

definition ClearCache :: "(goval \<Rightarrow> goval) list \<Rightarrow> apiCall" where
  "ClearCache props =
     \<lparr>api_request = apiRequest NewClearCacheRequest props,
      api_response = ClearCacheConfirmation\<rparr>"

definition cs_DataTransfer :: "string \<Rightarrow> (goval \<Rightarrow> goval) list \<Rightarrow> apiCall" where
  "cs_DataTransfer vendorId props =
     \<lparr>api_request = apiRequest (NewDataTransferRequest vendorId) props,
      api_response = DataTransferConfirmation\<rparr>"

definition GetConfiguration :: "goval \<Rightarrow> (goval \<Rightarrow> goval) list \<Rightarrow> apiCall" where
  "GetConfiguration keys props =
     \<lparr>api_request = apiRequest (NewGetConfigurationRequest keys) props,
      api_response = GetConfigurationConfirmation\<rparr>"

definition RemoteStartTransaction :: "string \<Rightarrow> (goval \<Rightarrow> goval) list \<Rightarrow> apiCall" where
  "RemoteStartTransaction idTag props =
     \<lparr>api_request = apiRequest (NewRemoteStartTransactionRequest idTag) props,
      api_response = RemoteStartTransactionConfirmation\<rparr>"

definition RemoteStopTransaction :: "int \<Rightarrow> (goval \<Rightarrow> goval) list \<Rightarrow> apiCall" where
  "RemoteStopTransaction transactionId props =
     \<lparr>api_request = apiRequest (NewRemoteStopTransactionRequest transactionId) props,
      api_response = RemoteStopTransactionConfirmation\<rparr>"

definition Reset :: "string \<Rightarrow> (goval \<Rightarrow> goval) list \<Rightarrow> apiCall" where
  "Reset resetType props =
     \<lparr>api_request = apiRequest (NewResetRequest resetType) props,
      api_response = ResetConfirmation\<rparr>"

definition UnlockConnector :: "int \<Rightarrow> (goval \<Rightarrow> goval) list \<Rightarrow> apiCall" where
  "UnlockConnector connectorId props =
     \<lparr>api_request = apiRequest (NewUnlockConnectorRequest connectorId) props,
      api_response = UnlockConnectorConfirmation\<rparr>"

definition GetLocalListVersion :: "(goval \<Rightarrow> goval) list \<Rightarrow> apiCall" where
  "GetLocalListVersion props =
     \<lparr>api_request = apiRequest NewGetLocalListVersionRequest props,
      api_response = GetLocalListVersionConfirmation\<rparr>"

definition SendLocalList :: "int \<Rightarrow> string \<Rightarrow> (goval \<Rightarrow> goval) list \<Rightarrow> apiCall" where
  "SendLocalList version updateType props =
     \<lparr>api_request = apiRequest (NewSendLocalListRequest version updateType) props,
      api_response = SendLocalListConfirmation\<rparr>"

definition GetDiagnostics :: "string \<Rightarrow> (goval \<Rightarrow> goval) list \<Rightarrow> apiCall" where
  "GetDiagnostics location props =
     \<lparr>api_request = apiRequest (NewGetDiagnosticsRequest location) props,
      api_response = GetDiagnosticsConfirmation\<rparr>"

definition UpdateFirmware :: "string \<Rightarrow> gotime option \<Rightarrow> (goval \<Rightarrow> goval) list \<Rightarrow> apiCall" where
  "UpdateFirmware location retrieveDate props =
     \<lparr>api_request = apiRequest (NewUpdateFirmwareRequest location retrieveDate) props,
      api_response = UpdateFirmwareConfirmation\<rparr>"

definition ReserveNow :: "int \<Rightarrow> gotime option \<Rightarrow> string \<Rightarrow> int \<Rightarrow> (goval \<Rightarrow> goval) list \<Rightarrow> apiCall" where
  "ReserveNow connectorId expiryDate idTag reservationId props =
     \<lparr>api_request = apiRequest (NewReserveNowRequest connectorId expiryDate idTag reservationId) props,
      api_response = ReserveNowConfirmation\<rparr>"

definition CancelReservation :: "int \<Rightarrow> (goval \<Rightarrow> goval) list \<Rightarrow> apiCall" where
  "CancelReservation reservationId props =
     \<lparr>api_request = apiRequest (NewCancelReservationRequest reservationId) props,
      api_response = CancelReservationConfirmation\<rparr>"

definition TriggerMessage :: "string \<Rightarrow> (goval \<Rightarrow> goval) list \<Rightarrow> apiCall" where
  "TriggerMessage requestedMessage props =
     \<lparr>api_request = apiRequest (NewTriggerMessageRequest requestedMessage) props,
      api_response = TriggerMessageConfirmation\<rparr>"

definition SetChargingProfile :: "int \<Rightarrow> goval \<Rightarrow> (goval \<Rightarrow> goval) list \<Rightarrow> apiCall" where
  "SetChargingProfile connectorId chargingProfile props =
     \<lparr>api_request = apiRequest (NewSetChargingProfileRequest connectorId chargingProfile) props,
      api_response = SetChargingProfileConfirmation\<rparr>"

definition ClearChargingProfile :: "(goval \<Rightarrow> goval) list \<Rightarrow> apiCall" where
  "ClearChargingProfile props =
     \<lparr>api_request = apiRequest NewClearChargingProfileRequest props,
      api_response = ClearChargingProfileConfirmation\<rparr>"

definition GetCompositeSchedule :: "int \<Rightarrow> int \<Rightarrow> (goval \<Rightarrow> goval) list \<Rightarrow> apiCall" where
  "GetCompositeSchedule connectorId duration props =
     \<lparr>api_request = apiRequest (NewGetCompositeScheduleRequest connectorId duration) props,
      api_response = GetCompositeScheduleConfirmation\<rparr>"

section \<open>Registering handlers\<close>

definition cs_SetCoreHandler :: "csHandler \<Rightarrow> centralSystem \<Rightarrow> centralSystem" where
  "cs_SetCoreHandler handler cs = cs\<lparr>cs_coreHandler := Some handler\<rparr>"

definition cs_SetLocalAuthListHandler :: "csHandler \<Rightarrow> centralSystem \<Rightarrow> centralSystem" where
  "cs_SetLocalAuthListHandler handler cs = cs\<lparr>cs_localAuthListHandler := Some handler\<rparr>"

definition cs_SetFirmwareManagementHandler :: "csHandler \<Rightarrow> centralSystem \<Rightarrow> centralSystem" where
  "cs_SetFirmwareManagementHandler handler cs = cs\<lparr>cs_firmwareHandler := Some handler\<rparr>"

definition cs_SetReservationHandler :: "csHandler \<Rightarrow> centralSystem \<Rightarrow> centralSystem" where
  "cs_SetReservationHandler handler cs = cs\<lparr>cs_reservationHandler := Some handler\<rparr>"

definition cs_SetRemoteTriggerHandler :: "csHandler \<Rightarrow> centralSystem \<Rightarrow> centralSystem" where
  "cs_SetRemoteTriggerHandler handler cs = cs\<lparr>cs_remoteTriggerHandler := Some handler\<rparr>"

definition cs_SetSmartChargingHandler :: "csHandler \<Rightarrow> centralSystem \<Rightarrow> centralSystem" where
  "cs_SetSmartChargingHandler handler cs = cs\<lparr>cs_smartChargingHandler := Some handler\<rparr>"

definition SetNewChargePointHandler :: "centralSystem \<Rightarrow> centralSystem" where
  "SetNewChargePointHandler cs = cs\<lparr>cs_server := SetNewClientHandler (cs_server cs)\<rparr>"

text \<open>What the handler does when it is called is \<open>cs_disconnected\<close> below.\<close>

definition SetChargePointDisconnectedHandler :: "centralSystem \<Rightarrow> centralSystem" where
  "SetChargePointDisconnectedHandler cs =
     cs\<lparr>cs_server := SetDisconnectedClientHandler (cs_server cs)\<rparr>"

section \<open>Sending requests\<close>

definition cs_sendable :: "string list" where
  "cs_sendable = [''ChangeAvailability'', ''ChangeConfiguration'', ''ClearCache'', ''DataTransfer'',
     ''GetConfiguration'', ''RemoteStartTransaction'', ''RemoteStopTransaction'', ''Reset'',
     ''UnlockConnector'', ''GetLocalListVersion'', ''SendLocalList'', ''GetDiagnostics'',
     ''UpdateFirmware'', ''ReserveNow'', ''CancelReservation'', ''TriggerMessage'',
     ''SetChargingProfile'', ''ClearChargingProfile'', ''GetCompositeSchedule'']"

definition cs_SendRequestAsync ::
  "(gotype, message) lib \<Rightarrow> bool \<Rightarrow> string \<Rightarrow> string \<Rightarrow> message \<Rightarrow> cs_callback \<Rightarrow> centralSystem \<Rightarrow>
   (goerr option \<times> centralSystem) go" where
  "cs_SendRequestAsync L ven uid clientId request cb cs =
     (case GetProfileForFeature (sv_endpoint (cs_server cs)) (featureName L request) of
        None \<Rightarrow> Ret (Some (EPlain (''feature '' @ featureName L request @
          '' is unsupported on central system (missing profile), cannot send request'')), cs)
      | Some _ \<Rightarrow>
          if featureName L request \<in> set cs_sendable
          then bind_go (tryQueueGo clientId (Server_SendRequest L ven uid clientId request) cb
                          (cs_server cs) (cs_callbackQueue cs))
                 (\<lambda>(err, s, cq). Ret (err, cs\<lparr>cs_server := s, cs_callbackQueue := cq\<rparr>))
          else Ret (Some (EPlain (''unsupported action '' @ featureName L request @
                 '' on central system, cannot send request'')), cs))"

text \<open>A method of the API; \<open>k\<close> is the callback of the application.\<close>

definition cs_call ::
  "(gotype, message) lib \<Rightarrow> bool \<Rightarrow> string \<Rightarrow> string \<Rightarrow> nat \<Rightarrow> apiCall \<Rightarrow> centralSystem \<Rightarrow>
   (goerr option \<times> centralSystem) go" where
  "cs_call L ven uid clientId k call cs =
     cs_SendRequestAsync L ven uid clientId (api_request call) (CsCallback k (Some (api_response call))) cs"

text \<open>Calling a callback: the wrapper of the API asserts the type of a confirmation that is there.\<close>

definition genericCallback ::
  "string \<Rightarrow> cs_callback \<Rightarrow> message option \<Rightarrow> goerr option \<Rightarrow> cs_event go" where
  "genericCallback clientId cb confirmation err =
     (case cb of CsCallback k t \<Rightarrow>
        (case (confirmation, t) of
           (Some m, Some ty) \<Rightarrow>
             bind_go (assertType ty (Some m)) (\<lambda>m'. Ret (SInvoked clientId k (Some m') err))
         | _ \<Rightarrow> Ret (SInvoked clientId k confirmation err)))"

section \<open>Start and stop\<close>

definition cs_Start :: "centralSystem \<Rightarrow> centralSystem" where
  "cs_Start cs = cs\<lparr>cs_server := Server_Start (cs_server cs)\<rparr>"

definition cs_Stop :: "centralSystem \<Rightarrow> centralSystem go" where
  "cs_Stop cs = bind_go (Server_Stop (cs_server cs)) (\<lambda>s. Ret (cs\<lparr>cs_server := s\<rparr>))"

section \<open>Incoming requests\<close>

definition cs_replyError ::
  "(gotype, message) lib \<Rightarrow> bool \<Rightarrow> (string \<Rightarrow> json \<Rightarrow> string option) \<Rightarrow> string \<Rightarrow> string \<Rightarrow> ErrorCode \<Rightarrow>
   string \<Rightarrow> string \<Rightarrow> centralSystem \<Rightarrow> (centralSystem \<times> cs_event list) go" where
  "cs_replyError L ven wr chargePointId requestId code description notify cs =
     (case Server_SendError L ven wr (cs_server cs) chargePointId requestId code description None of
        (None, evs) \<Rightarrow> Ret (cs, map SNet evs)
      | (Some e, evs) \<Rightarrow>
          bind_go (cs_error (EPlain (''replying cp '' @ chargePointId @ '' to request '' @ requestId @
              notify @ errText L e)) cs)
            (\<lambda>cs'. Ret (cs', map SNet evs)))"

definition cs_notImplementedError ::
  "(gotype, message) lib \<Rightarrow> bool \<Rightarrow> (string \<Rightarrow> json \<Rightarrow> string option) \<Rightarrow> string \<Rightarrow> string \<Rightarrow> string \<Rightarrow>
   centralSystem \<Rightarrow> (centralSystem \<times> cs_event list) go" where
  "cs_notImplementedError L ven wr chargePointId requestId action cs =
     cs_replyError L ven wr chargePointId requestId NotImplemented
       (''no handler for action '' @ action @ '' implemented'') '' with 'not implemented': '' cs"

definition cs_notSupportedError ::
  "(gotype, message) lib \<Rightarrow> bool \<Rightarrow> (string \<Rightarrow> json \<Rightarrow> string option) \<Rightarrow> string \<Rightarrow> string \<Rightarrow> string \<Rightarrow>
   centralSystem \<Rightarrow> (centralSystem \<times> cs_event list) go" where
  "cs_notSupportedError L ven wr chargePointId requestId action cs =
     cs_replyError L ven wr chargePointId requestId NotSupported
       (''unsupported action '' @ action @ '' on central system'') '' with 'not supported': '' cs"

definition cs_sendResponse ::
  "(gotype, message) lib \<Rightarrow> bool \<Rightarrow> (string \<Rightarrow> json \<Rightarrow> string option) \<Rightarrow> string \<Rightarrow> message option \<Rightarrow>
   goerr option \<Rightarrow> string \<Rightarrow> centralSystem \<Rightarrow> (centralSystem \<times> cs_event list) go" where
  "cs_sendResponse L ven wr chargePointId confirmation err requestId cs =
     (let emptyText = ''empty confirmation to '' @ chargePointId @ '' for request '' @ requestId;
          replying = ''error replying cp '' @ chargePointId @ '' to request '' @ requestId
      in case serverReply L ven wr (cs_server cs) chargePointId emptyText confirmation err requestId of
           (evs, None) \<Rightarrow> Ret (cs, map SNet evs)
         | (evs, Some e) \<Rightarrow>
             bind_go (cs_error (replyFailed (replying @ '' with 'internal error': '') emptyText
                 (replying @ '': '') (errText L) confirmation err e) cs)
               (\<lambda>cs'. Ret (cs', map SNet evs)))"

definition cs_actions :: "(string \<times> handlerKind \<times> string \<times> gotype) list" where
  "cs_actions =
     [(''BootNotification'', Core, ''OnBootNotification'', BootNotificationRequest),
      (''Authorize'', Core, ''OnAuthorize'', AuthorizeRequest),
      (''DataTransfer'', Core, ''OnDataTransfer'', DataTransferRequest),
      (''Heartbeat'', Core, ''OnHeartbeat'', HeartbeatRequest),
      (''MeterValues'', Core, ''OnMeterValues'', MeterValuesRequest),
      (''StartTransaction'', Core, ''OnStartTransaction'', StartTransactionRequest),
      (''StopTransaction'', Core, ''OnStopTransaction'', StopTransactionRequest),
      (''StatusNotification'', Core, ''OnStatusNotification'', StatusNotificationRequest),
      (''DiagnosticsStatusNotification'', Firmware, ''OnDiagnosticsStatusNotification'',
         DiagnosticsStatusNotificationRequest),
      (''FirmwareStatusNotification'', Firmware, ''OnFirmwareStatusNotification'',
         FirmwareStatusNotificationRequest)]"

fun cs_handler :: "handlerKind \<Rightarrow> centralSystem \<Rightarrow> csHandler option" where
  "cs_handler Core cs = cs_coreHandler cs"
| "cs_handler LocalAuthList cs = cs_localAuthListHandler cs"
| "cs_handler Firmware cs = cs_firmwareHandler cs"
| "cs_handler Reservation cs = cs_reservationHandler cs"
| "cs_handler RemoteTrigger cs = cs_remoteTriggerHandler cs"
| "cs_handler SmartCharging cs = cs_smartChargingHandler cs"

text \<open>The goroutine that \<^verbatim>\<open>handleIncomingRequest\<close> starts.\<close>

definition cs_processRequest ::
  "(gotype, message) lib \<Rightarrow> bool \<Rightarrow> (string \<Rightarrow> json \<Rightarrow> string option) \<Rightarrow> string \<Rightarrow> message \<Rightarrow> string \<Rightarrow>
   string \<Rightarrow> centralSystem \<Rightarrow> (centralSystem \<times> cs_event list) go" where
  "cs_processRequest L ven wr chargePointId request requestId action cs =
     (case map_of cs_actions action of
        None \<Rightarrow> cs_notSupportedError L ven wr chargePointId requestId action cs
      | Some (kind, method, argType) \<Rightarrow>
          (case cs_handler kind cs of
             None \<Rightarrow> Panic ''nil pointer dereference''
           | Some h \<Rightarrow>
               bind_go (assertType argType (Some request)) (\<lambda>req.
                 case h chargePointId method req of
                   (confirmation, err) \<Rightarrow>
                     cs_sendResponse L ven wr chargePointId confirmation err requestId cs)))"

definition cs_handleIncomingRequest ::
  "(gotype, message) lib \<Rightarrow> bool \<Rightarrow> (string \<Rightarrow> json \<Rightarrow> string option) \<Rightarrow> string \<Rightarrow> message \<Rightarrow> string \<Rightarrow>
   string \<Rightarrow> centralSystem \<Rightarrow> (centralSystem \<times> cs_event list) go" where
  "cs_handleIncomingRequest L ven wr chargePointId request requestId action cs =
     (case GetProfileForFeature (sv_endpoint (cs_server cs)) action of
        None \<Rightarrow> cs_notImplementedError L ven wr chargePointId requestId action cs
      | Some profile \<Rightarrow>
          (case profileKind (Name profile) of
             Some kind \<Rightarrow>
               (case cs_handler kind cs of
                  None \<Rightarrow> cs_notSupportedError L ven wr chargePointId requestId action cs
                | Some _ \<Rightarrow> cs_processRequest L ven wr chargePointId request requestId action cs)
           | None \<Rightarrow> cs_processRequest L ven wr chargePointId request requestId action cs))"

section \<open>Responses, errors and cancelled requests\<close>

text \<open>The three handlers call the oldest callback of the client, or report that there is none.\<close>

definition cs_dequeue ::
  "string \<Rightarrow> message option \<Rightarrow> goerr option \<Rightarrow> goerr \<Rightarrow> centralSystem \<Rightarrow>
   (centralSystem \<times> cs_event list) go" where
  "cs_dequeue clientId confirmation err missing cs =
     bind_go (Dequeue clientId (cs_callbackQueue cs)) (\<lambda>(cb, cq).
       let cs1 = cs\<lparr>cs_callbackQueue := cq\<rparr>
       in case cb of
            Some callback \<Rightarrow>
              bind_go (genericCallback clientId callback confirmation err) (\<lambda>ev. Ret (cs1, [ev]))
          | None \<Rightarrow> bind_go (cs_error missing cs1) (\<lambda>cs2. Ret (cs2, [])))"

definition handleIncomingConfirmation ::
  "(gotype, message) lib \<Rightarrow> string \<Rightarrow> message \<Rightarrow> string \<Rightarrow> centralSystem \<Rightarrow>
   (centralSystem \<times> cs_event list) go" where
  "handleIncomingConfirmation L chargePointId confirmation requestId cs =
     cs_dequeue chargePointId (Some confirmation) None
       (EPlain (''no handler available for call of type '' @ featureName L confirmation @
          '' from client '' @ chargePointId @ '' for request '' @ requestId)) cs"

definition handleIncomingError ::
  "(gotype, message) lib \<Rightarrow> string \<Rightarrow> Error \<Rightarrow> centralSystem \<Rightarrow> (centralSystem \<times> cs_event list) go" where
  "handleIncomingError L chargePointId err cs =
     cs_dequeue chargePointId None (Some (EOcpp err))
       (EPlain (''no handler available for call error '' @ errText L (EOcpp err) @
          '' from client '' @ chargePointId)) cs"

definition handleCanceledRequest ::
  "(gotype, message) lib \<Rightarrow> string \<Rightarrow> message \<Rightarrow> Error \<Rightarrow> centralSystem \<Rightarrow>
   (centralSystem \<times> cs_event list) go" where
  "handleCanceledRequest L chargePointID request err cs =
     cs_dequeue chargePointID None (Some (EOcpp err))
       (EPlain (''no handler available for canceled request '' @ featureName L request @
          '' for client '' @ chargePointID @ '': '' @ errText L (EOcpp err))) cs"

text \<open>
  The handler that \<^verbatim>\<open>SetChargePointDisconnectedHandler\<close> registers: every waiting callback gets an
  error, without a confirmation, and the application is told.
\<close>

definition cs_disconnected ::
  "string \<Rightarrow> centralSystem \<Rightarrow> (centralSystem \<times> cs_event list) go" where
  "cs_disconnected clientId cs =
     bind_go (drainCallbacks clientId (cs_callbackQueue cs)) (\<lambda>(cbs, cq).
       Ret (cs\<lparr>cs_callbackQueue := cq\<rparr>,
         map (\<lambda>cb. case cb of CsCallback k _ \<Rightarrow> SInvoked clientId k None (Some (EOcpp (NewError GenericError
             ''client disconnected, no response received from client'' '''')))) cbs @
         [SNet (clientId, PeerDisconnected)]))"

section \<open>The parts together\<close>

text \<open>
  What the registered handlers do with the effects of the server: of its message handler, of its
  connection handlers, and of the dispatcher's pump.
\<close>

definition cs_deliver ::
  "(gotype, message) lib \<Rightarrow> bool \<Rightarrow> (string \<Rightarrow> json \<Rightarrow> string option) \<Rightarrow> message sv_event \<Rightarrow>
   centralSystem \<Rightarrow> (centralSystem \<times> cs_event list) go" where
  "cs_deliver L ven wr ev cs =
     (case snd ev of
        GotResponse v i \<Rightarrow> handleIncomingConfirmation L (fst ev) v i cs
      | GotError e details \<Rightarrow> handleIncomingError L (fst ev) e cs
      | GotRequest v i action \<Rightarrow> cs_handleIncomingRequest L ven wr (fst ev) v i action cs
      | PeerDisconnected \<Rightarrow> cs_disconnected (fst ev) cs
      | _ \<Rightarrow> Ret (cs, [SNet ev]))"

fun cs_deliverAll ::
  "(gotype, message) lib \<Rightarrow> bool \<Rightarrow> (string \<Rightarrow> json \<Rightarrow> string option) \<Rightarrow> message sv_event list \<Rightarrow>
   centralSystem \<Rightarrow> (centralSystem \<times> cs_event list) go" where
  "cs_deliverAll L ven wr [] cs = Ret (cs, [])"
| "cs_deliverAll L ven wr (ev # evs) cs =
     bind_go (cs_deliver L ven wr ev cs) (\<lambda>(cs', es).
       bind_go (cs_deliverAll L ven wr evs cs') (\<lambda>(cs'', es'). Ret (cs'', es @ es')))"

definition cs_receive ::
  "(gotype, message) lib \<Rightarrow> bool \<Rightarrow> (string \<Rightarrow> json \<Rightarrow> string option) \<Rightarrow> string \<Rightarrow> json \<Rightarrow> centralSystem \<Rightarrow>
   (centralSystem \<times> cs_event list) go" where
  "cs_receive L ven wr clientId raw cs =
     bind_go (Server_ocppMessageHandler L ven wr clientId raw (cs_server cs)) (\<lambda>(err, s, evs).
       cs_deliverAll L ven wr evs (cs\<lparr>cs_server := s\<rparr>))"

definition cs_connect ::
  "(gotype, message) lib \<Rightarrow> bool \<Rightarrow> (string \<Rightarrow> json \<Rightarrow> string option) \<Rightarrow> string \<Rightarrow> centralSystem \<Rightarrow>
   (centralSystem \<times> cs_event list) go" where
  "cs_connect L ven wr clientId cs =
     bind_go (onClientConnected clientId (cs_server cs)) (\<lambda>(s, evs).
       cs_deliverAll L ven wr evs (cs\<lparr>cs_server := s\<rparr>))"

definition cs_disconnect ::
  "(gotype, message) lib \<Rightarrow> bool \<Rightarrow> (string \<Rightarrow> json \<Rightarrow> string option) \<Rightarrow> string \<Rightarrow> centralSystem \<Rightarrow>
   (centralSystem \<times> cs_event list) go" where
  "cs_disconnect L ven wr clientId cs =
     bind_go (onClientDisconnected clientId (cs_server cs)) (\<lambda>(s, evs).
       cs_deliverAll L ven wr evs (cs\<lparr>cs_server := s\<rparr>))"

fun cs_canceled ::
  "(gotype, message) lib \<Rightarrow> message sd_event list \<Rightarrow> centralSystem \<Rightarrow>
   (centralSystem \<times> cs_event list) go" where
  "cs_canceled L [] cs = Ret (cs, [])"
| "cs_canceled L (ServerCanceled c i r e # evs) cs =
     bind_go (handleCanceledRequest L c r e cs) (\<lambda>(cs', es).
       bind_go (cs_canceled L evs cs') (\<lambda>(cs'', es'). Ret (cs'', es @ es')))"
| "cs_canceled L (_ # evs) cs = cs_canceled L evs cs"

definition cs_pump ::
  "(gotype, message) lib \<Rightarrow> (string \<Rightarrow> json \<Rightarrow> string option) \<Rightarrow> server_case \<Rightarrow> pump_locals \<Rightarrow>
   centralSystem \<Rightarrow> (pump_locals option \<times> centralSystem \<times> cs_event list) go" where
  "cs_pump L wr pc l cs =
     bind_go (serverIteration wr pc l (sv_dispatcher (cs_server cs))) (\<lambda>(l', d, evs).
       bind_go (cs_canceled L evs (cs\<lparr>cs_server := (cs_server cs)\<lparr>sv_dispatcher := d\<rparr>\<rparr>)) (\<lambda>(cs', es).
         Ret (l', cs', es)))"

section \<open>The two sides agree on the actions\<close>

text \<open>The features that \<open>profiles16\<close> registers: name, handler interface and request type.\<close>

definition registered16 :: "(string \<times> handlerKind \<times> gotype) list" where
  "registered16 = concat (map (\<lambda>p. concat (map (\<lambda>f.
       case (profileKind (Name p), Features p (GetFeatureName f)) of
         (Some kind, Some g) \<Rightarrow> [(GetFeatureName g, kind, GetRequestType g)]
       | _ \<Rightarrow> []) features16)) profiles16)"

definition dispatched :: "(string \<times> handlerKind \<times> string \<times> gotype) list \<Rightarrow> (string \<times> handlerKind \<times> gotype) list" where
  "dispatched actions = map (\<lambda>(a, kind, method, t). (a, kind, t)) actions"

text \<open>
  C30: What one side may send is what the other dispatches. The actions the central system sends
  are those a charge point has a handler method for, and the other way round. The two tables
  together are the 28 features of the six registered profiles, each under the handler of its own
  profile and with the request type its feature registers, so that the type assertions agree with
  what the endpoints decode.
\<close>

theorem tables16_agree:
  "set cs_sendable = fst ` set cp_actions \<and> set cp_sendable = fst ` set cs_actions \<and>
   set (dispatched cp_actions) \<union> set (dispatched cs_actions) = set registered16 \<and>
   length (remdups (map fst registered16)) = 28"
proof -
  have "set cs_sendable = set (map fst cp_actions)" by code_simp
  moreover have "set cp_sendable = set (map fst cs_actions)" by code_simp
  moreover have "set (dispatched cp_actions @ dispatched cs_actions) = set registered16" by code_simp
  moreover have "length (remdups (map fst registered16)) = 28" by code_simp
  ultimately show ?thesis by simp
qed

end
