(* ===== verification/Pairing16.thy ===== *)
theory Pairing16
  imports CentralSystem
begin

text \<open>
  The central system over time: which callback is called for which request. A step is one call of
  the central system or of one of its handlers, or one iteration of the dispatcher's pump, run to
  its end. In the program the handlers of one client run in the goroutine that reads its
  connection and in the pump, and each step here is one of them without the other in between.
\<close>

section \<open>What the server's operations take from the queues\<close>

definition finishedBy :: "string \<Rightarrow> 'v sv_event list \<Rightarrow> string list" where
  "finishedBy c evs = delivered (map snd (filter (\<lambda>e. fst e = c) evs))"

fun canceledBy :: "string \<Rightarrow> 'v sd_event list \<Rightarrow> string list" where
  "canceledBy c [] = []"
| "canceledBy c (ServerCanceled e i r err # evs) = (if e = c then i # canceledBy c evs else canceledBy c evs)"
| "canceledBy c (_ # evs) = canceledBy c evs"

lemma canceledBy_append [simp]: "canceledBy c (xs @ ys) = canceledBy c xs @ canceledBy c ys"
  by (induction c xs rule: canceledBy.induct) auto

lemma canceledBy_simps [simp]:
  "canceledBy c (cancelEvents x) = []"
  "canceledBy c (case i of None \<Rightarrow> [] | Some j \<Rightarrow> [StartTimeout y j]) = []"
  "canceledBy c (clientCanceledEvent d e b code t) = (if e = c \<and> sd_onRequestCancel d then [bundle_id b] else [])"
  by (simp_all add: cancelEvents_def clientCanceledEvent_def split: option.splits)

text \<open>What stays as it is in every operation of a started dispatcher.\<close>

definition served :: "message DefaultServerDispatcher \<Rightarrow> bool" where
  "served d \<longleftrightarrow> sd_wf d \<and> (\<forall>c. matched c d) \<and> sd_onRequestCancel d"

abbreviation queueIds :: "string \<Rightarrow> 'v DefaultServerDispatcher \<Rightarrow> string list" where
  "queueIds c d \<equiv> map bundle_id (clientQueue c d)"

lemma served_cases:
  assumes "served d" "sd_wf d'" "matched c d \<Longrightarrow> matched c d'" "\<And>e. e \<noteq> c \<Longrightarrow> same_client e d d'"
    "sd_onRequestCancel d' = sd_onRequestCancel d"
  shows "served d'"
  using assms same_clientD(2)[OF assms(4)] by (metis served_def)

lemma Complete_cancel:
  "ServerDispatcher_CompleteRequest c i d = Ret d' \<Longrightarrow> sd_onRequestCancel d' = sd_onRequestCancel d"
  by (auto simp: ServerDispatcher_CompleteRequest_def finishClientRequest_def signalClientReady_def
      split: option.splits if_splits)

lemma Complete_front:
  assumes "ServerDispatcher_CompleteRequest c i d = Ret d'" "served d"
    and "clientQueue c d = b # bs" "bundle_id b = i"
  shows "served d'" "queueIds e d = (if e = c then [i] else []) @ queueIds e d'"
proof -
  have wf: "sd_wf d" using assms(2) by (simp add: served_def)
  note C = CompleteClientRequest_Ret[OF assms(1) wf]
  show "served d'" by (rule served_cases[OF assms(2) C(1,2,3) Complete_cancel[OF assms(1)]])
  show "queueIds e d = (if e = c then [i] else []) @ queueIds e d'"
    using C(4)[OF assms(3,4)] C(3)[of e] assms(3,4) by (cases "e = c") (auto dest: same_clientD(1))
qed

lemma clientTimedOut_canceled:
  assumes "clientTimedOut c l d = Ret (ServerCheck l1 d1 evs)" "served d"
  shows "served d1 \<and> queueIds e d = canceledBy e evs @ queueIds e d1"
proof (cases "serverState_HasPendingRequest c (sd_pendingState d)")
  case True
  then obtain r where r: "data (sd_queueMap d) c = Some r"
    using assms by (auto simp: clientTimedOut_def FIFOQueueMap_Get_def Let_def split: option.splits)
  with True assms obtain b bs where b: "elements (heap (sd_queueMap d) r) = b # bs"
    by (auto simp: clientTimedOut_def FIFOQueueMap_Get_def Let_def split: option.splits)
  with True r assms have C: "ServerDispatcher_CompleteRequest c (bundle_id b) d = Ret d1"
    and ev: "canceledBy e evs = (if c = e \<and> sd_onRequestCancel d1 then [bundle_id b] else [])"
    by (auto simp: clientTimedOut_def FIFOQueueMap_Get_def Let_def Peek_def)
  have q: "clientQueue c d = b # bs" using r b by (simp add: clientQueue_def queueOf_def)
  show ?thesis
    using Complete_front(1)[OF C assms(2) q refl] Complete_front(2)[OF C assms(2) q refl, of e] ev
    by (auto simp: served_def)
qed (use assms in \<open>auto simp: clientTimedOut_def Let_def\<close>)

lemma served_updates [simp]:
  "served (d\<lparr>sd_requestChannel := rc\<rparr>) = served d"
  "served (d\<lparr>sd_readyForDispatch := rd\<rparr>) = served d"
  "served (d\<lparr>sd_timerC := tc\<rparr>) = served d"
  "served (d\<lparr>sd_running := run\<rparr>) = served d"
  "served (d\<lparr>sd_stoppedC := sc\<rparr>) = served d"
  by (simp_all add: served_def matched_def clientQueue_def)

lemma clientQueue_updates [simp]:
  "clientQueue c (d\<lparr>sd_running := run\<rparr>) = clientQueue c d"
  "clientQueue c (d\<lparr>sd_stoppedC := sc\<rparr>) = clientQueue c d"
  by (simp_all add: clientQueue_def)

lemma serverSelect_canceled:
  assumes "serverSelect pc l d = Ret n" "served d"
  shows "case n of ServerStop d1 \<Rightarrow> True
    | ServerContinue l1 d1 evs \<Rightarrow> served d1 \<and> (\<forall>e. queueIds e d = canceledBy e evs @ queueIds e d1)
    | ServerCheck l1 d1 evs \<Rightarrow> served d1 \<and> (\<forall>e. queueIds e d = canceledBy e evs @ queueIds e d1)"
proof (cases pc)
  case StoppedCase
  then show ?thesis using assms by (auto split: option.splits)
next
  case ClientRequestCase
  then show ?thesis using assms
    by (auto simp: clientRequested_def Let_def split: option.splits)
next
  case ClientReadyCase
  then show ?thesis using assms by (auto simp: clientReady_def Let_def)
next
  case ClientTimerCase
  then consider tc where "n = ServerContinue (l\<lparr>pl_clientID := ''''\<rparr>) (d\<lparr>sd_timerC := tc\<rparr>) []"
    | tc c where "clientTimedOut c l (d\<lparr>sd_timerC := tc\<rparr>) = Ret n"
    using assms(1) by (auto simp: Let_def split: option.splits)
  then show ?thesis
  proof cases
    case 2
    obtain l1 d1 evs where n: "n = ServerCheck l1 d1 evs" using clientTimedOut_Ret[OF 2] by blast
    show ?thesis using clientTimedOut_canceled[OF 2[unfolded n]] assms(2) n by simp
  qed (use assms(2) in simp)
qed

lemma dispatchNext_canceled:
  assumes "dispatchNextClientRequest wr n c d = Ret (cc, d', evs)" "served d"
  shows "served d' \<and> queueIds e d = canceledBy e evs @ queueIds e d'"
proof (cases "FIFOQueueMap_Get c (sd_queueMap d)")
  case None
  then show ?thesis using assms by (auto simp: dispatchNextClientRequest_def)
next
  case (Some r)
  then obtain b bs where b: "elements (heap (sd_queueMap d) r) = b # bs"
    using assms(1) by (auto simp: dispatchNextClientRequest_def split: option.splits)
  have q: "clientQueue c d = b # bs"
    using Some b by (simp add: clientQueue_def queueOf_def FIFOQueueMap_Get_def)
  define d1 where "d1 = d\<lparr>sd_pendingState :=
    serverState_AddPendingRequest c (bundle_id b) (bundle_req b) (sd_pendingState d)\<rparr>"
  have q1: "clientQueue f d1 = clientQueue f d" for f by (simp add: d1_def clientQueue_def)
  have s1: "served d1"
  proof (rule served_cases[OF assms(2)])
    show "sd_wf d1" using assms(2) q1 by (simp add: served_def sd_wf_def d1_def)
    show "matched c d \<Longrightarrow> matched c d1"
      unfolding d1_def by (rule matched_Add[OF _ q]) (use assms(2) in \<open>simp add: served_def\<close>)
  qed (simp_all add: d1_def same_client_def)
  from assms(1) Some b consider "d' = d1" "canceledBy e evs = []"
    | "ServerDispatcher_CompleteRequest c (bundle_id b) d1 = Ret d'"
      "canceledBy e evs = (if c = e \<and> sd_onRequestCancel d' then [bundle_id b] else [])"
    by (auto simp: dispatchNextClientRequest_def Peek_def Let_def d1_def split: option.splits)
  then show ?thesis
  proof cases
    case 2
    have q2: "clientQueue c d1 = b # bs" using q q1 by simp
    show ?thesis
      using Complete_front(1)[OF 2(1) s1 q2 refl] Complete_front(2)[OF 2(1) s1 q2 refl, of e] 2(2) q1
      by (auto simp: served_def)
  qed (use s1 q1 in simp)
qed

text \<open>An iteration of the pump takes from the queues what it reports as cancelled.\<close>

lemma serverIteration_canceled:
  assumes "serverIteration wr pc l d = Ret (Some l', d', evs)" "served d"
  shows "served d' \<and> queueIds e d = canceledBy e evs @ queueIds e d'"
proof -
  obtain n where n: "serverSelect pc l d = Ret n"
    using assms(1) by (auto simp: serverIteration_def)
  note S = serverSelect_canceled[OF n assms(2)]
  show ?thesis
  proof (cases n)
    case (ServerStop d1)
    then show ?thesis using assms(1) n by (simp add: serverIteration_def)
  next
    case (ServerContinue l1 d1 evs1)
    then show ?thesis using assms(1) n S by (simp add: serverIteration_def)
  next
    case (ServerCheck l1 d1 evs1)
    then obtain l2 evs2 where s: "serverDispatch wr l1 d1 = Ret (l2, d', evs2)" "evs = evs1 @ evs2"
      using assms(1) n by (auto simp: serverIteration_def)
    have s1: "served d1" "queueIds e d = canceledBy e evs1 @ queueIds e d1" using S ServerCheck by auto
    from s(1) consider "d' = d1" "evs2 = []" | cc evs3 where
      "dispatchNextClientRequest wr (pl_fresh l1) (pl_clientID l1) d1 = Ret (cc, d', evs3)"
      "canceledBy e evs2 = canceledBy e evs3"
      by (auto simp: serverDispatch_def split: option.splits if_splits)
    then show ?thesis
    proof cases
      case 2
      then show ?thesis using dispatchNext_canceled[OF 2(1) s1(1), of e] s1(2) s(2) by simp
    qed (use s1 s(2) in simp)
  qed
qed

lemma ParseMessage_pending:
  assumes "ParseMessage L ep arr st = Ret (Inr (Some msg))" "state_wf st"
  shows "case msg of MCall _ \<Rightarrow> True | _ \<Rightarrow> \<exists>req. pending st = Some (GetUniqueId msg, req)"
proof -
  have "\<exists>t i. header arr t i"
  proof (rule ccontr)
    assume "\<nexists>t i. header arr t i"
    then obtain d where "ParseMessage L ep arr st = formatError ep d ''''"
      using ParseMessage_no_header by blast
    with assms(1) show False by (auto simp: formatError_def)
  qed
  then obtain t i where h: "header arr t i" by blast
  then have i: "i \<noteq> ''''" by (simp add: header_def)
  note P = assms(1)[unfolded ParseMessage_header[OF h]]
  have g: "GetPendingRequest i st = (x, True) \<Longrightarrow> \<exists>req. pending st = Some (i, req)" for x
    using client.get_pend[OF assms(2) i] by (auto split: option.splits if_splits)
  consider "t = CALL" | "t = CALL_RESULT" "t \<noteq> CALL" | "t = CALL_ERROR" "t \<noteq> CALL_RESULT" "t \<noteq> CALL"
    using P by (auto split: if_splits)
  then show ?thesis
  proof cases
    case 1
    then have "\<exists>c. msg = MCall c" using P
      by (auto simp: parseCall_def formatError_def validated_def split: if_splits json.splits
          option.splits sum.splits list.splits)
    then show ?thesis by auto
  next
    case 2
    with P have p: "parseCallResult L ep arr i st = Ret (Inr (Some msg))" by simp
    then obtain x where x: "GetPendingRequest i st = (x, True)"
      by (cases "GetPendingRequest i st") (auto simp: parseCallResult_def split: bool.splits option.splits)
    with p have "\<exists>r. msg = MCallResult r \<and> CallResult_UniqueId r = i"
      by (auto simp: parseCallResult_def formatError_def validated_def
          split: option.splits sum.splits list.splits)
    then show ?thesis using g[OF x] by auto
  next
    case 3
    with P have p: "parseCallError L ep arr i st = Ret (Inr (Some msg))" by simp
    then obtain x where x: "GetPendingRequest i st = (x, True)"
      by (cases "GetPendingRequest i st") (auto simp: parseCallError_def split: bool.splits option.splits)
    with p have "\<exists>r. msg = MCallError r \<and> CallError_UniqueId r = i"
      by (auto simp: parseCallError_def formatError_def validated_def Let_def
          split: json.splits if_splits list.splits)
    then show ?thesis using g[OF x] by auto
  qed
qed

text \<open>
  The events of the message handler: at most one outcome of a request, which then leaves the queue
  of the client; otherwise the queues are as before, and requests and writes are all there is.
\<close>

definition quiet :: "message sv_event \<Rightarrow> bool" where
  "quiet ev \<longleftrightarrow> (case snd ev of GotResponse _ _ \<Rightarrow> False | GotError _ _ \<Rightarrow> False
     | PeerDisconnected \<Rightarrow> False | _ \<Rightarrow> True)"

lemma quiet_finishedBy: "list_all quiet evs \<Longrightarrow> finishedBy c evs = []"
proof -
  assume "list_all quiet evs"
  then have "delivered (map snd (filter P evs)) = []" for P
    by (induction evs) (auto simp: quiet_def split: ep_event.splits)
  then show ?thesis by (simp add: finishedBy_def)
qed

lemma SendError_quiet: "Server_SendError L ven wr s c i code desc None = (e, evs) \<Longrightarrow> list_all quiet evs"
  by (auto simp: Server_SendError_eq quiet_def split: sum.splits option.splits)

lemma served_looked_up: "served (sv_dispatcher (looked_up c s)) = served (sv_dispatcher s)"
  "clientQueue e (sv_dispatcher (looked_up c s)) = clientQueue e (sv_dispatcher s)"
  by (auto simp: served_def sd_wf_def matched_def clientQueue_def server_wf_def looked_up_def GetClientState_eq)

lemma looked_up_flags [simp]:
  "sv_responseHandler (looked_up c s) = sv_responseHandler s"
  "sv_errorHandler (looked_up c s) = sv_errorHandler s"
  "sv_disconnectedClientHandler (looked_up c s) = sv_disconnectedClientHandler s"
  by (simp_all add: looked_up_def)

lemma handler_outcome:
  assumes "Server_ocppMessageHandler L ven wr c raw s = Ret (err, s', evs)" "served (sv_dispatcher s)"
    and "sv_responseHandler s" "sv_errorHandler s"
  shows "served (sv_dispatcher s') \<and> sv_responseHandler s' \<and> sv_errorHandler s' \<and>
    sv_disconnectedClientHandler s' = sv_disconnectedClientHandler s \<and>
    (list_all quiet evs \<and> (\<forall>e. clientQueue e (sv_dispatcher s') = clientQueue e (sv_dispatcher s)) \<or>
     (\<exists>i x. evs = [(c, x)] \<and> delivered [x] = [i] \<and>
        (\<forall>e. queueIds e (sv_dispatcher s) = (if e = c then [i] else []) @ queueIds e (sv_dispatcher s'))))"
proof -
  let ?s = "looked_up c s"
  let ?st = "stateOf c (sd_pendingState (sv_dispatcher s))"
  have same: "served (sv_dispatcher ?s)" "clientQueue e (sv_dispatcher ?s) = clientQueue e (sv_dispatcher s)" for e
    using assms(2) by (simp_all add: served_looked_up)
  have wf: "state_wf ?st" using assms(2) by (auto simp: served_def sd_wf_def server_wf_def)
  have done': ?thesis if "s' = ?s" "list_all quiet evs"
    using that assms(3,4) same by simp
  have fin: ?thesis if p: "pending ?st = Some (i, req)"
    "ServerDispatcher_CompleteRequest c i (sv_dispatcher ?s) = Ret d'"
    "s' = ?s\<lparr>sv_dispatcher := d'\<rparr>" "evs = [(c, x)]" "delivered [x] = [i]" for i req d' x
  proof -
    have "matched c (sv_dispatcher s)" using assms(2) by (simp add: served_def)
    then obtain b bs where b: "clientQueue c (sv_dispatcher s) = b # bs" "bundle_id b = i"
      using p(1) unfolding matched_def by blast
    have b': "clientQueue c (sv_dispatcher ?s) = b # bs" using b same by simp
    note C = Complete_front[OF p(2) same(1) b' b(2)]
    show ?thesis using C(1) C(2) p(3-5) assms(3,4) same(2) by auto
  qed
  show ?thesis
  proof (cases "ParseRawJsonMessage raw")
    case (Inl e)
    then show ?thesis using assms by (auto simp: Server_ocppMessageHandler_def)
  next
    case (Inr arr)
    have g: "GetClientState c (sd_pendingState (sv_dispatcher s)) =
        (?st, sd_pendingState (sv_dispatcher ?s))"
      by (simp add: looked_up_def prod_eq_iff GetClientState_eq)
    have s: "s\<lparr>sv_dispatcher := (sv_dispatcher s)\<lparr>sd_pendingState := sd_pendingState (sv_dispatcher ?s)\<rparr>\<rparr> = ?s"
      by (simp add: looked_up_def)
    have d: "(sv_dispatcher s)\<lparr>sd_pendingState := sd_pendingState (sv_dispatcher ?s)\<rparr> = sv_dispatcher ?s"
      and upd: "?s\<lparr>sv_dispatcher := x\<rparr> = s\<lparr>sv_dispatcher := x\<rparr>" for x
      by (simp_all add: looked_up_def)
    note H = assms(1)[unfolded Server_ocppMessageHandler_def, simplified Inr g, simplified, unfolded s Let_def]
    obtain res where res: "ParseMessage L (sv_endpoint s) arr ?st = Ret res"
      using H by (auto simp: Let_def)
    show ?thesis
    proof (cases res)
      case (Inl e)
      with H res show ?thesis
        by (intro done') (auto simp: Let_def dest: SendError_quiet split: if_splits prod.splits option.splits)
    next
      case m: (Inr m)
      show ?thesis
      proof (cases m)
        case None
        with H res m show ?thesis by (intro done') (auto simp: Let_def)
      next
        case (Some msg)
        have P: "ParseMessage L (sv_endpoint s) arr ?st = Ret (Inr (Some msg))" using res m Some by simp
        note pend = ParseMessage_pending[OF P wf]
        show ?thesis
        proof (cases msg)
          case (MCall call)
          with H P show ?thesis by (intro done') (auto simp: quiet_def)
        next
          case (MCallResult r)
          with pend obtain req where p: "pending ?st = Some (CallResult_UniqueId r, req)" by auto
          from H P MCallResult assms(3) d obtain d' where
            "ServerDispatcher_CompleteRequest c (CallResult_UniqueId r) (sv_dispatcher ?s) = Ret d'"
            "s' = ?s\<lparr>sv_dispatcher := d'\<rparr>"
            "evs = [(c, GotResponse (CallResult_Payload r) (CallResult_UniqueId r))]"
            by (auto simp: upd)
          then show ?thesis by (rule fin[OF p]) simp
        next
          case (MCallError r)
          with pend obtain req where p: "pending ?st = Some (CallError_UniqueId r, req)" by auto
          from H P MCallError assms(4) d obtain d' x where
            "ServerDispatcher_CompleteRequest c (CallError_UniqueId r) (sv_dispatcher ?s) = Ret d'"
            "s' = ?s\<lparr>sv_dispatcher := d'\<rparr>" "evs = [(c, x)]" "delivered [x] = [CallError_UniqueId r]"
            by (auto simp: upd)
          then show ?thesis by (rule fin[OF p])
        qed
      qed
    qed
  qed
qed

section \<open>What the handlers of the central system do to the callbacks\<close>

primrec cbid :: "cs_callback \<Rightarrow> nat" where
  "cbid (CsCallback k t) = k"

fun calledBy :: "string \<Rightarrow> cs_event list \<Rightarrow> nat list" where
  "calledBy c [] = []"
| "calledBy c (SInvoked e k conf err # evs) = (if e = c then k # calledBy c evs else calledBy c evs)"
| "calledBy c (SNet ev # evs) = calledBy c evs"

lemma calledBy_append [simp]: "calledBy c (xs @ ys) = calledBy c xs @ calledBy c ys"
  by (induction c xs rule: calledBy.induct) auto

lemma calledBy_SNet [simp]: "calledBy c (map SNet evs) = []"
  by (induction evs) auto

abbreviation waiting :: "string \<Rightarrow> centralSystem \<Rightarrow> nat list" where
  "waiting c cs \<equiv> map cbid (callbacksOf (cs_callbackQueue cs) c)"

lemma cs_error_same:
  "cs_error err cs = Ret cs' \<Longrightarrow> cs_server cs' = cs_server cs \<and> cs_callbackQueue cs' = cs_callbackQueue cs"
  by (auto simp: cs_error_def)

lemma cs_replyError_same:
  "cs_replyError L ven wr c i code d n cs = Ret (cs', evs) \<Longrightarrow>
     cs_server cs' = cs_server cs \<and> cs_callbackQueue cs' = cs_callbackQueue cs \<and> calledBy e evs = []"
  by (auto simp: cs_replyError_def dest: cs_error_same split: prod.splits option.splits)

lemma cs_sendResponse_same:
  "cs_sendResponse L ven wr c conf err i cs = Ret (cs', evs) \<Longrightarrow>
     cs_server cs' = cs_server cs \<and> cs_callbackQueue cs' = cs_callbackQueue cs \<and> calledBy e evs = []"
  by (auto simp: cs_sendResponse_def Let_def dest: cs_error_same split: prod.splits option.splits)

lemma cs_processRequest_same:
  assumes "cs_processRequest L ven wr c req i action cs = Ret (cs', evs)"
  shows "cs_server cs' = cs_server cs \<and> cs_callbackQueue cs' = cs_callbackQueue cs \<and> calledBy e evs = []"
proof (cases "map_of cs_actions action")
  case None
  then show ?thesis
    using assms by (auto simp: cs_processRequest_def cs_notSupportedError_def dest: cs_replyError_same)
next
  case (Some a)
  then obtain h m req' where "(case h c m req' of (conf, err) \<Rightarrow>
      cs_sendResponse L ven wr c conf err i cs) = Ret (cs', evs)"
    using assms by (cases a) (fastforce simp: cs_processRequest_def split: option.splits)
  then show ?thesis by (cases "h c m req'") (auto dest: cs_sendResponse_same)
qed

lemma cs_handleIncomingRequest_same:
  "cs_handleIncomingRequest L ven wr c req i action cs = Ret (cs', evs) \<Longrightarrow>
     cs_server cs' = cs_server cs \<and> cs_callbackQueue cs' = cs_callbackQueue cs \<and> calledBy e evs = []"
  by (auto simp: cs_handleIncomingRequest_def cs_notImplementedError_def cs_notSupportedError_def
      dest: cs_replyError_same cs_processRequest_same split: option.splits)

lemma genericCallback_called:
  "genericCallback c cb conf err = Ret ev \<Longrightarrow> calledBy e [ev] = (if c = e then [cbid cb] else [])"
  by (cases cb) (auto simp: genericCallback_def split: option.splits)

lemma cs_dequeue_called:
  assumes "cs_dequeue c conf err missing cs = Ret (cs', evs)" "cq_wf (cs_callbackQueue cs)"
    and "callbacksOf (cs_callbackQueue cs) c \<noteq> []"
  shows "cs_server cs' = cs_server cs \<and> cq_wf (cs_callbackQueue cs') \<and>
    (\<forall>e. waiting e cs = calledBy e evs @ waiting e cs' \<and> length (calledBy e evs) = (if e = c then 1 else 0))"
proof -
  obtain cb cbs cq where q: "callbacksOf (cs_callbackQueue cs) c = cb # cbs"
    "Dequeue c (cs_callbackQueue cs) = Ret (Some cb, cq)" "cq_wf cq"
    "\<forall>i. callbacksOf cq i = (if i = c then cbs else callbacksOf (cs_callbackQueue cs) i)"
    using Dequeue_cases[OF assms(2), of c] assms(3) by auto
  obtain ev where ev: "genericCallback c cb conf err = Ret ev" "evs = [ev]" "cs' = cs\<lparr>cs_callbackQueue := cq\<rparr>"
    using assms(1) q(2) by (auto simp: cs_dequeue_def)
  show ?thesis using q genericCallback_called[OF ev(1)] ev(2,3) by auto
qed

lemmas handler_dequeues = handleIncomingConfirmation_def handleIncomingError_def handleCanceledRequest_def

lemma cs_canceled_called:
  assumes "cs_canceled L evs cs = Ret (cs', es)" "cq_wf (cs_callbackQueue cs)"
    and "\<And>e. length (canceledBy e evs) \<le> length (waiting e cs)"
  shows "cs_server cs' = cs_server cs \<and> cq_wf (cs_callbackQueue cs') \<and>
    (\<forall>e. waiting e cs = calledBy e es @ waiting e cs' \<and> length (calledBy e es) = length (canceledBy e evs))"
  using assms
proof (induction L evs cs arbitrary: es rule: cs_canceled.induct)
  case (2 L c i r err evs cs)
  then obtain cs1 es1 es2 where h: "handleCanceledRequest L c r err cs = Ret (cs1, es1)"
    "cs_canceled L evs cs1 = Ret (cs', es2)" "es = es1 @ es2"
    by auto
  have "callbacksOf (cs_callbackQueue cs) c \<noteq> []" using "2.prems"(3)[of c] by auto
  note D = cs_dequeue_called[OF h(1)[unfolded handler_dequeues] "2.prems"(2) this]
  have len: "length (canceledBy e evs) \<le> length (waiting e cs1)" for e
  proof -
    from D have "waiting e cs = calledBy e es1 @ waiting e cs1" "length (calledBy e es1) = (if e = c then 1 else 0)"
      by auto
    then have "length (waiting e cs) = (if e = c then 1 else 0) + length (waiting e cs1)" by simp
    then show ?thesis using "2.prems"(3)[of e] by (auto split: if_splits)
  qed
  note I = "2.IH"[OF h(2) _ len]
  show ?case using D I h(3) by auto
qed auto

lemma cs_deliver_quiet:
  assumes "cs_deliver L ven wr ev cs = Ret (cs', es)" "quiet ev"
  shows "cs_server cs' = cs_server cs \<and> cs_callbackQueue cs' = cs_callbackQueue cs \<and> calledBy e es = []"
  using assms cs_handleIncomingRequest_same
  by (auto simp: cs_deliver_def quiet_def split: ep_event.splits)

lemma cs_deliverAll_quiet:
  assumes "cs_deliverAll L ven wr evs cs = Ret (cs', es)" "list_all quiet evs"
  shows "cs_server cs' = cs_server cs \<and> cs_callbackQueue cs' = cs_callbackQueue cs \<and> calledBy e es = []"
  using assms
proof (induction evs arbitrary: cs es)
  case (Cons ev evs)
  then obtain cs1 es1 es2 where "cs_deliver L ven wr ev cs = Ret (cs1, es1)"
    "cs_deliverAll L ven wr evs cs1 = Ret (cs', es2)" "es = es1 @ es2" by auto
  with Cons cs_deliver_quiet show ?case by fastforce
qed simp

lemma cs_deliverAll_one:
  assumes "cs_deliverAll L ven wr [(c, x)] cs = Ret (cs', es)" "delivered [x] = [i]"
    and "cq_wf (cs_callbackQueue cs)" "callbacksOf (cs_callbackQueue cs) c \<noteq> []"
  shows "cs_server cs' = cs_server cs \<and> cq_wf (cs_callbackQueue cs') \<and>
    (\<forall>e. waiting e cs = calledBy e es @ waiting e cs' \<and> length (calledBy e es) = (if e = c then 1 else 0))"
proof -
  obtain conf err missing where "cs_dequeue c conf err missing cs = Ret (cs', es)"
    using assms(1,2) by (cases x) (auto simp: cs_deliver_def handler_dequeues)
  then show ?thesis using assms(3,4) by (rule cs_dequeue_called)
qed

lemma Server_SendRequest_Ret:
  assumes "Server_SendRequest L ven uid c req s = Ret (err, s')" "served (sv_dispatcher s)" "uid \<noteq> ''''"
  shows "served (sv_dispatcher s') \<and> sv_responseHandler s' = sv_responseHandler s \<and>
    sv_errorHandler s' = sv_errorHandler s \<and> sv_disconnectedClientHandler s' = sv_disconnectedClientHandler s \<and>
    queueIds e (sv_dispatcher s') = queueIds e (sv_dispatcher s) @ (if e = c \<and> err = None then [uid] else [])"
proof -
  let ?d = "sv_dispatcher s"
  have wf: "sd_wf ?d" using assms(2) by (simp add: served_def)
  consider "s' = s" "err \<noteq> None" | b er d' where "bundle_id b = uid"
    "ServerDispatcher_SendRequest c b ?d = Ret (er, d')" "s' = s\<lparr>sv_dispatcher := d'\<rparr>" "err = map_option EPlain er"
  proof (cases "CreateCall L ven (sv_endpoint s) uid req")
    case (Inr call)
    then have u: "Call_UniqueId call = uid"
      by (auto simp: CreateCall_def Let_def split: option.splits if_splits)
    show ?thesis
    proof (cases "ServerDispatcher_IsRunning ?d \<and> (\<exists>j. Call_MarshalJSON L call = Inr j)")
      case True
      then obtain j where j: "Call_MarshalJSON L call = Inr j" "ServerDispatcher_IsRunning ?d" by blast
      with assms(1) Inr obtain er d' where
        "ServerDispatcher_SendRequest c \<lparr>bundle_Call = call, bundle_Data = j\<rparr> ?d = Ret (er, d')"
        "s' = s\<lparr>sv_dispatcher := d'\<rparr>" "err = map_option EPlain er"
        by (auto simp: Server_SendRequest_def)
      then show ?thesis using that(2) u by (metis RequestBundle.select_convs(1))
    next
      case False
      with assms(1) Inr have "s' = s \<and> err \<noteq> None"
        by (auto simp: Server_SendRequest_def split: sum.splits if_splits)
      then show ?thesis using that(1) by blast
    qed
  next
    case (Inl e)
    with assms(1) have "s' = s \<and> err \<noteq> None"
      by (auto simp: Server_SendRequest_def split: if_splits)
    then show ?thesis using that(1) by blast
  qed
  then show ?thesis
  proof cases
    case 2
    show ?thesis
    proof (cases er)
      case None
      with 2(2) obtain d1 where d1: "enqueueClientRequest c b ?d = (None, d1)" "signalClient c d1 = Ret d'"
        by (auto simp: ServerDispatcher_SendRequest_def split: prod.splits option.splits)
      note E = enqueueClientRequest_None[OF d1(1) wf]
      have fl: "sd_onRequestCancel d1 = sd_onRequestCancel ?d"
        using d1(1) by (auto simp: enqueueClientRequest_def split: option.splits if_splits prod.splits)
      have s1: "served d1" by (rule served_cases[OF assms(2) E(1,3,4) fl]) (use 2(1) assms(3) in auto)
      obtain rc where d': "d' = d1\<lparr>sd_requestChannel := rc\<rparr>"
        using d1(2) by (auto simp: signalClient_def split: option.splits)
      show ?thesis
        using s1 d' 2 None assms(3) E(2) E(4)[of e] by (cases "e = c") (auto dest: same_clientD(1))
    next
      case (Some x)
      with 2(2) have "enqueueClientRequest c b ?d = (Some x, d')"
        by (auto simp: ServerDispatcher_SendRequest_def split: prod.splits option.splits)
      then have "d' = ?d"
        by (auto simp: enqueueClientRequest_def Push_def upd_queue_def split: option.splits if_splits prod.splits)
      then show ?thesis using 2 Some assms(2) by simp
    qed
  qed (use assms(2) in simp)
qed

section \<open>A running central system\<close>

text \<open>
  The central system, the locals of the dispatcher's pump (\<open>None\<close> once it has stopped), and what
  has happened with each client: the accepted requests with their callbacks, the requests whose
  outcome was reported or that were dropped with the connection, and the callbacks called.
\<close>

record cs_world =
  w_cs :: centralSystem
  w_pump :: "pump_locals option"
  w_accepted :: "string \<Rightarrow> (string \<times> nat) list"
  w_finished :: "string \<Rightarrow> string list"
  w_called :: "string \<Rightarrow> nat list"

abbreviation w_disp :: "cs_world \<Rightarrow> message DefaultServerDispatcher" where
  "w_disp w \<equiv> sv_dispatcher (cs_server (w_cs w))"

definition advance :: "centralSystem \<Rightarrow> (string \<Rightarrow> string list) \<Rightarrow> cs_event list \<Rightarrow> cs_world \<Rightarrow> cs_world" where
  "advance cs fin es w =
     w\<lparr>w_cs := cs, w_finished := (\<lambda>c. w_finished w c @ fin c), w_called := (\<lambda>c. w_called w c @ calledBy c es)\<rparr>"

definition cs_begin :: "cs_world \<Rightarrow> bool" where
  "cs_begin w \<longleftrightarrow>
     (\<exists>cs h1 h2 h3 h4 h5 h6 ch. NewCentralSystem None = Ret cs \<and>
        w_cs w = (cs_Start (SetChargePointDisconnectedHandler cs))\<lparr>cs_coreHandler := h1,
          cs_localAuthListHandler := h2, cs_firmwareHandler := h3, cs_reservationHandler := h4,
          cs_remoteTriggerHandler := h5, cs_smartChargingHandler := h6, cs_errC := ch\<rparr>) \<and>
     w_pump w = Some initial_locals \<and> w_accepted w = (\<lambda>_. []) \<and> w_finished w = (\<lambda>_. []) \<and>
     w_called w = (\<lambda>_. [])"

inductive cs_step :: "(gotype, message) lib \<Rightarrow> cs_world \<Rightarrow> cs_world \<Rightarrow> bool" for L where
  step_send: "uid \<noteq> '''' \<Longrightarrow>
    cs_SendRequestAsync L ven uid c request (CsCallback k t) (w_cs w) = Ret (None, cs) \<Longrightarrow>
    cs_step L w (w\<lparr>w_cs := cs, w_accepted := (w_accepted w)(c := w_accepted w c @ [(uid, k)])\<rparr>)"
| step_refused: "uid \<noteq> '''' \<Longrightarrow>
    cs_SendRequestAsync L ven uid c request cb (w_cs w) = Ret (Some err, cs) \<Longrightarrow>
    cs_step L w (w\<lparr>w_cs := cs\<rparr>)"
| step_receive: "Server_ocppMessageHandler L ven wr c raw (cs_server (w_cs w)) = Ret (err, s, evs) \<Longrightarrow>
    cs_deliverAll L ven wr evs ((w_cs w)\<lparr>cs_server := s\<rparr>) = Ret (cs, es) \<Longrightarrow>
    cs_step L w (advance cs (\<lambda>e. finishedBy e evs) es w)"
| step_connect: "cs_connect L ven wr c (w_cs w) = Ret (cs, es) \<Longrightarrow>
    cs_step L w (advance cs (\<lambda>e. []) es w)"
| step_disconnect: "cs_disconnect L ven wr c (w_cs w) = Ret (cs, es) \<Longrightarrow>
    cs_step L w (advance cs (\<lambda>e. if e = c then queueIds c (w_disp w) else []) es w)"
| step_timeout: "waitForTimeout c True (w_disp w) = Ret d \<Longrightarrow>
    cs_step L w (w\<lparr>w_cs := (w_cs w)\<lparr>cs_server := (cs_server (w_cs w))\<lparr>sv_dispatcher := d\<rparr>\<rparr>\<rparr>)"
| step_stop: "cs_Stop (w_cs w) = Ret cs \<Longrightarrow> cs_step L w (w\<lparr>w_cs := cs\<rparr>)"
| step_pump: "w_pump w = Some l \<Longrightarrow> serverIteration wr pc l (w_disp w) = Ret (Some l', d, evs) \<Longrightarrow>
    cs_canceled L evs ((w_cs w)\<lparr>cs_server := (cs_server (w_cs w))\<lparr>sv_dispatcher := d\<rparr>\<rparr>) = Ret (cs, es) \<Longrightarrow>
    cs_step L w ((advance cs (\<lambda>e. canceledBy e evs) es w)\<lparr>w_pump := Some l'\<rparr>)"

text \<open>What is accepted and not yet finished waits in the queue, with its callback at the same place.\<close>

definition cs_ok :: "centralSystem \<Rightarrow> bool" where
  "cs_ok cs \<longleftrightarrow> served (sv_dispatcher (cs_server cs)) \<and> sv_responseHandler (cs_server cs) \<and>
     sv_errorHandler (cs_server cs) \<and> sv_disconnectedClientHandler (cs_server cs) \<and>
     cq_wf (cs_callbackQueue cs)"

definition w_inv :: "cs_world \<Rightarrow> bool" where
  "w_inv w \<longleftrightarrow> cs_ok (w_cs w) \<and>
     (\<forall>c. map fst (w_accepted w c) = w_finished w c @ queueIds c (w_disp w) \<and>
          map snd (w_accepted w c) = w_called w c @ waiting c (w_cs w) \<and>
          length (w_called w c) = length (w_finished w c))"

lemma w_inv_lengths: "w_inv w \<Longrightarrow> length (queueIds c (w_disp w)) = length (waiting c (w_cs w))"
proof -
  assume i: "w_inv w"
  then have "map fst (w_accepted w c) = w_finished w c @ queueIds c (w_disp w)"
    "map snd (w_accepted w c) = w_called w c @ waiting c (w_cs w)"
    "length (w_called w c) = length (w_finished w c)"
    by (auto simp: w_inv_def)
  from arg_cong[OF this(1), of length] arg_cong[OF this(2), of length] this(3) show ?thesis by simp
qed

lemma w_inv_advance:
  assumes "w_inv w" "cs_ok cs"
    and "\<And>e. queueIds e (w_disp w) = fin e @ queueIds e (sv_dispatcher (cs_server cs))"
    and "\<And>e. waiting e (w_cs w) = calledBy e es @ waiting e cs"
    and "\<And>e. length (calledBy e es) = length (fin e)"
  shows "w_inv (advance cs fin es w)"
  using assms(1,2) assms(3-5)[symmetric] unfolding w_inv_def advance_def
  by (simp add: assms(5))

lemma w_inv_same:
  assumes "w_inv w" "cs_ok cs" "\<And>e. queueIds e (sv_dispatcher (cs_server cs)) = queueIds e (w_disp w)"
    "\<And>e. waiting e cs = waiting e (w_cs w)"
  shows "w_inv (w\<lparr>w_cs := cs\<rparr>)"
  using assms unfolding w_inv_def by simp

lemma w_inv_pump [simp]: "w_inv (w\<lparr>w_pump := l\<rparr>) = w_inv w"
  by (simp add: w_inv_def)

lemma inv_send:
  assumes "w_inv w" "uid \<noteq> ''''" "cs_SendRequestAsync L ven uid c request cb (w_cs w) = Ret (err, cs)"
  shows "w_inv (w\<lparr>w_cs := cs, w_accepted := (w_accepted w)(c := w_accepted w c @
    (if err = None then [(uid, cbid cb)] else []))\<rparr>)"
proof -
  let ?cs = "w_cs w"
  have ok: "cs_ok ?cs" using assms(1) by (simp add: w_inv_def)
  consider "cs = ?cs \<and> err \<noteq> None" | s cq where
    "tryQueueGo c (Server_SendRequest L ven uid c request) cb (cs_server ?cs) (cs_callbackQueue ?cs) =
      Ret (err, s, cq)" "cs = ?cs\<lparr>cs_server := s, cs_callbackQueue := cq\<rparr>"
  proof (cases "GetProfileForFeature (sv_endpoint (cs_server ?cs)) (featureName L request) \<noteq> None \<and>
      featureName L request \<in> set cs_sendable")
    case True
    then show ?thesis using assms(3) that(2) by (auto simp: cs_SendRequestAsync_def)
  next
    case False
    then have "cs = ?cs \<and> err \<noteq> None"
      using assms(3) by (auto simp: cs_SendRequestAsync_def split: option.splits if_splits)
    then show ?thesis by (rule that(1))
  qed
  then show ?thesis
  proof cases
    case 1
    then show ?thesis using w_inv_same[OF assms(1) ok] by auto
  next
    case 2
    have "cq_wf (cs_callbackQueue ?cs)" using ok by (simp add: cs_ok_def)
    note T = tryQueueGo_Ret[OF 2(1) this]
    from T have "Server_SendRequest L ven uid c request (cs_server ?cs) = Ret (err, s)" by blast
    from Server_SendRequest_Ret[OF this _ assms(2)] ok
    have S: "cs_ok (?cs\<lparr>cs_server := s, cs_callbackQueue := cq\<rparr>)"
      "\<And>e. queueIds e (sv_dispatcher s) =
        queueIds e (w_disp w) @ (if e = c \<and> err = None then [uid] else [])"
      using T by (auto simp: cs_ok_def)
    show ?thesis using assms(1) S T 2(2) by (auto simp: w_inv_def)
  qed
qed

lemma inv_receive:
  assumes "w_inv w" "Server_ocppMessageHandler L ven wr c raw (cs_server (w_cs w)) = Ret (err, s, evs)"
    and "cs_deliverAll L ven wr evs ((w_cs w)\<lparr>cs_server := s\<rparr>) = Ret (cs, es)"
  shows "w_inv (advance cs (\<lambda>e. finishedBy e evs) es w)"
proof -
  let ?cs = "(w_cs w)\<lparr>cs_server := s\<rparr>"
  have ok: "cs_ok (w_cs w)" using assms(1) by (simp add: w_inv_def)
  have H: "served (sv_dispatcher s)" "sv_responseHandler s" "sv_errorHandler s"
    "sv_disconnectedClientHandler s"
    and out: "(list_all quiet evs \<and> (\<forall>e. clientQueue e (sv_dispatcher s) = clientQueue e (w_disp w))) \<or>
     (\<exists>i x. evs = [(c, x)] \<and> delivered [x] = [i] \<and>
        (\<forall>e. queueIds e (w_disp w) = (if e = c then [i] else []) @ queueIds e (sv_dispatcher s)))"
    using handler_outcome[OF assms(2)] ok by (auto simp: cs_ok_def)
  have ok': "cs_ok cs" if "cs_server cs = s" "cq_wf (cs_callbackQueue cs)"
    using that H by (simp add: cs_ok_def)
  from out show ?thesis
  proof (elim disjE exE conjE)
    assume q: "list_all quiet evs" "\<forall>e. clientQueue e (sv_dispatcher s) = clientQueue e (w_disp w)"
    note D = cs_deliverAll_quiet[OF assms(3) q(1)]
    show ?thesis
      by (rule w_inv_advance[OF assms(1) ok'])
        (use D q ok quiet_finishedBy[OF q(1)] in \<open>simp_all add: cs_ok_def\<close>)
  next
    fix i x
    assume q: "evs = [(c, x)]" "delivered [x] = [i]"
      "\<forall>e. queueIds e (w_disp w) = (if e = c then [i] else []) @ queueIds e (sv_dispatcher s)"
    have "queueIds c (w_disp w) \<noteq> []" using q(3) by simp
    with w_inv_lengths[OF assms(1), of c] have "callbacksOf (cs_callbackQueue ?cs) c \<noteq> []" by auto
    from cs_deliverAll_one[OF assms(3)[unfolded q(1)] q(2) _ this] ok
    have D: "cs_server cs = s" "cq_wf (cs_callbackQueue cs)"
      "\<And>e. waiting e (w_cs w) = calledBy e es @ waiting e cs"
      "\<And>e. length (calledBy e es) = (if e = c then 1 else 0)" by (auto simp: cs_ok_def)
    have f: "finishedBy e evs = (if e = c then [i] else [])" for e
      using q(1,2) by (simp add: finishedBy_def)
    show ?thesis
      by (rule w_inv_advance[OF assms(1) ok']) (use D q(3) f in simp_all)
  qed
qed

lemma inv_pump:
  assumes "w_inv w" "serverIteration wr pc l (w_disp w) = Ret (Some l', d, evs)"
    and "cs_canceled L evs ((w_cs w)\<lparr>cs_server := (cs_server (w_cs w))\<lparr>sv_dispatcher := d\<rparr>\<rparr>) = Ret (cs, es)"
  shows "w_inv (advance cs (\<lambda>e. canceledBy e evs) es w)"
proof -
  have ok: "cs_ok (w_cs w)" using assms(1) by (simp add: w_inv_def)
  then have sv: "served (w_disp w)" by (simp add: cs_ok_def)
  note I = serverIteration_canceled[OF assms(2) sv]
  have len: "length (canceledBy e evs) \<le> length (waiting e (w_cs w))" for e
    using I[of e] w_inv_lengths[OF assms(1), of e] by (metis length_append le_add1)
  from cs_canceled_called[OF assms(3)] ok len
  have D: "cs_server cs = (cs_server (w_cs w))\<lparr>sv_dispatcher := d\<rparr>" "cq_wf (cs_callbackQueue cs)"
    "\<And>e. waiting e (w_cs w) = calledBy e es @ waiting e cs"
    "\<And>e. length (calledBy e es) = length (canceledBy e evs)"
    by (auto simp: cs_ok_def)
  show ?thesis
    by (rule w_inv_advance[OF assms(1)]) (use I D ok in \<open>simp_all add: cs_ok_def\<close>)
qed

lemma calledBy_drained:
  "calledBy e (map (\<lambda>cb. case cb of CsCallback k _ \<Rightarrow> SInvoked c k conf err) cbs) =
     (if c = e then map cbid cbs else [])"
  by (induction cbs) (auto split: cs_callback.splits)

lemma inv_disconnect:
  assumes "w_inv w" "cs_disconnect L ven wr c (w_cs w) = Ret (cs, es)"
  shows "w_inv (advance cs (\<lambda>e. if e = c then queueIds c (w_disp w) else []) es w)"
proof -
  have ok: "cs_ok (w_cs w)" using assms(1) by (simp add: w_inv_def)
  then have wf: "sd_wf (w_disp w)" "sv_disconnectedClientHandler (cs_server (w_cs w))"
    "cq_wf (cs_callbackQueue (w_cs w))"
    by (simp_all add: cs_ok_def served_def)
  obtain cq where cq: "drainCallbacks c (cs_callbackQueue (w_cs w)) =
      Ret (callbacksOf (cs_callbackQueue (w_cs w)) c, cq)" "cq_wf cq"
    "callbacksOf cq = (callbacksOf (cs_callbackQueue (w_cs w)))(c := [])"
    using drainCallbacks_eq[OF wf(3)] by blast
  obtain sig d1 where r: "removeClient c (w_disp w) = (sig, d1)" by (cases "removeClient c (w_disp w)")
  have cancel: "sd_onRequestCancel d1 = sd_onRequestCancel (w_disp w)"
    using r by (auto simp: removeClient_def Let_def)
  obtain d2 where d2: "DeleteClient c (w_disp w) = Ret d2"
    using assms(2) by (auto simp: cs_disconnect_def onClientDisconnected_def)
  then obtain rc where rc: "d2 = d1\<lparr>sd_requestChannel := rc\<rparr>"
    using r by (cases sig) (auto simp: DeleteClient_def signalClient_def split: option.splits
        intro: that[of "sd_requestChannel d1"])
  let ?d = "d2\<lparr>sd_pendingState := ClearClientPendingRequest c (sd_pendingState d2)\<rparr>"
  have cs: "cs_server cs = (cs_server (w_cs w))\<lparr>sv_dispatcher := ?d\<rparr>" "cs_callbackQueue cs = cq"
    and es: "calledBy e es = (if c = e then waiting c (w_cs w) else [])" for e
    using assms(2) d2 wf(2) cq(1)
    by (auto simp: cs_disconnect_def onClientDisconnected_def cs_deliver_def cs_disconnected_def calledBy_drained)
  note R = removeClient_eq[OF r wf(1)]
  have q: "queueIds e (w_disp w) = (if e = c then queueIds c (w_disp w) else []) @ queueIds e ?d" for e
    using R(2) R(3)[of e] same_clientD(1)[of e "w_disp w" d1] rc by (cases "e = c") (simp_all add: clear_eq)
  have d2: "sd_wf d2" "sd_onRequestCancel ?d" "\<And>e. e \<noteq> c \<Longrightarrow> same_client e (w_disp w) d2"
    using R(1,3) rc cancel ok by (simp_all add: cs_ok_def served_def)
  have "matched e ?d" for e
    using clear_eq(2)[of c d2] same_client_trans[OF d2(3) clear_eq(1)[of e c d2]] ok
    by (cases "e = c") (auto simp: cs_ok_def served_def dest: same_clientD(2))
  with clear_eq(3)[OF d2(1)] d2(2) have "cs_ok cs" using cs ok cq(2) by (simp add: cs_ok_def served_def)
  moreover have disp: "sv_dispatcher (cs_server cs) = ?d" using cs(1) by simp
  have "queueIds e (w_disp w) = (if e = c then queueIds c (w_disp w) else []) @
      queueIds e (sv_dispatcher (cs_server cs))" for e
    unfolding disp by (rule q)
  moreover have "waiting e (w_cs w) = calledBy e es @ waiting e cs" for e
    using es[of e] cs(2) cq(3) by simp
  moreover have "length (calledBy e es) = length (if e = c then queueIds c (w_disp w) else [])" for e
    using es[of e] w_inv_lengths[OF assms(1), of c] by simp
  ultimately show ?thesis by (rule w_inv_advance[OF assms(1)])
qed

lemma inv_connect:
  assumes "w_inv w" "cs_connect L ven wr c (w_cs w) = Ret (cs, es)"
  shows "w_inv (advance cs (\<lambda>e. []) es w)"
proof -
  have ok: "cs_ok (w_cs w)" using assms(1) by (simp add: w_inv_def)
  then have wf: "sd_wf (w_disp w)" by (simp add: cs_ok_def served_def)
  obtain d where d: "CreateClient c (w_disp w) = Ret d"
    using assms(2) by (auto simp: cs_connect_def onClientConnected_def)
  note C = CreateClient_Ret[OF d wf]
  have cs: "cs = (w_cs w)\<lparr>cs_server := (cs_server (w_cs w))\<lparr>sv_dispatcher := d\<rparr>\<rparr>" "calledBy e es = []" for e
    using assms(2) d by (auto simp: cs_connect_def onClientConnected_def cs_deliver_def split: if_splits)
  have "sd_onRequestCancel d = sd_onRequestCancel (w_disp w)"
    using d by (auto simp: CreateClient_def split: if_splits)
  then have "cs_ok cs" using ok C(1,3) cs(1) by (simp add: cs_ok_def served_def)
  then show ?thesis
    by (rule w_inv_advance[OF assms(1)]) (use C(2) cs in simp_all)
qed

lemma w_inv_dispatcher:
  assumes "w_inv w" "served d" "\<And>e. clientQueue e d = clientQueue e (w_disp w)"
  shows "w_inv (w\<lparr>w_cs := (w_cs w)\<lparr>cs_server := (cs_server (w_cs w))\<lparr>sv_dispatcher := d\<rparr>\<rparr>\<rparr>)"
  by (rule w_inv_same[OF assms(1)]) (use assms in \<open>auto simp: cs_ok_def w_inv_def\<close>)

lemma w_inv_step: "cs_step L w w' \<Longrightarrow> w_inv w \<Longrightarrow> w_inv w'"
proof (induction rule: cs_step.induct)
  case (step_send uid ven c request k t w cs)
  then show ?case using inv_send[of w uid L ven c request "CsCallback k t" None cs] by simp
next
  case (step_refused uid ven c request cb w err cs)
  then show ?case using inv_send[of w uid L ven c request cb "Some err" cs] by simp
next
  case (step_receive ven wr c raw w err s evs cs es)
  show ?case by (rule inv_receive[OF step_receive(3,1,2)])
next
  case (step_connect ven wr c w cs es)
  show ?case by (rule inv_connect[OF step_connect(2,1)])
next
  case (step_disconnect ven wr c w cs es)
  show ?case by (rule inv_disconnect[OF step_disconnect(2,1)])
next
  case (step_timeout c w d)
  then have "\<exists>tc. d = (w_disp w)\<lparr>sd_timerC := tc\<rparr> \<or> d = w_disp w"
    by (auto simp: waitForTimeout_def split: if_splits option.splits)
  then show ?case using step_timeout(2) by (intro w_inv_dispatcher) (auto simp: w_inv_def cs_ok_def)
next
  case (step_stop w cs)
  then obtain sc where cs: "cs = (w_cs w)\<lparr>cs_server := (cs_server (w_cs w))\<lparr>sv_dispatcher :=
      (w_disp w)\<lparr>sd_running := False, sd_stoppedC := sc\<rparr>\<rparr>\<rparr>"
    by (auto simp: cs_Stop_def Server_Stop_def ServerDispatcher_Stop_def Let_def split: option.splits)
  show ?case unfolding cs
    by (rule w_inv_dispatcher) (use step_stop(2) in \<open>auto simp: w_inv_def cs_ok_def\<close>)
next
  case (step_pump w l wr pc l' d evs cs es)
  show ?case using inv_pump[OF step_pump(4,2,3)] by simp
qed

lemma w_inv_begin: "cs_begin w \<Longrightarrow> w_inv w"
  by (auto simp: cs_begin_def w_inv_def cs_ok_def served_def NewCentralSystem_def newCentralSystem_def
      cs_Start_def SetChargePointDisconnectedHandler_def NewServer_def Let_def Server_Start_def
      SetCanceledRequestHandler_def Server_SetErrorHandler_def Server_SetResponseHandler_def
      Server_SetRequestHandler_def SetDisconnectedClientHandler_def ServerDispatcher_Start_def
      ServerDispatcher_SetOnRequestCanceled_def ServerDispatcher_SetPendingRequestState_def
      SetNetworkServer_def NewDefaultServerDispatcher_def sd_wf_def map_wf_New clientQueue_def
      matched_def pending_def NewClientState_def)

interpretation central: inductive_invariant cs_begin "cs_step L" w_inv for L
  by unfold_locales (auto intro: w_inv_begin w_inv_step)


text \<open>Executable schedules.\<close>

datatype cs_move =
    CsSend string string nat apiCall
  | CsReceive string json
  | CsConnect string
  | CsDisconnect string
  | CsPump server_case

fun cs_make :: "(gotype, message) lib \<Rightarrow> cs_move \<Rightarrow> cs_world \<Rightarrow> (cs_world \<times> cs_event list) go" where
  "cs_make L (CsSend c uid k call) w =
     bind_go (cs_call L True uid c k call (w_cs w)) (\<lambda>(err, cs).
       if uid = '''' then Block
       else case err of
         None \<Rightarrow> Ret (w\<lparr>w_cs := cs, w_accepted := (w_accepted w)(c := w_accepted w c @ [(uid, k)])\<rparr>, [])
       | Some _ \<Rightarrow> Ret (w\<lparr>w_cs := cs\<rparr>, []))"
| "cs_make L (CsReceive c raw) w =
     bind_go (Server_ocppMessageHandler L True (\<lambda>_ _. None) c raw (cs_server (w_cs w))) (\<lambda>(err, s, evs).
       bind_go (cs_deliverAll L True (\<lambda>_ _. None) evs ((w_cs w)\<lparr>cs_server := s\<rparr>)) (\<lambda>(cs, es).
         Ret (advance cs (\<lambda>e. finishedBy e evs) es w, es)))"
| "cs_make L (CsConnect c) w =
     bind_go (cs_connect L True (\<lambda>_ _. None) c (w_cs w)) (\<lambda>(cs, es). Ret (advance cs (\<lambda>e. []) es w, es))"
| "cs_make L (CsDisconnect c) w =
     bind_go (cs_disconnect L True (\<lambda>_ _. None) c (w_cs w)) (\<lambda>(cs, es).
       Ret (advance cs (\<lambda>e. if e = c then queueIds c (w_disp w) else []) es w, es))"
| "cs_make L (CsPump pc) w =
     (case w_pump w of
        None \<Rightarrow> Block
      | Some l \<Rightarrow>
          bind_go (serverIteration (\<lambda>_ _. None) pc l (w_disp w)) (\<lambda>(l', d, evs).
            case l' of
              None \<Rightarrow> Block
            | Some l'' \<Rightarrow>
                bind_go (cs_canceled L evs ((w_cs w)\<lparr>cs_server := (cs_server (w_cs w))\<lparr>sv_dispatcher := d\<rparr>\<rparr>))
                  (\<lambda>(cs, es). Ret ((advance cs (\<lambda>e. canceledBy e evs) es w)\<lparr>w_pump := Some l''\<rparr>, es))))"

fun cs_moves :: "(gotype, message) lib \<Rightarrow> cs_move list \<Rightarrow> cs_world \<Rightarrow> (cs_world \<times> cs_event list) go" where
  "cs_moves L [] w = Ret (w, [])"
| "cs_moves L (m # ms) w =
     bind_go (cs_make L m w) (\<lambda>(w', es). bind_go (cs_moves L ms w') (\<lambda>(w'', es'). Ret (w'', es @ es')))"

lemma cs_make_step: "cs_make L m w = Ret (w', es) \<Longrightarrow> cs_step L w w'"
proof (induction L m w rule: cs_make.induct)
  case (1 L c uid k call w)
  then obtain err cs where "cs_SendRequestAsync L True uid c (api_request call)
      (CsCallback k (Some (api_response call))) (w_cs w) = Ret (err, cs)" "uid \<noteq> ''''"
    by (auto simp: cs_call_def split: if_splits)
  with 1 step_send[of uid L True c _ k _ w cs] step_refused[of uid L True c _ _ w _ cs] show ?case
    by (auto simp: cs_call_def split: option.splits)
qed (auto intro: cs_step.intros split: option.splits)

lemma cs_moves_reach:
  "cs_moves L ms w = Ret (w', es) \<Longrightarrow> reach cs_begin (cs_step L) w \<Longrightarrow> reach cs_begin (cs_step L) w'"
  by (induction ms arbitrary: w es) (auto, blast dest: cs_make_step reach_step)

definition demo_world :: "centralSystem \<Rightarrow> cs_world" where
  "demo_world cs = \<lparr>w_cs = cs, w_pump = Some initial_locals, w_accepted = (\<lambda>_. []),
     w_finished = (\<lambda>_. []), w_called = (\<lambda>_. [])\<rparr>"

definition demo_moves :: "cs_move list" where
  "demo_moves = [CsConnect ''cp1'', CsSend ''cp1'' ''1'' 7 (ClearCache []), CsPump ClientRequestCase,
     CsSend ''cp1'' ''2'' 8 (Reset ''Soft'' []), CsPump ClientRequestCase,
     CsReceive ''cp1'' (JArr [JNum 3 0, JStr ''1'', JObj [(''status'', JStr ''Accepted'')]])]"

definition demo_run :: "bool \<Rightarrow> cs_move list \<Rightarrow> (cs_world \<times> cs_event list) go" where
  "demo_run registered ms =
     bind_go (NewCentralSystem None) (\<lambda>cs.
       cs_moves demo_lib ms (demo_world (cs_Start (if registered then SetChargePointDisconnectedHandler cs else cs))))"

lemma demo_run_reach: "demo_run True ms = Ret (w, es) \<Longrightarrow> reach cs_begin (cs_step demo_lib) w"
proof -
  assume "demo_run True ms = Ret (w, es)"
  then obtain cs where cs: "NewCentralSystem None = Ret cs"
    "cs_moves demo_lib ms (demo_world (cs_Start (SetChargePointDisconnectedHandler cs))) = Ret (w, es)"
    by (auto simp: demo_run_def)
  let ?w = "demo_world (cs_Start (SetChargePointDisconnectedHandler cs))"
  have "cs_begin ?w"
    unfolding cs_begin_def demo_world_def using cs(1)
    by (intro conjI exI[of _ cs] exI[of _ "cs_coreHandler (w_cs ?w)"]
        exI[of _ "cs_localAuthListHandler (w_cs ?w)"] exI[of _ "cs_firmwareHandler (w_cs ?w)"]
        exI[of _ "cs_reservationHandler (w_cs ?w)"] exI[of _ "cs_remoteTriggerHandler (w_cs ?w)"]
        exI[of _ "cs_smartChargingHandler (w_cs ?w)"] exI[of _ "cs_errC (w_cs ?w)"])
      (simp_all add: demo_world_def)
  then show ?thesis using cs_moves_reach[OF cs(2)] by (blast intro: reach_start)
qed


definition stale_moves :: "cs_move list" where
  "stale_moves = [CsConnect ''cp1'', CsSend ''cp1'' ''1'' 7 (ClearCache []), CsPump ClientRequestCase,
     CsDisconnect ''cp1'', CsPump ClientRequestCase, CsConnect ''cp1'',
     CsSend ''cp1'' ''2'' 8 (ClearCache []), CsPump ClientRequestCase,
     CsReceive ''cp1'' (JArr [JNum 3 0, JStr ''2'', JObj [(''status'', JStr ''Rejected'')]])]"

text \<open>
  Without \<^verbatim>\<open>SetChargePointDisconnectedHandler\<close> nobody takes the callbacks of a lost connection:
  the server drops the requests of the client, and their callbacks stay. After the client has come
  back, the response to its first new request goes to the callback of the dropped one. Here a
  \<^verbatim>\<open>ClearCache\<close> is dropped, and the response to a second one is given to the first one's callback;
  the second one's callback keeps waiting although no request is in the queue.
\<close>

theorem cs_stale_callback:
  "\<exists>w. demo_run False stale_moves =
      Ret (w, [SInvoked ''cp1'' 7 (Some (NewClearCacheConfirmation ''Rejected'')) None]) \<and>
     clientQueue ''cp1'' (sv_dispatcher (cs_server (w_cs w))) = [] \<and>
     map cbid (callbacksOf (cs_callbackQueue (w_cs w)) ''cp1'') = [8]"
proof -
  have "case demo_run False stale_moves of
      Ret (w, es) \<Rightarrow> es = [SInvoked ''cp1'' 7 (Some (NewClearCacheConfirmation ''Rejected'')) None] \<and>
        clientQueue ''cp1'' (sv_dispatcher (cs_server (w_cs w))) = [] \<and>
        map cbid (callbacksOf (cs_callbackQueue (w_cs w)) ''cp1'') = [8]
    | _ \<Rightarrow> False"
    by code_simp
  from go_case_Ret[OF this] show ?thesis by (metis (no_types, lifting))
qed

end
