(* ===== verification/WebSocket.thy ===== *)
theory WebSocket
  imports Prelude "HOL-Library.Word"
begin

text \<open>
  \<^verbatim>\<open>ws/websocket.go\<close>, the part that server and client share: timeouts, the socket with its channels
  and what is observable on the network. A connection of the gorilla package is known by a number;
  what its methods return is an argument of the definitions that call them. Log output is left out.
\<close>

section \<open>Durations\<close>

text \<open>\<^verbatim>\<open>time.Duration\<close> and \<^verbatim>\<open>int\<close> are 64-bit integers. Durations are in nanoseconds.\<close>

definition wrap64 :: "int \<Rightarrow> int" where
  "wrap64 x = sint (word_of_int x :: 64 word)"

lemma wrap64_id: "- (2 ^ 63) \<le> x \<Longrightarrow> x < 2 ^ 63 \<Longrightarrow> wrap64 x = x"
  by (simp add: wrap64_def sint_sbintrunc' signed_take_bit_int_eq_self)

definition second :: int where
  "second = 1000000000"

definition defaultWriteWait :: int where "defaultWriteWait = 10 * second"
definition defaultPongWait :: int where "defaultPongWait = 60 * second"
definition defaultPingWait :: int where "defaultPingWait = defaultPongWait"
definition defaultPingPeriod :: int where "defaultPingPeriod = (defaultPongWait * 9) div 10"
definition defaultHandshakeTimeout :: int where "defaultHandshakeTimeout = 30 * second"
definition defaultRetryBackOffRepeatTimes :: int where "defaultRetryBackOffRepeatTimes = 5"
definition defaultRetryBackOffRandomRange :: int where "defaultRetryBackOffRandomRange = 15"
definition defaultRetryBackOffWaitMinimum :: int where "defaultRetryBackOffWaitMinimum = 10 * second"

record ServerTimeoutConfig =
  sc_WriteWait :: int
  sc_PingWait :: int

definition NewServerTimeoutConfig :: ServerTimeoutConfig where
  "NewServerTimeoutConfig = \<lparr>sc_WriteWait = defaultWriteWait, sc_PingWait = defaultPingWait\<rparr>"

record ClientTimeoutConfig =
  cc_WriteWait :: int
  cc_HandshakeTimeout :: int
  cc_PongWait :: int
  cc_PingPeriod :: int
  cc_RetryBackOffRepeatTimes :: int
  cc_RetryBackOffRandomRange :: int
  cc_RetryBackOffWaitMinimum :: int

definition NewClientTimeoutConfig :: ClientTimeoutConfig where
  "NewClientTimeoutConfig =
     \<lparr>cc_WriteWait = defaultWriteWait, cc_HandshakeTimeout = defaultHandshakeTimeout,
      cc_PongWait = defaultPongWait, cc_PingPeriod = defaultPingPeriod,
      cc_RetryBackOffRepeatTimes = defaultRetryBackOffRepeatTimes,
      cc_RetryBackOffRandomRange = defaultRetryBackOffRandomRange,
      cc_RetryBackOffWaitMinimum = defaultRetryBackOffWaitMinimum\<rparr>"

text \<open>\<^verbatim>\<open>getReadTimeout\<close> of server and client: no deadline without a waiting time.\<close>

definition getReadTimeout :: "int \<Rightarrow> int \<Rightarrow> int option" where
  "getReadTimeout wait now = (if wait = 0 then None else Some (now + wait))"

section \<open>Sockets\<close>

record CloseError =
  ce_Code :: int
  ce_Text :: string

definition CloseNormalClosure :: int where "CloseNormalClosure = 1000"
definition CloseProtocolError :: int where "CloseProtocolError = 1002"
definition ClosePolicyViolation :: int where "ClosePolicyViolation = 1008"

text \<open>
  Only the read pumps send to \<^verbatim>\<open>forceCloseC\<close>, and only errors that are not nil. \<^verbatim>\<open>pingMessage\<close> is nil
  on the client.
\<close>

record WebSocket =
  ws_connection :: nat
  ws_id :: string
  ws_outQueue :: "string chan"
  ws_closeC :: "CloseError chan"
  ws_forceCloseC :: "string chan"
  ws_pingMessage :: "string chan option"
  ws_tlsConnectionState :: "nat option"

text \<open>
  What happens on a connection and which handlers are called, with the ID of the socket. \<open>PumpsStarted\<close>
  marks the start of the two goroutines of a socket.
\<close>

datatype ws_event =
    TextSent nat string
  | PingSent nat
  | PongSent nat string
  | CloseSent nat CloseError
  | ConnClosed nat
  | HttpUnauthorized bool
  | PumpsStarted nat
  | CalledNewClient string
  | CalledMessage string string
  | CalledDisconnected string "string option"
  | CalledReconnected
  | Waited int

text \<open>\<^verbatim>\<open>path.Base\<close>.\<close>

definition pathBase :: "string \<Rightarrow> string" where
  "pathBase p =
     (if p = '''' then ''.''
      else let q = rev (dropWhile (\<lambda>c. c = CHR ''/'') (rev p));
               b = rev (takeWhile (\<lambda>c. c \<noteq> CHR ''/'') (rev q))
           in if b = '''' then ''/'' else b)"

text \<open>\<^verbatim>\<open>error\<close> and \<^verbatim>\<open>Errors\<close>, which server and client have alike.\<close>

definition wsError :: "string \<Rightarrow> string chan option \<Rightarrow> string chan option go" where
  "wsError err errC =
     (case errC of
        None \<Rightarrow> Ret None
      | Some ch \<Rightarrow> bind_go (chan_send ch err) (\<lambda>ch'. Ret (Some ch')))"

definition wsErrors :: "string chan option \<Rightarrow> string chan option" where
  "wsErrors errC = (case errC of None \<Rightarrow> Some (make_chan 1) | Some ch \<Rightarrow> Some ch)"

text \<open>
  What a read from a connection gives: a message, a ping, or an error. \<open>unexpected\<close> is the answer of
  \<^verbatim>\<open>websocket.IsUnexpectedCloseError\<close> for that error.
\<close>

datatype read_result =
    ReadMessage string
  | ReadPing string
  | ReadFailed string (unexpected: bool)

end
