(* ===== verification/WsServer.thy ===== *)
theory WsServer
  imports WebSocket
begin

text \<open>
  The WebSocket server of \<^verbatim>\<open>ws/websocket.go\<close>. Sockets are objects that the map of connections, the
  two pumps of a connection and the callers of \<^verbatim>\<open>StopConnection\<close> share, so they live in a store under
  the number of their connection. Listening and serving over HTTP are not modelled; a request that
  arrives is an argument of \<open>wsHandler\<close>, and so is the outcome of the upgrade.

  The code between \<^verbatim>\<open>connMutex.Lock\<close> or \<^verbatim>\<open>RLock\<close> and the unlocking is one definition.
\<close>

record httpRequest =
  rq_Path :: string
  rq_RemoteAddr :: string
  rq_Subprotocols :: "string list"
  rq_BasicAuth :: "(string \<times> string) option"
  rq_TLS :: "nat option"

record wsServer =
  wss_connections :: "string \<rightharpoonup> nat"
  wss_sockets :: "nat \<Rightarrow> WebSocket"
  wss_messageHandler :: bool
  wss_checkClientHandler :: "(string \<Rightarrow> httpRequest \<Rightarrow> bool) option"
  wss_newClientHandler :: bool
  wss_disconnectedHandler :: bool
  wss_basicAuthHandler :: "(string \<Rightarrow> string \<Rightarrow> bool) option"
  wss_tlsCertificatePath :: string
  wss_tlsCertificateKey :: string
  wss_timeoutConfig :: ServerTimeoutConfig
  wss_Subprotocols :: "string list"
  wss_CheckOrigin :: "(httpRequest \<Rightarrow> bool) option"
  wss_errC :: "string chan option"
  wss_addr :: "string option"
  wss_httpHandler :: "string list"

section \<open>Construction and configuration\<close>

definition closedSocket :: WebSocket where
  "closedSocket = \<lparr>ws_connection = 0, ws_id = '''', ws_outQueue = make_chan 0, ws_closeC = make_chan 0,
     ws_forceCloseC = make_chan 0, ws_pingMessage = None, ws_tlsConnectionState = None\<rparr>"

definition NewTLSServer :: "string \<Rightarrow> string \<Rightarrow> wsServer" where
  "NewTLSServer certificatePath certificateKey =
     \<lparr>wss_connections = Map.empty, wss_sockets = (\<lambda>_. closedSocket), wss_messageHandler = False,
      wss_checkClientHandler = None, wss_newClientHandler = False, wss_disconnectedHandler = False,
      wss_basicAuthHandler = None, wss_tlsCertificatePath = certificatePath,
      wss_tlsCertificateKey = certificateKey, wss_timeoutConfig = NewServerTimeoutConfig,
      wss_Subprotocols = [], wss_CheckOrigin = None, wss_errC = None, wss_addr = None,
      wss_httpHandler = []\<rparr>"

definition ws_NewServer :: wsServer where
  "ws_NewServer = NewTLSServer '''' ''''"

definition wss_SetMessageHandler :: "wsServer \<Rightarrow> wsServer" where
  "wss_SetMessageHandler s = s\<lparr>wss_messageHandler := True\<rparr>"

definition SetCheckClientHandler :: "(string \<Rightarrow> httpRequest \<Rightarrow> bool) \<Rightarrow> wsServer \<Rightarrow> wsServer" where
  "SetCheckClientHandler handler s = s\<lparr>wss_checkClientHandler := Some handler\<rparr>"

definition wss_SetNewClientHandler :: "wsServer \<Rightarrow> wsServer" where
  "wss_SetNewClientHandler s = s\<lparr>wss_newClientHandler := True\<rparr>"

definition wss_SetDisconnectedClientHandler :: "wsServer \<Rightarrow> wsServer" where
  "wss_SetDisconnectedClientHandler s = s\<lparr>wss_disconnectedHandler := True\<rparr>"

definition wss_SetTimeoutConfig :: "ServerTimeoutConfig \<Rightarrow> wsServer \<Rightarrow> wsServer" where
  "wss_SetTimeoutConfig config s = s\<lparr>wss_timeoutConfig := config\<rparr>"

definition AddSupportedSubprotocol :: "string \<Rightarrow> wsServer \<Rightarrow> wsServer" where
  "AddSupportedSubprotocol subProto s =
     (if subProto \<in> set (wss_Subprotocols s) then s
      else s\<lparr>wss_Subprotocols := wss_Subprotocols s @ [subProto]\<rparr>)"

definition SetBasicAuthHandler :: "(string \<Rightarrow> string \<Rightarrow> bool) \<Rightarrow> wsServer \<Rightarrow> wsServer" where
  "SetBasicAuthHandler handler s = s\<lparr>wss_basicAuthHandler := Some handler\<rparr>"

definition SetCheckOriginHandler :: "(httpRequest \<Rightarrow> bool) \<Rightarrow> wsServer \<Rightarrow> wsServer" where
  "SetCheckOriginHandler handler s = s\<lparr>wss_CheckOrigin := Some handler\<rparr>"

definition wss_error :: "string \<Rightarrow> wsServer \<Rightarrow> wsServer go" where
  "wss_error err s = bind_go (wsError err (wss_errC s)) (\<lambda>ch. Ret (s\<lparr>wss_errC := ch\<rparr>))"

definition wss_Errors :: "wsServer \<Rightarrow> wsServer" where
  "wss_Errors s = s\<lparr>wss_errC := wsErrors (wss_errC s)\<rparr>"

definition AddHttpHandler :: "string \<Rightarrow> wsServer \<Rightarrow> wsServer" where
  "AddHttpHandler listenPath s = s\<lparr>wss_httpHandler := wss_httpHandler s @ [listenPath]\<rparr>"

text \<open>
  \<^verbatim>\<open>Start\<close> up to serving: \<open>listen\<close> is the address or the error of \<^verbatim>\<open>net.Listen\<close>. \<open>wss_Served\<close> is the rest,
  with the error that serving ends with, \<open>None\<close> for \<^verbatim>\<open>http.ErrServerClosed\<close>.
\<close>

definition wss_Start :: "(string \<Rightarrow> string + string) \<Rightarrow> int \<Rightarrow> string \<Rightarrow> wsServer \<Rightarrow> (bool \<times> wsServer) go" where
  "wss_Start listen port listenPath s =
     (let s1 = AddHttpHandler listenPath (s\<lparr>wss_connections := Map.empty\<rparr>)
      in case listen ('':'' @ show_int port) of
           Inl err \<Rightarrow> bind_go (wss_error (''failed to listen: '' @ err) s1) (\<lambda>s2. Ret (False, s2))
         | Inr addr \<Rightarrow> Ret (True, s1\<lparr>wss_addr := Some addr\<rparr>))"

definition wss_Served :: "string option \<Rightarrow> wsServer \<Rightarrow> wsServer go" where
  "wss_Served err s = (case err of None \<Rightarrow> Ret s | Some e \<Rightarrow> wss_error (''failed to listen: '' @ e) s)"

definition wss_Stop :: "string option \<Rightarrow> wsServer \<Rightarrow> wsServer go" where
  "wss_Stop shutdown s =
     bind_go (case shutdown of None \<Rightarrow> Ret s | Some e \<Rightarrow> wss_error (''shutdown failed: '' @ e) s) (\<lambda>s1.
       case wss_errC s1 of
         None \<Rightarrow> Ret s1
       | Some ch \<Rightarrow> bind_go (chan_close ch) (\<lambda>_. Ret (s1\<lparr>wss_errC := None\<rparr>)))"

section \<open>Writing and stopping connections\<close>

definition upd_socket :: "nat \<Rightarrow> WebSocket \<Rightarrow> wsServer \<Rightarrow> wsServer" where
  "upd_socket r ws s = s\<lparr>wss_sockets := (wss_sockets s)(r := ws)\<rparr>"

definition wss_Write :: "string \<Rightarrow> string \<Rightarrow> wsServer \<Rightarrow> (string option \<times> wsServer) go" where
  "wss_Write webSocketId content s =
     (case wss_connections s webSocketId of
        None \<Rightarrow> Ret (Some (''couldn't write to websocket. No socket with id '' @ webSocketId @ '' is open''), s)
      | Some r \<Rightarrow>
          (let ws = wss_sockets s r
           in bind_go (chan_send (ws_outQueue ws) content) (\<lambda>q.
                Ret (None, upd_socket r (ws\<lparr>ws_outQueue := q\<rparr>) s))))"

text \<open>\<^verbatim>\<open>StopConnection\<close> releases the lock between looking the socket up and sending to it.\<close>

definition stopLookup :: "string \<Rightarrow> wsServer \<Rightarrow> string + nat" where
  "stopLookup i s =
     (case wss_connections s i of
        None \<Rightarrow> Inl (''couldn't stop websocket connection. No connection with id '' @ i @ '' is open'')
      | Some r \<Rightarrow> Inr r)"

definition stopSend :: "nat \<Rightarrow> CloseError \<Rightarrow> wsServer \<Rightarrow> wsServer go" where
  "stopSend r closeError s =
     (let ws = wss_sockets s r
      in bind_go (chan_send (ws_closeC ws) closeError) (\<lambda>c. Ret (upd_socket r (ws\<lparr>ws_closeC := c\<rparr>) s)))"

definition StopConnection :: "string \<Rightarrow> CloseError \<Rightarrow> wsServer \<Rightarrow> (string option \<times> wsServer) go" where
  "StopConnection i closeError s =
     (case stopLookup i s of
        Inl err \<Rightarrow> Ret (Some err, s)
      | Inr r \<Rightarrow> bind_go (stopSend r closeError s) (\<lambda>s'. Ret (None, s')))"

text \<open>\<open>order\<close> is the order in which \<^verbatim>\<open>range\<close> visits the map.\<close>

fun stopConnections :: "string list \<Rightarrow> wsServer \<Rightarrow> wsServer go" where
  "stopConnections [] s = Ret s"
| "stopConnections (i # order) s =
     (case wss_connections s i of
        None \<Rightarrow> stopConnections order s
      | Some r \<Rightarrow> bind_go (stopSend r \<lparr>ce_Code = CloseNormalClosure, ce_Text = ''''\<rparr> s) (stopConnections order))"

section \<open>New connections\<close>

text \<open>
  The sub-protocol: the first one requested that is supported, or the first one requested if the
  server supports any; the empty string if there is none.
\<close>

fun negotiate :: "string list \<Rightarrow> string list \<Rightarrow> string" where
  "negotiate supported [] = ''''"
| "negotiate supported (requestedProto # ps) =
     (if supported = [] \<or> requestedProto \<in> set supported then requestedProto else negotiate supported ps)"

text \<open>\<^verbatim>\<open>fmt\<close> prints a slice of strings in brackets.\<close>

fun joinStrings :: "string list \<Rightarrow> string" where
  "joinStrings [] = ''''"
| "joinStrings [x] = x"
| "joinStrings (x # xs) = x @ '' '' @ joinStrings xs"

definition authorized :: "httpRequest \<Rightarrow> wsServer \<Rightarrow> bool" where
  "authorized r s =
     (case wss_basicAuthHandler s of
        None \<Rightarrow> True
      | Some h \<Rightarrow> (case rq_BasicAuth r of None \<Rightarrow> False | Some (username, password) \<Rightarrow> h username password))"

definition clientValid :: "string \<Rightarrow> httpRequest \<Rightarrow> wsServer \<Rightarrow> bool" where
  "clientValid i r s = (case wss_checkClientHandler s of None \<Rightarrow> True | Some h \<Rightarrow> h i r)"

text \<open>A connection that is refused after the upgrade: an error, a close message, and the end.\<close>

definition refuse :: "string \<Rightarrow> nat \<Rightarrow> CloseError \<Rightarrow> wsServer \<Rightarrow> (wsServer \<times> ws_event list) go" where
  "refuse err conn closeError s =
     bind_go (wss_error err s) (\<lambda>s'. Ret (s', [CloseSent conn closeError, ConnClosed conn]))"

definition newSocket :: "nat \<Rightarrow> string \<Rightarrow> nat option \<Rightarrow> WebSocket" where
  "newSocket conn i tls =
     \<lparr>ws_connection = conn, ws_id = i, ws_outQueue = make_chan 1, ws_closeC = make_chan 1,
      ws_forceCloseC = make_chan 1, ws_pingMessage = Some (make_chan 1), ws_tlsConnectionState = tls\<rparr>"

definition wsHandler ::
  "((httpRequest \<Rightarrow> bool) option \<Rightarrow> httpRequest \<Rightarrow> string \<Rightarrow> string + nat) \<Rightarrow> httpRequest \<Rightarrow> wsServer \<Rightarrow>
   (wsServer \<times> ws_event list) go" where
  "wsHandler upgrade r s =
     (let i = pathBase (rq_Path r);
          negotiatedSuprotocol = negotiate (wss_Subprotocols s) (rq_Subprotocols r)
      in if \<not> authorized r s then
           bind_go (wss_error ''basic auth failed: credentials invalid'' s) (\<lambda>s'. Ret (s', [HttpUnauthorized True]))
         else if \<not> clientValid i r s then
           bind_go (wss_error ''client validation: invalid client'' s) (\<lambda>s'. Ret (s', [HttpUnauthorized False]))
         else case upgrade (wss_CheckOrigin s) r negotiatedSuprotocol of
           Inl err \<Rightarrow> bind_go (wss_error (''upgrade failed: '' @ err) s) (\<lambda>s'. Ret (s', []))
         | Inr conn \<Rightarrow>
             (let ws = newSocket conn i (rq_TLS r)
              in if negotiatedSuprotocol = '''' then
                   refuse (''unsupported subprotocols ['' @ joinStrings (rq_Subprotocols r) @ ''] for new client '' @
                       i @ '' ('' @ rq_RemoteAddr r @ '')'') conn
                     \<lparr>ce_Code = CloseProtocolError, ce_Text = ''invalid or unsupported subprotocol''\<rparr> s
                 else if wss_connections s i \<noteq> None then
                   refuse (''client '' @ i @ '' already exists, closing duplicate client'') conn
                     \<lparr>ce_Code = ClosePolicyViolation, ce_Text = ''a connection with this ID already exists''\<rparr> s
                 else
                   Ret (upd_socket conn ws (s\<lparr>wss_connections := (wss_connections s)(i \<mapsto> conn)\<rparr>),
                        PumpsStarted conn # (if wss_newClientHandler s then [CalledNewClient i] else []))))"

section \<open>The pumps of a connection\<close>

text \<open>
  One read. \<open>handled\<close> is what the message handler returns. The result says whether the pump goes on.
\<close>

definition wss_readPump ::
  "read_result \<Rightarrow> (string \<Rightarrow> string \<Rightarrow> string option) \<Rightarrow> nat \<Rightarrow> wsServer \<Rightarrow>
   (bool \<times> wsServer \<times> ws_event list) go" where
  "wss_readPump res handled r s =
     (let ws = wss_sockets s r
      in case res of
           ReadPing appData \<Rightarrow>
             (case ws_pingMessage ws of
                None \<Rightarrow> Block
              | Some c \<Rightarrow> bind_go (chan_send c appData) (\<lambda>c'.
                  Ret (True, upd_socket r (ws\<lparr>ws_pingMessage := Some c'\<rparr>) s, [])))
         | ReadFailed err unexp \<Rightarrow>
             bind_go (if unexp then wss_error (''read failed unexpectedly for '' @ ws_id ws @ '': '' @ err) s
                      else Ret s) (\<lambda>s1.
               bind_go (chan_send (ws_forceCloseC ws) err) (\<lambda>c'.
                 Ret (False, upd_socket r (ws\<lparr>ws_forceCloseC := c'\<rparr>) s1, [])))
         | ReadMessage message \<Rightarrow>
             if wss_messageHandler s then
               (case handled (ws_id ws) message of
                  None \<Rightarrow> Ret (True, s, [CalledMessage (ws_id ws) message])
                | Some err \<Rightarrow>
                    bind_go (wss_error (''handling failed for '' @ ws_id ws @ '': '' @ err) s) (\<lambda>s1.
                      Ret (True, s1, [CalledMessage (ws_id ws) message])))
             else Ret (True, s, []))"

definition cleanupConnection :: "nat \<Rightarrow> wsServer \<Rightarrow> (wsServer \<times> ws_event list) go" where
  "cleanupConnection r s =
     (let ws = wss_sockets s r
      in bind_go (chan_close (ws_outQueue ws)) (\<lambda>q.
           bind_go (chan_close (ws_closeC ws)) (\<lambda>c.
             Ret ((upd_socket r (ws\<lparr>ws_outQueue := q, ws_closeC := c\<rparr>) s)\<lparr>wss_connections :=
                    (wss_connections s)(ws_id ws := None)\<rparr>,
                  ConnClosed r # (if wss_disconnectedHandler s then [CalledDisconnected (ws_id ws) None] else [])))))"

text \<open>A failed write: the error is reported and the connection cleaned up.\<close>

definition writeFailed :: "string \<Rightarrow> nat \<Rightarrow> wsServer \<Rightarrow> (bool \<times> wsServer \<times> ws_event list) go" where
  "writeFailed err r s =
     bind_go (wss_error (''write failed for '' @ ws_id (wss_sockets s r) @ '': '' @ err) s) (\<lambda>s1.
       bind_go (cleanupConnection r s1) (\<lambda>(s2, evs). Ret (False, s2, evs)))"

definition closeFailedText :: "string \<Rightarrow> string \<Rightarrow> string" where
  "closeFailedText i err = ''failed to write close message for connection '' @ i @ '': '' @ err"

datatype write_case = OutCase | PingCase | CloseCase | ForceCase

text \<open>One iteration of \<^verbatim>\<open>writePump\<close>; \<open>res\<close> is what writing to the connection returns.\<close>

definition wss_writePump ::
  "write_case \<Rightarrow> string option \<Rightarrow> nat \<Rightarrow> wsServer \<Rightarrow> (bool \<times> wsServer \<times> ws_event list) go" where
  "wss_writePump c res r s =
     (let ws = wss_sockets s r
      in case c of
           OutCase \<Rightarrow>
             bind_go (chan_recv (ws_outQueue ws)) (\<lambda>(content, q).
               let s1 = upd_socket r (ws\<lparr>ws_outQueue := q\<rparr>) s
               in case content of
                    None \<Rightarrow>
                      bind_go (wss_error (''output queue for socket '' @ ws_id ws @
                        '' was closed, forcefully closing'') s1) (\<lambda>s2. Ret (False, s2, []))
                  | Some m \<Rightarrow>
                      (case res of
                         Some err \<Rightarrow> writeFailed err r s1
                       | None \<Rightarrow> Ret (True, s1, [TextSent r m])))
         | PingCase \<Rightarrow>
             (case ws_pingMessage ws of
                None \<Rightarrow> Block
              | Some ch \<Rightarrow>
                  bind_go (chan_recv ch) (\<lambda>(ping, ch').
                    let s1 = upd_socket r (ws\<lparr>ws_pingMessage := Some ch'\<rparr>) s
                    in case res of
                         Some err \<Rightarrow> writeFailed err r s1
                       | None \<Rightarrow> Ret (True, s1, [PongSent r (case ping of None \<Rightarrow> '''' | Some p \<Rightarrow> p)])))
         | CloseCase \<Rightarrow>
             bind_go (chan_recv (ws_closeC ws)) (\<lambda>(closeErr, ch).
               let s1 = upd_socket r (ws\<lparr>ws_closeC := ch\<rparr>) s;
                   ce = (case closeErr of None \<Rightarrow> \<lparr>ce_Code = 0, ce_Text = ''''\<rparr> | Some e \<Rightarrow> e)
               in bind_go (case res of
                      Some err \<Rightarrow> wss_error (closeFailedText (ws_id ws) err) s1
                    | None \<Rightarrow> Ret s1) (\<lambda>s2.
                    bind_go (cleanupConnection r s2) (\<lambda>(s3, evs).
                      Ret (False, s3, (if res = None then [CloseSent r ce] else []) @ evs))))
         | ForceCase \<Rightarrow>
             bind_go (chan_recv (ws_forceCloseC ws)) (\<lambda>(closed, ch).
               bind_go (cleanupConnection r (upd_socket r (ws\<lparr>ws_forceCloseC := ch\<rparr>) s)) (\<lambda>(s1, evs).
                 Ret (False, s1, evs))))"

section \<open>A running server\<close>

text \<open>
  The server with the goroutines around it: the sockets whose write pump and whose read pump run,
  and the callers of \<^verbatim>\<open>StopConnection\<close> between its lookup and its send. \<open>ww_used\<close> are the numbers of
  all connections so far; an upgrade makes a new one.
\<close>

record ws_world =
  ww_server :: wsServer
  ww_writers :: "nat list"
  ww_readers :: "nat list"
  ww_stoppers :: "(nat \<times> CloseError) list"
  ww_used :: "nat list"

fun startedBy :: "ws_event list \<Rightarrow> nat list" where
  "startedBy [] = []"
| "startedBy (PumpsStarted r # evs) = r # startedBy evs"
| "startedBy (_ # evs) = startedBy evs"

definition ws_start :: "ws_world \<Rightarrow> bool" where
  "ws_start w \<longleftrightarrow> wss_connections (ww_server w) = Map.empty \<and>
     (case wss_errC (ww_server w) of None \<Rightarrow> True | Some ch \<Rightarrow> \<not> chan_closed ch) \<and>
     ww_writers w = [] \<and> ww_readers w = [] \<and> ww_stoppers w = [] \<and> ww_used w = []"

inductive ws_step :: "ws_world \<Rightarrow> ws_world \<Rightarrow> bool" where
  ws_accept: "wsHandler upgrade rq (ww_server w) = Ret (s, evs) \<Longrightarrow>
    set (startedBy evs) \<inter> set (ww_used w) = {} \<Longrightarrow>
    ws_step w (w\<lparr>ww_server := s, ww_writers := startedBy evs @ ww_writers w,
      ww_readers := startedBy evs @ ww_readers w, ww_used := startedBy evs @ ww_used w\<rparr>)"
| ws_write: "wss_Write i content (ww_server w) = Ret (err, s) \<Longrightarrow> ws_step w (w\<lparr>ww_server := s\<rparr>)"
| ws_stop_lookup: "stopLookup i (ww_server w) = Inr r \<Longrightarrow>
    ws_step w (w\<lparr>ww_stoppers := (r, ce) # ww_stoppers w\<rparr>)"
| ws_stop_send: "(r, ce) \<in> set (ww_stoppers w) \<Longrightarrow> stopSend r ce (ww_server w) = Ret s \<Longrightarrow>
    ws_step w (w\<lparr>ww_server := s, ww_stoppers := remove1 (r, ce) (ww_stoppers w)\<rparr>)"
| ws_stop_all: "stopConnections order (ww_server w) = Ret s \<Longrightarrow> ws_step w (w\<lparr>ww_server := s\<rparr>)"
| ws_stop: "wss_Stop shutdown (ww_server w) = Ret s \<Longrightarrow> ws_step w (w\<lparr>ww_server := s\<rparr>)"
| ws_errors: "ws_step w (w\<lparr>ww_server := wss_Errors (ww_server w)\<rparr>)"
| ws_write_pump: "r \<in> set (ww_writers w) \<Longrightarrow>
    wss_writePump c res r (ww_server w) = Ret (alive, s, evs) \<Longrightarrow>
    ws_step w (w\<lparr>ww_server := s, ww_writers := (if alive then ww_writers w else removeAll r (ww_writers w))\<rparr>)"
| ws_read_pump: "r \<in> set (ww_readers w) \<Longrightarrow>
    wss_readPump rd handled r (ww_server w) = Ret (alive, s, evs) \<Longrightarrow>
    ws_step w (w\<lparr>ww_server := s, ww_readers := (if alive then ww_readers w else removeAll r (ww_readers w))\<rparr>)"

text \<open>
  The registered sockets are those with a live write pump, each under its own ID and with open
  channels; a channel for errors that is set is open.
\<close>

definition socket_ok :: "wsServer \<Rightarrow> nat \<Rightarrow> bool" where
  "socket_ok s r \<longleftrightarrow> wss_connections s (ws_id (wss_sockets s r)) = Some r \<and>
     \<not> chan_closed (ws_outQueue (wss_sockets s r)) \<and> \<not> chan_closed (ws_closeC (wss_sockets s r))"

definition err_ok :: "wsServer \<Rightarrow> bool" where
  "err_ok s \<longleftrightarrow> (case wss_errC s of None \<Rightarrow> True | Some ch \<Rightarrow> \<not> chan_closed ch)"

definition ws_inv :: "ws_world \<Rightarrow> bool" where
  "ws_inv w \<longleftrightarrow> (let s = ww_server w in err_ok s \<and>
     (\<forall>i r. wss_connections s i = Some r \<longrightarrow> r \<in> set (ww_writers w) \<and> ws_id (wss_sockets s r) = i) \<and>
     (\<forall>r\<in>set (ww_writers w). socket_ok s r) \<and> set (ww_writers w) \<subseteq> set (ww_used w))"

text \<open>Operations that keep the map of connections, the IDs and the open channels.\<close>

definition kept :: "wsServer \<Rightarrow> wsServer \<Rightarrow> bool" where
  "kept s s' \<longleftrightarrow> (err_ok s \<longrightarrow> err_ok s') \<and> wss_connections s' = wss_connections s \<and>
     (\<forall>r. ws_id (wss_sockets s' r) = ws_id (wss_sockets s r) \<and>
        chan_closed (ws_outQueue (wss_sockets s' r)) = chan_closed (ws_outQueue (wss_sockets s r)) \<and>
        chan_closed (ws_closeC (wss_sockets s' r)) = chan_closed (ws_closeC (wss_sockets s r)))"

lemma kept_refl [simp]: "kept s s"
  by (simp add: kept_def)

lemma kept_trans: "kept s s1 \<Longrightarrow> kept s1 s2 \<Longrightarrow> kept s s2"
  by (simp add: kept_def)

lemma chan_closed_ops:
  "chan_send c x = Ret c' \<Longrightarrow> chan_closed c' = chan_closed c"
  "chan_recv c = Ret (v, c') \<Longrightarrow> chan_closed c' = chan_closed c"
  by (auto simp: chan_send_def chan_recv_def split: if_splits list.splits)

lemma kept_upd:
  assumes "ws_id ws = ws_id (wss_sockets s r)"
    "chan_closed (ws_outQueue ws) = chan_closed (ws_outQueue (wss_sockets s r))"
    "chan_closed (ws_closeC ws) = chan_closed (ws_closeC (wss_sockets s r))"
  shows "kept s (upd_socket r ws s)"
  using assms by (simp add: kept_def upd_socket_def err_ok_def)

lemma wss_error_kept:
  assumes "wss_error err s = Ret s'"
  shows "kept s s'" "wss_sockets s' = wss_sockets s"
  using assms
  by (auto simp: wss_error_def wsError_def kept_def err_ok_def dest: chan_closed_ops split: option.splits)

lemma wss_error_not_Panic: "err_ok s \<Longrightarrow> wss_error err s \<noteq> Panic e"
  by (auto simp: wss_error_def wsError_def err_ok_def bind_go_eq_Panic chan_send_def split: option.splits)

lemma stopSend_kept: "stopSend r ce s = Ret s' \<Longrightarrow> kept s s'"
  by (auto simp: stopSend_def Let_def dest: chan_closed_ops intro!: kept_upd)

lemma stopConnections_kept: "stopConnections order s = Ret s' \<Longrightarrow> kept s s'"
proof (induction order s rule: stopConnections.induct)
  case (2 i order s)
  then show ?case
    by (auto split: option.splits dest!: stopSend_kept intro: kept_trans)
qed simp

lemma wss_Write_kept: "wss_Write i content s = Ret (err, s') \<Longrightarrow> kept s s'"
  by (auto simp: wss_Write_def Let_def dest: chan_closed_ops intro!: kept_upd split: option.splits)

lemma wss_readPump_kept: "wss_readPump rd handled r s = Ret (alive, s', evs) \<Longrightarrow> kept s s'"
  by (auto simp: wss_readPump_def Let_def wss_error_kept dest: chan_closed_ops wss_error_kept(1)
      intro!: kept_upd kept_trans[OF wss_error_kept(1) kept_upd]
      split: read_result.splits option.splits if_splits)

lemma ws_inv_kept:
  assumes "ws_inv w" "kept (ww_server w) s"
  shows "ws_inv (w\<lparr>ww_server := s\<rparr>)"
  using assms by (auto simp: ws_inv_def Let_def kept_def socket_ok_def)

lemma ws_inv_frame [simp]:
  "ws_inv (w\<lparr>ww_stoppers := st\<rparr>) = ws_inv w" "ws_inv (w\<lparr>ww_readers := rs\<rparr>) = ws_inv w"
  by (simp_all add: ws_inv_def)

text \<open>After the cleanup of a socket, its ID is free and the other sockets are as before.\<close>

definition cleaned :: "nat \<Rightarrow> wsServer \<Rightarrow> wsServer \<Rightarrow> bool" where
  "cleaned r s s' \<longleftrightarrow> (err_ok s \<longrightarrow> err_ok s') \<and>
     wss_connections s' = (wss_connections s)(ws_id (wss_sockets s r) := None) \<and>
     (\<forall>x. x \<noteq> r \<longrightarrow> wss_sockets s' x = wss_sockets s x)"

lemma cleanup_cleaned: "cleanupConnection r s = Ret (s', evs) \<Longrightarrow> cleaned r s s'"
  by (auto simp: cleanupConnection_def Let_def cleaned_def upd_socket_def err_ok_def)

lemma cleanup_not_Panic: "socket_ok s r \<Longrightarrow> cleanupConnection r s \<noteq> Panic e"
  by (simp add: cleanupConnection_def Let_def bind_go_eq_Panic chan_close_def socket_ok_def)

lemma cleaned_after:
  assumes "kept s s1" "\<And>x. x \<noteq> r \<Longrightarrow> wss_sockets s1 x = wss_sockets s x" "cleaned r s1 s2"
  shows "cleaned r s s2"
  using assms by (auto simp: cleaned_def kept_def)

lemma upd_socket_other: "x \<noteq> r \<Longrightarrow> wss_sockets (upd_socket r ws s) x = wss_sockets s x"
  by (simp add: upd_socket_def)

lemma writeFailed_cleaned: "writeFailed err r s = Ret (alive, s', evs) \<Longrightarrow> \<not> alive \<and> cleaned r s s'"
  using cleanup_cleaned[of r] wss_error_kept cleaned_after[of s _ r s']
  by (fastforce simp: writeFailed_def)

lemma writePump_outcome:
  assumes "wss_writePump c res r s = Ret (alive, s', evs)" "socket_ok s r"
  shows "if alive then kept s s' else cleaned r s s'"
proof -
  let ?ws = "wss_sockets s r"
  have upd: "kept s (upd_socket r ws s)" "cleaned r (upd_socket r ws s) s' \<Longrightarrow> cleaned r s s'"
    if "ws_id ws = ws_id ?ws" "chan_closed (ws_outQueue ws) = chan_closed (ws_outQueue ?ws)"
      "chan_closed (ws_closeC ws) = chan_closed (ws_closeC ?ws)" for ws
    using kept_upd[OF that] cleaned_after[OF kept_upd[OF that] upd_socket_other] by auto
  show ?thesis
  proof (cases c)
    case OutCase
    then obtain v q where q: "chan_recv (ws_outQueue ?ws) = Ret (v, q)"
      using assms(1) by (auto simp: wss_writePump_def Let_def)
    have "v \<noteq> None" using q assms(2) by (cases v) (auto simp: chan_recv_None socket_ok_def)
    then obtain m where v: "v = Some m" by blast
    show ?thesis
      using assms(1) OutCase q v upd[of "?ws\<lparr>ws_outQueue := q\<rparr>"] chan_closed_ops(2)[OF q]
      by (cases res) (auto simp: wss_writePump_def Let_def dest: writeFailed_cleaned)
  next
    case PingCase
    then obtain ch v ch' where p: "ws_pingMessage ?ws = Some ch" "chan_recv ch = Ret (v, ch')"
      using assms(1) by (auto simp: wss_writePump_def Let_def split: option.splits)
    show ?thesis
      using assms(1) PingCase p upd[of "?ws\<lparr>ws_pingMessage := Some ch'\<rparr>"]
      by (cases res) (auto simp: wss_writePump_def Let_def dest: writeFailed_cleaned)
  next
    case CloseCase
    then obtain v ch where q: "chan_recv (ws_closeC ?ws) = Ret (v, ch)"
      using assms(1) by (auto simp: wss_writePump_def Let_def)
    let ?u = "upd_socket r (?ws\<lparr>ws_closeC := ch\<rparr>) s"
    have "\<exists>s1 evs1. (s1 = ?u \<or> (\<exists>err. wss_error err ?u = Ret s1)) \<and>
        cleanupConnection r s1 = Ret (s', evs1) \<and> \<not> alive"
    proof (cases res)
      case None
      then show ?thesis using assms(1) CloseCase q by (auto simp: wss_writePump_def Let_def)
    next
      case (Some e)
      then obtain s1 evs1 where "wss_error (closeFailedText (ws_id ?ws) e) ?u = Ret s1"
        "cleanupConnection r s1 = Ret (s', evs1)" "\<not> alive"
        using assms(1) CloseCase q by (auto simp: wss_writePump_def Let_def)
      then show ?thesis by blast
    qed
    then obtain s1 evs1 where s1: "s1 = ?u \<or> (\<exists>err. wss_error err ?u = Ret s1)"
      "cleanupConnection r s1 = Ret (s', evs1)" "\<not> alive" by blast
    have "cleaned r ?u s'"
      using s1(1)
    proof
      assume "\<exists>err. wss_error err ?u = Ret s1"
      then obtain err where "wss_error err ?u = Ret s1" by blast
      from wss_error_kept[OF this] cleanup_cleaned[OF s1(2)] show ?thesis by (auto intro: cleaned_after)
    qed (use cleanup_cleaned[OF s1(2)] in simp)
    then show ?thesis
      using upd(2)[of "?ws\<lparr>ws_closeC := ch\<rparr>"] chan_closed_ops(2)[OF q] s1(3) by simp
  next
    case ForceCase
    then obtain v ch where p: "cleanupConnection r (upd_socket r (?ws\<lparr>ws_forceCloseC := ch\<rparr>) s) = Ret (s', evs)"
      "\<not> alive"
      using assms(1) by (auto simp: wss_writePump_def Let_def)
    show ?thesis using upd(2)[of "?ws\<lparr>ws_forceCloseC := ch\<rparr>"] cleanup_cleaned[OF p(1)] p(2) by simp
  qed
qed

lemma ws_inv_cleaned:
  assumes "ws_inv w" "cleaned r (ww_server w) s" "r \<in> set (ww_writers w)"
  shows "ws_inv (w\<lparr>ww_server := s, ww_writers := removeAll r (ww_writers w)\<rparr>)"
proof -
  let ?s = "ww_server w"
  have c: "wss_connections s = (wss_connections ?s)(ws_id (wss_sockets ?s r) := None)"
    "\<And>x. x \<noteq> r \<Longrightarrow> wss_sockets s x = wss_sockets ?s x" "err_ok ?s \<Longrightarrow> err_ok s"
    using assms(2) by (auto simp: cleaned_def)
  have i: "err_ok ?s" "\<And>i x. wss_connections ?s i = Some x \<Longrightarrow> x \<in> set (ww_writers w) \<and> ws_id (wss_sockets ?s x) = i"
    "\<And>x. x \<in> set (ww_writers w) \<Longrightarrow> socket_ok ?s x" "set (ww_writers w) \<subseteq> set (ww_used w)"
    using assms(1) by (auto simp: ws_inv_def Let_def)
  have ids: "ws_id (wss_sockets ?s x) \<noteq> ws_id (wss_sockets ?s r)" if "x \<in> set (ww_writers w)" "x \<noteq> r" for x
    using i(3)[OF that(1)] i(3)[OF assms(3)] that(2) by (auto simp: socket_ok_def)
  have "x \<in> set (removeAll r (ww_writers w)) \<and> ws_id (wss_sockets s x) = j"
    if "wss_connections s j = Some x" for j x
    using that i(2)[of j x] c by (cases "x = r") (auto split: if_splits)
  moreover have "socket_ok s x" if "x \<in> set (removeAll r (ww_writers w))" for x
    using that i(3)[of x] c ids[of x] by (auto simp: socket_ok_def)
  ultimately show ?thesis using i(1,4) c(3) by (auto simp: ws_inv_def Let_def)
qed

lemma wsHandler_outcome:
  assumes "wsHandler upgrade rq s = Ret (s', evs)"
  shows "startedBy evs = [] \<and> kept s s' \<or>
    (\<exists>conn i. startedBy evs = [conn] \<and> wss_connections s i = None \<and>
       s' = upd_socket conn (newSocket conn i (rq_TLS rq)) (s\<lparr>wss_connections := (wss_connections s)(i \<mapsto> conn)\<rparr>))"
  using assms
  by (auto simp: wsHandler_def Let_def refuse_def dest: wss_error_kept(1) split: if_splits sum.splits)

lemma ws_inv_accept:
  assumes "ws_inv w" "conn \<notin> set (ww_used w)" "wss_connections (ww_server w) i = None"
  shows "ws_inv (w\<lparr>ww_server := upd_socket conn (newSocket conn i tls) ((ww_server w)\<lparr>wss_connections :=
      (wss_connections (ww_server w))(i \<mapsto> conn)\<rparr>), ww_writers := conn # ww_writers w,
      ww_readers := rs, ww_used := conn # ww_used w\<rparr>)"
proof -
  let ?s = "ww_server w"
  have i: "err_ok ?s" "\<And>j x. wss_connections ?s j = Some x \<Longrightarrow> x \<in> set (ww_writers w) \<and> ws_id (wss_sockets ?s x) = j"
    "\<And>x. x \<in> set (ww_writers w) \<Longrightarrow> socket_ok ?s x" "set (ww_writers w) \<subseteq> set (ww_used w)"
    using assms(1) by (auto simp: ws_inv_def Let_def)
  have "conn \<notin> set (ww_writers w)" using i(4) assms(2) by blast
  moreover have "ws_id (wss_sockets ?s x) \<noteq> i" if "x \<in> set (ww_writers w)" for x
    using i(3)[OF that] assms(3) by (auto simp: socket_ok_def)
  ultimately show ?thesis
    using i assms(3)
    by (auto simp: ws_inv_def Let_def upd_socket_def err_ok_def socket_ok_def newSocket_def make_chan_def)
qed

lemma wss_Stop_kept:
  assumes "wss_Stop shutdown s = Ret s'"
  shows "kept s s'"
proof -
  obtain s1 where s1: "(case shutdown of None \<Rightarrow> Ret s | Some e \<Rightarrow> wss_error (''shutdown failed: '' @ e) s) = Ret s1"
    "(case wss_errC s1 of None \<Rightarrow> Ret s1
      | Some ch \<Rightarrow> bind_go (chan_close ch) (\<lambda>_. Ret (s1\<lparr>wss_errC := None\<rparr>))) = Ret s'"
    using assms unfolding wss_Stop_def bind_go_eq_Ret by blast
  have "kept s s1" using s1(1) wss_error_kept(1) by (cases shutdown) (simp, metis option.simps(5))
  moreover have "kept s1 s'" using s1(2) by (auto simp: kept_def err_ok_def split: option.splits)
  ultimately show ?thesis by (rule kept_trans)
qed

lemma ws_inv_step: "ws_step w w' \<Longrightarrow> ws_inv w \<Longrightarrow> ws_inv w'"
proof (induction rule: ws_step.induct)
  case (ws_accept upgrade rq w s evs)
  from wsHandler_outcome[OF ws_accept(1)] show ?case
  proof (elim disjE exE conjE)
    assume "startedBy evs = []" "kept (ww_server w) s"
    then show ?thesis using ws_inv_kept[OF ws_accept(3)] by (simp add: ws_inv_def Let_def)
  next
    fix conn i
    assume a: "startedBy evs = [conn]" "wss_connections (ww_server w) i = None"
      "s = upd_socket conn (newSocket conn i (rq_TLS rq))
         ((ww_server w)\<lparr>wss_connections := (wss_connections (ww_server w))(i \<mapsto> conn)\<rparr>)"
    then have "conn \<notin> set (ww_used w)" using ws_accept(2) by simp
    from ws_inv_accept[OF ws_accept(3) this a(2)] a show ?thesis by simp
  qed
next
  case (ws_stop shutdown w s)
  show ?case by (rule ws_inv_kept[OF ws_stop(2) wss_Stop_kept[OF ws_stop(1)]])
next
  case (ws_errors w)
  have "kept (ww_server w) (wss_Errors (ww_server w))"
    by (auto simp: kept_def wss_Errors_def wsErrors_def err_ok_def make_chan_def split: option.splits)
  then show ?case by (rule ws_inv_kept[OF ws_errors])
next
  case (ws_write_pump r w c res alive s evs)
  then have "socket_ok (ww_server w) r" by (auto simp: ws_inv_def Let_def)
  from writePump_outcome[OF ws_write_pump(2) this] show ?case
    using ws_inv_kept[OF ws_write_pump(3)] ws_inv_cleaned[OF ws_write_pump(3) _ ws_write_pump(1)]
    by (cases alive) auto
next
  case (ws_stop_send r ce w s)
  then show ?case using ws_inv_kept[OF ws_stop_send(3) stopSend_kept[OF ws_stop_send(2)]] by (simp add: ws_inv_def)
next
  case (ws_read_pump r w rd handled alive s evs)
  then show ?case
    using ws_inv_kept[OF ws_read_pump(3) wss_readPump_kept[OF ws_read_pump(2)]] by (simp add: ws_inv_def)
qed (auto intro: ws_inv_kept dest: wss_Write_kept stopConnections_kept)

lemma ws_inv_start: "ws_start w \<Longrightarrow> ws_inv w"
  by (auto simp: ws_start_def ws_inv_def Let_def err_ok_def split: option.splits)

interpretation ws_srv: inductive_invariant ws_start ws_step ws_inv
  by unfold_locales (auto intro: ws_inv_start ws_inv_step)

lemma writePump_not_Panic:
  assumes "socket_ok s r" "err_ok s"
  shows "wss_writePump c res r s \<noteq> Panic e"
proof -
  have ok: "socket_ok (upd_socket r ws s) r \<and> err_ok (upd_socket r ws s)"
    if "ws_id ws = ws_id (wss_sockets s r)" "\<not> chan_closed (ws_outQueue ws)" "\<not> chan_closed (ws_closeC ws)" for ws
    using that assms by (simp add: socket_ok_def upd_socket_def err_ok_def)
  have err: "wss_error x t = Ret t' \<Longrightarrow> socket_ok t r \<Longrightarrow> socket_ok t' r" for x t t'
    using wss_error_kept[of x t t'] by (simp add: kept_def socket_ok_def)
  have failed: "socket_ok t r \<Longrightarrow> err_ok t \<Longrightarrow> writeFailed x r t \<noteq> Panic e" for x t
    by (auto simp: writeFailed_def bind_go_eq_Panic wss_error_not_Panic cleanup_not_Panic dest: err)
  have failed': "writeFailed x r (upd_socket r ws s) = Panic e \<longleftrightarrow> False"
    if "ws_id ws = ws_id (wss_sockets s r)" "\<not> chan_closed (ws_outQueue ws)" "\<not> chan_closed (ws_closeC ws)" for ws x
    using failed ok[OF that] by blast
  show ?thesis
  proof (cases c)
    case OutCase
    show ?thesis
    proof (cases "chan_buf (ws_outQueue (wss_sockets s r))")
      case Nil
      then show ?thesis using OutCase assms(1) by (simp add: wss_writePump_def Let_def chan_recv_def socket_ok_def)
    next
      case (Cons m q)
      then show ?thesis using OutCase assms(1)
        by (cases res) (auto simp: wss_writePump_def Let_def chan_recv_def socket_ok_def failed')
    qed
  next
    case PingCase
    show ?thesis
    proof (cases "ws_pingMessage (wss_sockets s r)")
      case (Some ch)
      show ?thesis
      proof (cases "chan_recv ch")
        case (Ret x)
        then show ?thesis using PingCase Some assms(1)
          by (cases x; cases res) (auto simp: wss_writePump_def Let_def socket_ok_def failed')
      qed (use PingCase Some in \<open>auto simp: wss_writePump_def Let_def chan_recv_def split: list.splits if_splits\<close>)
    qed (use PingCase in \<open>simp add: wss_writePump_def Let_def\<close>)
  next
    case CloseCase
    show ?thesis
    proof (cases "chan_recv (ws_closeC (wss_sockets s r))")
      case (Ret x)
      obtain v ch where x: "x = (v, ch)" by (cases x)
      let ?u = "upd_socket r ((wss_sockets s r)\<lparr>ws_closeC := ch\<rparr>) s"
      have u: "socket_ok ?u r" "err_ok ?u"
        using ok[of "(wss_sockets s r)\<lparr>ws_closeC := ch\<rparr>"] assms(1) chan_closed_ops(2)[OF Ret[unfolded x]]
        by (auto simp: socket_ok_def)
      then show ?thesis using CloseCase Ret x wss_error_not_Panic[OF u(2)]
        by (cases res) (auto simp: wss_writePump_def Let_def bind_go_eq_Panic cleanup_not_Panic dest: err)
    qed (use CloseCase in \<open>auto simp: wss_writePump_def Let_def chan_recv_def split: list.splits if_splits\<close>)
  next
    case ForceCase
    show ?thesis
    proof (cases "chan_recv (ws_forceCloseC (wss_sockets s r))")
      case (Ret x)
      obtain v ch where x: "x = (v, ch)" by (cases x)
      have u: "socket_ok (upd_socket r ((wss_sockets s r)\<lparr>ws_forceCloseC := ch\<rparr>) s) r"
        using ok[of "(wss_sockets s r)\<lparr>ws_forceCloseC := ch\<rparr>"] assms(1) by (auto simp: socket_ok_def)
      show ?thesis using ForceCase Ret x cleanup_not_Panic[OF u]
        by (auto simp: wss_writePump_def Let_def bind_go_eq_Panic)
    qed (use ForceCase in \<open>auto simp: wss_writePump_def Let_def chan_recv_def split: list.splits if_splits\<close>)
  qed
qed


definition demo_server :: wsServer where
  "demo_server = wss_SetNewClientHandler (AddSupportedSubprotocol ''ocpp1.6'' ws_NewServer)"

definition demo_request :: httpRequest where
  "demo_request = \<lparr>rq_Path = ''/ws/cp1'', rq_RemoteAddr = ''10.0.0.1:4242'', rq_Subprotocols = [''ocpp2.0.1'', ''ocpp1.6''],
     rq_BasicAuth = None, rq_TLS = None\<rparr>"

lemma demo_accept:
  "wsHandler (\<lambda>_ _ _. Inr 3) demo_request demo_server =
     Ret (upd_socket 3 (newSocket 3 ''cp1'' None) (demo_server\<lparr>wss_connections := [''cp1'' \<mapsto> 3]\<rparr>),
       [PumpsStarted 3, CalledNewClient ''cp1''])"
  by (simp add: wsHandler_def Let_def demo_request_def demo_server_def pathBase_def authorized_def
      clientValid_def ws_NewServer_def NewTLSServer_def AddSupportedSubprotocol_def wss_SetNewClientHandler_def)

definition demo_ws :: ws_world where
  "demo_ws = \<lparr>ww_server = upd_socket 3 (newSocket 3 ''cp1'' None) (demo_server\<lparr>wss_connections := [''cp1'' \<mapsto> 3]\<rparr>),
     ww_writers = [3], ww_readers = [3], ww_stoppers = [], ww_used = [3]\<rparr>"

lemma demo_ws_reach: "reach ws_start ws_step demo_ws"
proof -
  let ?w = "\<lparr>ww_server = demo_server, ww_writers = [], ww_readers = [], ww_stoppers = [], ww_used = []\<rparr>"
  have "reach ws_start ws_step ?w"
    by (rule reach_start) (simp add: ws_start_def demo_server_def ws_NewServer_def NewTLSServer_def
        AddSupportedSubprotocol_def wss_SetNewClientHandler_def)
  moreover have "ws_step ?w demo_ws"
    using ws_accept[of "\<lambda>_ _ _. Inr 3" demo_request ?w] demo_accept by (simp add: demo_ws_def)
  ultimately show ?thesis by (rule reach_step)
qed


section \<open>Who gets in\<close>

text \<open>
  A connection is registered only with valid credentials, for a valid client, under a sub-protocol
  that was requested and is supported, and if no connection has its ID.
\<close>

lemma negotiate_sound:
  "negotiate supp req \<noteq> '''' \<Longrightarrow> negotiate supp req \<in> set req \<and> (supp \<noteq> [] \<longrightarrow> negotiate supp req \<in> set supp)"
  by (induction req) (auto split: if_splits)

lemma negotiate_first:
  "negotiate supp req = (case find (\<lambda>p. supp = [] \<or> p \<in> set supp) req of None \<Rightarrow> '''' | Some p \<Rightarrow> p)"
  by (induction req) auto

lemma wsHandler_admits:
  assumes "wsHandler upgrade rq s = Ret (s', evs)" "conn \<in> set (startedBy evs)"
  shows "authorized rq s \<and> clientValid (pathBase (rq_Path rq)) rq s \<and>
    wss_connections s (pathBase (rq_Path rq)) = None \<and> wss_connections s' (pathBase (rq_Path rq)) = Some conn \<and>
    negotiate (wss_Subprotocols s) (rq_Subprotocols rq) \<in> set (rq_Subprotocols rq)"
  using assms negotiate_sound[of "wss_Subprotocols s" "rq_Subprotocols rq"]
  by (auto simp: wsHandler_def Let_def refuse_def upd_socket_def split: if_splits sum.splits)

end
