(* ===== verification/WsClient.thy ===== *)
theory WsClient
  imports WebSocket
begin

text \<open>
  The WebSocket client of \<^verbatim>\<open>ws/websocket.go\<close>: connecting, the two pumps, and reconnecting with
  back-off. The functions of \<^verbatim>\<open>net/url\<close> are a parameter, and so is what dialling gives; the TLS
  configuration and the dialler are those of other packages.
\<close>

record 'u urlLib =
  url_Parse :: "string \<Rightarrow> 'u option"
  url_String :: "'u \<Rightarrow> string"
  url_Path :: "'u \<Rightarrow> string"

record Dialer =
  dl_ReadBufferSize :: int
  dl_WriteBufferSize :: int
  dl_HandshakeTimeout :: int
  dl_Subprotocols :: "string list"
  dl_TLSClientConfig :: "nat option"

record 'u wsClient =
  wc_webSocket :: "WebSocket option"
  wc_url :: "'u option"
  wc_messageHandler :: bool
  wc_dialOptions :: "(Dialer \<Rightarrow> Dialer) list"
  wc_header :: "string \<rightharpoonup> string"
  wc_timeoutConfig :: ClientTimeoutConfig
  wc_connected :: bool
  wc_onDisconnected :: bool
  wc_onReconnected :: bool
  wc_errC :: "string chan option"
  wc_reconnectC :: "unit chan option"

section \<open>Construction and configuration\<close>

definition ws_NewClient :: "'u wsClient" where
  "ws_NewClient =
     \<lparr>wc_webSocket = None, wc_url = None, wc_messageHandler = False, wc_dialOptions = [],
      wc_header = Map.empty, wc_timeoutConfig = NewClientTimeoutConfig, wc_connected = False,
      wc_onDisconnected = False, wc_onReconnected = False, wc_errC = None, wc_reconnectC = None\<rparr>"

definition AddOption :: "(Dialer \<Rightarrow> Dialer) option \<Rightarrow> 'u wsClient \<Rightarrow> 'u wsClient" where
  "AddOption dialOption c =
     (case dialOption of None \<Rightarrow> c | Some opt \<Rightarrow> c\<lparr>wc_dialOptions := wc_dialOptions c @ [opt]\<rparr>)"

definition NewTLSClient :: "nat \<Rightarrow> 'u wsClient" where
  "NewTLSClient tlsConfig =
     ws_NewClient\<lparr>wc_dialOptions := [\<lambda>d. d\<lparr>dl_TLSClientConfig := Some tlsConfig\<rparr>]\<rparr>"

definition wc_SetMessageHandler :: "'u wsClient \<Rightarrow> 'u wsClient" where
  "wc_SetMessageHandler c = c\<lparr>wc_messageHandler := True\<rparr>"

definition wc_SetTimeoutConfig :: "ClientTimeoutConfig \<Rightarrow> 'u wsClient \<Rightarrow> 'u wsClient" where
  "wc_SetTimeoutConfig config c = c\<lparr>wc_timeoutConfig := config\<rparr>"

definition SetDisconnectedHandler :: "'u wsClient \<Rightarrow> 'u wsClient" where
  "SetDisconnectedHandler c = c\<lparr>wc_onDisconnected := True\<rparr>"

definition SetReconnectedHandler :: "'u wsClient \<Rightarrow> 'u wsClient" where
  "SetReconnectedHandler c = c\<lparr>wc_onReconnected := True\<rparr>"

text \<open>The option that \<^verbatim>\<open>SetRequestedSubProtocol\<close> adds.\<close>

definition subProtocolOption :: "string \<Rightarrow> Dialer \<Rightarrow> Dialer" where
  "subProtocolOption subProto d =
     (if subProto \<in> set (dl_Subprotocols d) then d
      else d\<lparr>dl_Subprotocols := dl_Subprotocols d @ [subProto]\<rparr>)"

definition SetRequestedSubProtocol :: "string \<Rightarrow> 'u wsClient \<Rightarrow> 'u wsClient" where
  "SetRequestedSubProtocol subProto c = AddOption (Some (subProtocolOption subProto)) c"

text \<open>
  \<^verbatim>\<open>http.Header.Set\<close> stores under the canonical form of the key: capitals at the start and after a
  hyphen, small letters elsewhere, unless a character may not occur in a header name.
\<close>

definition isLower :: "char \<Rightarrow> bool" where
  "isLower c \<longleftrightarrow> 97 \<le> (of_char c :: nat) \<and> (of_char c :: nat) \<le> 122"

definition isUpper :: "char \<Rightarrow> bool" where
  "isUpper c \<longleftrightarrow> 65 \<le> (of_char c :: nat) \<and> (of_char c :: nat) \<le> 90"

definition headerChar :: "char \<Rightarrow> bool" where
  "headerChar c \<longleftrightarrow> isLower c \<or> isUpper c \<or> 48 \<le> (of_char c :: nat) \<and> (of_char c :: nat) \<le> 57 \<or>
     of_char c \<in> {33, 35, 36, 37, 38, 39, 42, 43, 45, 46, 94, 95, 96, 124, 126 :: nat}"

fun canonical :: "bool \<Rightarrow> string \<Rightarrow> string" where
  "canonical upper [] = []"
| "canonical upper (c # cs) =
     (if upper \<and> isLower c then char_of (of_char c - 32 :: nat)
      else if \<not> upper \<and> isUpper c then char_of (of_char c + 32 :: nat) else c) #
     canonical (c = CHR ''-'') cs"

definition canonicalHeaderKey :: "string \<Rightarrow> string" where
  "canonicalHeaderKey key = (if list_all headerChar key then canonical True key else key)"

definition SetHeaderValue :: "string \<Rightarrow> string \<Rightarrow> 'u wsClient \<Rightarrow> 'u wsClient" where
  "SetHeaderValue key val c = c\<lparr>wc_header := (wc_header c)(canonicalHeaderKey key \<mapsto> val)\<rparr>"

text \<open>\<^verbatim>\<open>base64.StdEncoding\<close>.\<close>

definition b64char :: "nat \<Rightarrow> char" where
  "b64char n = ''ABCDEFGHIJKLMNOPQRSTUVWXYZabcdefghijklmnopqrstuvwxyz0123456789+/'' ! (n mod 64)"

fun base64 :: "nat list \<Rightarrow> string" where
  "base64 (a # b # c # r) =
     [b64char (a div 4), b64char ((a mod 4) * 16 + b div 16), b64char ((b mod 16) * 4 + c div 64), b64char c] @ base64 r"
| "base64 [a, b] = [b64char (a div 4), b64char ((a mod 4) * 16 + b div 16), b64char ((b mod 16) * 4), CHR ''='']"
| "base64 [a] = [b64char (a div 4), b64char ((a mod 4) * 16), CHR ''='', CHR ''='']"
| "base64 [] = []"

definition SetBasicAuth :: "string \<Rightarrow> string \<Rightarrow> 'u wsClient \<Rightarrow> 'u wsClient" where
  "SetBasicAuth username password c =
     SetHeaderValue ''Authorization''
       (''Basic '' @ base64 (map of_char (username @ '':'' @ password))) c"

definition wc_error :: "string \<Rightarrow> 'u wsClient \<Rightarrow> 'u wsClient go" where
  "wc_error err c = bind_go (wsError err (wc_errC c)) (\<lambda>ch. Ret (c\<lparr>wc_errC := ch\<rparr>))"

definition wc_Errors :: "'u wsClient \<Rightarrow> 'u wsClient" where
  "wc_Errors c = c\<lparr>wc_errC := wsErrors (wc_errC c)\<rparr>"

definition setConnected :: "bool \<Rightarrow> 'u wsClient \<Rightarrow> 'u wsClient" where
  "setConnected connected c = c\<lparr>wc_connected := connected\<rparr>"

definition IsConnected :: "'u wsClient \<Rightarrow> bool" where
  "IsConnected c = wc_connected c"

section \<open>Connecting, writing, stopping\<close>

record HttpConnectionError =
  hc_Message :: string
  hc_HttpStatus :: string
  hc_HttpCode :: int
  hc_Details :: string

datatype ws_err = PlainErr string | HttpErr HttpConnectionError

definition wsErrText :: "ws_err \<Rightarrow> string" where
  "wsErrText e =
     (case e of
        PlainErr t \<Rightarrow> t
      | HttpErr h \<Rightarrow> hc_Message h @ '', http status: '' @ hc_HttpStatus h)"

text \<open>What \<^verbatim>\<open>Dial\<close> gives: an error, with the response of the server if there was one, or a connection.\<close>

datatype dial_result =
    DialFailed string "(string \<times> int \<times> string) option"
  | DialOk nat "nat option"

type_synonym dial = "Dialer \<Rightarrow> string \<Rightarrow> (string \<rightharpoonup> string) \<Rightarrow> dial_result"

text \<open>The result of \<^verbatim>\<open>url.Parse\<close> is dereferenced before its error is looked at.\<close>

definition wc_Start ::
  "'u urlLib \<Rightarrow> dial \<Rightarrow> string \<Rightarrow> 'u wsClient \<Rightarrow> (ws_err option \<times> 'u wsClient \<times> ws_event list) go" where
  "wc_Start U dial urlStr c =
     (case url_Parse U urlStr of
        None \<Rightarrow> Panic ''nil pointer dereference''
      | Some u \<Rightarrow>
          (let c1 = c\<lparr>wc_url := Some u\<rparr>;
               dialer = fold (\<lambda>opt d. opt d) (wc_dialOptions c1)
                 \<lparr>dl_ReadBufferSize = 1024, dl_WriteBufferSize = 1024,
                  dl_HandshakeTimeout = cc_HandshakeTimeout (wc_timeoutConfig c1),
                  dl_Subprotocols = [], dl_TLSClientConfig = None\<rparr>
           in case dial dialer urlStr (wc_header c1) of
                DialFailed err resp \<Rightarrow>
                  Ret (Some (case resp of
                         None \<Rightarrow> PlainErr err
                       | Some (status, code, body) \<Rightarrow>
                           HttpErr \<lparr>hc_Message = err, hc_HttpStatus = status, hc_HttpCode = code,
                                    hc_Details = body\<rparr>), c1, [])
              | DialOk conn tls \<Rightarrow>
                  Ret (None, setConnected True (c1\<lparr>wc_webSocket :=
                         Some \<lparr>ws_connection = conn, ws_id = pathBase (url_Path U u), ws_outQueue = make_chan 1,
                               ws_closeC = make_chan 1, ws_forceCloseC = make_chan 1, ws_pingMessage = None,
                               ws_tlsConnectionState = tls\<rparr>,
                         wc_reconnectC := Some (make_chan 0)\<rparr>),
                       [PumpsStarted conn])))"

definition wc_Write :: "string \<Rightarrow> 'u wsClient \<Rightarrow> (string option \<times> 'u wsClient) go" where
  "wc_Write content c =
     (if \<not> IsConnected c then Ret (Some ''client is currently not connected, cannot send data'', c)
      else case wc_webSocket c of
        None \<Rightarrow> Block
      | Some ws \<Rightarrow>
          bind_go (chan_send (ws_outQueue ws) content) (\<lambda>q.
            Ret (None, c\<lparr>wc_webSocket := Some (ws\<lparr>ws_outQueue := q\<rparr>)\<rparr>)))"

text \<open>The send in \<^verbatim>\<open>Stop\<close> has a default case: a full channel is left alone.\<close>

definition closeSignal :: "'u wsClient \<Rightarrow> 'u wsClient go" where
  "closeSignal c =
     (case wc_webSocket c of
        None \<Rightarrow> Ret c
      | Some ws \<Rightarrow>
          if chan_full (ws_closeC ws) \<and> \<not> chan_closed (ws_closeC ws) then Ret c
          else bind_go (chan_send (ws_closeC ws) \<lparr>ce_Code = CloseNormalClosure, ce_Text = ''''\<rparr>) (\<lambda>ch.
            Ret (c\<lparr>wc_webSocket := Some (ws\<lparr>ws_closeC := ch\<rparr>)\<rparr>)))"

definition wc_Stop :: "'u wsClient \<Rightarrow> 'u wsClient go" where
  "wc_Stop c =
     bind_go (if wc_connected c then closeSignal (c\<lparr>wc_connected := False\<rparr>) else Ret c) (\<lambda>c1.
       bind_go (case wc_reconnectC c1 of
           None \<Rightarrow> Ret c1
         | Some ch \<Rightarrow> bind_go (chan_close ch) (\<lambda>ch'. Ret (c1\<lparr>wc_reconnectC := Some ch'\<rparr>))) (\<lambda>c2.
         case wc_errC c2 of
           None \<Rightarrow> Ret c2
         | Some e \<Rightarrow> bind_go (chan_close e) (\<lambda>_. Ret (c2\<lparr>wc_errC := None\<rparr>))))"

section \<open>Reconnecting\<close>

text \<open>\<^verbatim>\<open>rand.Intn(n)\<close>, with the number it draws from.\<close>

definition intn :: "int \<Rightarrow> nat \<Rightarrow> int go" where
  "intn n draw =
     (if wrap64 n \<le> 0 then Panic ''invalid argument to Intn'' else Ret (int draw mod wrap64 n))"

text \<open>The random part of a delay.\<close>

definition randomPart :: "ClientTimeoutConfig \<Rightarrow> nat \<Rightarrow> int go" where
  "randomPart cfg draw =
     bind_go (intn (cc_RetryBackOffRandomRange cfg + 1) draw) (\<lambda>r. Ret (wrap64 (r * second)))"

definition initialDelay :: "ClientTimeoutConfig \<Rightarrow> nat \<Rightarrow> int go" where
  "initialDelay cfg draw =
     bind_go (randomPart cfg draw) (\<lambda>r. Ret (wrap64 (cc_RetryBackOffWaitMinimum cfg + r)))"

definition nextDelay :: "ClientTimeoutConfig \<Rightarrow> nat \<Rightarrow> int \<Rightarrow> int \<Rightarrow> int go" where
  "nextDelay cfg draw reconnectionAttempts delay =
     (if reconnectionAttempts < cc_RetryBackOffRepeatTimes cfg
      then bind_go (randomPart cfg draw) (\<lambda>r. Ret (wrap64 (wrap64 (delay * 2) + r)))
      else Ret delay)"

text \<open>
  The loop of \<^verbatim>\<open>handleReconnection\<close> over what happens in its iterations: whether the wait is
  interrupted, what dialling gives, and the next random number. \<open>Waiting\<close> is the loop after these
  iterations; it may go on for ever.
\<close>

record attempt =
  at_interrupted :: bool
  at_dial :: dial
  at_draw :: nat

text \<open>\<^verbatim>\<open>client.url.String()\<close>; the URL that was never set is empty.\<close>

definition currentUrl :: "'u urlLib \<Rightarrow> 'u wsClient \<Rightarrow> string" where
  "currentUrl U c = (case wc_url c of None \<Rightarrow> '''' | Some u \<Rightarrow> url_String U u)"

datatype reconnection = Reconnected | Interrupted | Waiting

fun reconnectLoop ::
  "'u urlLib \<Rightarrow> attempt list \<Rightarrow> int \<Rightarrow> int \<Rightarrow> 'u wsClient \<Rightarrow>
   (reconnection \<times> 'u wsClient \<times> ws_event list) go" where
  "reconnectLoop U [] delay n c = Ret (Waiting, c, [])"
| "reconnectLoop U (a # as) delay n c =
     (if at_interrupted a then
        (case wc_reconnectC c of
           None \<Rightarrow> Block
         | Some ch \<Rightarrow> if chan_closed ch then Ret (Interrupted, c, []) else Block)
      else
        bind_go (wc_Start U (at_dial a) (currentUrl U c) c) (\<lambda>(err, c1, evs).
          case err of
            None \<Rightarrow>
              Ret (Reconnected, c1,
                   Waited delay # evs @ (if wc_onReconnected c1 then [CalledReconnected] else []))
          | Some e \<Rightarrow>
              bind_go (wc_error (''reconnection failed: '' @ wsErrText e) c1) (\<lambda>c2.
                bind_go (nextDelay (wc_timeoutConfig c2) (at_draw a) n delay) (\<lambda>delay'.
                  bind_go (reconnectLoop U as delay' (n + 1) c2) (\<lambda>(res, c3, evs').
                    Ret (res, c3, Waited delay # evs @ evs'))))))"

definition handleReconnection ::
  "'u urlLib \<Rightarrow> nat \<Rightarrow> attempt list \<Rightarrow> 'u wsClient \<Rightarrow> (reconnection \<times> 'u wsClient \<times> ws_event list) go" where
  "handleReconnection U draw attempts c =
     bind_go (initialDelay (wc_timeoutConfig c) draw) (\<lambda>delay. reconnectLoop U attempts delay 1 c)"

definition wc_StartWithRetries ::
  "'u urlLib \<Rightarrow> dial \<Rightarrow> string \<Rightarrow> nat \<Rightarrow> attempt list \<Rightarrow> 'u wsClient \<Rightarrow>
   (reconnection option \<times> 'u wsClient \<times> ws_event list) go" where
  "wc_StartWithRetries U dial urlStr draw attempts c =
     bind_go (wc_Start U dial urlStr c) (\<lambda>(err, c1, evs).
       case err of
         None \<Rightarrow> Ret (None, c1, evs)
       | Some _ \<Rightarrow>
           bind_go (handleReconnection U draw attempts c1) (\<lambda>(res, c2, evs').
             Ret (Some res, c2, evs @ evs')))"

section \<open>The pumps\<close>

definition wc_cleanup :: "'u wsClient \<Rightarrow> ('u wsClient \<times> ws_event list) go" where
  "wc_cleanup c =
     (case wc_webSocket c of
        None \<Rightarrow> Panic ''nil pointer dereference''
      | Some ws \<Rightarrow>
          bind_go (chan_close (ws_outQueue ws)) (\<lambda>q.
            bind_go (chan_close (ws_closeC ws)) (\<lambda>ch.
              Ret ((setConnected False c)\<lparr>wc_webSocket := Some (ws\<lparr>ws_outQueue := q, ws_closeC := ch\<rparr>)\<rparr>,
                   [ConnClosed (ws_connection ws)]))))"

text \<open>The closure of \<^verbatim>\<open>writePump\<close>. It calls the handler for nil errors as well.\<close>

definition wc_closure :: "string option \<Rightarrow> 'u wsClient \<Rightarrow> ('u wsClient \<times> ws_event list) go" where
  "wc_closure err c =
     bind_go (wc_cleanup c) (\<lambda>(c1, evs).
       Ret (c1, evs @ (if wc_onDisconnected c1 then [CalledDisconnected '''' err] else [])))"

datatype client_next = PumpGoesOn | PumpReturns | PumpReconnects

datatype client_case = SendCase | TickerCase | StopSignalCase | ForcedCase

definition writeBroken ::
  "string \<Rightarrow> string \<Rightarrow> 'u wsClient \<Rightarrow> (client_next \<times> 'u wsClient \<times> ws_event list) go" where
  "writeBroken what err c =
     bind_go (wc_error (what @ err) c) (\<lambda>c1.
       bind_go (wc_closure (Some err) c1) (\<lambda>(c2, evs). Ret (PumpReconnects, c2, evs)))"

text \<open>
  One iteration of \<^verbatim>\<open>writePump\<close> on the socket \<open>ws\<close>; \<open>res\<close> is what writing to the connection returns.
  \<open>PumpReconnects\<close> says that the goroutine goes on with \<open>handleReconnection\<close> and then returns.
\<close>

definition wc_writePump ::
  "client_case \<Rightarrow> string option \<Rightarrow> 'u wsClient \<Rightarrow> (client_next \<times> 'u wsClient \<times> ws_event list) go" where
  "wc_writePump k res c =
     (case wc_webSocket c of
        None \<Rightarrow> Block
      | Some ws \<Rightarrow>
          (case k of
             SendCase \<Rightarrow>
               bind_go (chan_recv (ws_outQueue ws)) (\<lambda>(content, q).
                 let c1 = c\<lparr>wc_webSocket := Some (ws\<lparr>ws_outQueue := q\<rparr>)\<rparr>
                 in case res of
                      Some err \<Rightarrow> writeBroken ''write failed: '' err c1
                    | None \<Rightarrow> Ret (PumpGoesOn, c1,
                        [TextSent (ws_connection ws) (case content of None \<Rightarrow> '''' | Some m \<Rightarrow> m)]))
           | TickerCase \<Rightarrow>
               (case res of
                  Some err \<Rightarrow> writeBroken ''failed to send ping message: '' err c
                | None \<Rightarrow> Ret (PumpGoesOn, c, [PingSent (ws_connection ws)]))
           | StopSignalCase \<Rightarrow>
               bind_go (chan_recv (ws_closeC ws)) (\<lambda>(closeErr, ch).
                 let c1 = c\<lparr>wc_webSocket := Some (ws\<lparr>ws_closeC := ch\<rparr>)\<rparr>;
                     ce = (case closeErr of None \<Rightarrow> \<lparr>ce_Code = 0, ce_Text = ''''\<rparr> | Some e \<Rightarrow> e)
                 in bind_go (case res of
                        Some err \<Rightarrow> wc_error (''failed to write close message: '' @ err) c1
                      | None \<Rightarrow> Ret c1) (\<lambda>c2.
                      bind_go (wc_closure None c2) (\<lambda>(c3, evs).
                        Ret (PumpReturns, c3,
                             (if res = None then [CloseSent (ws_connection ws) ce] else []) @ evs))))
           | ForcedCase \<Rightarrow>
               bind_go (chan_recv (ws_forceCloseC ws)) (\<lambda>(closed, ch).
                 bind_go (wc_closure closed (c\<lparr>wc_webSocket := Some (ws\<lparr>ws_forceCloseC := ch\<rparr>)\<rparr>)) (\<lambda>(c1, evs).
                   Ret (PumpReconnects, c1, evs)))))"

text \<open>
  One read. The error of a failed read goes to the socket the client has at that moment. Control
  messages are answered by the WebSocket package; a pong moves the deadline.
\<close>

definition wc_readPump ::
  "read_result \<Rightarrow> (string \<Rightarrow> string option) \<Rightarrow> 'u wsClient \<Rightarrow> (bool \<times> 'u wsClient \<times> ws_event list) go" where
  "wc_readPump res handled c =
     (case res of
        ReadPing _ \<Rightarrow> Ret (True, c, [])
      | ReadFailed err unexp \<Rightarrow>
          bind_go (if unexp then wc_error (''read failed: '' @ err) c else Ret c) (\<lambda>c1.
            case wc_webSocket c1 of
              None \<Rightarrow> Block
            | Some ws \<Rightarrow>
                bind_go (chan_send (ws_forceCloseC ws) err) (\<lambda>ch.
                  Ret (False, c1\<lparr>wc_webSocket := Some (ws\<lparr>ws_forceCloseC := ch\<rparr>)\<rparr>, [])))
      | ReadMessage message \<Rightarrow>
          if wc_messageHandler c then
            (case handled message of
               None \<Rightarrow> Ret (True, c, [CalledMessage '''' message])
             | Some err \<Rightarrow>
                 bind_go (wc_error (''handle failed: '' @ err) c) (\<lambda>c1.
                   Ret (True, c1, [CalledMessage '''' message])))
          else Ret (True, c, []))"

section \<open>How long and how often the client waits\<close>

fun waits :: "ws_event list \<Rightarrow> int list" where
  "waits [] = []"
| "waits (Waited d # evs) = d # waits evs"
| "waits (_ # evs) = waits evs"

lemma waits_append [simp]: "waits (xs @ ys) = waits xs @ waits ys"
  by (induction xs rule: waits.induct) auto

text \<open>
  The bounds of the delay after \<open>k\<close> doublings, for a minimum \<open>m\<close> and a random part of at most \<open>r\<close>.
\<close>

definition delay_ok :: "ClientTimeoutConfig \<Rightarrow> nat \<Rightarrow> int \<Rightarrow> bool" where
  "delay_ok cfg k d \<longleftrightarrow>
     (let m = cc_RetryBackOffWaitMinimum cfg; r = cc_RetryBackOffRandomRange cfg * second
      in m * 2 ^ k \<le> d \<and> d \<le> (m + 2 * r) * 2 ^ k - r)"

text \<open>A configuration whose largest delay fits into 64 bits.\<close>

definition backoff_ok :: "ClientTimeoutConfig \<Rightarrow> bool" where
  "backoff_ok cfg \<longleftrightarrow> 0 \<le> cc_RetryBackOffWaitMinimum cfg \<and> 0 \<le> cc_RetryBackOffRandomRange cfg \<and>
     (cc_RetryBackOffWaitMinimum cfg + 2 * (cc_RetryBackOffRandomRange cfg * second)) *
       2 ^ nat (cc_RetryBackOffRepeatTimes cfg - 1) < 2 ^ 63"

abbreviation doublings :: "ClientTimeoutConfig \<Rightarrow> nat" where
  "doublings cfg \<equiv> nat (cc_RetryBackOffRepeatTimes cfg - 1)"

lemma backoff_bound:
  assumes "backoff_ok cfg" "k \<le> doublings cfg"
  shows "(cc_RetryBackOffWaitMinimum cfg + 2 * (cc_RetryBackOffRandomRange cfg * second)) * 2 ^ k < 2 ^ 63"
proof -
  let ?s = "cc_RetryBackOffWaitMinimum cfg + 2 * (cc_RetryBackOffRandomRange cfg * second)"
  have "0 \<le> ?s" using assms(1) by (simp add: backoff_ok_def second_def)
  moreover have "(2::int) ^ k \<le> 2 ^ doublings cfg" using assms(2) by (simp add: power_increasing)
  ultimately have "?s * 2 ^ k \<le> ?s * 2 ^ doublings cfg" by (rule mult_left_mono[rotated])
  then show ?thesis using assms(1) unfolding backoff_ok_def by linarith
qed

lemma randomPart_Ret:
  assumes "backoff_ok cfg"
  shows "\<exists>r. randomPart cfg draw = Ret r \<and> 0 \<le> r \<and> r \<le> cc_RetryBackOffRandomRange cfg * second"
proof -
  let ?n = "cc_RetryBackOffRandomRange cfg"
  have n: "0 \<le> ?n" "cc_RetryBackOffWaitMinimum cfg + 2 * (?n * second) < 2 ^ 63" "0 \<le> cc_RetryBackOffWaitMinimum cfg"
    using assms backoff_bound[OF assms, of 0] by (auto simp: backoff_ok_def)
  then have "wrap64 (?n + 1) = ?n + 1" by (intro wrap64_id) (auto simp: second_def)
  moreover define x where "x = int draw mod (?n + 1)"
  have x: "0 \<le> x" "x \<le> ?n" using n(1) pos_mod_bound[of "?n + 1" "int draw"] by (auto simp: x_def)
  then have "x * second \<le> ?n * second" by (simp add: second_def)
  then have "wrap64 (x * second) = x * second" using x n by (intro wrap64_id) (auto simp: second_def)
  ultimately show ?thesis
    using n(1) x \<open>x * second \<le> ?n * second\<close>
    by (auto simp: randomPart_def intn_def x_def[symmetric] second_def)
qed

lemma initialDelay_ok:
  assumes "backoff_ok cfg"
  shows "\<exists>d. initialDelay cfg draw = Ret d \<and> delay_ok cfg 0 d"
proof -
  obtain r where r: "randomPart cfg draw = Ret r" "0 \<le> r" "r \<le> cc_RetryBackOffRandomRange cfg * second"
    using randomPart_Ret[OF assms] by blast
  have "wrap64 (cc_RetryBackOffWaitMinimum cfg + r) = cc_RetryBackOffWaitMinimum cfg + r"
    using r(2,3) backoff_bound[OF assms, of 0] assms
    by (intro wrap64_id) (auto simp: backoff_ok_def second_def)
  then show ?thesis using r by (auto simp: initialDelay_def delay_ok_def Let_def)
qed

lemma nextDelay_ok:
  assumes "backoff_ok cfg" "delay_ok cfg (min i (doublings cfg)) d"
  shows "\<exists>d'. nextDelay cfg draw (1 + int i) d = Ret d' \<and> delay_ok cfg (min (Suc i) (doublings cfg)) d'"
proof (cases "1 + int i < cc_RetryBackOffRepeatTimes cfg")
  case True
  let ?m = "cc_RetryBackOffWaitMinimum cfg"
  let ?R = "cc_RetryBackOffRandomRange cfg * second"
  have i: "min i (doublings cfg) = i" "min (Suc i) (doublings cfg) = Suc i" using True by auto
  obtain r where r: "randomPart cfg draw = Ret r" "0 \<le> r" "r \<le> ?R"
    using randomPart_Ret[OF assms(1)] by blast
  have d: "?m * 2 ^ i \<le> d" "d \<le> (?m + 2 * ?R) * 2 ^ i - ?R"
    using assms(2) by (auto simp: delay_ok_def Let_def i)
  have top: "(?m + 2 * ?R) * 2 ^ Suc i < 2 ^ 63"
    using backoff_bound[OF assms(1), of "Suc i"] True by simp
  have pos: "0 \<le> ?m * 2 ^ i" "0 \<le> ?R" using assms(1) by (auto simp: backoff_ok_def second_def)
  have up: "d * 2 + r \<le> (?m + 2 * ?R) * 2 ^ Suc i - ?R" using d(2) r(3) by (simp add: algebra_simps)
  have lo: "?m * 2 ^ Suc i \<le> d * 2 + r" using d(1) r(2) by simp
  have "0 \<le> d * 2" using d(1) pos by linarith
  moreover have "d * 2 < 2 ^ 63" "d * 2 + r < 2 ^ 63" using up top pos(2) r(2) by linarith+
  ultimately have "wrap64 (wrap64 (d * 2) + r) = d * 2 + r" using r(2) by (simp add: wrap64_id)
  then show ?thesis using True r(1) up lo by (simp add: nextDelay_def delay_ok_def Let_def i)
next
  case False
  then have "min i (doublings cfg) = min (Suc i) (doublings cfg)" by auto
  then show ?thesis using False assms(2) by (simp add: nextDelay_def)
qed

lemma wc_Start_Ret:
  assumes "wc_Start U dial s c = Ret (err, c', evs)"
  shows "wc_timeoutConfig c' = wc_timeoutConfig c" "wc_errC c' = wc_errC c" "waits evs = []"
    "wc_url c' = url_Parse U s" "wc_onReconnected c' = wc_onReconnected c" "err = None \<longleftrightarrow> evs \<noteq> []"
    "err = None \<Longrightarrow> wc_connected c'"
  using assms
  by (auto simp: wc_Start_def Let_def setConnected_def split: option.splits dial_result.splits)

lemma wc_error_Ret:
  assumes "wc_error e c = Ret c'"
  shows "wc_timeoutConfig c' = wc_timeoutConfig c" "wc_errC c = None \<Longrightarrow> c' = c"
  using assms by (auto simp: wc_error_def wsError_def)

lemma reconnectLoop_delays:
  assumes "reconnectLoop U as d (1 + int i) c = Ret (res, c', evs)" "cfg = wc_timeoutConfig c"
    and "backoff_ok cfg" "delay_ok cfg (min i (doublings cfg)) d" "j < length (waits evs)"
  shows "delay_ok cfg (min (i + j) (doublings cfg)) (waits evs ! j)"
  using assms
proof (induction as arbitrary: d i c evs j)
  case (Cons a as)
  show ?case
  proof (cases "at_interrupted a")
    case True
    with Cons.prems(1,5) show ?thesis by (auto split: option.splits if_splits)
  next
    case False
    then obtain err c1 evs1 where s: "wc_Start U (at_dial a) (currentUrl U c) c = Ret (err, c1, evs1)"
      using Cons.prems(1) by auto
    note S = wc_Start_Ret[OF s]
    show ?thesis
    proof (cases err)
      case None
      then have "waits evs = [d]" using Cons.prems(1) False s S(3) by auto
      then show ?thesis using Cons.prems(4,5) by simp
    next
      case (Some e)
      then obtain c2 d' evs' where l: "wc_error (''reconnection failed: '' @ wsErrText e) c1 = Ret c2"
        "nextDelay (wc_timeoutConfig c2) (at_draw a) (1 + int i) d = Ret d'"
        "reconnectLoop U as d' (1 + int i + 1) c2 = Ret (res, c', evs')" "evs = Waited d # evs1 @ evs'"
        using Cons.prems(1) False s by fastforce
      have cfg: "cfg = wc_timeoutConfig c2" using Cons.prems(2) S(1) wc_error_Ret(1)[OF l(1)] by simp
      have d': "delay_ok cfg (min (Suc i) (doublings cfg)) d'"
        using nextDelay_ok[OF Cons.prems(3,4), of "at_draw a"] l(2) cfg by auto
      have n: "1 + int i + 1 = 1 + int (Suc i)" by simp
      show ?thesis
      proof (cases j)
        case 0
        then show ?thesis using Cons.prems(4) l(4) by simp
      next
        case (Suc k)
        then have "k < length (waits evs')" using Cons.prems(5) l(4) S(3) by simp
        from Cons.IH[OF l(3)[unfolded n] cfg Cons.prems(3) d' this] show ?thesis
          using Suc l(4) S(3) by simp
      qed
    qed
  qed
qed simp

text \<open>
  C39: The waiting time before each attempt to reconnect. It starts at the minimum plus a random
  part, doubles with a new random part after each failure for \<^verbatim>\<open>RetryBackOffRepeatTimes - 1\<close> failures,
  and stays the same from then on; it is never below the doubled minimum nor above the bound
  given, as long as that bound fits into the 64 bits of a duration.
\<close>

theorem reconnect_delay_bounds:
  assumes "handleReconnection U draw attempts c = Ret (res, c', evs)" "backoff_ok (wc_timeoutConfig c)"
    and "i < length (waits evs)"
    and "k = min i (nat (cc_RetryBackOffRepeatTimes (wc_timeoutConfig c) - 1))"
    and "m = cc_RetryBackOffWaitMinimum (wc_timeoutConfig c)"
    and "r = cc_RetryBackOffRandomRange (wc_timeoutConfig c) * second"
  shows "m * 2 ^ k \<le> waits evs ! i \<and> waits evs ! i \<le> (m + 2 * r) * 2 ^ k - r"
proof -
  obtain d where d: "initialDelay (wc_timeoutConfig c) draw = Ret d" "delay_ok (wc_timeoutConfig c) 0 d"
    using initialDelay_ok[OF assms(2)] by blast
  then have "reconnectLoop U attempts d (1 + int 0) c = Ret (res, c', evs)"
    using assms(1) by (simp add: handleReconnection_def)
  from reconnectLoop_delays[OF this refl assms(2) _ assms(3)] d(2)
  have "delay_ok (wc_timeoutConfig c) k (waits evs ! i)" using assms(4) by simp
  then show ?thesis using assms(5,6) by (simp add: delay_ok_def Let_def)
qed

section \<open>The loop ends when the server is there\<close>

definition dial_fails :: "string \<Rightarrow> attempt \<Rightarrow> bool" where
  "dial_fails s a \<longleftrightarrow> \<not> at_interrupted a \<and> (\<forall>d h. \<exists>e resp. at_dial a d s h = DialFailed e resp)"

definition dial_connects :: "string \<Rightarrow> attempt \<Rightarrow> bool" where
  "dial_connects s a \<longleftrightarrow> \<not> at_interrupted a \<and> (\<forall>d h. \<exists>conn tls. at_dial a d s h = DialOk conn tls)"

lemma wc_Start_dial:
  assumes "url_Parse U s = Some u"
  shows "\<forall>d h. \<exists>e resp. dial d s h = DialFailed e resp \<Longrightarrow>
      \<exists>e. wc_Start U dial s c = Ret (Some e, c\<lparr>wc_url := Some u\<rparr>, [])"
    and "\<forall>d h. \<exists>conn tls. dial d s h = DialOk conn tls \<Longrightarrow>
      \<exists>c' evs. wc_Start U dial s c = Ret (None, c', evs)"
proof -
  let ?d = "fold (\<lambda>opt d. opt d) (wc_dialOptions c)
    \<lparr>dl_ReadBufferSize = 1024, dl_WriteBufferSize = 1024,
     dl_HandshakeTimeout = cc_HandshakeTimeout (wc_timeoutConfig c), dl_Subprotocols = [], dl_TLSClientConfig = None\<rparr>"
  show "\<exists>e. wc_Start U dial s c = Ret (Some e, c\<lparr>wc_url := Some u\<rparr>, [])"
    if f: "\<forall>d h. \<exists>e resp. dial d s h = DialFailed e resp"
  proof -
    from f obtain e resp where "dial ?d s (wc_header c) = DialFailed e resp" by blast
    then show ?thesis using assms by (simp add: wc_Start_def Let_def)
  qed
  show "\<exists>c' evs. wc_Start U dial s c = Ret (None, c', evs)"
    if f: "\<forall>d h. \<exists>conn tls. dial d s h = DialOk conn tls"
  proof -
    from f obtain conn tls where "dial ?d s (wc_header c) = DialOk conn tls" by blast
    then show ?thesis using assms by (simp add: wc_Start_def Let_def)
  qed
qed

lemma reconnectLoop_returns:
  assumes "wc_errC c = None" "backoff_ok (wc_timeoutConfig c)" "wc_url c = Some u"
    and "url_Parse U (url_String U u) = Some u" "list_all (dial_fails (url_String U u)) as"
    and "dial_connects (url_String U u) a"
    and "delay_ok (wc_timeoutConfig c) (min i (doublings (wc_timeoutConfig c))) d"
  shows "\<exists>c' evs. reconnectLoop U (as @ a # rest) d (1 + int i) c = Ret (Reconnected, c', evs) \<and>
    length (waits evs) = length as + 1 \<and> wc_connected c' \<and>
    length (filter (\<lambda>e. e = CalledReconnected) evs) = (if wc_onReconnected c then 1 else 0)"
  using assms
proof (induction as arbitrary: c d i)
  case Nil
  have "currentUrl U c = url_String U u" using Nil.prems(3) by (simp add: currentUrl_def)
  moreover have "\<forall>d h. \<exists>conn tls. at_dial a d (url_String U u) h = DialOk conn tls"
    using Nil.prems(6) by (simp add: dial_connects_def)
  from wc_Start_dial(2)[where dial = "at_dial a", OF Nil.prems(4) this] obtain c' evs where
    s: "wc_Start U (at_dial a) (url_String U u) c = Ret (None, c', evs)" by blast
  moreover have "filter (\<lambda>e. e = CalledReconnected) evs = []"
    using s by (auto simp: wc_Start_def Let_def split: option.splits dial_result.splits)
  ultimately show ?case
    using Nil.prems(6) wc_Start_Ret[OF s] by (auto simp: dial_connects_def)
next
  case (Cons b as)
  let ?s = "url_String U u"
  have b: "\<not> at_interrupted b" "\<forall>d h. \<exists>e resp. at_dial b d ?s h = DialFailed e resp"
    using Cons.prems(5) by (auto simp: dial_fails_def)
  have url: "currentUrl U c = ?s" using Cons.prems(3) by (simp add: currentUrl_def)
  have same: "c\<lparr>wc_url := Some u\<rparr> = c" using Cons.prems(3) by (cases c) simp
  obtain e where s: "wc_Start U (at_dial b) ?s c = Ret (Some e, c, [])"
    using wc_Start_dial(1)[where dial = "at_dial b" and c = c, OF Cons.prems(4) b(2)] same by auto
  have err: "wc_error t c = Ret c" for t using Cons.prems(1) by (cases c) (simp add: wc_error_def wsError_def)
  obtain d' where d': "nextDelay (wc_timeoutConfig c) (at_draw b) (1 + int i) d = Ret d'"
    "delay_ok (wc_timeoutConfig c) (min (Suc i) (doublings (wc_timeoutConfig c))) d'"
    using nextDelay_ok[OF Cons.prems(2,7)] by blast
  have n: "1 + int i + 1 = 1 + int (Suc i)" by simp
  from Cons.IH[OF Cons.prems(1-4) _ Cons.prems(6) d'(2)] Cons.prems(5)
  obtain c' evs where "reconnectLoop U (as @ a # rest) d' (1 + int (Suc i)) c = Ret (Reconnected, c', evs)"
    "length (waits evs) = length as + 1" "wc_connected c'"
    "length (filter (\<lambda>e. e = CalledReconnected) evs) = (if wc_onReconnected c then 1 else 0)"
    by auto
  then show ?case using b(1) url s err d'(1) n by (intro exI[of _ c'] exI[of _ "Waited d # evs"]) simp
qed

text \<open>
  C40: Reconnecting ends with the first attempt that reaches the server. However many attempts
  fail before, the loop makes no further one, waits once per attempt, calls the handler for
  reconnections once if there is one, and leaves the client connected. The URL is one that parses
  back from its text, and no one listens for errors.
\<close>

theorem reconnect_terminates:
  assumes "wc_url c = Some u" "url_Parse U (url_String U u) = Some u"
    and "wc_errC c = None" "backoff_ok (wc_timeoutConfig c)"
    and "list_all (dial_fails (url_String U u)) failing" "dial_connects (url_String U u) a"
  shows "\<exists>c' evs. handleReconnection U draw (failing @ a # rest) c = Ret (Reconnected, c', evs) \<and>
    length (waits evs) = length failing + 1 \<and> wc_connected c' \<and>
    length (filter (\<lambda>e. e = CalledReconnected) evs) = (if wc_onReconnected c then 1 else 0)"
proof -
  obtain d where d: "initialDelay (wc_timeoutConfig c) draw = Ret d" "delay_ok (wc_timeoutConfig c) 0 d"
    using initialDelay_ok[OF assms(4)] by blast
  from reconnectLoop_returns[OF assms(3,4,1,2,5,6), of 0 d rest] d(2)
  show ?thesis using d(1) by (simp add: handleReconnection_def)
qed

definition demo_url :: "string urlLib" where
  "demo_url = \<lparr>url_Parse = Some, url_String = (\<lambda>u. u), url_Path = (\<lambda>u. u)\<rparr>"

definition demo_client :: "string wsClient" where
  "demo_client = SetReconnectedHandler (ws_NewClient\<lparr>wc_url := Some ''ws://csms/cp1''\<rparr>)"

definition demo_down :: attempt where
  "demo_down = \<lparr>at_interrupted = False, at_dial = (\<lambda>_ _ _. DialFailed ''connection refused'' None), at_draw = 7\<rparr>"

definition demo_up :: attempt where
  "demo_up = \<lparr>at_interrupted = False, at_dial = (\<lambda>_ _ _. DialOk 5 None), at_draw = 7\<rparr>"

lemma demo_client_simps:
  "wc_url demo_client = Some ''ws://csms/cp1''" "wc_errC demo_client = None" "wc_onReconnected demo_client"
  "wc_timeoutConfig demo_client = NewClientTimeoutConfig"
  by (simp_all add: demo_client_def ws_NewClient_def SetReconnectedHandler_def)

lemma default_backoff: "backoff_ok NewClientTimeoutConfig"
  by (simp add: backoff_ok_def NewClientTimeoutConfig_def defaultRetryBackOffRepeatTimes_def second_def
      defaultRetryBackOffRandomRange_def defaultRetryBackOffWaitMinimum_def)

lemma demo_dials:
  "dial_fails s demo_down" "dial_connects s demo_up" "url_Parse demo_url s = Some s" "url_String demo_url s = s"
  by (simp_all add: dial_fails_def dial_connects_def demo_down_def demo_up_def demo_url_def)

theorem reconnect_terminates_witness:
  "\<exists>c' evs. handleReconnection demo_url 3 [demo_down, demo_down, demo_up] demo_client =
     Ret (Reconnected, c', evs) \<and> length (waits evs) = 3 \<and> wc_connected c' \<and>
     length (filter (\<lambda>e. e = CalledReconnected) evs) = 1"
  using reconnect_terminates[of demo_client "''ws://csms/cp1''" demo_url "[demo_down, demo_down]" demo_up 3 "[]"]
  by (simp add: demo_client_simps default_backoff demo_dials numeral_3_eq_3)

text \<open>With the default configuration the wait is between 160 and 625 seconds from the fifth attempt on.\<close>

theorem reconnect_delay_bounds_witness:
  "\<exists>c' evs. handleReconnection demo_url 3 (replicate 6 demo_down @ [demo_up]) demo_client =
     Ret (Reconnected, c', evs) \<and> 160 * second \<le> waits evs ! 6 \<and> waits evs ! 6 \<le> 625 * second"
proof -
  have ok: "backoff_ok (wc_timeoutConfig demo_client)" by (simp add: demo_client_simps default_backoff)
  moreover from this initialDelay_ok obtain d where d: "initialDelay (wc_timeoutConfig demo_client) 3 = Ret d"
    "delay_ok (wc_timeoutConfig demo_client) 0 d" by blast
  ultimately obtain c' evs where r: "handleReconnection demo_url 3 (replicate 6 demo_down @ [demo_up]) demo_client =
      Ret (Reconnected, c', evs)" "length (waits evs) = 7"
    using reconnectLoop_returns[of demo_client "''ws://csms/cp1''" demo_url "replicate 6 demo_down" demo_up 0 d "[]"]
    by (auto simp: handleReconnection_def demo_client_simps demo_dials list_all_iff)
  have "6 < length (waits evs)" using r(2) by simp
  from reconnect_delay_bounds[OF r(1) ok this refl refl refl] r(1) show ?thesis
    by (simp add: demo_client_simps NewClientTimeoutConfig_def second_def
        defaultRetryBackOffRepeatTimes_def defaultRetryBackOffRandomRange_def defaultRetryBackOffWaitMinimum_def)
qed

end
