(* ===== verification/Types201.thy ===== *)
theory Types201
  imports GoJson
begin

text \<open>
  \<^verbatim>\<open>ocpp2.0.1/types/types.go\<close>: the validation functions of the shared enumerations (a function per
  string type, accepting the named constants), the shared struct types with their tags, and their
  constructors. \<^verbatim>\<open>ocpp2.0.1/types/datetime.go\<close> is the same text as in OCPP 1.6. A name that OCPP 1.6
  has too ends in \<open>_201\<close>.
\<close>

section \<open>Package \<^verbatim>\<open>types\<close>\<close>

definition isValidAuthorizationStatus_201 :: "string \<Rightarrow> bool" where
  "isValidAuthorizationStatus_201 status \<longleftrightarrow> status \<in> set
    [''Accepted'', ''Blocked'', ''Expired'', ''Invalid'', ''ConcurrentTx'', ''NoCredit'',
     ''NotAllowedTypeEVS'', ''NotAtThisLocation'', ''NotAtThisTime'', ''Unknown'']"

definition isValidIdTokenType :: "string \<Rightarrow> bool" where
  "isValidIdTokenType tokenType \<longleftrightarrow> tokenType \<in> set
    [''Central'', ''eMAID'', ''ISO14443'', ''ISO15693'', ''KeyCode'', ''Local'',
     ''MacAddress'', ''NoAuthorization'']"

definition isValidGenericDeviceModelStatus :: "string \<Rightarrow> bool" where
  "isValidGenericDeviceModelStatus status \<longleftrightarrow> status \<in> set
    [''Accepted'', ''Rejected'', ''NotSupported'', ''EmptyResultSet'']"

definition isValidGenericStatus :: "string \<Rightarrow> bool" where
  "isValidGenericStatus status \<longleftrightarrow> status \<in> set
    [''Accepted'', ''Rejected'']"

definition isValidHashAlgorithmType :: "string \<Rightarrow> bool" where
  "isValidHashAlgorithmType algorithm \<longleftrightarrow> algorithm \<in> set
    [''SHA256'', ''SHA384'', ''SHA512'']"

definition isValidCertificate15118EVStatus :: "string \<Rightarrow> bool" where
  "isValidCertificate15118EVStatus status \<longleftrightarrow> status \<in> set
    [''Accepted'', ''Failed'']"

definition isValidCertificateSigningUse :: "string \<Rightarrow> bool" where
  "isValidCertificateSigningUse status \<longleftrightarrow> status \<in> set
    [''ChargingStationCertificate'', ''V2GCertificate'']"

definition isValidCertificateUse :: "string \<Rightarrow> bool" where
  "isValidCertificateUse use \<longleftrightarrow> use \<in> set
    [''V2GRootCertificate'', ''MORootCertificate'', ''CSOSubCA1'', ''CSOSubCA2'',
     ''CSMSRootCertificate'', ''V2GCertificateChain'', ''ManufacturerRootCertificate'']"

definition isValidMessageFormatType :: "string \<Rightarrow> bool" where
  "isValidMessageFormatType algorithm \<longleftrightarrow> algorithm \<in> set
    [''ASCII'', ''HTML'', ''URI'', ''UTF8'']"

definition isValidAttribute :: "string \<Rightarrow> bool" where
  "isValidAttribute purposeType \<longleftrightarrow> purposeType \<in> set
    [''Actual'', ''Target'', ''MinSet'', ''MaxSet'']"

definition isValidCostKind :: "string \<Rightarrow> bool" where
  "isValidCostKind purposeType \<longleftrightarrow> purposeType \<in> set
    [''CarbonDioxideEmission'', ''RelativePricePercentage'',
     ''RenewableGenerationPercentage'']"

definition isValidChargingProfilePurpose_201 :: "string \<Rightarrow> bool" where
  "isValidChargingProfilePurpose_201 purposeType \<longleftrightarrow> purposeType \<in> set
    [''ChargingStationExternalConstraints'', ''ChargingStationMaxProfile'',
     ''TxDefaultProfile'', ''TxProfile'']"

definition isValidChargingProfileKind_201 :: "string \<Rightarrow> bool" where
  "isValidChargingProfileKind_201 purposeType \<longleftrightarrow> purposeType \<in> set
    [''Absolute'', ''Recurring'', ''Relative'']"

definition isValidRecurrencyKind_201 :: "string \<Rightarrow> bool" where
  "isValidRecurrencyKind_201 purposeType \<longleftrightarrow> purposeType \<in> set
    [''Daily'', ''Weekly'']"

definition isValidChargingRateUnit_201 :: "string \<Rightarrow> bool" where
  "isValidChargingRateUnit_201 purposeType \<longleftrightarrow> purposeType \<in> set
    [''W'', ''A'']"

definition isValidChargingLimitSource :: "string \<Rightarrow> bool" where
  "isValidChargingLimitSource chargingLimitSource \<longleftrightarrow> chargingLimitSource \<in> set
    [''EMS'', ''Other'', ''SO'', ''CSO'']"

definition isValidRemoteStartStopStatus_201 :: "string \<Rightarrow> bool" where
  "isValidRemoteStartStopStatus_201 status \<longleftrightarrow> status \<in> set
    [''Accepted'', ''Rejected'']"

definition isValidReadingContext_201 :: "string \<Rightarrow> bool" where
  "isValidReadingContext_201 readingContext \<longleftrightarrow> readingContext \<in> set
    [''Interruption.Begin'', ''Interruption.End'', ''Other'', ''Sample.Clock'',
     ''Sample.Periodic'', ''Transaction.Begin'', ''Transaction.End'', ''Trigger'']"

definition isValidMeasurand_201 :: "string \<Rightarrow> bool" where
  "isValidMeasurand_201 measurand \<longleftrightarrow> measurand \<in> set
    [''SoC'', ''Current.Export'', ''Current.Import'', ''Current.Offered'',
     ''Energy.Active.Export.Interval'', ''Energy.Active.Export.Register'',
     ''Energy.Reactive.Export.Interval'', ''Energy.Reactive.Export.Register'',
     ''Energy.Reactive.Import.Register'', ''Energy.Reactive.Import.Interval'',
     ''Energy.Active.Import.Interval'', ''Energy.Active.Import.Register'', ''Frequency'',
     ''Power.Active.Export'', ''Power.Active.Import'', ''Power.Reactive.Import'',
     ''Power.Reactive.Export'', ''Power.Offered'', ''Power.Factor'', ''Voltage'',
     ''Temperature'', ''Energy.Active.Net'', ''Energy.Apparent.Net'',
     ''Energy.Reactive.Net'', ''Energy.Apparent.Import'', ''Energy.Apparent.Export'']"

definition isValidPhase_201 :: "string \<Rightarrow> bool" where
  "isValidPhase_201 phase \<longleftrightarrow> phase \<in> set
    [''L1'', ''L2'', ''L3'', ''N'', ''L1-N'', ''L2-N'', ''L3-N'', ''L1-L2'', ''L2-L3'',
     ''L3-L1'']"

definition isValidLocation_201 :: "string \<Rightarrow> bool" where
  "isValidLocation_201 location \<longleftrightarrow> location \<in> set
    [''Body'', ''Cable'', ''EV'', ''Inlet'', ''Outlet'']"

definition isValidSignatureMethod :: "string \<Rightarrow> bool" where
  "isValidSignatureMethod signature \<longleftrightarrow> signature \<in> set
    [''ECDSA192SHA256'', ''ECDSAP256SHA256'', ''ECDSAP384SHA384'']"

definition isValidEncodingMethod :: "string \<Rightarrow> bool" where
  "isValidEncodingMethod encoding \<longleftrightarrow> encoding \<in> set
    [''COSEM Protected Data'', ''EDL'', ''DLMS Message'', ''Other'']"

definition AdditionalInfo :: gotype where
  "AdditionalInfo = TStruct ''types.AdditionalInfo''
     [Field ''AdditionalIdToken'' ''additionalIdToken'' False ''required,max=36'' TString,
      Field ''Type'' ''type'' False ''required,max=50'' TString]"

definition IdToken :: gotype where
  "IdToken = TStruct ''types.IdToken''
     [Field ''IdToken'' ''idToken'' False ''max=36'' TString,
      Field ''Type'' ''type'' False ''required,idTokenType'' TString,
      Field ''AdditionalInfo'' ''additionalInfo'' True ''omitempty,dive'' (TSlice AdditionalInfo)]"

definition OCSPRequestDataType :: gotype where
  "OCSPRequestDataType = TStruct ''types.OCSPRequestDataType''
     [Field ''HashAlgorithm'' ''hashAlgorithm'' False ''required,hashAlgorithm'' TString,
      Field ''IssuerNameHash'' ''issuerNameHash'' False ''required,max=128'' TString,
      Field ''IssuerKeyHash'' ''issuerKeyHash'' False ''required,max=128'' TString,
      Field ''SerialNumber'' ''serialNumber'' False ''required,max=40'' TString,
      Field ''ResponderURL'' ''responderURL'' True ''max=512'' TString]"

definition CertificateHashData :: gotype where
  "CertificateHashData = TStruct ''types.CertificateHashData''
     [Field ''HashAlgorithm'' ''hashAlgorithm'' False ''required,hashAlgorithm'' TString,
      Field ''IssuerNameHash'' ''issuerNameHash'' False ''required,max=128'' TString,
      Field ''IssuerKeyHash'' ''issuerKeyHash'' False ''required,max=128'' TString,
      Field ''SerialNumber'' ''serialNumber'' False ''required,max=40'' TString]"

definition CertificateHashDataChain :: gotype where
  "CertificateHashDataChain = TStruct ''types.CertificateHashDataChain''
     [Field ''CertificateType'' ''certificateType'' False ''required,certificateUse'' TString,
      Field ''CertificateHashData'' ''certificateHashData'' False ''required'' CertificateHashData,
      Field ''ChildCertificateHashData'' ''childCertificateHashData'' True ''omitempty,dive'' (TSlice CertificateHashData)]"

definition MessageContent :: gotype where
  "MessageContent = TStruct ''types.MessageContent''
     [Field ''Format'' ''format'' False ''required,messageFormat'' TString,
      Field ''Language'' ''language'' True ''max=8'' TString,
      Field ''Content'' ''content'' False ''required,max=512'' TString]"

definition GroupIdToken :: gotype where
  "GroupIdToken = TStruct ''types.GroupIdToken''
     [Field ''IdToken'' ''idToken'' False ''max=36'' TString,
      Field ''Type'' ''type'' False ''required,idTokenType'' TString]"

definition IdTokenInfo :: gotype where
  "IdTokenInfo = TStruct ''types.IdTokenInfo''
     [Field ''Status'' ''status'' False ''required,authorizationStatus201'' TString,
      Field ''CacheExpiryDateTime'' ''cacheExpiryDateTime'' True ''omitempty'' (TPtr TTime),
      Field ''ChargingPriority'' ''chargingPriority'' True ''min=-9,max=9'' TInt,
      Field ''Language1'' ''language1'' True ''max=8'' TString,
      Field ''Language2'' ''language2'' True ''max=8'' TString,
      Field ''GroupIdToken'' ''groupIdToken'' True '''' (TPtr GroupIdToken),
      Field ''PersonalMessage'' ''personalMessage'' True '''' (TPtr MessageContent)]"

definition StatusInfo :: gotype where
  "StatusInfo = TStruct ''types.StatusInfo''
     [Field ''ReasonCode'' ''reasonCode'' False ''required,max=20'' TString,
      Field ''AdditionalInfo'' ''additionalInfo'' True ''omitempty,max=512'' TString]"

definition EVSE :: gotype where
  "EVSE = TStruct ''types.EVSE''
     [Field ''ID'' ''id'' False ''gte=0'' TInt,
      Field ''ConnectorID'' ''connectorId'' True ''omitempty,gte=0'' (TPtr TInt)]"

definition Component :: gotype where
  "Component = TStruct ''types.Component''
     [Field ''Name'' ''name'' False ''required,max=50'' TString,
      Field ''Instance'' ''instance'' True ''omitempty,max=50'' TString,
      Field ''EVSE'' ''evse'' True ''omitempty'' (TPtr EVSE)]"

definition Variable :: gotype where
  "Variable = TStruct ''types.Variable''
     [Field ''Name'' ''name'' False ''required,max=50'' TString,
      Field ''Instance'' ''instance'' True ''omitempty,max=50'' TString]"

definition ComponentVariable :: gotype where
  "ComponentVariable = TStruct ''types.ComponentVariable''
     [Field ''Component'' ''component'' False ''required'' Component,
      Field ''Variable'' ''variable'' False ''required'' Variable]"

definition RelativeTimeInterval :: gotype where
  "RelativeTimeInterval = TStruct ''types.RelativeTimeInterval''
     [Field ''Start'' ''start'' False '''' TInt,
      Field ''Duration'' ''duration'' True ''omitempty,gte=0'' (TPtr TInt)]"

definition CostType :: gotype where
  "CostType = TStruct ''types.CostType''
     [Field ''CostKind'' ''costKind'' False ''required,costKind'' TString,
      Field ''Amount'' ''amount'' False ''gte=0'' TInt,
      Field ''AmountMultiplier'' ''amountMultiplier'' True ''omitempty,min=-3,max=3'' (TPtr TInt)]"

definition ConsumptionCost :: gotype where
  "ConsumptionCost = TStruct ''types.ConsumptionCost''
     [Field ''StartValue'' ''startValue'' False '''' TFloat,
      Field ''Cost'' ''cost'' False ''required,max=3,dive'' (TSlice CostType)]"

definition SalesTariffEntry :: gotype where
  "SalesTariffEntry = TStruct ''types.SalesTariffEntry''
     [Field ''EPriceLevel'' ''ePriceLevel'' True ''omitempty,gte=0'' (TPtr TInt),
      Field ''RelativeTimeInterval'' ''relativeTimeInterval'' False ''required'' RelativeTimeInterval,
      Field ''ConsumptionCost'' ''consumptionCost'' True ''omitempty,max=3,dive'' (TSlice ConsumptionCost)]"

definition SalesTariff :: gotype where
  "SalesTariff = TStruct ''types.SalesTariff''
     [Field ''ID'' ''id'' False '''' TInt,
      Field ''SalesTariffDescription'' ''salesTariffDescription'' True ''omitempty,max=32'' TString,
      Field ''NumEPriceLevels'' ''numEPriceLevels'' True ''omitempty'' (TPtr TInt),
      Field ''SalesTariffEntry'' ''salesTariffEntry'' False ''required,min=1,max=1024,dive'' (TSlice SalesTariffEntry)]"

definition ChargingSchedulePeriod_201 :: gotype where
  "ChargingSchedulePeriod_201 = TStruct ''types.ChargingSchedulePeriod''
     [Field ''StartPeriod'' ''startPeriod'' False ''gte=0'' TInt,
      Field ''Limit'' ''limit'' False ''gte=0'' TFloat,
      Field ''NumberPhases'' ''numberPhases'' True ''omitempty,gte=0'' (TPtr TInt)]"

definition ChargingSchedule_201 :: gotype where
  "ChargingSchedule_201 = TStruct ''types.ChargingSchedule''
     [Field ''ID'' ''id'' False ''gte=0'' TInt,
      Field ''StartSchedule'' ''startSchedule'' True ''omitempty'' (TPtr TTime),
      Field ''Duration'' ''duration'' True ''omitempty,gte=0'' (TPtr TInt),
      Field ''ChargingRateUnit'' ''chargingRateUnit'' False ''required,chargingRateUnit201'' TString,
      Field ''MinChargingRate'' ''minChargingRate'' True ''omitempty,gte=0'' (TPtr TFloat),
      Field ''ChargingSchedulePeriod'' ''chargingSchedulePeriod'' False ''required,min=1,max=1024'' (TSlice ChargingSchedulePeriod_201),
      Field ''SalesTariff'' ''salesTariff'' True ''omitempty'' (TPtr SalesTariff)]"

definition ChargingProfile_201 :: gotype where
  "ChargingProfile_201 = TStruct ''types.ChargingProfile''
     [Field ''ID'' ''id'' False ''gte=0'' TInt,
      Field ''StackLevel'' ''stackLevel'' False ''gte=0'' TInt,
      Field ''ChargingProfilePurpose'' ''chargingProfilePurpose'' False ''required,chargingProfilePurpose201'' TString,
      Field ''ChargingProfileKind'' ''chargingProfileKind'' False ''required,chargingProfileKind201'' TString,
      Field ''RecurrencyKind'' ''recurrencyKind'' True ''omitempty,recurrencyKind201'' TString,
      Field ''ValidFrom'' ''validFrom'' True '''' (TPtr TTime),
      Field ''ValidTo'' ''validTo'' True '''' (TPtr TTime),
      Field ''TransactionID'' ''transactionId'' True ''omitempty,max=36'' TString,
      Field ''ChargingSchedule'' ''chargingSchedule'' False ''required,min=1,max=3,dive'' (TSlice ChargingSchedule_201)]"

definition UnitOfMeasure :: gotype where
  "UnitOfMeasure = TStruct ''types.UnitOfMeasure''
     [Field ''Unit'' ''unit'' True ''omitempty,max=20'' TString,
      Field ''Multiplier'' ''multiplier'' True ''omitempty,gte=0'' (TPtr TInt)]"

definition SignedMeterValue :: gotype where
  "SignedMeterValue = TStruct ''types.SignedMeterValue''
     [Field ''SignedMeterData'' ''signedMeterData'' False ''required,max=2500'' TString,
      Field ''SigningMethod'' ''signingMethod'' False ''required,max=50'' TString,
      Field ''EncodingMethod'' ''encodingMethod'' False ''required,max=50'' TString,
      Field ''PublicKey'' ''publicKey'' False ''required,max=2500'' TString]"

definition SampledValue_201 :: gotype where
  "SampledValue_201 = TStruct ''types.SampledValue''
     [Field ''Value'' ''value'' False '''' TFloat,
      Field ''Context'' ''context'' True ''omitempty,readingContext201'' TString,
      Field ''Measurand'' ''measurand'' True ''omitempty,measurand201'' TString,
      Field ''Phase'' ''phase'' True ''omitempty,phase201'' TString,
      Field ''Location'' ''location'' True ''omitempty,location201'' TString,
      Field ''SignedMeterValue'' ''signedMeterValue'' True ''omitempty'' (TPtr SignedMeterValue),
      Field ''UnitOfMeasure'' ''unitOfMeasure'' True ''omitempty'' (TPtr UnitOfMeasure)]"

definition MeterValue_201 :: gotype where
  "MeterValue_201 = TStruct ''types.MeterValue''
     [Field ''Timestamp'' ''timestamp'' False ''required'' TTime,
      Field ''SampledValue'' ''sampledValue'' False ''required,min=1,dive'' (TSlice SampledValue_201)]"

definition NewIdTokenInfo :: "string \<Rightarrow> goval" where
  "NewIdTokenInfo st =
     VPtr (structLit IdTokenInfo
     [(''Status'', VString st)])"

definition NewStatusInfo :: "string \<Rightarrow> string \<Rightarrow> goval" where
  "NewStatusInfo reasonCode additionalInfo =
     VPtr (structLit StatusInfo
     [(''ReasonCode'', VString reasonCode),
       (''AdditionalInfo'', VString additionalInfo)])"

definition NewConsumptionCost :: "goval \<Rightarrow> goval \<Rightarrow> goval" where
  "NewConsumptionCost startValue cost =
     structLit ConsumptionCost
     [(''StartValue'', startValue), (''Cost'', cost)]"

definition NewSalesTariff :: "int \<Rightarrow> goval \<Rightarrow> goval" where
  "NewSalesTariff ident salesTariffEntries =
     VPtr (structLit SalesTariff
     [(''ID'', VInt ident), (''SalesTariffEntry'', salesTariffEntries)])"

definition NewChargingSchedulePeriod_201 :: "int \<Rightarrow> goval \<Rightarrow> goval" where
  "NewChargingSchedulePeriod_201 startPeriod limit =
     structLit ChargingSchedulePeriod_201
     [(''StartPeriod'', VInt startPeriod), (''Limit'', limit)]"

definition NewChargingSchedule_201 :: "int \<Rightarrow> string \<Rightarrow> goval list \<Rightarrow> goval" where
  "NewChargingSchedule_201 ident chargingRateUnit schedulePeriod =
     VPtr (structLit ChargingSchedule_201
     [(''ID'', VInt ident),
       (''ChargingRateUnit'', VString chargingRateUnit),
       (''ChargingSchedulePeriod'', variadic schedulePeriod)])"

definition NewChargingProfile_201 :: "int \<Rightarrow> int \<Rightarrow> string \<Rightarrow> string \<Rightarrow> goval \<Rightarrow> goval" where
  "NewChargingProfile_201 ident stackLevel chargingProfilePurpose chargingProfileKind schedule =
     VPtr (structLit ChargingProfile_201
     [(''ID'', VInt ident),
       (''StackLevel'', VInt stackLevel),
       (''ChargingProfilePurpose'', VString chargingProfilePurpose),
       (''ChargingProfileKind'', VString chargingProfileKind),
       (''ChargingSchedule'', schedule)])"

end
