(* ===== verification/Management201.thy ===== *)
theory Management201
  imports Types201
begin

text \<open>
  The messages of OCPP 2.0.1 about the charging station itself: the packages \<^verbatim>\<open>provisioning\<close>,
  \<^verbatim>\<open>availability\<close>, \<^verbatim>\<open>security\<close>, \<^verbatim>\<open>iso15118\<close>, \<^verbatim>\<open>firmware\<close>, \<^verbatim>\<open>diagnostics\<close>, \<^verbatim>\<open>display\<close> and \<^verbatim>\<open>data\<close>. Per package:
  the validation functions of its
  enumerations, the struct types with their tags, the constructors, the features and the profile.
\<close>

section \<open>Package \<^verbatim>\<open>provisioning\<close>\<close>

definition isValidRegistrationStatus_201 :: "string \<Rightarrow> bool" where
  "isValidRegistrationStatus_201 status \<longleftrightarrow> status \<in> set
    [''Accepted'', ''Pending'', ''Rejected'']"

definition isValidBootReason :: "string \<Rightarrow> bool" where
  "isValidBootReason reason \<longleftrightarrow> reason \<in> set
    [''ApplicationReset'', ''FirmwareUpdate'', ''LocalReset'', ''PowerUp'',
     ''RemoteReset'', ''ScheduledReset'', ''Triggered'', ''Unknown'', ''Watchdog'']"

definition isValidReportBaseType :: "string \<Rightarrow> bool" where
  "isValidReportBaseType status \<longleftrightarrow> status \<in> set
    [''ConfigurationInventory'', ''FullInventory'', ''SummaryInventory'']"

definition isValidComponentCriterion :: "string \<Rightarrow> bool" where
  "isValidComponentCriterion status \<longleftrightarrow> status \<in> set
    [''Active'', ''Available'', ''Enabled'', ''Problem'']"

definition isValidGetVariableStatus :: "string \<Rightarrow> bool" where
  "isValidGetVariableStatus status \<longleftrightarrow> status \<in> set
    [''Accepted'', ''Rejected'', ''UnknownComponent'', ''UnknownVariable'',
     ''NotSupportedAttributeType'']"

definition isValidMutability :: "string \<Rightarrow> bool" where
  "isValidMutability status \<longleftrightarrow> status \<in> set
    [''ReadOnly'', ''WriteOnly'', ''ReadWrite'']"

definition isValidDataType :: "string \<Rightarrow> bool" where
  "isValidDataType status \<longleftrightarrow> status \<in> set
    [''boolean'', ''dateTime'', ''decimal'', ''integer'', ''string'', ''OptionList'',
     ''SequenceList'', ''MemberList'']"

definition isValidResetType_201 :: "string \<Rightarrow> bool" where
  "isValidResetType_201 status \<longleftrightarrow> status \<in> set
    [''Immediate'', ''OnIdle'']"

definition isValidResetStatus_201 :: "string \<Rightarrow> bool" where
  "isValidResetStatus_201 status \<longleftrightarrow> status \<in> set
    [''Accepted'', ''Rejected'', ''Scheduled'']"

definition isValidOCPPVersion :: "string \<Rightarrow> bool" where
  "isValidOCPPVersion v \<longleftrightarrow> v \<in> set
    [''OCPP12'', ''OCPP15'', ''OCPP16'', ''OCPP20'']"

definition isValidOCPPTransport :: "string \<Rightarrow> bool" where
  "isValidOCPPTransport t \<longleftrightarrow> t \<in> set
    [''JSON'', ''SOAP'']"

definition isValidOCPPInterface :: "string \<Rightarrow> bool" where
  "isValidOCPPInterface i \<longleftrightarrow> i \<in> set
    [''Wired0'', ''Wired1'', ''Wired2'', ''Wired3'', ''Wireless0'', ''Wireless1'',
     ''Wireless2'', ''Wireless3'']"

definition isValidVPNType :: "string \<Rightarrow> bool" where
  "isValidVPNType t \<longleftrightarrow> t \<in> set
    [''IKEv2'', ''IPSec'', ''L2TP'', ''PPTP'']"

definition isValidAPNAuthentication :: "string \<Rightarrow> bool" where
  "isValidAPNAuthentication a \<longleftrightarrow> a \<in> set
    [''AUTO'', ''CHAP'', ''PAP'', ''NONE'']"

definition isValidSetNetworkProfileStatus :: "string \<Rightarrow> bool" where
  "isValidSetNetworkProfileStatus status \<longleftrightarrow> status \<in> set
    [''Accepted'', ''Rejected'', ''Failed'']"

definition isValidSetVariableStatus :: "string \<Rightarrow> bool" where
  "isValidSetVariableStatus status \<longleftrightarrow> status \<in> set
    [''Accepted'', ''Rejected'', ''UnknownComponent'', ''UnknownVariable'',
     ''NotSupportedAttributeType'', ''RebootRequired'']"

definition ModemType :: gotype where
  "ModemType = TStruct ''provisioning.ModemType''
     [Field ''Iccid'' ''iccid'' True ''max=20'' TString,
      Field ''Imsi'' ''imsi'' True ''max=20'' TString]"

definition ChargingStationType :: gotype where
  "ChargingStationType = TStruct ''provisioning.ChargingStationType''
     [Field ''SerialNumber'' ''serialNumber'' True ''max=25'' TString,
      Field ''Model'' ''model'' False ''required,max=20'' TString,
      Field ''VendorName'' ''vendorName'' False ''required,max=50'' TString,
      Field ''FirmwareVersion'' ''firmwareVersion'' True ''max=50'' TString,
      Field ''Modem'' ''modem'' True '''' (TPtr ModemType)]"

definition BootNotificationRequest_201 :: gotype where
  "BootNotificationRequest_201 = TStruct ''provisioning.BootNotificationRequest''
     [Field ''Reason'' ''reason'' False ''required,bootReason'' TString,
      Field ''ChargingStation'' ''chargingStation'' False ''required,dive'' ChargingStationType]"

definition BootNotificationResponse :: gotype where
  "BootNotificationResponse = TStruct ''provisioning.BootNotificationResponse''
     [Field ''CurrentTime'' ''currentTime'' False ''required'' (TPtr TTime),
      Field ''Interval'' ''interval'' False ''gte=0'' TInt,
      Field ''Status'' ''status'' False ''required,registrationStatus201'' TString,
      Field ''StatusInfo'' ''statusInfo'' True ''omitempty'' (TPtr StatusInfo)]"

definition GetBaseReportRequest :: gotype where
  "GetBaseReportRequest = TStruct ''provisioning.GetBaseReportRequest''
     [Field ''RequestID'' ''requestId'' False '''' TInt,
      Field ''ReportBase'' ''reportBase'' False ''required,reportBaseType'' TString]"

definition GetBaseReportResponse :: gotype where
  "GetBaseReportResponse = TStruct ''provisioning.GetBaseReportResponse''
     [Field ''Status'' ''status'' False ''required,genericDeviceModelStatus'' TString,
      Field ''StatusInfo'' ''statusInfo'' True ''omitempty'' (TPtr StatusInfo)]"

definition GetReportRequest :: gotype where
  "GetReportRequest = TStruct ''provisioning.GetReportRequest''
     [Field ''RequestID'' ''requestId'' True ''omitempty,gte=0'' (TPtr TInt),
      Field ''ComponentCriteria'' ''componentCriteria'' True ''omitempty,max=4,dive,componentCriterion'' (TSlice TString),
      Field ''ComponentVariable'' ''componentVariable'' True ''omitempty,dive'' (TSlice ComponentVariable)]"

definition GetReportResponse :: gotype where
  "GetReportResponse = TStruct ''provisioning.GetReportResponse''
     [Field ''Status'' ''status'' False ''required,genericDeviceModelStatus'' TString]"

definition GetVariableData :: gotype where
  "GetVariableData = TStruct ''provisioning.GetVariableData''
     [Field ''AttributeType'' ''attributeType'' True ''omitempty,attribute'' TString,
      Field ''Component'' ''component'' False ''required'' Component,
      Field ''Variable'' ''variable'' False ''required'' Variable]"

definition GetVariableResult :: gotype where
  "GetVariableResult = TStruct ''provisioning.GetVariableResult''
     [Field ''AttributeStatus'' ''attributeStatus'' False ''required,getVariableStatus'' TString,
      Field ''AttributeType'' ''attributeType'' True ''omitempty,attribute'' TString,
      Field ''AttributeValue'' ''attributeValue'' True ''omitempty,max=1000'' TString,
      Field ''Component'' ''component'' False ''required'' Component,
      Field ''Variable'' ''variable'' False ''required'' Variable]"

definition GetVariablesRequest :: gotype where
  "GetVariablesRequest = TStruct ''provisioning.GetVariablesRequest''
     [Field ''GetVariableData'' ''getVariableData'' False ''required,min=1,dive'' (TSlice GetVariableData)]"

definition GetVariablesResponse :: gotype where
  "GetVariablesResponse = TStruct ''provisioning.GetVariablesResponse''
     [Field ''GetVariableResult'' ''getVariableResult'' False ''required,min=1,dive'' (TSlice GetVariableResult)]"

definition VariableCharacteristics :: gotype where
  "VariableCharacteristics = TStruct ''provisioning.VariableCharacteristics''
     [Field ''Unit'' ''unit'' True ''max=16'' TString,
      Field ''DataType'' ''dataType'' False ''required,dataTypeEnum'' TString,
      Field ''MinLimit'' ''minLimit'' True '''' (TPtr TFloat),
      Field ''MaxLimit'' ''maxLimit'' True '''' (TPtr TFloat),
      Field ''ValuesList'' ''valuesList'' True ''max=1000'' TString,
      Field ''SupportsMonitoring'' ''supportsMonitoring'' False '''' TBool]"

definition VariableAttribute :: gotype where
  "VariableAttribute = TStruct ''provisioning.VariableAttribute''
     [Field ''Type'' ''type'' True ''omitempty,attribute'' TString,
      Field ''Value'' ''value'' True ''max=2500'' TString,
      Field ''Mutability'' ''mutability'' True ''omitempty,mutability'' TString,
      Field ''Persistent'' ''persistent'' True '''' TBool,
      Field ''Constant'' ''constant'' True '''' TBool]"

definition ReportData :: gotype where
  "ReportData = TStruct ''provisioning.ReportData''
     [Field ''Component'' ''component'' False ''required'' Component,
      Field ''Variable'' ''variable'' False ''required'' Variable,
      Field ''VariableAttribute'' ''variableAttribute'' False ''required,min=1,max=4,dive'' (TSlice VariableAttribute),
      Field ''VariableCharacteristics'' ''variableCharacteristics'' True ''omitempty'' (TPtr VariableCharacteristics)]"

definition NotifyReportRequest :: gotype where
  "NotifyReportRequest = TStruct ''provisioning.NotifyReportRequest''
     [Field ''RequestID'' ''requestId'' False ''gte=0'' TInt,
      Field ''GeneratedAt'' ''generatedAt'' False ''required'' (TPtr TTime),
      Field ''Tbc'' ''tbc'' True ''omitempty'' TBool,
      Field ''SeqNo'' ''seqNo'' False ''gte=0'' TInt,
      Field ''ReportData'' ''reportData'' True ''omitempty,dive'' (TSlice ReportData)]"

definition NotifyReportResponse :: gotype where
  "NotifyReportResponse = TStruct ''provisioning.NotifyReportResponse''
     []"

definition ResetRequest_201 :: gotype where
  "ResetRequest_201 = TStruct ''provisioning.ResetRequest''
     [Field ''Type'' ''type'' False ''resetType201'' TString,
      Field ''EvseID'' ''evseId'' True ''omitempty,gte=0'' (TPtr TInt)]"

definition ResetResponse :: gotype where
  "ResetResponse = TStruct ''provisioning.ResetResponse''
     [Field ''Status'' ''status'' False ''required,resetStatus201'' TString,
      Field ''StatusInfo'' ''statusInfo'' False ''omitempty'' (TPtr StatusInfo)]"

definition VPN :: gotype where
  "VPN = TStruct ''provisioning.VPN''
     [Field ''Server'' ''server'' False ''required,max=512'' TString,
      Field ''User'' ''user'' False ''required,max=20'' TString,
      Field ''Group'' ''group'' True ''omitempty,max=20'' TString,
      Field ''Password'' ''password'' False ''required,max=20'' TString,
      Field ''Key'' ''key'' False ''required,max=255'' TString,
      Field ''Type'' ''type'' False ''required,vpnType'' TString]"

definition APN :: gotype where
  "APN = TStruct ''provisioning.APN''
     [Field ''APN'' ''apn'' False ''required,max=512'' TString,
      Field ''APNUsername'' ''apnUserName'' True ''omitempty,max=20'' TString,
      Field ''APNPassword'' ''apnPassword'' True ''omitempty,max=20'' TString,
      Field ''SimPin'' ''simPin'' True ''omitempty,gte=0'' (TPtr TInt),
      Field ''PreferredNetwork'' ''preferredNetwork'' True ''omitempty,max=6'' TString,
      Field ''UseOnlyPreferredNetwork'' ''useOnlyPreferredNetwork'' True '''' TBool,
      Field ''APNAuthentication'' ''apnAuthentication'' False ''required,apnAuthentication'' TString]"

definition NetworkConnectionProfile :: gotype where
  "NetworkConnectionProfile = TStruct ''provisioning.NetworkConnectionProfile''
     [Field ''OCPPVersion'' ''ocppVersion'' False ''required,ocppVersion'' TString,
      Field ''OCPPTransport'' ''ocppTransport'' False ''required,ocppTransport'' TString,
      Field ''CSMSUrl'' ''ocppCsmsUrl'' False ''required,max=512'' TString,
      Field ''MessageTimeout'' ''messageTimeout'' False ''gte=-1'' TInt,
      Field ''SecurityProfile'' ''securityProfile'' False '''' TInt,
      Field ''OCPPInterface'' ''ocppInterface'' False ''required,ocppInterface'' TString,
      Field ''VPN'' ''vpn'' True ''omitempty'' (TPtr VPN),
      Field ''APN'' ''apn'' True ''omitempty'' (TPtr APN)]"

definition SetNetworkProfileRequest :: gotype where
  "SetNetworkProfileRequest = TStruct ''provisioning.SetNetworkProfileRequest''
     [Field ''ConfigurationSlot'' ''configurationSlot'' False ''gte=0'' TInt,
      Field ''ConnectionData'' ''connectionData'' False ''required'' NetworkConnectionProfile]"

definition SetNetworkProfileResponse :: gotype where
  "SetNetworkProfileResponse = TStruct ''provisioning.SetNetworkProfileResponse''
     [Field ''Status'' ''status'' False ''required,setNetworkProfileStatus'' TString,
      Field ''StatusInfo'' ''statusInfo'' False ''omitempty'' (TPtr StatusInfo)]"

definition SetVariableData :: gotype where
  "SetVariableData = TStruct ''provisioning.SetVariableData''
     [Field ''AttributeType'' ''attributeType'' True ''omitempty,attribute'' TString,
      Field ''AttributeValue'' ''attributeValue'' False ''required,max=1000'' TString,
      Field ''Component'' ''component'' False ''required'' Component,
      Field ''Variable'' ''variable'' False ''required'' Variable]"

definition SetVariableResult :: gotype where
  "SetVariableResult = TStruct ''provisioning.SetVariableResult''
     [Field ''AttributeType'' ''attributeType'' True ''omitempty,attribute'' TString,
      Field ''AttributeStatus'' ''attributeStatus'' False ''required,setVariableStatus'' TString,
      Field ''Component'' ''component'' False ''required'' Component,
      Field ''Variable'' ''variable'' False ''required'' Variable,
      Field ''StatusInfo'' ''statusInfo'' True ''omitempty'' (TPtr StatusInfo)]"

definition SetVariablesRequest :: gotype where
  "SetVariablesRequest = TStruct ''provisioning.SetVariablesRequest''
     [Field ''SetVariableData'' ''setVariableData'' False ''required,min=1,dive'' (TSlice SetVariableData)]"

definition SetVariablesResponse :: gotype where
  "SetVariablesResponse = TStruct ''provisioning.SetVariablesResponse''
     [Field ''SetVariableResult'' ''setVariableResult'' False ''required,min=1,dive'' (TSlice SetVariableResult)]"

definition NewBootNotificationRequest_201 :: "string \<Rightarrow> string \<Rightarrow> string \<Rightarrow> message" where
  "NewBootNotificationRequest_201 rsn model vendorName =
     new BootNotificationRequest_201
     [(''Reason'', VString rsn),
       (''ChargingStation'', structLit ChargingStationType
          [(''Model'', VString model), (''VendorName'', VString vendorName)])]"

definition NewBootNotificationResponse :: "gotime option \<Rightarrow> int \<Rightarrow> string \<Rightarrow> message" where
  "NewBootNotificationResponse currentTime interval st =
     new BootNotificationResponse
     [(''CurrentTime'', timePtr currentTime),
       (''Interval'', VInt interval),
       (''Status'', VString st)]"

definition NewGetBaseReportRequest :: "int \<Rightarrow> string \<Rightarrow> message" where
  "NewGetBaseReportRequest reqID reportBase =
     new GetBaseReportRequest
     [(''RequestID'', VInt reqID), (''ReportBase'', VString reportBase)]"

definition NewGetBaseReportResponse :: "string \<Rightarrow> message" where
  "NewGetBaseReportResponse st =
     new GetBaseReportResponse
     [(''Status'', VString st)]"

definition NewGetReportRequest :: "message" where
  "NewGetReportRequest =
     new GetReportRequest
     []"

definition NewGetReportResponse :: "string \<Rightarrow> message" where
  "NewGetReportResponse st =
     new GetReportResponse
     [(''Status'', VString st)]"

definition NewGetVariablesRequest :: "goval \<Rightarrow> message" where
  "NewGetVariablesRequest variableData =
     new GetVariablesRequest
     [(''GetVariableData'', variableData)]"

definition NewGetVariablesResponse :: "goval \<Rightarrow> message" where
  "NewGetVariablesResponse result =
     new GetVariablesResponse
     [(''GetVariableResult'', result)]"

definition NewVariableCharacteristics :: "string \<Rightarrow> bool \<Rightarrow> goval" where
  "NewVariableCharacteristics dataType supportsMonitoring =
     VPtr (structLit VariableCharacteristics
     [(''DataType'', VString dataType),
       (''SupportsMonitoring'', VBool supportsMonitoring)])"

definition NewVariableAttribute :: "goval" where
  "NewVariableAttribute =
     structLit VariableAttribute
     [(''Type'', VString ''Actual''), (''Mutability'', VString ''ReadWrite'')]"

definition NewNotifyReportRequest :: "int \<Rightarrow> gotime option \<Rightarrow> int \<Rightarrow> message" where
  "NewNotifyReportRequest reqID generatedAt seqNo =
     new NotifyReportRequest
     [(''RequestID'', VInt reqID),
       (''GeneratedAt'', timePtr generatedAt),
       (''SeqNo'', VInt seqNo)]"

definition NewNotifyReportResponse :: "message" where
  "NewNotifyReportResponse =
     new NotifyReportResponse
     []"

definition NewResetRequest_201 :: "string \<Rightarrow> message" where
  "NewResetRequest_201 t =
     new ResetRequest_201
     [(''Type'', VString t)]"

definition NewResetResponse :: "string \<Rightarrow> message" where
  "NewResetResponse st =
     new ResetResponse
     [(''Status'', VString st)]"

definition NewSetNetworkProfileRequest :: "int \<Rightarrow> goval \<Rightarrow> message" where
  "NewSetNetworkProfileRequest configurationSlot connectionData =
     new SetNetworkProfileRequest
     [(''ConfigurationSlot'', VInt configurationSlot),
       (''ConnectionData'', connectionData)]"

definition NewSetNetworkProfileResponse :: "string \<Rightarrow> message" where
  "NewSetNetworkProfileResponse st =
     new SetNetworkProfileResponse
     [(''Status'', VString st)]"

definition NewSetVariablesRequest :: "goval \<Rightarrow> message" where
  "NewSetVariablesRequest variableData =
     new SetVariablesRequest
     [(''SetVariableData'', variableData)]"

definition NewSetVariablesResponse :: "goval \<Rightarrow> message" where
  "NewSetVariablesResponse result =
     new SetVariablesResponse
     [(''SetVariableResult'', result)]"

definition BootNotificationFeature_201 :: "gotype Feature" where
  "BootNotificationFeature_201 = \<lparr>GetFeatureName = ''BootNotification'',
     GetRequestType = BootNotificationRequest_201, GetResponseType = BootNotificationResponse\<rparr>"

definition GetBaseReportFeature :: "gotype Feature" where
  "GetBaseReportFeature = \<lparr>GetFeatureName = ''GetBaseReport'',
     GetRequestType = GetBaseReportRequest, GetResponseType = GetBaseReportResponse\<rparr>"

definition GetReportFeature :: "gotype Feature" where
  "GetReportFeature = \<lparr>GetFeatureName = ''GetReport'',
     GetRequestType = GetReportRequest, GetResponseType = GetReportResponse\<rparr>"

definition GetVariablesFeature :: "gotype Feature" where
  "GetVariablesFeature = \<lparr>GetFeatureName = ''GetVariables'',
     GetRequestType = GetVariablesRequest, GetResponseType = GetVariablesResponse\<rparr>"

definition NotifyReportFeature :: "gotype Feature" where
  "NotifyReportFeature = \<lparr>GetFeatureName = ''NotifyReport'',
     GetRequestType = NotifyReportRequest, GetResponseType = NotifyReportResponse\<rparr>"

definition ResetFeature_201 :: "gotype Feature" where
  "ResetFeature_201 = \<lparr>GetFeatureName = ''Reset'',
     GetRequestType = ResetRequest_201, GetResponseType = ResetResponse\<rparr>"

definition SetNetworkProfileFeature :: "gotype Feature" where
  "SetNetworkProfileFeature = \<lparr>GetFeatureName = ''SetNetworkProfile'',
     GetRequestType = SetNetworkProfileRequest, GetResponseType = SetNetworkProfileResponse\<rparr>"

definition SetVariablesFeature :: "gotype Feature" where
  "SetVariablesFeature = \<lparr>GetFeatureName = ''SetVariables'',
     GetRequestType = SetVariablesRequest, GetResponseType = SetVariablesResponse\<rparr>"

definition provisioning_features :: "gotype Feature list" where
  "provisioning_features =
     [BootNotificationFeature_201,
      GetBaseReportFeature,
      GetReportFeature,
      GetVariablesFeature,
      NotifyReportFeature,
      ResetFeature_201,
      SetNetworkProfileFeature,
      SetVariablesFeature]"

definition provisioning_Profile :: "gotype Profile" where
  "provisioning_Profile = NewProfile ''provisioning'' provisioning_features"

section \<open>Package \<^verbatim>\<open>availability\<close>\<close>

definition isValidOperationalStatus :: "string \<Rightarrow> bool" where
  "isValidOperationalStatus status \<longleftrightarrow> status \<in> set
    [''Inoperative'', ''Operative'']"

definition isValidChangeAvailabilityStatus :: "string \<Rightarrow> bool" where
  "isValidChangeAvailabilityStatus status \<longleftrightarrow> status \<in> set
    [''Accepted'', ''Rejected'', ''Scheduled'']"

definition isValidConnectorStatus :: "string \<Rightarrow> bool" where
  "isValidConnectorStatus status \<longleftrightarrow> status \<in> set
    [''Available'', ''Occupied'', ''Reserved'', ''Unavailable'', ''Faulted'']"

definition ChangeAvailabilityRequest_201 :: gotype where
  "ChangeAvailabilityRequest_201 = TStruct ''availability.ChangeAvailabilityRequest''
     [Field ''OperationalStatus'' ''operationalStatus'' False ''required,operationalStatus'' TString,
      Field ''Evse'' ''evse'' True ''omitempty'' (TPtr EVSE)]"

definition ChangeAvailabilityResponse :: gotype where
  "ChangeAvailabilityResponse = TStruct ''availability.ChangeAvailabilityResponse''
     [Field ''Status'' ''status'' False ''required,changeAvailabilityStatus'' TString,
      Field ''StatusInfo'' ''statusInfo'' True ''omitempty'' (TPtr StatusInfo)]"

definition HeartbeatRequest_201 :: gotype where
  "HeartbeatRequest_201 = TStruct ''availability.HeartbeatRequest''
     []"

definition HeartbeatResponse :: gotype where
  "HeartbeatResponse = TStruct ''availability.HeartbeatResponse''
     [Field ''CurrentTime'' ''currentTime'' False ''required'' TTime]"

definition StatusNotificationRequest_201 :: gotype where
  "StatusNotificationRequest_201 = TStruct ''availability.StatusNotificationRequest''
     [Field ''Timestamp'' ''timestamp'' False ''required'' (TPtr TTime),
      Field ''ConnectorStatus'' ''connectorStatus'' False ''required,connectorStatus'' TString,
      Field ''EvseID'' ''evseId'' False ''gte=0'' TInt,
      Field ''ConnectorID'' ''connectorId'' False ''gte=0'' TInt]"

definition StatusNotificationResponse :: gotype where
  "StatusNotificationResponse = TStruct ''availability.StatusNotificationResponse''
     []"

definition NewChangeAvailabilityRequest_201 :: "string \<Rightarrow> message" where
  "NewChangeAvailabilityRequest_201 operationalStatus =
     new ChangeAvailabilityRequest_201
     [(''OperationalStatus'', VString operationalStatus)]"

definition NewChangeAvailabilityResponse :: "string \<Rightarrow> message" where
  "NewChangeAvailabilityResponse st =
     new ChangeAvailabilityResponse
     [(''Status'', VString st)]"

definition NewHeartbeatRequest_201 :: "message" where
  "NewHeartbeatRequest_201 =
     new HeartbeatRequest_201
     []"

definition NewHeartbeatResponse :: "goval \<Rightarrow> message" where
  "NewHeartbeatResponse currentTime =
     new HeartbeatResponse
     [(''CurrentTime'', currentTime)]"

definition NewStatusNotificationRequest_201 :: "gotime option \<Rightarrow> string \<Rightarrow> int \<Rightarrow> int \<Rightarrow> message" where
  "NewStatusNotificationRequest_201 timestamp st evseID connectorID =
     new StatusNotificationRequest_201
     [(''Timestamp'', timePtr timestamp),
       (''ConnectorStatus'', VString st),
       (''EvseID'', VInt evseID),
       (''ConnectorID'', VInt connectorID)]"

definition NewStatusNotificationResponse :: "message" where
  "NewStatusNotificationResponse =
     new StatusNotificationResponse
     []"

definition ChangeAvailabilityFeature_201 :: "gotype Feature" where
  "ChangeAvailabilityFeature_201 = \<lparr>GetFeatureName = ''ChangeAvailability'',
     GetRequestType = ChangeAvailabilityRequest_201, GetResponseType = ChangeAvailabilityResponse\<rparr>"

definition HeartbeatFeature_201 :: "gotype Feature" where
  "HeartbeatFeature_201 = \<lparr>GetFeatureName = ''Heartbeat'',
     GetRequestType = HeartbeatRequest_201, GetResponseType = HeartbeatResponse\<rparr>"

definition StatusNotificationFeature_201 :: "gotype Feature" where
  "StatusNotificationFeature_201 = \<lparr>GetFeatureName = ''StatusNotification'',
     GetRequestType = StatusNotificationRequest_201, GetResponseType = StatusNotificationResponse\<rparr>"

definition availability_features :: "gotype Feature list" where
  "availability_features =
     [ChangeAvailabilityFeature_201,
      HeartbeatFeature_201,
      StatusNotificationFeature_201]"

definition availability_Profile :: "gotype Profile" where
  "availability_Profile = NewProfile ''availability'' availability_features"

section \<open>Package \<^verbatim>\<open>security\<close>\<close>

definition isValidCertificateSignedStatus :: "string \<Rightarrow> bool" where
  "isValidCertificateSignedStatus status \<longleftrightarrow> status \<in> set
    [''Accepted'', ''Rejected'']"

definition CertificateSignedRequest :: gotype where
  "CertificateSignedRequest = TStruct ''security.CertificateSignedRequest''
     [Field ''CertificateChain'' ''certificateChain'' False ''required,max=10000'' TString,
      Field ''TypeOfCertificate'' ''certificateType'' True ''omitempty,certificateSigningUse'' TString]"

definition CertificateSignedResponse :: gotype where
  "CertificateSignedResponse = TStruct ''security.CertificateSignedResponse''
     [Field ''Status'' ''status'' False ''required,certificateSignedStatus'' TString,
      Field ''StatusInfo'' ''statusInfo'' True ''omitempty'' (TPtr StatusInfo)]"

definition SecurityEventNotificationRequest :: gotype where
  "SecurityEventNotificationRequest = TStruct ''security.SecurityEventNotificationRequest''
     [Field ''Type'' ''type'' False ''required,max=50'' TString,
      Field ''Timestamp'' ''timestamp'' False ''required'' (TPtr TTime),
      Field ''TechInfo'' ''techInfo'' True ''omitempty,max=255'' TString]"

definition SecurityEventNotificationResponse :: gotype where
  "SecurityEventNotificationResponse = TStruct ''security.SecurityEventNotificationResponse''
     []"

definition SignCertificateRequest :: gotype where
  "SignCertificateRequest = TStruct ''security.SignCertificateRequest''
     [Field ''CSR'' ''csr'' False ''required,max=5500'' TString,
      Field ''CertificateType'' ''certificateType'' True ''omitempty,certificateSigningUse'' TString]"

definition SignCertificateResponse :: gotype where
  "SignCertificateResponse = TStruct ''security.SignCertificateResponse''
     [Field ''Status'' ''status'' False ''required,genericStatus'' TString,
      Field ''StatusInfo'' ''statusInfo'' True ''omitempty'' (TPtr StatusInfo)]"

definition NewCertificateSignedRequest :: "string \<Rightarrow> message" where
  "NewCertificateSignedRequest certificateChain =
     new CertificateSignedRequest
     [(''CertificateChain'', VString certificateChain)]"

definition NewCertificateSignedResponse :: "string \<Rightarrow> message" where
  "NewCertificateSignedResponse st =
     new CertificateSignedResponse
     [(''Status'', VString st)]"

definition NewSecurityEventNotificationRequest :: "string \<Rightarrow> gotime option \<Rightarrow> message" where
  "NewSecurityEventNotificationRequest typ timestamp =
     new SecurityEventNotificationRequest
     [(''Type'', VString typ), (''Timestamp'', timePtr timestamp)]"

definition NewSecurityEventNotificationResponse :: "message" where
  "NewSecurityEventNotificationResponse =
     new SecurityEventNotificationResponse
     []"

definition NewSignCertificateRequest :: "string \<Rightarrow> message" where
  "NewSignCertificateRequest csr =
     new SignCertificateRequest
     [(''CSR'', VString csr)]"

definition NewSignCertificateResponse :: "string \<Rightarrow> message" where
  "NewSignCertificateResponse st =
     new SignCertificateResponse
     [(''Status'', VString st)]"

definition CertificateSignedFeature :: "gotype Feature" where
  "CertificateSignedFeature = \<lparr>GetFeatureName = ''CertificateSigned'',
     GetRequestType = CertificateSignedRequest, GetResponseType = CertificateSignedResponse\<rparr>"

definition SecurityEventNotificationFeature :: "gotype Feature" where
  "SecurityEventNotificationFeature = \<lparr>GetFeatureName = ''SecurityEventNotification'',
     GetRequestType = SecurityEventNotificationRequest, GetResponseType = SecurityEventNotificationResponse\<rparr>"

definition SignCertificateFeature :: "gotype Feature" where
  "SignCertificateFeature = \<lparr>GetFeatureName = ''SignCertificate'',
     GetRequestType = SignCertificateRequest, GetResponseType = SignCertificateResponse\<rparr>"

definition security_features :: "gotype Feature list" where
  "security_features =
     [CertificateSignedFeature,
      SecurityEventNotificationFeature,
      SignCertificateFeature]"

definition security_Profile :: "gotype Profile" where
  "security_Profile = NewProfile ''security'' security_features"

section \<open>Package \<^verbatim>\<open>iso15118\<close>\<close>

definition isValidDeleteCertificateStatus :: "string \<Rightarrow> bool" where
  "isValidDeleteCertificateStatus status \<longleftrightarrow> status \<in> set
    [''Accepted'', ''Failed'', ''NotFound'']"

definition isValidCertificateAction :: "string \<Rightarrow> bool" where
  "isValidCertificateAction status \<longleftrightarrow> status \<in> set
    [''Install'', ''Update'']"

definition isValidGetInstalledCertificateStatus :: "string \<Rightarrow> bool" where
  "isValidGetInstalledCertificateStatus status \<longleftrightarrow> status \<in> set
    [''Accepted'', ''NotFound'']"

definition isValidInstallCertificateStatus :: "string \<Rightarrow> bool" where
  "isValidInstallCertificateStatus status \<longleftrightarrow> status \<in> set
    [''Accepted'', ''Rejected'', ''Failed'']"

definition DeleteCertificateRequest :: gotype where
  "DeleteCertificateRequest = TStruct ''iso15118.DeleteCertificateRequest''
     [Field ''CertificateHashData'' ''certificateHashData'' False ''required'' CertificateHashData]"

definition DeleteCertificateResponse :: gotype where
  "DeleteCertificateResponse = TStruct ''iso15118.DeleteCertificateResponse''
     [Field ''Status'' ''status'' False ''required,deleteCertificateStatus'' TString,
      Field ''StatusInfo'' ''statusInfo'' True ''omitempty'' (TPtr StatusInfo)]"

definition Get15118EVCertificateRequest :: gotype where
  "Get15118EVCertificateRequest = TStruct ''iso15118.Get15118EVCertificateRequest''
     [Field ''SchemaVersion'' ''iso15118SchemaVersion'' False ''required,max=50'' TString,
      Field ''Action'' ''action'' False ''required,certificateAction'' TString,
      Field ''ExiRequest'' ''exiRequest'' False ''required,max=5600'' TString]"

definition Get15118EVCertificateResponse :: gotype where
  "Get15118EVCertificateResponse = TStruct ''iso15118.Get15118EVCertificateResponse''
     [Field ''Status'' ''status'' False ''required,15118EVCertificate'' TString,
      Field ''ExiResponse'' ''exiResponse'' False ''required,max=5600'' TString,
      Field ''StatusInfo'' ''statusInfo'' True ''omitempty'' (TPtr StatusInfo)]"

definition GetCertificateStatusRequest :: gotype where
  "GetCertificateStatusRequest = TStruct ''iso15118.GetCertificateStatusRequest''
     [Field ''OcspRequestData'' ''ocspRequestData'' False ''required'' OCSPRequestDataType]"

definition GetCertificateStatusResponse :: gotype where
  "GetCertificateStatusResponse = TStruct ''iso15118.GetCertificateStatusResponse''
     [Field ''Status'' ''status'' False ''required,genericStatus'' TString,
      Field ''OcspResult'' ''ocspResult'' True ''omitempty,max=5500'' TString,
      Field ''StatusInfo'' ''statusInfo'' True ''omitempty'' (TPtr StatusInfo)]"

definition GetInstalledCertificateIdsRequest :: gotype where
  "GetInstalledCertificateIdsRequest = TStruct ''iso15118.GetInstalledCertificateIdsRequest''
     [Field ''CertificateTypes'' ''certificateType'' False ''omitempty,dive,certificateUse'' (TSlice TString)]"

definition GetInstalledCertificateIdsResponse :: gotype where
  "GetInstalledCertificateIdsResponse = TStruct ''iso15118.GetInstalledCertificateIdsResponse''
     [Field ''Status'' ''status'' False ''required,getInstalledCertificateStatus'' TString,
      Field ''StatusInfo'' ''statusInfo'' True ''omitempty'' (TPtr StatusInfo),
      Field ''CertificateHashDataChain'' ''certificateHashDataChain'' True ''omitempty,dive'' (TSlice CertificateHashDataChain)]"

definition InstallCertificateRequest :: gotype where
  "InstallCertificateRequest = TStruct ''iso15118.InstallCertificateRequest''
     [Field ''CertificateType'' ''certificateType'' False ''required,certificateUse'' TString,
      Field ''Certificate'' ''certificate'' False ''required,max=5500'' TString]"

definition InstallCertificateResponse :: gotype where
  "InstallCertificateResponse = TStruct ''iso15118.InstallCertificateResponse''
     [Field ''Status'' ''status'' False ''required,installCertificateStatus'' TString,
      Field ''StatusInfo'' ''statusInfo'' True ''omitempty'' (TPtr StatusInfo)]"

definition NewDeleteCertificateRequest :: "goval \<Rightarrow> message" where
  "NewDeleteCertificateRequest certificateHashData =
     new DeleteCertificateRequest
     [(''CertificateHashData'', certificateHashData)]"

definition NewDeleteCertificateResponse :: "string \<Rightarrow> message" where
  "NewDeleteCertificateResponse st =
     new DeleteCertificateResponse
     [(''Status'', VString st)]"

definition NewGet15118EVCertificateRequest :: "string \<Rightarrow> string \<Rightarrow> string \<Rightarrow> message" where
  "NewGet15118EVCertificateRequest schemaVersion action exiRequest =
     new Get15118EVCertificateRequest
     [(''SchemaVersion'', VString schemaVersion),
       (''Action'', VString action),
       (''ExiRequest'', VString exiRequest)]"

definition NewGet15118EVCertificateResponse :: "string \<Rightarrow> string \<Rightarrow> message" where
  "NewGet15118EVCertificateResponse st exiResponse =
     new Get15118EVCertificateResponse
     [(''Status'', VString st), (''ExiResponse'', VString exiResponse)]"

definition NewGetCertificateStatusRequest :: "goval \<Rightarrow> message" where
  "NewGetCertificateStatusRequest ocspRequestData =
     new GetCertificateStatusRequest
     [(''OcspRequestData'', ocspRequestData)]"

definition NewGetCertificateStatusResponse :: "string \<Rightarrow> message" where
  "NewGetCertificateStatusResponse st =
     new GetCertificateStatusResponse
     [(''Status'', VString st)]"

definition NewGetInstalledCertificateIdsRequest :: "message" where
  "NewGetInstalledCertificateIdsRequest =
     new GetInstalledCertificateIdsRequest
     []"

definition NewGetInstalledCertificateIdsResponse :: "string \<Rightarrow> message" where
  "NewGetInstalledCertificateIdsResponse st =
     new GetInstalledCertificateIdsResponse
     [(''Status'', VString st)]"

definition NewInstallCertificateRequest :: "string \<Rightarrow> string \<Rightarrow> message" where
  "NewInstallCertificateRequest certificateType certificate =
     new InstallCertificateRequest
     [(''CertificateType'', VString certificateType),
       (''Certificate'', VString certificate)]"

definition NewInstallCertificateResponse :: "string \<Rightarrow> message" where
  "NewInstallCertificateResponse st =
     new InstallCertificateResponse
     [(''Status'', VString st)]"

definition DeleteCertificateFeature :: "gotype Feature" where
  "DeleteCertificateFeature = \<lparr>GetFeatureName = ''DeleteCertificate'',
     GetRequestType = DeleteCertificateRequest, GetResponseType = DeleteCertificateResponse\<rparr>"

definition Get15118EVCertificateFeature :: "gotype Feature" where
  "Get15118EVCertificateFeature = \<lparr>GetFeatureName = ''Get15118EVCertificate'',
     GetRequestType = Get15118EVCertificateRequest, GetResponseType = Get15118EVCertificateResponse\<rparr>"

definition GetCertificateStatusFeature :: "gotype Feature" where
  "GetCertificateStatusFeature = \<lparr>GetFeatureName = ''GetCertificateStatus'',
     GetRequestType = GetCertificateStatusRequest, GetResponseType = GetCertificateStatusResponse\<rparr>"

definition GetInstalledCertificateIdsFeature :: "gotype Feature" where
  "GetInstalledCertificateIdsFeature = \<lparr>GetFeatureName = ''GetInstalledCertificateIds'',
     GetRequestType = GetInstalledCertificateIdsRequest, GetResponseType = GetInstalledCertificateIdsResponse\<rparr>"

definition InstallCertificateFeature :: "gotype Feature" where
  "InstallCertificateFeature = \<lparr>GetFeatureName = ''InstallCertificate'',
     GetRequestType = InstallCertificateRequest, GetResponseType = InstallCertificateResponse\<rparr>"

definition iso15118_features :: "gotype Feature list" where
  "iso15118_features =
     [DeleteCertificateFeature,
      Get15118EVCertificateFeature,
      GetCertificateStatusFeature,
      GetInstalledCertificateIdsFeature,
      InstallCertificateFeature]"

definition iso15118_Profile :: "gotype Profile" where
  "iso15118_Profile = NewProfile ''iso15118'' iso15118_features"

section \<open>Package \<^verbatim>\<open>firmware\<close>\<close>

definition isValidFirmwareStatus_201 :: "string \<Rightarrow> bool" where
  "isValidFirmwareStatus_201 status \<longleftrightarrow> status \<in> set
    [''Downloaded'', ''DownloadFailed'', ''Downloading'', ''DownloadScheduled'',
     ''DownloadPaused'', ''Idle'', ''InstallationFailed'', ''Installing'', ''Installed'',
     ''InstallRebooting'', ''InstallScheduled'', ''InstallVerificationFailed'',
     ''InvalidSignature'', ''SignatureVerified'']"

definition isValidPublishFirmwareStatus :: "string \<Rightarrow> bool" where
  "isValidPublishFirmwareStatus status \<longleftrightarrow> status \<in> set
    [''Idle'', ''DownloadScheduled'', ''Downloading'', ''Downloaded'', ''Published'',
     ''DownloadFailed'', ''DownloadPaused'', ''InvalidChecksum'', ''ChecksumVerified'',
     ''PublishFailed'']"

definition isValidUnpublishFirmwareStatus :: "string \<Rightarrow> bool" where
  "isValidUnpublishFirmwareStatus status \<longleftrightarrow> status \<in> set
    [''DownloadOngoing'', ''NoFirmware'', ''Unpublished'']"

definition isValidUpdateFirmwareStatus :: "string \<Rightarrow> bool" where
  "isValidUpdateFirmwareStatus status \<longleftrightarrow> status \<in> set
    [''Accepted'', ''Rejected'', ''AcceptedCanceled'', ''InvalidCertificate'',
     ''RevokedCertificate'']"

definition FirmwareStatusNotificationRequest_201 :: gotype where
  "FirmwareStatusNotificationRequest_201 = TStruct ''firmware.FirmwareStatusNotificationRequest''
     [Field ''Status'' ''status'' False ''required,firmwareStatus201'' TString,
      Field ''RequestID'' ''requestId'' True ''omitempty,gte=0'' (TPtr TInt)]"

definition FirmwareStatusNotificationResponse :: gotype where
  "FirmwareStatusNotificationResponse = TStruct ''firmware.FirmwareStatusNotificationResponse''
     []"

definition PublishFirmwareRequest :: gotype where
  "PublishFirmwareRequest = TStruct ''firmware.PublishFirmwareRequest''
     [Field ''Location'' ''location'' False ''required,max=512'' TString,
      Field ''Retries'' ''retries'' True ''omitempty,gte=0'' (TPtr TInt),
      Field ''Checksum'' ''checksum'' False ''required,max=32'' TString,
      Field ''RequestID'' ''requestId'' False ''gte=0'' TInt,
      Field ''RetryInterval'' ''retryInterval'' True ''omitempty,gte=0'' (TPtr TInt)]"

definition PublishFirmwareResponse :: gotype where
  "PublishFirmwareResponse = TStruct ''firmware.PublishFirmwareResponse''
     [Field ''Status'' ''status'' False ''required,genericStatus'' TString,
      Field ''StatusInfo'' ''statusInfo'' True ''omitempty'' (TPtr StatusInfo)]"

definition PublishFirmwareStatusNotificationRequest :: gotype where
  "PublishFirmwareStatusNotificationRequest = TStruct ''firmware.PublishFirmwareStatusNotificationRequest''
     [Field ''Status'' ''status'' False ''required,publishFirmwareStatus'' TString,
      Field ''Location'' ''location'' True ''omitempty,dive,max=512'' (TSlice TString),
      Field ''RequestID'' ''requestId'' True ''omitempty,gte=0'' (TPtr TInt)]"

definition PublishFirmwareStatusNotificationResponse :: gotype where
  "PublishFirmwareStatusNotificationResponse = TStruct ''firmware.PublishFirmwareStatusNotificationResponse''
     []"

definition UnpublishFirmwareRequest :: gotype where
  "UnpublishFirmwareRequest = TStruct ''firmware.UnpublishFirmwareRequest''
     [Field ''Checksum'' ''checksum'' False ''required,max=32'' TString]"

definition UnpublishFirmwareResponse :: gotype where
  "UnpublishFirmwareResponse = TStruct ''firmware.UnpublishFirmwareResponse''
     [Field ''Status'' ''status'' False ''required,unpublishFirmwareStatus'' TString]"

definition Firmware_201 :: gotype where
  "Firmware_201 = TStruct ''firmware.Firmware''
     [Field ''Location'' ''location'' False ''required,max=512,uri'' TString,
      Field ''RetrieveDateTime'' ''retrieveDateTime'' False ''required'' (TPtr TTime),
      Field ''InstallDateTime'' ''installDateTime'' True ''omitempty'' (TPtr TTime),
      Field ''SigningCertificate'' ''signingCertificate'' True ''max=5500'' TString,
      Field ''Signature'' ''signature'' True ''max=800'' TString]"

definition UpdateFirmwareRequest_201 :: gotype where
  "UpdateFirmwareRequest_201 = TStruct ''firmware.UpdateFirmwareRequest''
     [Field ''Retries'' ''retries'' True ''omitempty,gte=0'' (TPtr TInt),
      Field ''RetryInterval'' ''retryInterval'' True ''omitempty,gte=0'' (TPtr TInt),
      Field ''RequestID'' ''requestId'' False ''gte=0'' TInt,
      Field ''Firmware'' ''firmware'' False ''required'' Firmware_201]"

definition UpdateFirmwareResponse :: gotype where
  "UpdateFirmwareResponse = TStruct ''firmware.UpdateFirmwareResponse''
     [Field ''Status'' ''status'' False ''required,updateFirmwareStatus'' TString,
      Field ''StatusInfo'' ''statusInfo'' True ''omitempty'' (TPtr StatusInfo)]"

definition NewFirmwareStatusNotificationRequest_201 :: "string \<Rightarrow> message" where
  "NewFirmwareStatusNotificationRequest_201 st =
     new FirmwareStatusNotificationRequest_201
     [(''Status'', VString st)]"

definition NewFirmwareStatusNotificationResponse :: "message" where
  "NewFirmwareStatusNotificationResponse =
     new FirmwareStatusNotificationResponse
     []"

definition NewPublishFirmwareRequest :: "string \<Rightarrow> string \<Rightarrow> int \<Rightarrow> message" where
  "NewPublishFirmwareRequest location checksum reqID =
     new PublishFirmwareRequest
     [(''Location'', VString location),
       (''Checksum'', VString checksum),
       (''RequestID'', VInt reqID)]"

definition NewPublishFirmwareResponse :: "string \<Rightarrow> message" where
  "NewPublishFirmwareResponse st =
     new PublishFirmwareResponse
     [(''Status'', VString st)]"

definition NewPublishFirmwareStatusNotificationRequest :: "string \<Rightarrow> message" where
  "NewPublishFirmwareStatusNotificationRequest st =
     new PublishFirmwareStatusNotificationRequest
     [(''Status'', VString st)]"

definition NewPublishFirmwareStatusNotificationResponse :: "message" where
  "NewPublishFirmwareStatusNotificationResponse =
     new PublishFirmwareStatusNotificationResponse
     []"

definition NewUnpublishFirmwareRequest :: "string \<Rightarrow> message" where
  "NewUnpublishFirmwareRequest checksum =
     new UnpublishFirmwareRequest
     [(''Checksum'', VString checksum)]"

definition NewUnpublishFirmwareResponse :: "string \<Rightarrow> message" where
  "NewUnpublishFirmwareResponse st =
     new UnpublishFirmwareResponse
     [(''Status'', VString st)]"

definition NewUpdateFirmwareRequest_201 :: "int \<Rightarrow> goval \<Rightarrow> message" where
  "NewUpdateFirmwareRequest_201 reqID firmware =
     new UpdateFirmwareRequest_201
     [(''RequestID'', VInt reqID), (''Firmware'', firmware)]"

definition NewUpdateFirmwareResponse :: "string \<Rightarrow> message" where
  "NewUpdateFirmwareResponse st =
     new UpdateFirmwareResponse
     [(''Status'', VString st)]"

definition FirmwareStatusNotificationFeature_201 :: "gotype Feature" where
  "FirmwareStatusNotificationFeature_201 = \<lparr>GetFeatureName = ''FirmwareStatusNotification'',
     GetRequestType = FirmwareStatusNotificationRequest_201, GetResponseType = FirmwareStatusNotificationResponse\<rparr>"

definition PublishFirmwareFeature :: "gotype Feature" where
  "PublishFirmwareFeature = \<lparr>GetFeatureName = ''PublishFirmware'',
     GetRequestType = PublishFirmwareRequest, GetResponseType = PublishFirmwareResponse\<rparr>"

definition PublishFirmwareStatusNotificationFeature :: "gotype Feature" where
  "PublishFirmwareStatusNotificationFeature = \<lparr>GetFeatureName = ''PublishFirmwareStatusNotification'',
     GetRequestType = PublishFirmwareStatusNotificationRequest, GetResponseType = PublishFirmwareStatusNotificationResponse\<rparr>"

definition UnpublishFirmwareFeature :: "gotype Feature" where
  "UnpublishFirmwareFeature = \<lparr>GetFeatureName = ''UnpublishFirmware'',
     GetRequestType = UnpublishFirmwareRequest, GetResponseType = UnpublishFirmwareResponse\<rparr>"

definition UpdateFirmwareFeature_201 :: "gotype Feature" where
  "UpdateFirmwareFeature_201 = \<lparr>GetFeatureName = ''UpdateFirmware'',
     GetRequestType = UpdateFirmwareRequest_201, GetResponseType = UpdateFirmwareResponse\<rparr>"

definition firmware_features_201 :: "gotype Feature list" where
  "firmware_features_201 =
     [FirmwareStatusNotificationFeature_201,
      PublishFirmwareFeature,
      PublishFirmwareStatusNotificationFeature,
      UnpublishFirmwareFeature,
      UpdateFirmwareFeature_201]"

definition firmware_Profile_201 :: "gotype Profile" where
  "firmware_Profile_201 = NewProfile ''firmware'' firmware_features_201"

section \<open>Package \<^verbatim>\<open>diagnostics\<close>\<close>

definition isValidClearMonitoringStatus :: "string \<Rightarrow> bool" where
  "isValidClearMonitoringStatus status \<longleftrightarrow> status \<in> set
    [''Accepted'', ''Rejected'', ''NotFound'']"

definition isValidCustomerInformationStatus :: "string \<Rightarrow> bool" where
  "isValidCustomerInformationStatus status \<longleftrightarrow> status \<in> set
    [''Accepted'', ''Rejected'', ''Invalid'']"

definition isValidLogType :: "string \<Rightarrow> bool" where
  "isValidLogType status \<longleftrightarrow> status \<in> set
    [''DiagnosticsLog'', ''SecurityLog'']"

definition isValidLogStatus :: "string \<Rightarrow> bool" where
  "isValidLogStatus status \<longleftrightarrow> status \<in> set
    [''Accepted'', ''Rejected'', ''AcceptedCanceled'']"

definition isValidMonitoringCriteriaType :: "string \<Rightarrow> bool" where
  "isValidMonitoringCriteriaType status \<longleftrightarrow> status \<in> set
    [''ThresholdMonitoring'', ''DeltaMonitoring'', ''PeriodicMonitoring'']"

definition isValidUploadLogStatus :: "string \<Rightarrow> bool" where
  "isValidUploadLogStatus status \<longleftrightarrow> status \<in> set
    [''BadMessage'', ''Idle'', ''NotSupportedOperation'', ''PermissionDenied'',
     ''Uploaded'', ''UploadFailure'', ''Uploading'']"

definition isValidEventTrigger :: "string \<Rightarrow> bool" where
  "isValidEventTrigger status \<longleftrightarrow> status \<in> set
    [''Alerting'', ''Delta'', ''Periodic'']"

definition isValidEventNotification :: "string \<Rightarrow> bool" where
  "isValidEventNotification status \<longleftrightarrow> status \<in> set
    [''HardWiredMonitor'', ''HardWiredNotification'', ''PreconfiguredMonitor'',
     ''CustomMonitor'']"

definition isValidMonitoringBase :: "string \<Rightarrow> bool" where
  "isValidMonitoringBase status \<longleftrightarrow> status \<in> set
    [''All'', ''FactoryDefault'', ''HardWiredOnly'']"

definition isValidSetMonitoringStatus :: "string \<Rightarrow> bool" where
  "isValidSetMonitoringStatus status \<longleftrightarrow> status \<in> set
    [''Accepted'', ''UnknownComponent'', ''UnknownVariable'', ''UnsupportedMonitorType'',
     ''Rejected'', ''Duplicate'']"

definition isValidMonitorType :: "string \<Rightarrow> bool" where
  "isValidMonitorType status \<longleftrightarrow> status \<in> set
    [''UpperThreshold'', ''LowerThreshold'', ''Delta'', ''Periodic'',
     ''PeriodicClockAligned'']"

definition ClearMonitoringResult :: gotype where
  "ClearMonitoringResult = TStruct ''diagnostics.ClearMonitoringResult''
     [Field ''ID'' ''id'' False ''required,gte=0'' TInt,
      Field ''Status'' ''status'' False ''required,clearMonitoringStatus'' TString]"

definition ClearVariableMonitoringRequest :: gotype where
  "ClearVariableMonitoringRequest = TStruct ''diagnostics.ClearVariableMonitoringRequest''
     [Field ''ID'' ''id'' False ''required,min=1,dive,gte=0'' (TSlice TInt)]"

definition ClearVariableMonitoringResponse :: gotype where
  "ClearVariableMonitoringResponse = TStruct ''diagnostics.ClearVariableMonitoringResponse''
     [Field ''ClearMonitoringResult'' ''clearMonitoringResult'' False ''required,min=1,dive'' (TSlice ClearMonitoringResult)]"

definition CustomerInformationRequest :: gotype where
  "CustomerInformationRequest = TStruct ''diagnostics.CustomerInformationRequest''
     [Field ''RequestID'' ''requestId'' False ''gte=0'' TInt,
      Field ''Report'' ''report'' False '''' TBool,
      Field ''Clear'' ''clear'' False '''' TBool,
      Field ''CustomerIdentifier'' ''customerIdentifier'' True ''max=64'' TString,
      Field ''IdToken'' ''idToken'' True ''omitempty,dive'' (TPtr IdToken),
      Field ''CustomerCertificate'' ''customerCertificate'' True ''omitempty,dive'' (TPtr CertificateHashData)]"

definition CustomerInformationResponse :: gotype where
  "CustomerInformationResponse = TStruct ''diagnostics.CustomerInformationResponse''
     [Field ''Status'' ''status'' False ''required,customerInformationStatus'' TString,
      Field ''StatusInfo'' ''statusInfo'' True ''omitempty'' (TPtr StatusInfo)]"

definition LogParameters :: gotype where
  "LogParameters = TStruct ''diagnostics.LogParameters''
     [Field ''RemoteLocation'' ''remoteLocation'' False ''required,max=512,url'' TString,
      Field ''OldestTimestamp'' ''oldestTimestamp'' True ''omitempty'' (TPtr TTime),
      Field ''LatestTimestamp'' ''latestTimestamp'' True ''omitempty'' (TPtr TTime)]"

definition GetLogRequest :: gotype where
  "GetLogRequest = TStruct ''diagnostics.GetLogRequest''
     [Field ''LogType'' ''logType'' False ''required,logType'' TString,
      Field ''RequestID'' ''requestId'' False ''gte=0'' TInt,
      Field ''Retries'' ''retries'' True ''omitempty,gte=0'' (TPtr TInt),
      Field ''RetryInterval'' ''retryInterval'' True ''omitempty,gte=0'' (TPtr TInt),
      Field ''Log'' ''log'' False ''required'' LogParameters]"

definition GetLogResponse :: gotype where
  "GetLogResponse = TStruct ''diagnostics.GetLogResponse''
     [Field ''Status'' ''status'' False ''required,logStatus'' TString,
      Field ''Filename'' ''filename'' True ''omitempty,max=256'' TString]"

definition GetMonitoringReportRequest :: gotype where
  "GetMonitoringReportRequest = TStruct ''diagnostics.GetMonitoringReportRequest''
     [Field ''RequestID'' ''requestId'' True ''omitempty,gte=0'' (TPtr TInt),
      Field ''MonitoringCriteria'' ''monitoringCriteria'' True ''omitempty,max=3,dive,monitoringCriteria'' (TSlice TString),
      Field ''ComponentVariable'' ''componentVariable'' True ''omitempty,dive'' (TSlice ComponentVariable)]"

definition GetMonitoringReportResponse :: gotype where
  "GetMonitoringReportResponse = TStruct ''diagnostics.GetMonitoringReportResponse''
     [Field ''Status'' ''status'' False ''required,genericDeviceModelStatus'' TString]"

definition LogStatusNotificationRequest :: gotype where
  "LogStatusNotificationRequest = TStruct ''diagnostics.LogStatusNotificationRequest''
     [Field ''Status'' ''status'' False ''required,uploadLogStatus'' TString,
      Field ''RequestID'' ''requestId'' False ''gte=0'' TInt]"

definition LogStatusNotificationResponse :: gotype where
  "LogStatusNotificationResponse = TStruct ''diagnostics.LogStatusNotificationResponse''
     []"

definition NotifyCustomerInformationRequest :: gotype where
  "NotifyCustomerInformationRequest = TStruct ''diagnostics.NotifyCustomerInformationRequest''
     [Field ''Data'' ''data'' False ''required,max=512'' TString,
      Field ''Tbc'' ''tbc'' True ''omitempty'' TBool,
      Field ''SeqNo'' ''seqNo'' False ''gte=0'' TInt,
      Field ''GeneratedAt'' ''generatedAt'' False ''required'' TTime,
      Field ''RequestID'' ''requestId'' False ''gte=0'' TInt]"

definition NotifyCustomerInformationResponse :: gotype where
  "NotifyCustomerInformationResponse = TStruct ''diagnostics.NotifyCustomerInformationResponse''
     []"

definition EventData :: gotype where
  "EventData = TStruct ''diagnostics.EventData''
     [Field ''EventID'' ''eventId'' False ''gte=0'' TInt,
      Field ''Timestamp'' ''timestamp'' False ''required'' (TPtr TTime),
      Field ''Trigger'' ''trigger'' False ''required,eventTrigger'' TString,
      Field ''Cause'' ''cause'' True ''omitempty'' (TPtr TInt),
      Field ''ActualValue'' ''actualValue'' False ''required,max=2500'' TString,
      Field ''TechCode'' ''techCode'' True ''omitempty,max=50'' TString,
      Field ''TechInfo'' ''techInfo'' True ''omitempty,max=500'' TString,
      Field ''Cleared'' ''cleared'' True '''' TBool,
      Field ''TransactionID'' ''transactionId'' True ''omitempty,max=36'' TString,
      Field ''VariableMonitoringID'' ''variableMonitoringId'' True ''omitempty'' (TPtr TInt),
      Field ''EventNotificationType'' ''eventNotificationType'' False ''required,eventNotification'' TString,
      Field ''Component'' ''component'' False ''required'' Component,
      Field ''Variable'' ''variable'' False ''required'' Variable]"

definition NotifyEventRequest :: gotype where
  "NotifyEventRequest = TStruct ''diagnostics.NotifyEventRequest''
     [Field ''GeneratedAt'' ''generatedAt'' False ''required'' (TPtr TTime),
      Field ''SeqNo'' ''seqNo'' False ''gte=0'' TInt,
      Field ''Tbc'' ''tbc'' True ''omitempty'' TBool,
      Field ''EventData'' ''eventData'' False ''required,min=1,dive'' (TSlice EventData)]"

definition NotifyEventResponse :: gotype where
  "NotifyEventResponse = TStruct ''diagnostics.NotifyEventResponse''
     []"

definition VariableMonitoring :: gotype where
  "VariableMonitoring = TStruct ''diagnostics.VariableMonitoring''
     [Field ''ID'' ''id'' False ''gte=0'' TInt,
      Field ''Transaction'' ''transaction'' False '''' TBool,
      Field ''Value'' ''value'' False '''' TFloat,
      Field ''Type'' ''type'' False ''required,monitorType'' TString,
      Field ''Severity'' ''severity'' False ''min=0,max=9'' TInt]"

definition MonitoringData :: gotype where
  "MonitoringData = TStruct ''diagnostics.MonitoringData''
     [Field ''Component'' ''component'' False ''required'' Component,
      Field ''Variable'' ''variable'' False ''required'' Variable,
      Field ''VariableMonitoring'' ''variableMonitoring'' False ''required,min=1,dive'' (TSlice VariableMonitoring)]"

definition NotifyMonitoringReportRequest :: gotype where
  "NotifyMonitoringReportRequest = TStruct ''diagnostics.NotifyMonitoringReportRequest''
     [Field ''RequestID'' ''requestId'' False ''gte=0'' TInt,
      Field ''Tbc'' ''tbc'' True ''omitempty'' TBool,
      Field ''SeqNo'' ''seqNo'' False ''gte=0'' TInt,
      Field ''GeneratedAt'' ''generatedAt'' False ''required'' (TPtr TTime),
      Field ''Monitor'' ''monitor'' True ''omitempty,dive'' (TSlice MonitoringData)]"

definition NotifyMonitoringReportResponse :: gotype where
  "NotifyMonitoringReportResponse = TStruct ''diagnostics.NotifyMonitoringReportResponse''
     []"

definition SetMonitoringBaseRequest :: gotype where
  "SetMonitoringBaseRequest = TStruct ''diagnostics.SetMonitoringBaseRequest''
     [Field ''MonitoringBase'' ''monitoringBase'' False ''required,monitoringBase'' TString]"

definition SetMonitoringBaseResponse :: gotype where
  "SetMonitoringBaseResponse = TStruct ''diagnostics.SetMonitoringBaseResponse''
     [Field ''Status'' ''status'' False ''required,genericDeviceModelStatus'' TString,
      Field ''StatusInfo'' ''statusInfo'' True ''omitempty'' (TPtr StatusInfo)]"

definition SetMonitoringLevelRequest :: gotype where
  "SetMonitoringLevelRequest = TStruct ''diagnostics.SetMonitoringLevelRequest''
     [Field ''Severity'' ''severity'' False ''min=0,max=9'' TInt]"

definition SetMonitoringLevelResponse :: gotype where
  "SetMonitoringLevelResponse = TStruct ''diagnostics.SetMonitoringLevelResponse''
     [Field ''Status'' ''status'' False ''required,genericDeviceModelStatus'' TString,
      Field ''StatusInfo'' ''statusInfo'' True ''omitempty'' (TPtr StatusInfo)]"

definition SetMonitoringData :: gotype where
  "SetMonitoringData = TStruct ''diagnostics.SetMonitoringData''
     [Field ''ID'' ''id'' True ''omitempty'' (TPtr TInt),
      Field ''Transaction'' ''transaction'' True '''' TBool,
      Field ''Value'' ''value'' False '''' TFloat,
      Field ''Type'' ''type'' False ''required,monitorType'' TString,
      Field ''Severity'' ''severity'' False ''min=0,max=9'' TInt,
      Field ''Component'' ''component'' False ''required'' Component,
      Field ''Variable'' ''variable'' False ''required'' Variable]"

definition SetMonitoringResult :: gotype where
  "SetMonitoringResult = TStruct ''diagnostics.SetMonitoringResult''
     [Field ''ID'' ''id'' True ''omitempty'' (TPtr TInt),
      Field ''Status'' ''status'' False ''required,setMonitoringStatus'' TString,
      Field ''Type'' ''type'' False ''required,monitorType'' TString,
      Field ''Severity'' ''severity'' False ''min=0,max=9'' TInt,
      Field ''Component'' ''component'' False ''required'' Component,
      Field ''Variable'' ''variable'' False ''required'' Variable,
      Field ''StatusInfo'' ''statusInfo'' True ''omitempty'' (TPtr StatusInfo)]"

definition SetVariableMonitoringRequest :: gotype where
  "SetVariableMonitoringRequest = TStruct ''diagnostics.SetVariableMonitoringRequest''
     [Field ''MonitoringData'' ''setMonitoringData'' False ''required,min=1,dive'' (TSlice SetMonitoringData)]"

definition SetVariableMonitoringResponse :: gotype where
  "SetVariableMonitoringResponse = TStruct ''diagnostics.SetVariableMonitoringResponse''
     [Field ''MonitoringResult'' ''setMonitoringResult'' False ''required,min=1,dive'' (TSlice SetMonitoringResult)]"

definition NewClearVariableMonitoringRequest :: "goval \<Rightarrow> message" where
  "NewClearVariableMonitoringRequest ident =
     new ClearVariableMonitoringRequest
     [(''ID'', ident)]"

definition NewClearVariableMonitoringResponse :: "goval \<Rightarrow> message" where
  "NewClearVariableMonitoringResponse result =
     new ClearVariableMonitoringResponse
     [(''ClearMonitoringResult'', result)]"

definition NewCustomerInformationRequest :: "int \<Rightarrow> bool \<Rightarrow> bool \<Rightarrow> message" where
  "NewCustomerInformationRequest requestId report clear =
     new CustomerInformationRequest
     [(''RequestID'', VInt requestId),
       (''Report'', VBool report),
       (''Clear'', VBool clear)]"

definition NewCustomerInformationResponse :: "string \<Rightarrow> message" where
  "NewCustomerInformationResponse st =
     new CustomerInformationResponse
     [(''Status'', VString st)]"

definition NewGetLogRequest :: "string \<Rightarrow> int \<Rightarrow> goval \<Rightarrow> message" where
  "NewGetLogRequest logType reqID logParameters =
     new GetLogRequest
     [(''LogType'', VString logType),
       (''RequestID'', VInt reqID),
       (''Log'', logParameters)]"

definition NewGetLogResponse :: "string \<Rightarrow> message" where
  "NewGetLogResponse st =
     new GetLogResponse
     [(''Status'', VString st)]"

definition NewGetMonitoringReportRequest :: "message" where
  "NewGetMonitoringReportRequest =
     new GetMonitoringReportRequest
     []"

definition NewGetMonitoringReportResponse :: "string \<Rightarrow> message" where
  "NewGetMonitoringReportResponse st =
     new GetMonitoringReportResponse
     [(''Status'', VString st)]"

definition NewLogStatusNotificationRequest :: "string \<Rightarrow> int \<Rightarrow> message" where
  "NewLogStatusNotificationRequest st reqID =
     new LogStatusNotificationRequest
     [(''Status'', VString st), (''RequestID'', VInt reqID)]"

definition NewLogStatusNotificationResponse :: "message" where
  "NewLogStatusNotificationResponse =
     new LogStatusNotificationResponse
     []"

definition NewNotifyCustomerInformationRequest :: "string \<Rightarrow> int \<Rightarrow> goval \<Rightarrow> int \<Rightarrow> message" where
  "NewNotifyCustomerInformationRequest Data seqNo generatedAt reqID =
     new NotifyCustomerInformationRequest
     [(''Data'', VString Data),
       (''SeqNo'', VInt seqNo),
       (''GeneratedAt'', generatedAt),
       (''RequestID'', VInt reqID)]"

definition NewNotifyCustomerInformationResponse :: "message" where
  "NewNotifyCustomerInformationResponse =
     new NotifyCustomerInformationResponse
     []"

definition NewNotifyEventRequest :: "gotime option \<Rightarrow> int \<Rightarrow> goval \<Rightarrow> message" where
  "NewNotifyEventRequest generatedAt seqNo eventData =
     new NotifyEventRequest
     [(''GeneratedAt'', timePtr generatedAt),
       (''SeqNo'', VInt seqNo),
       (''EventData'', eventData)]"

definition NewNotifyEventResponse :: "message" where
  "NewNotifyEventResponse =
     new NotifyEventResponse
     []"

definition NewVariableMonitoring :: "int \<Rightarrow> bool \<Rightarrow> goval \<Rightarrow> string \<Rightarrow> int \<Rightarrow> goval" where
  "NewVariableMonitoring ident transaction val t severity =
     structLit VariableMonitoring
     [(''ID'', VInt ident),
       (''Transaction'', VBool transaction),
       (''Value'', val),
       (''Type'', VString t),
       (''Severity'', VInt severity)]"

definition NewNotifyMonitoringReportRequest :: "int \<Rightarrow> int \<Rightarrow> gotime option \<Rightarrow> goval \<Rightarrow> message" where
  "NewNotifyMonitoringReportRequest reqID seqNo generatedAt monitorData =
     new NotifyMonitoringReportRequest
     [(''RequestID'', VInt reqID),
       (''SeqNo'', VInt seqNo),
       (''GeneratedAt'', timePtr generatedAt),
       (''Monitor'', monitorData)]"

definition NewNotifyMonitoringReportResponse :: "message" where
  "NewNotifyMonitoringReportResponse =
     new NotifyMonitoringReportResponse
     []"

definition NewSetMonitoringBaseRequest :: "string \<Rightarrow> message" where
  "NewSetMonitoringBaseRequest monitoringBase =
     new SetMonitoringBaseRequest
     [(''MonitoringBase'', VString monitoringBase)]"

definition NewSetMonitoringBaseResponse :: "string \<Rightarrow> message" where
  "NewSetMonitoringBaseResponse st =
     new SetMonitoringBaseResponse
     [(''Status'', VString st)]"

definition NewSetMonitoringLevelRequest :: "int \<Rightarrow> message" where
  "NewSetMonitoringLevelRequest severity =
     new SetMonitoringLevelRequest
     [(''Severity'', VInt severity)]"

definition NewSetMonitoringLevelResponse :: "string \<Rightarrow> message" where
  "NewSetMonitoringLevelResponse st =
     new SetMonitoringLevelResponse
     [(''Status'', VString st)]"

definition NewSetVariableMonitoringRequest :: "goval \<Rightarrow> message" where
  "NewSetVariableMonitoringRequest dt =
     new SetVariableMonitoringRequest
     [(''MonitoringData'', dt)]"

definition NewSetVariableMonitoringResponse :: "goval \<Rightarrow> message" where
  "NewSetVariableMonitoringResponse result =
     new SetVariableMonitoringResponse
     [(''MonitoringResult'', result)]"

definition ClearVariableMonitoringFeature :: "gotype Feature" where
  "ClearVariableMonitoringFeature = \<lparr>GetFeatureName = ''ClearVariableMonitoring'',
     GetRequestType = ClearVariableMonitoringRequest, GetResponseType = ClearVariableMonitoringResponse\<rparr>"

definition CustomerInformationFeature :: "gotype Feature" where
  "CustomerInformationFeature = \<lparr>GetFeatureName = ''CustomerInformation'',
     GetRequestType = CustomerInformationRequest, GetResponseType = CustomerInformationResponse\<rparr>"

definition GetLogFeature :: "gotype Feature" where
  "GetLogFeature = \<lparr>GetFeatureName = ''GetLog'',
     GetRequestType = GetLogRequest, GetResponseType = GetLogResponse\<rparr>"

definition GetMonitoringReportFeature :: "gotype Feature" where
  "GetMonitoringReportFeature = \<lparr>GetFeatureName = ''GetMonitoringReport'',
     GetRequestType = GetMonitoringReportRequest, GetResponseType = GetMonitoringReportResponse\<rparr>"

definition LogStatusNotificationFeature :: "gotype Feature" where
  "LogStatusNotificationFeature = \<lparr>GetFeatureName = ''LogStatusNotification'',
     GetRequestType = LogStatusNotificationRequest, GetResponseType = LogStatusNotificationResponse\<rparr>"

definition NotifyCustomerInformationFeature :: "gotype Feature" where
  "NotifyCustomerInformationFeature = \<lparr>GetFeatureName = ''NotifyCustomerInformation'',
     GetRequestType = NotifyCustomerInformationRequest, GetResponseType = NotifyCustomerInformationResponse\<rparr>"

definition NotifyEventFeature :: "gotype Feature" where
  "NotifyEventFeature = \<lparr>GetFeatureName = ''NotifyEvent'',
     GetRequestType = NotifyEventRequest, GetResponseType = NotifyEventResponse\<rparr>"

definition NotifyMonitoringReportFeature :: "gotype Feature" where
  "NotifyMonitoringReportFeature = \<lparr>GetFeatureName = ''NotifyMonitoringReport'',
     GetRequestType = NotifyMonitoringReportRequest, GetResponseType = NotifyMonitoringReportResponse\<rparr>"

definition SetMonitoringBaseFeature :: "gotype Feature" where
  "SetMonitoringBaseFeature = \<lparr>GetFeatureName = ''SetMonitoringBase'',
     GetRequestType = SetMonitoringBaseRequest, GetResponseType = SetMonitoringBaseResponse\<rparr>"

definition SetMonitoringLevelFeature :: "gotype Feature" where
  "SetMonitoringLevelFeature = \<lparr>GetFeatureName = ''SetMonitoringLevel'',
     GetRequestType = SetMonitoringLevelRequest, GetResponseType = SetMonitoringLevelResponse\<rparr>"

definition SetVariableMonitoringFeature :: "gotype Feature" where
  "SetVariableMonitoringFeature = \<lparr>GetFeatureName = ''SetVariableMonitoring'',
     GetRequestType = SetVariableMonitoringRequest, GetResponseType = SetVariableMonitoringResponse\<rparr>"

definition diagnostics_features :: "gotype Feature list" where
  "diagnostics_features =
     [ClearVariableMonitoringFeature,
      CustomerInformationFeature,
      GetLogFeature,
      GetMonitoringReportFeature,
      LogStatusNotificationFeature,
      NotifyCustomerInformationFeature,
      NotifyEventFeature,
      NotifyMonitoringReportFeature,
      SetMonitoringBaseFeature,
      SetMonitoringLevelFeature,
      SetVariableMonitoringFeature]"

definition diagnostics_Profile :: "gotype Profile" where
  "diagnostics_Profile = NewProfile ''diagnostics'' diagnostics_features"

section \<open>Package \<^verbatim>\<open>display\<close>\<close>

definition isValidClearMessageStatus :: "string \<Rightarrow> bool" where
  "isValidClearMessageStatus status \<longleftrightarrow> status \<in> set
    [''Accepted'', ''Unknown'']"

definition isValidDisplayMessageStatus :: "string \<Rightarrow> bool" where
  "isValidDisplayMessageStatus status \<longleftrightarrow> status \<in> set
    [''Accepted'', ''NotSupportedMessageFormat'', ''Rejected'', ''NotSupportedPriority'',
     ''NotSupportedState'', ''UnknownTransaction'']"

definition isValidMessagePriority :: "string \<Rightarrow> bool" where
  "isValidMessagePriority priority \<longleftrightarrow> priority \<in> set
    [''AlwaysFront'', ''InFront'', ''NormalCycle'']"

definition isValidMessageState :: "string \<Rightarrow> bool" where
  "isValidMessageState priority \<longleftrightarrow> priority \<in> set
    [''Charging'', ''Faulted'', ''Idle'', ''Unavailable'']"

definition isValidMessageStatus :: "string \<Rightarrow> bool" where
  "isValidMessageStatus priority \<longleftrightarrow> priority \<in> set
    [''Accepted'', ''Unknown'']"

definition ClearDisplayRequest :: gotype where
  "ClearDisplayRequest = TStruct ''display.ClearDisplayRequest''
     [Field ''ID'' ''id'' False '''' TInt]"

definition ClearDisplayResponse :: gotype where
  "ClearDisplayResponse = TStruct ''display.ClearDisplayResponse''
     [Field ''Status'' ''status'' False ''required,clearMessageStatus'' TString,
      Field ''StatusInfo'' ''statusInfo'' True ''omitempty'' (TPtr StatusInfo)]"

definition GetDisplayMessagesRequest :: gotype where
  "GetDisplayMessagesRequest = TStruct ''display.GetDisplayMessagesRequest''
     [Field ''RequestID'' ''requestId'' False ''gte=0'' TInt,
      Field ''Priority'' ''priority'' True ''omitempty,messagePriority'' TString,
      Field ''State'' ''state'' True ''omitempty,messageState'' TString,
      Field ''ID'' ''id'' True ''omitempty,dive,gte=0'' (TSlice TInt)]"

definition GetDisplayMessagesResponse :: gotype where
  "GetDisplayMessagesResponse = TStruct ''display.GetDisplayMessagesResponse''
     [Field ''Status'' ''status'' False ''required,messageStatus'' TString]"

definition MessageInfo :: gotype where
  "MessageInfo = TStruct ''display.MessageInfo''
     [Field ''ID'' ''id'' False ''gte=0'' TInt,
      Field ''Priority'' ''priority'' False ''required,messagePriority'' TString,
      Field ''State'' ''state'' True ''omitempty,messageState'' TString,
      Field ''StartDateTime'' ''startDateTime'' True ''omitempty'' (TPtr TTime),
      Field ''EndDateTime'' ''endDateTime'' True ''omitempty'' (TPtr TTime),
      Field ''TransactionID'' ''transactionId'' True ''omitempty,max=36'' TString,
      Field ''Message'' ''message'' False ''required'' MessageContent,
      Field ''Display'' ''display'' True ''omitempty'' (TPtr Component)]"

definition NotifyDisplayMessagesRequest :: gotype where
  "NotifyDisplayMessagesRequest = TStruct ''display.NotifyDisplayMessagesRequest''
     [Field ''RequestID'' ''requestId'' False ''gte=0'' TInt,
      Field ''Tbc'' ''tbc'' True ''omitempty'' TBool,
      Field ''MessageInfo'' ''messageInfo'' True ''omitempty,dive'' (TSlice MessageInfo)]"

definition NotifyDisplayMessagesResponse :: gotype where
  "NotifyDisplayMessagesResponse = TStruct ''display.NotifyDisplayMessagesResponse''
     []"

definition SetDisplayMessageRequest :: gotype where
  "SetDisplayMessageRequest = TStruct ''display.SetDisplayMessageRequest''
     [Field ''Message'' ''message'' False ''required'' MessageInfo]"

definition SetDisplayMessageResponse :: gotype where
  "SetDisplayMessageResponse = TStruct ''display.SetDisplayMessageResponse''
     [Field ''Status'' ''status'' False ''required,displayMessageStatus'' TString,
      Field ''StatusInfo'' ''statusInfo'' True ''omitempty'' (TPtr StatusInfo)]"

definition NewClearDisplayRequest :: "int \<Rightarrow> message" where
  "NewClearDisplayRequest ident =
     new ClearDisplayRequest
     [(''ID'', VInt ident)]"

definition NewClearDisplayResponse :: "string \<Rightarrow> message" where
  "NewClearDisplayResponse st =
     new ClearDisplayResponse
     [(''Status'', VString st)]"

definition NewGetDisplayMessagesRequest :: "int \<Rightarrow> message" where
  "NewGetDisplayMessagesRequest requestId =
     new GetDisplayMessagesRequest
     [(''RequestID'', VInt requestId)]"

definition NewGetDisplayMessagesResponse :: "string \<Rightarrow> message" where
  "NewGetDisplayMessagesResponse st =
     new GetDisplayMessagesResponse
     [(''Status'', VString st)]"

definition NewNotifyDisplayMessagesRequest :: "int \<Rightarrow> message" where
  "NewNotifyDisplayMessagesRequest reqID =
     new NotifyDisplayMessagesRequest
     [(''RequestID'', VInt reqID)]"

definition NewNotifyDisplayMessagesResponse :: "message" where
  "NewNotifyDisplayMessagesResponse =
     new NotifyDisplayMessagesResponse
     []"

definition NewSetDisplayMessageRequest :: "goval \<Rightarrow> message" where
  "NewSetDisplayMessageRequest message =
     new SetDisplayMessageRequest
     [(''Message'', message)]"

definition NewSetDisplayMessageResponse :: "string \<Rightarrow> message" where
  "NewSetDisplayMessageResponse st =
     new SetDisplayMessageResponse
     [(''Status'', VString st)]"

definition ClearDisplayFeature :: "gotype Feature" where
  "ClearDisplayFeature = \<lparr>GetFeatureName = ''ClearDisplayMessage'',
     GetRequestType = ClearDisplayRequest, GetResponseType = ClearDisplayResponse\<rparr>"

definition GetDisplayMessagesFeature :: "gotype Feature" where
  "GetDisplayMessagesFeature = \<lparr>GetFeatureName = ''GetDisplayMessages'',
     GetRequestType = GetDisplayMessagesRequest, GetResponseType = GetDisplayMessagesResponse\<rparr>"

definition NotifyDisplayMessagesFeature :: "gotype Feature" where
  "NotifyDisplayMessagesFeature = \<lparr>GetFeatureName = ''NotifyDisplayMessages'',
     GetRequestType = NotifyDisplayMessagesRequest, GetResponseType = NotifyDisplayMessagesResponse\<rparr>"

definition SetDisplayMessageFeature :: "gotype Feature" where
  "SetDisplayMessageFeature = \<lparr>GetFeatureName = ''SetDisplayMessage'',
     GetRequestType = SetDisplayMessageRequest, GetResponseType = SetDisplayMessageResponse\<rparr>"

definition display_features :: "gotype Feature list" where
  "display_features =
     [ClearDisplayFeature,
      GetDisplayMessagesFeature,
      NotifyDisplayMessagesFeature,
      SetDisplayMessageFeature]"

definition display_Profile :: "gotype Profile" where
  "display_Profile = NewProfile ''display'' display_features"

section \<open>Package \<^verbatim>\<open>data\<close>\<close>

definition isValidDataTransferStatus_201 :: "string \<Rightarrow> bool" where
  "isValidDataTransferStatus_201 status \<longleftrightarrow> status \<in> set
    [''Accepted'', ''Rejected'', ''UnknownMessageId'', ''UnknownVendorId'']"

definition DataTransferRequest_201 :: gotype where
  "DataTransferRequest_201 = TStruct ''data.DataTransferRequest''
     [Field ''MessageID'' ''messageId'' True ''max=50'' TString,
      Field ''Data'' ''data'' True '''' TIface,
      Field ''VendorID'' ''vendorId'' False ''required,max=255'' TString]"

definition DataTransferResponse :: gotype where
  "DataTransferResponse = TStruct ''data.DataTransferResponse''
     [Field ''Status'' ''status'' False ''required,dataTransferStatus201'' TString,
      Field ''Data'' ''data'' True '''' TIface,
      Field ''StatusInfo'' ''statusInfo'' True ''omitempty'' (TPtr StatusInfo)]"

definition NewDataTransferRequest_201 :: "string \<Rightarrow> message" where
  "NewDataTransferRequest_201 vendorId =
     new DataTransferRequest_201
     [(''VendorID'', VString vendorId)]"

definition NewDataTransferResponse :: "string \<Rightarrow> message" where
  "NewDataTransferResponse st =
     new DataTransferResponse
     [(''Status'', VString st)]"

definition DataTransferFeature_201 :: "gotype Feature" where
  "DataTransferFeature_201 = \<lparr>GetFeatureName = ''DataTransfer'',
     GetRequestType = DataTransferRequest_201, GetResponseType = DataTransferResponse\<rparr>"

definition data_features :: "gotype Feature list" where
  "data_features =
     [DataTransferFeature_201]"

definition data_Profile :: "gotype Profile" where
  "data_Profile = NewProfile ''data'' data_features"

end
