(* ===== verification/Charging201.thy ===== *)
theory Charging201
  imports Types201
begin

text \<open>
  The messages of OCPP 2.0.1 about charging: the packages \<^verbatim>\<open>authorization\<close>, \<^verbatim>\<open>localauth\<close>, \<^verbatim>\<open>meter\<close>,
  \<^verbatim>\<open>remotecontrol\<close>, \<^verbatim>\<open>reservation\<close>, \<^verbatim>\<open>smartcharging\<close>, \<^verbatim>\<open>tariffcost\<close> and \<^verbatim>\<open>transactions\<close>. Per package:
  the validation functions of its
  enumerations, the struct types with their tags, the constructors, the features and the profile.
\<close>

section \<open>Package \<^verbatim>\<open>authorization\<close>\<close>

definition isValidAuthorizeCertificateStatus :: "string \<Rightarrow> bool" where
  "isValidAuthorizeCertificateStatus status \<longleftrightarrow> status \<in> set
    [''Accepted'', ''CertChainError'', ''CertificateExpired'', ''SignatureError'',
     ''NoCertificateAvailable'', ''CertificateRevoked'', ''ContractCancelled'']"

definition isValidClearCacheStatus_201 :: "string \<Rightarrow> bool" where
  "isValidClearCacheStatus_201 status \<longleftrightarrow> status \<in> set
    [''Accepted'', ''Rejected'']"

definition AuthorizeRequest_201 :: gotype where
  "AuthorizeRequest_201 = TStruct ''authorization.AuthorizeRequest''
     [Field ''Certificate'' ''certificate'' True ''max=5500'' TString,
      Field ''IdToken'' ''idToken'' False ''required'' IdToken,
      Field ''CertificateHashData'' ''iso15118CertificateHashData'' True ''max=4,dive'' (TSlice OCSPRequestDataType)]"

definition AuthorizeResponse :: gotype where
  "AuthorizeResponse = TStruct ''authorization.AuthorizeResponse''
     [Field ''CertificateStatus'' ''certificateStatus'' True ''omitempty,authorizeCertificateStatus'' TString,
      Field ''IdTokenInfo'' ''idTokenInfo'' False ''required'' IdTokenInfo]"

definition ClearCacheRequest_201 :: gotype where
  "ClearCacheRequest_201 = TStruct ''authorization.ClearCacheRequest''
     []"

definition ClearCacheResponse :: gotype where
  "ClearCacheResponse = TStruct ''authorization.ClearCacheResponse''
     [Field ''Status'' ''status'' False ''required,cacheStatus201'' TString,
      Field ''StatusInfo'' ''statusInfo'' True ''omitempty'' (TPtr StatusInfo)]"

definition NewAuthorizationRequest_201 :: "string \<Rightarrow> string \<Rightarrow> message" where
  "NewAuthorizationRequest_201 idToken tokenType =
     new AuthorizeRequest_201
     [(''IdToken'', structLit IdToken [(''IdToken'', VString idToken), (''Type'', VString tokenType)])]"

definition NewAuthorizationResponse :: "goval \<Rightarrow> message" where
  "NewAuthorizationResponse idTokenInfo =
     new AuthorizeResponse
     [(''IdTokenInfo'', idTokenInfo)]"

definition NewClearCacheRequest_201 :: "message" where
  "NewClearCacheRequest_201 =
     new ClearCacheRequest_201
     []"

definition NewClearCacheResponse :: "string \<Rightarrow> message" where
  "NewClearCacheResponse st =
     new ClearCacheResponse
     [(''Status'', VString st)]"

definition AuthorizeFeature_201 :: "gotype Feature" where
  "AuthorizeFeature_201 = \<lparr>GetFeatureName = ''Authorize'',
     GetRequestType = AuthorizeRequest_201, GetResponseType = AuthorizeResponse\<rparr>"

definition ClearCacheFeature_201 :: "gotype Feature" where
  "ClearCacheFeature_201 = \<lparr>GetFeatureName = ''ClearCache'',
     GetRequestType = ClearCacheRequest_201, GetResponseType = ClearCacheResponse\<rparr>"

definition authorization_features :: "gotype Feature list" where
  "authorization_features =
     [AuthorizeFeature_201,
      ClearCacheFeature_201]"

definition authorization_Profile :: "gotype Profile" where
  "authorization_Profile = NewProfile ''authorization'' authorization_features"

section \<open>Package \<^verbatim>\<open>localauth\<close>\<close>

definition isValidUpdateType_201 :: "string \<Rightarrow> bool" where
  "isValidUpdateType_201 status \<longleftrightarrow> status \<in> set
    [''Differential'', ''Full'']"

definition isValidSendLocalListStatus :: "string \<Rightarrow> bool" where
  "isValidSendLocalListStatus status \<longleftrightarrow> status \<in> set
    [''Accepted'', ''Failed'', ''VersionMismatch'']"

definition GetLocalListVersionRequest_201 :: gotype where
  "GetLocalListVersionRequest_201 = TStruct ''localauth.GetLocalListVersionRequest''
     []"

definition GetLocalListVersionResponse :: gotype where
  "GetLocalListVersionResponse = TStruct ''localauth.GetLocalListVersionResponse''
     [Field ''VersionNumber'' ''versionNumber'' False ''gte=0'' TInt]"

definition AuthorizationData_201 :: gotype where
  "AuthorizationData_201 = TStruct ''localauth.AuthorizationData''
     [Field ''IdTokenInfo'' ''idTokenInfo'' True ''omitempty'' (TPtr IdTokenInfo),
      Field ''IdToken'' ''idToken'' False '''' IdToken]"

definition SendLocalListRequest_201 :: gotype where
  "SendLocalListRequest_201 = TStruct ''localauth.SendLocalListRequest''
     [Field ''VersionNumber'' ''versionNumber'' False ''gte=0'' TInt,
      Field ''UpdateType'' ''updateType'' False ''required,updateType201'' TString,
      Field ''LocalAuthorizationList'' ''localAuthorizationList'' True ''omitempty,dive'' (TSlice AuthorizationData_201)]"

definition SendLocalListResponse :: gotype where
  "SendLocalListResponse = TStruct ''localauth.SendLocalListResponse''
     [Field ''Status'' ''status'' False ''required,sendLocalListStatus'' TString,
      Field ''StatusInfo'' ''statusInfo'' True ''omitempty'' (TPtr StatusInfo)]"

definition NewGetLocalListVersionRequest_201 :: "message" where
  "NewGetLocalListVersionRequest_201 =
     new GetLocalListVersionRequest_201
     []"

definition NewGetLocalListVersionResponse :: "int \<Rightarrow> message" where
  "NewGetLocalListVersionResponse version =
     new GetLocalListVersionResponse
     [(''VersionNumber'', VInt version)]"

definition NewSendLocalListRequest_201 :: "int \<Rightarrow> string \<Rightarrow> message" where
  "NewSendLocalListRequest_201 versionNumber updateType =
     new SendLocalListRequest_201
     [(''VersionNumber'', VInt versionNumber), (''UpdateType'', VString updateType)]"

definition NewSendLocalListResponse :: "string \<Rightarrow> message" where
  "NewSendLocalListResponse st =
     new SendLocalListResponse
     [(''Status'', VString st)]"

definition GetLocalListVersionFeature_201 :: "gotype Feature" where
  "GetLocalListVersionFeature_201 = \<lparr>GetFeatureName = ''GetLocalListVersion'',
     GetRequestType = GetLocalListVersionRequest_201, GetResponseType = GetLocalListVersionResponse\<rparr>"

definition SendLocalListFeature_201 :: "gotype Feature" where
  "SendLocalListFeature_201 = \<lparr>GetFeatureName = ''SendLocalList'',
     GetRequestType = SendLocalListRequest_201, GetResponseType = SendLocalListResponse\<rparr>"

definition localauth_features_201 :: "gotype Feature list" where
  "localauth_features_201 =
     [GetLocalListVersionFeature_201,
      SendLocalListFeature_201]"

definition localauth_Profile_201 :: "gotype Profile" where
  "localauth_Profile_201 = NewProfile ''localAuthList'' localauth_features_201"

section \<open>Package \<^verbatim>\<open>meter\<close>\<close>

definition MeterValuesRequest_201 :: gotype where
  "MeterValuesRequest_201 = TStruct ''meter.MeterValuesRequest''
     [Field ''EvseID'' ''evseId'' False ''gte=0'' TInt,
      Field ''MeterValue'' ''meterValue'' False ''required,min=1,dive'' (TSlice MeterValue_201)]"

definition MeterValuesResponse :: gotype where
  "MeterValuesResponse = TStruct ''meter.MeterValuesResponse''
     []"

definition NewMeterValuesRequest_201 :: "int \<Rightarrow> goval \<Rightarrow> message" where
  "NewMeterValuesRequest_201 evseID meterValues =
     new MeterValuesRequest_201
     [(''EvseID'', VInt evseID), (''MeterValue'', meterValues)]"

definition NewMeterValuesResponse :: "message" where
  "NewMeterValuesResponse =
     new MeterValuesResponse
     []"

definition MeterValuesFeature_201 :: "gotype Feature" where
  "MeterValuesFeature_201 = \<lparr>GetFeatureName = ''MeterValues'',
     GetRequestType = MeterValuesRequest_201, GetResponseType = MeterValuesResponse\<rparr>"

definition meter_features :: "gotype Feature list" where
  "meter_features =
     [MeterValuesFeature_201]"

definition meter_Profile :: "gotype Profile" where
  "meter_Profile = NewProfile ''meter'' meter_features"

section \<open>Package \<^verbatim>\<open>remotecontrol\<close>\<close>

definition isValidRequestStartStopStatus :: "string \<Rightarrow> bool" where
  "isValidRequestStartStopStatus status \<longleftrightarrow> status \<in> set
    [''Accepted'', ''Rejected'']"

definition isValidMessageTrigger_201 :: "string \<Rightarrow> bool" where
  "isValidMessageTrigger_201 status \<longleftrightarrow> status \<in> set
    [''BootNotification'', ''LogStatusNotification'', ''FirmwareStatusNotification'',
     ''Heartbeat'', ''MeterValues'', ''SignChargingStationCertificate'',
     ''SignV2GCertificate'', ''StatusNotification'', ''TransactionEvent'',
     ''SignCombinedCertificate'', ''PublishFirmwareStatusNotification'']"

definition isValidTriggerMessageStatus_201 :: "string \<Rightarrow> bool" where
  "isValidTriggerMessageStatus_201 status \<longleftrightarrow> status \<in> set
    [''Accepted'', ''Rejected'', ''NotImplemented'']"

definition isValidUnlockStatus_201 :: "string \<Rightarrow> bool" where
  "isValidUnlockStatus_201 status \<longleftrightarrow> status \<in> set
    [''Unlocked'', ''UnlockFailed'', ''OngoingAuthorizedTransaction'',
     ''UnknownConnector'']"

definition RequestStartTransactionRequest :: gotype where
  "RequestStartTransactionRequest = TStruct ''remotecontrol.RequestStartTransactionRequest''
     [Field ''EvseID'' ''evseId'' True ''omitempty,gt=0'' (TPtr TInt),
      Field ''RemoteStartID'' ''remoteStartId'' False ''gte=0'' TInt,
      Field ''IDToken'' ''idToken'' False '''' IdToken,
      Field ''ChargingProfile'' ''chargingProfile'' True '''' (TPtr ChargingProfile_201),
      Field ''GroupIdToken'' ''groupIdToken'' True ''omitempty,dive'' (TPtr IdToken)]"

definition RequestStartTransactionResponse :: gotype where
  "RequestStartTransactionResponse = TStruct ''remotecontrol.RequestStartTransactionResponse''
     [Field ''Status'' ''status'' False ''required,requestStartStopStatus'' TString,
      Field ''TransactionID'' ''transactionId'' True ''max=36'' TString,
      Field ''StatusInfo'' ''statusInfo'' True '''' (TPtr StatusInfo)]"

definition RequestStopTransactionRequest :: gotype where
  "RequestStopTransactionRequest = TStruct ''remotecontrol.RequestStopTransactionRequest''
     [Field ''TransactionID'' ''transactionId'' False ''required,max=36'' TString]"

definition RequestStopTransactionResponse :: gotype where
  "RequestStopTransactionResponse = TStruct ''remotecontrol.RequestStopTransactionResponse''
     [Field ''Status'' ''status'' False ''required,requestStartStopStatus'' TString,
      Field ''StatusInfo'' ''statusInfo'' True '''' (TPtr StatusInfo)]"

definition TriggerMessageRequest_201 :: gotype where
  "TriggerMessageRequest_201 = TStruct ''remotecontrol.TriggerMessageRequest''
     [Field ''RequestedMessage'' ''requestedMessage'' False ''required,messageTrigger201'' TString,
      Field ''Evse'' ''evse'' True ''omitempty'' (TPtr EVSE)]"

definition TriggerMessageResponse :: gotype where
  "TriggerMessageResponse = TStruct ''remotecontrol.TriggerMessageResponse''
     [Field ''Status'' ''status'' False ''required,triggerMessageStatus201'' TString,
      Field ''StatusInfo'' ''statusInfo'' True '''' (TPtr StatusInfo)]"

definition UnlockConnectorRequest_201 :: gotype where
  "UnlockConnectorRequest_201 = TStruct ''remotecontrol.UnlockConnectorRequest''
     [Field ''EvseID'' ''evseId'' False ''gte=0'' TInt,
      Field ''ConnectorID'' ''connectorId'' False ''gte=0'' TInt]"

definition UnlockConnectorResponse :: gotype where
  "UnlockConnectorResponse = TStruct ''remotecontrol.UnlockConnectorResponse''
     [Field ''Status'' ''status'' False ''required,unlockStatus201'' TString,
      Field ''StatusInfo'' ''statusInfo'' True '''' (TPtr StatusInfo)]"

definition NewRequestStartTransactionRequest :: "int \<Rightarrow> goval \<Rightarrow> message" where
  "NewRequestStartTransactionRequest remoteStartID idToken =
     new RequestStartTransactionRequest
     [(''RemoteStartID'', VInt remoteStartID), (''IDToken'', idToken)]"

definition NewRequestStartTransactionResponse :: "string \<Rightarrow> message" where
  "NewRequestStartTransactionResponse st =
     new RequestStartTransactionResponse
     [(''Status'', VString st)]"

definition NewRequestStopTransactionRequest :: "string \<Rightarrow> message" where
  "NewRequestStopTransactionRequest transactionID =
     new RequestStopTransactionRequest
     [(''TransactionID'', VString transactionID)]"

definition NewRequestStopTransactionResponse :: "string \<Rightarrow> message" where
  "NewRequestStopTransactionResponse st =
     new RequestStopTransactionResponse
     [(''Status'', VString st)]"

definition NewTriggerMessageRequest_201 :: "string \<Rightarrow> message" where
  "NewTriggerMessageRequest_201 requestedMessage =
     new TriggerMessageRequest_201
     [(''RequestedMessage'', VString requestedMessage)]"

definition NewTriggerMessageResponse :: "string \<Rightarrow> message" where
  "NewTriggerMessageResponse st =
     new TriggerMessageResponse
     [(''Status'', VString st)]"

definition NewUnlockConnectorRequest_201 :: "int \<Rightarrow> int \<Rightarrow> message" where
  "NewUnlockConnectorRequest_201 evseID connectorID =
     new UnlockConnectorRequest_201
     [(''EvseID'', VInt evseID), (''ConnectorID'', VInt connectorID)]"

definition NewUnlockConnectorResponse :: "string \<Rightarrow> message" where
  "NewUnlockConnectorResponse st =
     new UnlockConnectorResponse
     [(''Status'', VString st)]"

definition RequestStartTransactionFeature :: "gotype Feature" where
  "RequestStartTransactionFeature = \<lparr>GetFeatureName = ''RequestStartTransaction'',
     GetRequestType = RequestStartTransactionRequest, GetResponseType = RequestStartTransactionResponse\<rparr>"

definition RequestStopTransactionFeature :: "gotype Feature" where
  "RequestStopTransactionFeature = \<lparr>GetFeatureName = ''RequestStopTransaction'',
     GetRequestType = RequestStopTransactionRequest, GetResponseType = RequestStopTransactionResponse\<rparr>"

definition TriggerMessageFeature_201 :: "gotype Feature" where
  "TriggerMessageFeature_201 = \<lparr>GetFeatureName = ''TriggerMessage'',
     GetRequestType = TriggerMessageRequest_201, GetResponseType = TriggerMessageResponse\<rparr>"

definition UnlockConnectorFeature_201 :: "gotype Feature" where
  "UnlockConnectorFeature_201 = \<lparr>GetFeatureName = ''UnlockConnector'',
     GetRequestType = UnlockConnectorRequest_201, GetResponseType = UnlockConnectorResponse\<rparr>"

definition remotecontrol_features :: "gotype Feature list" where
  "remotecontrol_features =
     [RequestStartTransactionFeature,
      RequestStopTransactionFeature,
      TriggerMessageFeature_201,
      UnlockConnectorFeature_201]"

definition remotecontrol_Profile :: "gotype Profile" where
  "remotecontrol_Profile = NewProfile ''remoteControl'' remotecontrol_features"

section \<open>Package \<^verbatim>\<open>reservation\<close>\<close>

definition isValidCancelReservationStatus_201 :: "string \<Rightarrow> bool" where
  "isValidCancelReservationStatus_201 status \<longleftrightarrow> status \<in> set
    [''Accepted'', ''Rejected'']"

definition isValidReservationUpdateStatus :: "string \<Rightarrow> bool" where
  "isValidReservationUpdateStatus status \<longleftrightarrow> status \<in> set
    [''Expired'', ''Removed'']"

definition isValidReserveNowStatus :: "string \<Rightarrow> bool" where
  "isValidReserveNowStatus status \<longleftrightarrow> status \<in> set
    [''Accepted'', ''Faulted'', ''Occupied'', ''Rejected'', ''Unavailable'']"

definition isValidConnectorType :: "string \<Rightarrow> bool" where
  "isValidConnectorType status \<longleftrightarrow> status \<in> set
    [''cCCS1'', ''cCCS2'', ''cG105'', ''cTesla'', ''cType1'', ''cType2'', ''s309-1P-16A'',
     ''s309-1P-32A'', ''s309-3P-16A'', ''s309-3P-32A'', ''sBS1361'', ''sCEE-7-7'',
     ''sType2'', ''sType3'', ''Other1PhMax16A'', ''Other1PhOver16A'', ''Other3Ph'',
     ''Pan'', ''wInductive'', ''wResonant'', ''Undetermined'', ''Unknown'']"

definition CancelReservationRequest_201 :: gotype where
  "CancelReservationRequest_201 = TStruct ''reservation.CancelReservationRequest''
     [Field ''ReservationID'' ''reservationId'' False ''gte=0'' TInt]"

definition CancelReservationResponse :: gotype where
  "CancelReservationResponse = TStruct ''reservation.CancelReservationResponse''
     [Field ''Status'' ''status'' False ''required,cancelReservationStatus201'' TString,
      Field ''StatusInfo'' ''statusInfo'' True ''omitempty'' (TPtr StatusInfo)]"

definition ReservationStatusUpdateRequest :: gotype where
  "ReservationStatusUpdateRequest = TStruct ''reservation.ReservationStatusUpdateRequest''
     [Field ''ReservationID'' ''reservationId'' False ''gte=0'' TInt,
      Field ''Status'' ''reservationUpdateStatus'' False ''required,reservationUpdateStatus'' TString]"

definition ReservationStatusUpdateResponse :: gotype where
  "ReservationStatusUpdateResponse = TStruct ''reservation.ReservationStatusUpdateResponse''
     []"

definition ReserveNowRequest_201 :: gotype where
  "ReserveNowRequest_201 = TStruct ''reservation.ReserveNowRequest''
     [Field ''ID'' ''id'' False ''gte=0'' TInt,
      Field ''ExpiryDateTime'' ''expiryDateTime'' False ''required'' (TPtr TTime),
      Field ''ConnectorType'' ''connectorType'' True ''omitempty,connectorType'' TString,
      Field ''EvseID'' ''evseId'' True ''omitempty,gte=0'' (TPtr TInt),
      Field ''IdToken'' ''idToken'' False ''required,dive'' IdToken,
      Field ''GroupIdToken'' ''groupIdToken'' True ''omitempty,dive'' (TPtr IdToken)]"

definition ReserveNowResponse :: gotype where
  "ReserveNowResponse = TStruct ''reservation.ReserveNowResponse''
     [Field ''Status'' ''status'' False ''required,reserveNowStatus'' TString,
      Field ''StatusInfo'' ''statusInfo'' True ''omitempty'' (TPtr StatusInfo)]"

definition NewCancelReservationRequest_201 :: "int \<Rightarrow> message" where
  "NewCancelReservationRequest_201 reservationId =
     new CancelReservationRequest_201
     [(''ReservationID'', VInt reservationId)]"

definition NewCancelReservationResponse :: "string \<Rightarrow> message" where
  "NewCancelReservationResponse st =
     new CancelReservationResponse
     [(''Status'', VString st)]"

definition NewReservationStatusUpdateRequest :: "int \<Rightarrow> string \<Rightarrow> message" where
  "NewReservationStatusUpdateRequest reservationID st =
     new ReservationStatusUpdateRequest
     [(''ReservationID'', VInt reservationID), (''Status'', VString st)]"

definition NewReservationStatusUpdateResponse :: "message" where
  "NewReservationStatusUpdateResponse =
     new ReservationStatusUpdateResponse
     []"

definition NewReserveNowRequest_201 :: "int \<Rightarrow> gotime option \<Rightarrow> goval \<Rightarrow> message" where
  "NewReserveNowRequest_201 ident expiryDateTime idToken =
     new ReserveNowRequest_201
     [(''ID'', VInt ident),
       (''ExpiryDateTime'', timePtr expiryDateTime),
       (''IdToken'', idToken)]"

definition NewReserveNowResponse :: "string \<Rightarrow> message" where
  "NewReserveNowResponse st =
     new ReserveNowResponse
     [(''Status'', VString st)]"

definition CancelReservationFeature_201 :: "gotype Feature" where
  "CancelReservationFeature_201 = \<lparr>GetFeatureName = ''CancelReservation'',
     GetRequestType = CancelReservationRequest_201, GetResponseType = CancelReservationResponse\<rparr>"

definition ReservationStatusUpdateFeature :: "gotype Feature" where
  "ReservationStatusUpdateFeature = \<lparr>GetFeatureName = ''ReservationStatusUpdate'',
     GetRequestType = ReservationStatusUpdateRequest, GetResponseType = ReservationStatusUpdateResponse\<rparr>"

definition ReserveNowFeature_201 :: "gotype Feature" where
  "ReserveNowFeature_201 = \<lparr>GetFeatureName = ''ReserveNow'',
     GetRequestType = ReserveNowRequest_201, GetResponseType = ReserveNowResponse\<rparr>"

definition reservation_features_201 :: "gotype Feature list" where
  "reservation_features_201 =
     [CancelReservationFeature_201,
      ReservationStatusUpdateFeature,
      ReserveNowFeature_201]"

definition reservation_Profile_201 :: "gotype Profile" where
  "reservation_Profile_201 = NewProfile ''reservation'' reservation_features_201"

section \<open>Package \<^verbatim>\<open>smartcharging\<close>\<close>

definition isValidClearChargingProfileStatus_201 :: "string \<Rightarrow> bool" where
  "isValidClearChargingProfileStatus_201 status \<longleftrightarrow> status \<in> set
    [''Accepted'', ''Unknown'']"

definition isValidGetChargingProfileStatus :: "string \<Rightarrow> bool" where
  "isValidGetChargingProfileStatus status \<longleftrightarrow> status \<in> set
    [''Accepted'', ''NoProfiles'']"

definition isValidGetCompositeScheduleStatus_201 :: "string \<Rightarrow> bool" where
  "isValidGetCompositeScheduleStatus_201 status \<longleftrightarrow> status \<in> set
    [''Accepted'', ''Rejected'']"

definition isValidEnergyTransferMode :: "string \<Rightarrow> bool" where
  "isValidEnergyTransferMode status \<longleftrightarrow> status \<in> set
    [''AC_single_phase'', ''AC_two_phase'', ''AC_three_phase'', ''DC'']"

definition isValidEVChargingNeedsStatus :: "string \<Rightarrow> bool" where
  "isValidEVChargingNeedsStatus status \<longleftrightarrow> status \<in> set
    [''Accepted'', ''Rejected'', ''Processing'']"

definition isValidChargingProfileStatus_201 :: "string \<Rightarrow> bool" where
  "isValidChargingProfileStatus_201 status \<longleftrightarrow> status \<in> set
    [''Accepted'', ''Rejected'']"

definition ClearChargingProfileType :: gotype where
  "ClearChargingProfileType = TStruct ''smartcharging.ClearChargingProfileType''
     [Field ''EvseID'' ''evseId'' True ''omitempty,gte=0'' (TPtr TInt),
      Field ''ChargingProfilePurpose'' ''chargingProfilePurpose'' True ''omitempty,chargingProfilePurpose201'' TString,
      Field ''StackLevel'' ''stackLevel'' True ''omitempty,gt=0'' (TPtr TInt)]"

definition ClearChargingProfileRequest_201 :: gotype where
  "ClearChargingProfileRequest_201 = TStruct ''smartcharging.ClearChargingProfileRequest''
     [Field ''ChargingProfileID'' ''chargingProfileId'' True ''omitempty'' (TPtr TInt),
      Field ''ChargingProfileCriteria'' ''chargingProfileCriteria'' True ''omitempty'' (TPtr ClearChargingProfileType)]"

definition ClearChargingProfileResponse :: gotype where
  "ClearChargingProfileResponse = TStruct ''smartcharging.ClearChargingProfileResponse''
     [Field ''Status'' ''status'' False ''required,clearChargingProfileStatus201'' TString,
      Field ''StatusInfo'' ''statusInfo'' True ''omitempty'' (TPtr StatusInfo)]"

definition ClearedChargingLimitRequest :: gotype where
  "ClearedChargingLimitRequest = TStruct ''smartcharging.ClearedChargingLimitRequest''
     [Field ''ChargingLimitSource'' ''chargingLimitSource'' False ''required,chargingLimitSource'' TString,
      Field ''EvseID'' ''evseId'' True ''omitempty,gte=0'' (TPtr TInt)]"

definition ClearedChargingLimitResponse :: gotype where
  "ClearedChargingLimitResponse = TStruct ''smartcharging.ClearedChargingLimitResponse''
     []"

definition ChargingProfileCriterion :: gotype where
  "ChargingProfileCriterion = TStruct ''smartcharging.ChargingProfileCriterion''
     [Field ''ChargingProfilePurpose'' ''chargingProfilePurpose'' True ''omitempty,chargingProfilePurpose201'' TString,
      Field ''StackLevel'' ''stackLevel'' True ''omitempty,gte=0'' (TPtr TInt),
      Field ''ChargingProfileID'' ''chargingProfileId'' True ''omitempty'' (TSlice TInt),
      Field ''ChargingLimitSource'' ''chargingLimitSource'' True ''omitempty,max=4,dive,chargingLimitSource'' (TSlice TString)]"

definition GetChargingProfilesRequest :: gotype where
  "GetChargingProfilesRequest = TStruct ''smartcharging.GetChargingProfilesRequest''
     [Field ''RequestID'' ''requestId'' False '''' TInt,
      Field ''EvseID'' ''evseId'' True ''omitempty,gte=0'' (TPtr TInt),
      Field ''ChargingProfile'' ''chargingProfile'' False ''required'' ChargingProfileCriterion]"

definition GetChargingProfilesResponse :: gotype where
  "GetChargingProfilesResponse = TStruct ''smartcharging.GetChargingProfilesResponse''
     [Field ''Status'' ''status'' False ''required,getChargingProfileStatus'' TString,
      Field ''StatusInfo'' ''statusInfo'' True ''omitempty'' (TPtr StatusInfo)]"

definition CompositeSchedule :: gotype where
  "CompositeSchedule = TStruct ''smartcharging.CompositeSchedule''
     [Field ''StartDateTime'' ''startDateTime'' True ''omitempty'' (TPtr TTime),
      Field ''ChargingSchedule'' ''chargingSchedule'' True ''omitempty'' (TPtr ChargingSchedule_201)]"

definition GetCompositeScheduleRequest_201 :: gotype where
  "GetCompositeScheduleRequest_201 = TStruct ''smartcharging.GetCompositeScheduleRequest''
     [Field ''Duration'' ''duration'' False ''gte=0'' TInt,
      Field ''ChargingRateUnit'' ''chargingRateUnit'' True ''omitempty,chargingRateUnit201'' TString,
      Field ''EvseID'' ''evseId'' False ''gte=0'' TInt]"

definition GetCompositeScheduleResponse :: gotype where
  "GetCompositeScheduleResponse = TStruct ''smartcharging.GetCompositeScheduleResponse''
     [Field ''Status'' ''status'' False ''required,getCompositeScheduleStatus'' TString,
      Field ''EvseID'' ''evseId'' False ''gte=0'' TInt,
      Field ''Schedule'' ''schedule'' True ''omitempty'' (TPtr CompositeSchedule)]"

definition ChargingLimit :: gotype where
  "ChargingLimit = TStruct ''smartcharging.ChargingLimit''
     [Field ''ChargingLimitSource'' ''chargingLimitSource'' False ''required,chargingLimitSource'' TString,
      Field ''IsGridCritical'' ''isGridCritical'' True ''omitempty'' (TPtr TBool)]"

definition NotifyChargingLimitRequest :: gotype where
  "NotifyChargingLimitRequest = TStruct ''smartcharging.NotifyChargingLimitRequest''
     [Field ''EvseID'' ''evseId'' True ''omitempty,gte=0'' (TPtr TInt),
      Field ''ChargingLimit'' ''chargingLimit'' False ''required'' ChargingLimit,
      Field ''ChargingSchedule'' ''chargingSchedule'' True ''omitempty,dive'' (TSlice ChargingSchedule_201)]"

definition NotifyChargingLimitResponse :: gotype where
  "NotifyChargingLimitResponse = TStruct ''smartcharging.NotifyChargingLimitResponse''
     []"

definition ACChargingParameters :: gotype where
  "ACChargingParameters = TStruct ''smartcharging.ACChargingParameters''
     [Field ''EnergyAmount'' ''energyAmount'' False ''gte=0'' TInt,
      Field ''EVMinCurrent'' ''evMinCurrent'' False ''gte=0'' TInt,
      Field ''EVMaxCurrent'' ''evMaxCurrent'' False ''gte=0'' TInt,
      Field ''EVMaxVoltage'' ''evMaxVoltage'' False ''gte=0'' TInt]"

definition DCChargingParameters :: gotype where
  "DCChargingParameters = TStruct ''smartcharging.DCChargingParameters''
     [Field ''EVMaxCurrent'' ''evMaxCurrent'' False ''gte=0'' TInt,
      Field ''EVMaxVoltage'' ''evMaxVoltage'' False ''gte=0'' TInt,
      Field ''EnergyAmount'' ''energyAmount'' True ''omitempty,gte=0'' (TPtr TInt),
      Field ''EVMaxPower'' ''evMaxPower'' True ''omitempty,gte=0'' (TPtr TInt),
      Field ''StateOfCharge'' ''stateOfCharge'' True ''omitempty,gte=0,lte=100'' (TPtr TInt),
      Field ''EVEnergyCapacity'' ''evEnergyCapacity'' True ''omitempty,gte=0'' (TPtr TInt),
      Field ''FullSoC'' ''fullSoC'' True ''omitempty,gte=0,lte=100'' (TPtr TInt),
      Field ''BulkSoC'' ''bulkSoC'' True ''omitempty,gte=0,lte=100'' (TPtr TInt)]"

definition ChargingNeeds :: gotype where
  "ChargingNeeds = TStruct ''smartcharging.ChargingNeeds''
     [Field ''RequestedEnergyTransfer'' ''requestedEnergyTransfer'' False ''required,energyTransferMode'' TString,
      Field ''DepartureTime'' ''departureTime'' True ''omitempty'' (TPtr TTime),
      Field ''ACChargingParameters'' ''acChargingParameters'' True ''omitempty,dive'' (TPtr ACChargingParameters),
      Field ''DCChargingParameters'' ''dcChargingParameters'' True ''omitempty,dive'' (TPtr DCChargingParameters)]"

definition NotifyEVChargingNeedsRequest :: gotype where
  "NotifyEVChargingNeedsRequest = TStruct ''smartcharging.NotifyEVChargingNeedsRequest''
     [Field ''MaxScheduleTuples'' ''maxScheduleTuples'' True ''omitempty,gte=0'' (TPtr TInt),
      Field ''EvseID'' ''evseId'' False ''gt=0'' TInt,
      Field ''ChargingNeeds'' ''chargingNeeds'' False ''required'' ChargingNeeds]"

definition NotifyEVChargingNeedsResponse :: gotype where
  "NotifyEVChargingNeedsResponse = TStruct ''smartcharging.NotifyEVChargingNeedsResponse''
     [Field ''Status'' ''status'' False ''required,evChargingNeedsStatus'' TString,
      Field ''StatusInfo'' ''statusInfo'' True ''omitempty,dive'' (TPtr StatusInfo)]"

definition NotifyEVChargingScheduleRequest :: gotype where
  "NotifyEVChargingScheduleRequest = TStruct ''smartcharging.NotifyEVChargingScheduleRequest''
     [Field ''TimeBase'' ''timeBase'' False ''required'' (TPtr TTime),
      Field ''EvseID'' ''evseId'' False ''gt=0'' TInt,
      Field ''ChargingSchedule'' ''chargingSchedule'' False ''required,dive'' ChargingSchedule_201]"

definition NotifyEVChargingScheduleResponse :: gotype where
  "NotifyEVChargingScheduleResponse = TStruct ''smartcharging.NotifyEVChargingScheduleResponse''
     [Field ''Status'' ''status'' False ''required,genericStatus'' TString,
      Field ''StatusInfo'' ''statusInfo'' True ''omitempty,dive'' (TPtr StatusInfo)]"

definition ReportChargingProfilesRequest :: gotype where
  "ReportChargingProfilesRequest = TStruct ''smartcharging.ReportChargingProfilesRequest''
     [Field ''RequestID'' ''requestId'' False ''gte=0'' TInt,
      Field ''ChargingLimitSource'' ''chargingLimitSource'' False ''required,chargingLimitSource'' TString,
      Field ''Tbc'' ''tbc'' True ''omitempty'' TBool,
      Field ''EvseID'' ''evseId'' False ''gte=0'' TInt,
      Field ''ChargingProfile'' ''chargingProfile'' False ''required,min=1,dive'' (TSlice ChargingProfile_201)]"

definition ReportChargingProfilesResponse :: gotype where
  "ReportChargingProfilesResponse = TStruct ''smartcharging.ReportChargingProfilesResponse''
     []"

definition SetChargingProfileRequest_201 :: gotype where
  "SetChargingProfileRequest_201 = TStruct ''smartcharging.SetChargingProfileRequest''
     [Field ''EvseID'' ''evseId'' False ''gte=0'' TInt,
      Field ''ChargingProfile'' ''chargingProfile'' False ''required'' (TPtr ChargingProfile_201)]"

definition SetChargingProfileResponse :: gotype where
  "SetChargingProfileResponse = TStruct ''smartcharging.SetChargingProfileResponse''
     [Field ''Status'' ''status'' False ''required,chargingProfileStatus201'' TString,
      Field ''StatusInfo'' ''statusInfo'' True ''omitempty'' (TPtr StatusInfo)]"

definition NewClearChargingProfileRequest_201 :: "message" where
  "NewClearChargingProfileRequest_201 =
     new ClearChargingProfileRequest_201
     []"

definition NewClearChargingProfileResponse :: "string \<Rightarrow> message" where
  "NewClearChargingProfileResponse st =
     new ClearChargingProfileResponse
     [(''Status'', VString st)]"

definition NewClearedChargingLimitRequest :: "string \<Rightarrow> message" where
  "NewClearedChargingLimitRequest chargingLimitSource =
     new ClearedChargingLimitRequest
     [(''ChargingLimitSource'', VString chargingLimitSource)]"

definition NewClearedChargingLimitResponse :: "message" where
  "NewClearedChargingLimitResponse =
     new ClearedChargingLimitResponse
     []"

definition NewGetChargingProfilesRequest :: "goval \<Rightarrow> message" where
  "NewGetChargingProfilesRequest chargingProfile =
     new GetChargingProfilesRequest
     [(''ChargingProfile'', chargingProfile)]"

definition NewGetChargingProfilesResponse :: "string \<Rightarrow> message" where
  "NewGetChargingProfilesResponse st =
     new GetChargingProfilesResponse
     [(''Status'', VString st)]"

definition NewGetCompositeScheduleRequest_201 :: "int \<Rightarrow> int \<Rightarrow> message" where
  "NewGetCompositeScheduleRequest_201 duration evseId =
     new GetCompositeScheduleRequest_201
     [(''Duration'', VInt duration), (''EvseID'', VInt evseId)]"

definition NewGetCompositeScheduleResponse :: "string \<Rightarrow> int \<Rightarrow> message" where
  "NewGetCompositeScheduleResponse st evseId =
     new GetCompositeScheduleResponse
     [(''Status'', VString st), (''EvseID'', VInt evseId)]"

definition NewNotifyChargingLimitRequest :: "goval \<Rightarrow> message" where
  "NewNotifyChargingLimitRequest chargingLimit =
     new NotifyChargingLimitRequest
     [(''ChargingLimit'', chargingLimit)]"

definition NewNotifyChargingLimitResponse :: "message" where
  "NewNotifyChargingLimitResponse =
     new NotifyChargingLimitResponse
     []"

definition NewNotifyEVChargingNeedsRequest :: "int \<Rightarrow> goval \<Rightarrow> message" where
  "NewNotifyEVChargingNeedsRequest evseID chargingNeeds =
     new NotifyEVChargingNeedsRequest
     [(''EvseID'', VInt evseID), (''ChargingNeeds'', chargingNeeds)]"

definition NewNotifyEVChargingNeedsResponse :: "string \<Rightarrow> message" where
  "NewNotifyEVChargingNeedsResponse st =
     new NotifyEVChargingNeedsResponse
     [(''Status'', VString st)]"

definition NewNotifyEVChargingScheduleRequest :: "gotime option \<Rightarrow> int \<Rightarrow> goval \<Rightarrow> message" where
  "NewNotifyEVChargingScheduleRequest timeBase evseID chargingSchedule =
     new NotifyEVChargingScheduleRequest
     [(''TimeBase'', timePtr timeBase),
       (''EvseID'', VInt evseID),
       (''ChargingSchedule'', chargingSchedule)]"

definition NewNotifyEVChargingScheduleResponse :: "string \<Rightarrow> message" where
  "NewNotifyEVChargingScheduleResponse st =
     new NotifyEVChargingScheduleResponse
     [(''Status'', VString st)]"

definition NewReportChargingProfilesRequest :: "int \<Rightarrow> string \<Rightarrow> int \<Rightarrow> goval \<Rightarrow> message" where
  "NewReportChargingProfilesRequest reqID chargingLimitSource evseID chargingProfile =
     new ReportChargingProfilesRequest
     [(''RequestID'', VInt reqID),
       (''ChargingLimitSource'', VString chargingLimitSource),
       (''EvseID'', VInt evseID),
       (''ChargingProfile'', chargingProfile)]"

definition NewReportChargingProfilesResponse :: "message" where
  "NewReportChargingProfilesResponse =
     new ReportChargingProfilesResponse
     []"

definition NewSetChargingProfileRequest_201 :: "int \<Rightarrow> goval \<Rightarrow> message" where
  "NewSetChargingProfileRequest_201 evseID chargingProfile =
     new SetChargingProfileRequest_201
     [(''EvseID'', VInt evseID), (''ChargingProfile'', chargingProfile)]"

definition NewSetChargingProfileResponse :: "string \<Rightarrow> message" where
  "NewSetChargingProfileResponse st =
     new SetChargingProfileResponse
     [(''Status'', VString st)]"

definition ClearChargingProfileFeature_201 :: "gotype Feature" where
  "ClearChargingProfileFeature_201 = \<lparr>GetFeatureName = ''ClearChargingProfile'',
     GetRequestType = ClearChargingProfileRequest_201, GetResponseType = ClearChargingProfileResponse\<rparr>"

definition ClearedChargingLimitFeature :: "gotype Feature" where
  "ClearedChargingLimitFeature = \<lparr>GetFeatureName = ''ClearedChargingLimit'',
     GetRequestType = ClearedChargingLimitRequest, GetResponseType = ClearedChargingLimitResponse\<rparr>"

definition GetChargingProfilesFeature :: "gotype Feature" where
  "GetChargingProfilesFeature = \<lparr>GetFeatureName = ''GetChargingProfiles'',
     GetRequestType = GetChargingProfilesRequest, GetResponseType = GetChargingProfilesResponse\<rparr>"

definition GetCompositeScheduleFeature_201 :: "gotype Feature" where
  "GetCompositeScheduleFeature_201 = \<lparr>GetFeatureName = ''GetCompositeSchedule'',
     GetRequestType = GetCompositeScheduleRequest_201, GetResponseType = GetCompositeScheduleResponse\<rparr>"

definition NotifyChargingLimitFeature :: "gotype Feature" where
  "NotifyChargingLimitFeature = \<lparr>GetFeatureName = ''NotifyChargingLimit'',
     GetRequestType = NotifyChargingLimitRequest, GetResponseType = NotifyChargingLimitResponse\<rparr>"

definition NotifyEVChargingNeedsFeature :: "gotype Feature" where
  "NotifyEVChargingNeedsFeature = \<lparr>GetFeatureName = ''NotifyEVChargingNeeds'',
     GetRequestType = NotifyEVChargingNeedsRequest, GetResponseType = NotifyEVChargingNeedsResponse\<rparr>"

definition NotifyEVChargingScheduleFeature :: "gotype Feature" where
  "NotifyEVChargingScheduleFeature = \<lparr>GetFeatureName = ''NotifyEVChargingSchedule'',
     GetRequestType = NotifyEVChargingScheduleRequest, GetResponseType = NotifyEVChargingScheduleResponse\<rparr>"

definition ReportChargingProfilesFeature :: "gotype Feature" where
  "ReportChargingProfilesFeature = \<lparr>GetFeatureName = ''ReportChargingProfiles'',
     GetRequestType = ReportChargingProfilesRequest, GetResponseType = ReportChargingProfilesResponse\<rparr>"

definition SetChargingProfileFeature_201 :: "gotype Feature" where
  "SetChargingProfileFeature_201 = \<lparr>GetFeatureName = ''SetChargingProfile'',
     GetRequestType = SetChargingProfileRequest_201, GetResponseType = SetChargingProfileResponse\<rparr>"

definition smartcharging_features_201 :: "gotype Feature list" where
  "smartcharging_features_201 =
     [ClearChargingProfileFeature_201,
      ClearedChargingLimitFeature,
      GetChargingProfilesFeature,
      GetCompositeScheduleFeature_201,
      NotifyChargingLimitFeature,
      NotifyEVChargingNeedsFeature,
      NotifyEVChargingScheduleFeature,
      ReportChargingProfilesFeature,
      SetChargingProfileFeature_201]"

definition smartcharging_Profile_201 :: "gotype Profile" where
  "smartcharging_Profile_201 = NewProfile ''smartCharging'' smartcharging_features_201"

section \<open>Package \<^verbatim>\<open>tariffcost\<close>\<close>

definition CostUpdatedRequest :: gotype where
  "CostUpdatedRequest = TStruct ''tariffcost.CostUpdatedRequest''
     [Field ''TotalCost'' ''totalCost'' False ''required'' TFloat,
      Field ''TransactionID'' ''transactionId'' False ''required,max=36'' TString]"

definition CostUpdatedResponse :: gotype where
  "CostUpdatedResponse = TStruct ''tariffcost.CostUpdatedResponse''
     []"

definition NewCostUpdatedRequest :: "goval \<Rightarrow> string \<Rightarrow> message" where
  "NewCostUpdatedRequest totalCost transactionID =
     new CostUpdatedRequest
     [(''TotalCost'', totalCost), (''TransactionID'', VString transactionID)]"

definition NewCostUpdatedResponse :: "message" where
  "NewCostUpdatedResponse =
     new CostUpdatedResponse
     []"

definition CostUpdatedFeature :: "gotype Feature" where
  "CostUpdatedFeature = \<lparr>GetFeatureName = ''CostUpdated'',
     GetRequestType = CostUpdatedRequest, GetResponseType = CostUpdatedResponse\<rparr>"

definition tariffcost_features :: "gotype Feature list" where
  "tariffcost_features =
     [CostUpdatedFeature]"

definition tariffcost_Profile :: "gotype Profile" where
  "tariffcost_Profile = NewProfile ''tariffCost'' tariffcost_features"

section \<open>Package \<^verbatim>\<open>transactions\<close>\<close>

definition isValidTransactionEvent :: "string \<Rightarrow> bool" where
  "isValidTransactionEvent status \<longleftrightarrow> status \<in> set
    [''Started'', ''Updated'', ''Ended'']"

definition isValidTriggerReason :: "string \<Rightarrow> bool" where
  "isValidTriggerReason status \<longleftrightarrow> status \<in> set
    [''Authorized'', ''CablePluggedIn'', ''ChargingRateChanged'',
     ''ChargingStateChanged'', ''Deauthorized'', ''EnergyLimitReached'',
     ''EVCommunicationLost'', ''EVConnectTimeout'', ''MeterValueClock'',
     ''MeterValuePeriodic'', ''TimeLimitReached'', ''Trigger'', ''UnlockCommand'',
     ''StopAuthorized'', ''EVDeparted'', ''EVDetected'', ''RemoteStop'', ''RemoteStart'',
     ''AbnormalCondition'', ''SignedDataReceived'', ''ResetCommand'']"

definition isValidChargingState :: "string \<Rightarrow> bool" where
  "isValidChargingState status \<longleftrightarrow> status \<in> set
    [''Charging'', ''EVConnected'', ''SuspendedEV'', ''SuspendedEVSE'', ''Idle'']"

definition isValidReason_201 :: "string \<Rightarrow> bool" where
  "isValidReason_201 status \<longleftrightarrow> status \<in> set
    [''DeAuthorized'', ''EmergencyStop'', ''EnergyLimitReached'', ''EVDisconnected'',
     ''GroundFault'', ''ImmediateReset'', ''Local'', ''LocalOutOfCredit'', ''MasterPass'',
     ''Other'', ''OvercurrentFault'', ''PowerLoss'', ''PowerQuality'', ''Reboot'',
     ''Remote'', ''SOCLimitReached'', ''StoppedByEV'', ''TimeLimitReached'', ''Timeout'']"

definition GetTransactionStatusRequest :: gotype where
  "GetTransactionStatusRequest = TStruct ''transactions.GetTransactionStatusRequest''
     [Field ''TransactionID'' ''transactionId'' True ''omitempty,max=36'' TString]"

definition GetTransactionStatusResponse :: gotype where
  "GetTransactionStatusResponse = TStruct ''transactions.GetTransactionStatusResponse''
     [Field ''OngoingIndicator'' ''ongoingIndicator'' True ''omitempty'' (TPtr TBool),
      Field ''MessagesInQueue'' ''messagesInQueue'' False '''' TBool]"

definition Transaction :: gotype where
  "Transaction = TStruct ''transactions.Transaction''
     [Field ''TransactionID'' ''transactionId'' False ''required,max=36'' TString,
      Field ''ChargingState'' ''chargingState'' True ''omitempty,chargingState'' TString,
      Field ''TimeSpentCharging'' ''timeSpentCharging'' True ''omitempty'' (TPtr TInt),
      Field ''StoppedReason'' ''stoppedReason'' True ''omitempty,stoppedReason'' TString,
      Field ''RemoteStartID'' ''remoteStartId'' True ''omitempty'' (TPtr TInt)]"

definition TransactionEventRequest :: gotype where
  "TransactionEventRequest = TStruct ''transactions.TransactionEventRequest''
     [Field ''EventType'' ''eventType'' False ''required,transactionEvent'' TString,
      Field ''Timestamp'' ''timestamp'' False ''required'' (TPtr TTime),
      Field ''TriggerReason'' ''triggerReason'' False ''required,triggerReason'' TString,
      Field ''SequenceNo'' ''seqNo'' False ''gte=0'' TInt,
      Field ''Offline'' ''offline'' True '''' TBool,
      Field ''NumberOfPhasesUsed'' ''numberOfPhasesUsed'' True ''omitempty,gte=0'' (TPtr TInt),
      Field ''CableMaxCurrent'' ''cableMaxCurrent'' True '''' (TPtr TInt),
      Field ''ReservationID'' ''reservationId'' True '''' (TPtr TInt),
      Field ''TransactionInfo'' ''transactionInfo'' False ''required'' Transaction,
      Field ''IDToken'' ''idToken'' True ''omitempty,dive'' (TPtr IdToken),
      Field ''Evse'' ''evse'' True ''omitempty'' (TPtr EVSE),
      Field ''MeterValue'' ''meterValue'' True ''omitempty,dive'' (TSlice MeterValue_201)]"

definition TransactionEventResponse :: gotype where
  "TransactionEventResponse = TStruct ''transactions.TransactionEventResponse''
     [Field ''TotalCost'' ''totalCost'' True ''omitempty,gte=0'' (TPtr TFloat),
      Field ''ChargingPriority'' ''chargingPriority'' True ''omitempty,min=-9,max=9'' (TPtr TInt),
      Field ''IDTokenInfo'' ''idTokenInfo'' True ''omitempty'' (TPtr IdTokenInfo),
      Field ''UpdatedPersonalMessage'' ''updatedPersonalMessage'' True ''omitempty'' (TPtr MessageContent)]"

definition NewGetTransactionStatusRequest :: "message" where
  "NewGetTransactionStatusRequest =
     new GetTransactionStatusRequest
     []"

definition NewGetTransactionStatusResponse :: "bool \<Rightarrow> message" where
  "NewGetTransactionStatusResponse messagesInQueue =
     new GetTransactionStatusResponse
     [(''MessagesInQueue'', VBool messagesInQueue)]"

definition NewTransactionEventRequest :: "string \<Rightarrow> gotime option \<Rightarrow> string \<Rightarrow> int \<Rightarrow> goval \<Rightarrow> message" where
  "NewTransactionEventRequest t timestamp rsn seqNo info =
     new TransactionEventRequest
     [(''EventType'', VString t),
       (''Timestamp'', timePtr timestamp),
       (''TriggerReason'', VString rsn),
       (''SequenceNo'', VInt seqNo),
       (''TransactionInfo'', info)]"

definition NewTransactionEventResponse :: "message" where
  "NewTransactionEventResponse =
     new TransactionEventResponse
     []"

definition GetTransactionStatusFeature :: "gotype Feature" where
  "GetTransactionStatusFeature = \<lparr>GetFeatureName = ''GetTransactionStatus'',
     GetRequestType = GetTransactionStatusRequest, GetResponseType = GetTransactionStatusResponse\<rparr>"

definition TransactionEventFeature :: "gotype Feature" where
  "TransactionEventFeature = \<lparr>GetFeatureName = ''TransactionEvent'',
     GetRequestType = TransactionEventRequest, GetResponseType = TransactionEventResponse\<rparr>"

definition transactions_features :: "gotype Feature list" where
  "transactions_features =
     [GetTransactionStatusFeature,
      TransactionEventFeature]"

definition transactions_Profile :: "gotype Profile" where
  "transactions_Profile = NewProfile ''transactions'' transactions_features"

end
