(* ===== verification/Codec201.thy ===== *)
theory Codec201
  imports Management201 Charging201 Codec16
begin

text \<open>
  What the endpoints use of the OCPP 2.0.1 messages: the registered validation functions, the
  features of the sixteen profiles, and the payload codec of these features. OCPP 1.6 is
  imported because the packages of both versions register their validations at one validator,
  \<^verbatim>\<open>ocppj.Validate\<close>.
\<close>

section \<open>Registered validations\<close>

definition types_validators_201 :: "(string \<times> (string \<Rightarrow> bool)) list" where
  "types_validators_201 =
     [(''idTokenType'', isValidIdTokenType),
      (''genericDeviceModelStatus'', isValidGenericDeviceModelStatus),
      (''genericStatus'', isValidGenericStatus),
      (''hashAlgorithm'', isValidHashAlgorithmType),
      (''messageFormat'', isValidMessageFormatType),
      (''authorizationStatus201'', isValidAuthorizationStatus_201),
      (''attribute'', isValidAttribute),
      (''chargingProfilePurpose201'', isValidChargingProfilePurpose_201),
      (''chargingProfileKind201'', isValidChargingProfileKind_201),
      (''recurrencyKind201'', isValidRecurrencyKind_201),
      (''chargingRateUnit201'', isValidChargingRateUnit_201),
      (''chargingLimitSource'', isValidChargingLimitSource),
      (''remoteStartStopStatus201'', isValidRemoteStartStopStatus_201),
      (''readingContext201'', isValidReadingContext_201),
      (''measurand201'', isValidMeasurand_201),
      (''phase201'', isValidPhase_201),
      (''location201'', isValidLocation_201),
      (''signatureMethod'', isValidSignatureMethod),
      (''encodingMethod'', isValidEncodingMethod),
      (''certificateSigningUse'', isValidCertificateSigningUse),
      (''certificateUse'', isValidCertificateUse),
      (''15118EVCertificate'', isValidCertificate15118EVStatus),
      (''costKind'', isValidCostKind)]"

text \<open>The registrations in the \<^verbatim>\<open>init\<close> functions of the message packages.\<close>

definition management_validators :: "(string \<times> (string \<Rightarrow> bool)) list" where
  "management_validators =
     [(''registrationStatus201'', isValidRegistrationStatus_201),
      (''bootReason'', isValidBootReason),
      (''reportBaseType'', isValidReportBaseType),
      (''componentCriterion'', isValidComponentCriterion),
      (''getVariableStatus'', isValidGetVariableStatus),
      (''mutability'', isValidMutability),
      (''dataTypeEnum'', isValidDataType),
      (''resetType201'', isValidResetType_201),
      (''resetStatus201'', isValidResetStatus_201),
      (''ocppVersion'', isValidOCPPVersion),
      (''ocppTransport'', isValidOCPPTransport),
      (''ocppInterface'', isValidOCPPInterface),
      (''vpnType'', isValidVPNType),
      (''apnAuthentication'', isValidAPNAuthentication),
      (''setNetworkProfileStatus'', isValidSetNetworkProfileStatus),
      (''setVariableStatus'', isValidSetVariableStatus),
      (''operationalStatus'', isValidOperationalStatus),
      (''changeAvailabilityStatus'', isValidChangeAvailabilityStatus),
      (''connectorStatus'', isValidConnectorStatus),
      (''certificateSignedStatus'', isValidCertificateSignedStatus),
      (''deleteCertificateStatus'', isValidDeleteCertificateStatus),
      (''certificateAction'', isValidCertificateAction),
      (''getInstalledCertificateStatus'', isValidGetInstalledCertificateStatus),
      (''installCertificateStatus'', isValidInstallCertificateStatus),
      (''firmwareStatus201'', isValidFirmwareStatus_201),
      (''publishFirmwareStatus'', isValidPublishFirmwareStatus),
      (''unpublishFirmwareStatus'', isValidUnpublishFirmwareStatus),
      (''updateFirmwareStatus'', isValidUpdateFirmwareStatus),
      (''clearMonitoringStatus'', isValidClearMonitoringStatus),
      (''customerInformationStatus'', isValidCustomerInformationStatus),
      (''logType'', isValidLogType),
      (''logStatus'', isValidLogStatus),
      (''monitoringCriteria'', isValidMonitoringCriteriaType),
      (''uploadLogStatus'', isValidUploadLogStatus),
      (''eventTrigger'', isValidEventTrigger),
      (''eventNotification'', isValidEventNotification),
      (''monitoringBase'', isValidMonitoringBase),
      (''monitoringBase'', isValidMonitoringBase),
      (''setMonitoringStatus'', isValidSetMonitoringStatus),
      (''monitorType'', isValidMonitorType),
      (''clearMessageStatus'', isValidClearMessageStatus),
      (''displayMessageStatus'', isValidDisplayMessageStatus),
      (''messagePriority'', isValidMessagePriority),
      (''messageState'', isValidMessageState),
      (''messageStatus'', isValidMessageStatus),
      (''dataTransferStatus201'', isValidDataTransferStatus_201)]"

definition charging_validators :: "(string \<times> (string \<Rightarrow> bool)) list" where
  "charging_validators =
     [(''authorizeCertificateStatus'', isValidAuthorizeCertificateStatus),
      (''cacheStatus201'', isValidClearCacheStatus_201),
      (''updateType201'', isValidUpdateType_201),
      (''sendLocalListStatus'', isValidSendLocalListStatus),
      (''requestStartStopStatus'', isValidRequestStartStopStatus),
      (''messageTrigger201'', isValidMessageTrigger_201),
      (''triggerMessageStatus201'', isValidTriggerMessageStatus_201),
      (''unlockStatus201'', isValidUnlockStatus_201),
      (''cancelReservationStatus201'', isValidCancelReservationStatus_201),
      (''reservationUpdateStatus'', isValidReservationUpdateStatus),
      (''reserveNowStatus'', isValidReserveNowStatus),
      (''connectorType'', isValidConnectorType),
      (''clearChargingProfileStatus201'', isValidClearChargingProfileStatus_201),
      (''getChargingProfileStatus'', isValidGetChargingProfileStatus),
      (''getCompositeScheduleStatus'', isValidGetCompositeScheduleStatus_201),
      (''energyTransferMode'', isValidEnergyTransferMode),
      (''evChargingNeedsStatus'', isValidEVChargingNeedsStatus),
      (''chargingProfileStatus201'', isValidChargingProfileStatus_201),
      (''transactionEvent'', isValidTransactionEvent),
      (''triggerReason'', isValidTriggerReason),
      (''chargingState'', isValidChargingState),
      (''stoppedReason'', isValidReason_201)]"

definition validators201 :: "(string \<times> (string \<Rightarrow> bool)) list" where
  "validators201 = types_validators_201 @ management_validators @ charging_validators"

text \<open>The struct-level validations: whether an error is reported.\<close>

definition idTokenMissing :: "goval \<Rightarrow> bool" where
  "idTokenMissing token =
     (case token of
        VStruct vs \<Rightarrow>
          fieldOf ''Type'' vs \<in> VString ` set [''Central'', ''eMAID'', ''ISO14443'', ''ISO15693'', ''KeyCode'', ''Local'',
            ''MacAddress''] \<and>
          fieldOf ''IdToken'' vs = VString ''''
      | _ \<Rightarrow> False)"

definition isValidIdToken :: "goval \<Rightarrow> bool" where
  "isValidIdToken idToken = idTokenMissing idToken"

definition isValidGroupIdToken :: "goval \<Rightarrow> bool" where
  "isValidGroupIdToken groupIdToken = idTokenMissing groupIdToken"

definition validateHeartbeatResponse :: "goval \<Rightarrow> bool" where
  "validateHeartbeatResponse response =
     DateTimeIsNull (case response of
         VStruct vs \<Rightarrow> (case fieldOf ''CurrentTime'' vs of VTime t \<Rightarrow> Some t | _ \<Rightarrow> None)
       | _ \<Rightarrow> None)"

section \<open>Features and profiles\<close>

definition profiles201 :: "gotype Profile list" where
  "profiles201 =
     [authorization_Profile, availability_Profile, data_Profile, diagnostics_Profile,
      display_Profile, firmware_Profile_201, iso15118_Profile, localauth_Profile_201,
      meter_Profile, provisioning_Profile, remotecontrol_Profile, reservation_Profile_201,
      security_Profile, smartcharging_Profile_201, tariffcost_Profile, transactions_Profile]"

definition features201 :: "gotype Feature list" where
  "features201 =
     authorization_features @ availability_features @ data_features @ diagnostics_features @
     display_features @ firmware_features_201 @ iso15118_features @ localauth_features_201 @
     meter_features @ provisioning_features @ remotecontrol_features @
     reservation_features_201 @ security_features @ smartcharging_features_201 @
     tariffcost_features @ transactions_features"

definition lib201 ::
  "(string \<Rightarrow> string + gotime) \<Rightarrow> (message Message \<Rightarrow> field_error list) \<Rightarrow> (field_error list \<Rightarrow> string) \<Rightarrow>
   (gotype, message) lib" where
  "lib201 = codecLib features201"

text \<open>The message packages keep what the endpoints rely on.\<close>

lemma types201_ok: "list_all (typeOk (trieOf (builtinTags @ map fst validators201))) (typesOf features201)"
  by code_simp

lemma types201_names: "distinct (map structName (typesOf features201))"
  by (rule distinctStr) code_simp

lemma features201_names: "distinct (map GetFeatureName features201)"
  by (rule distinctStr) code_simp

text \<open>The profiles by name, with their features.\<close>

definition groups201 :: "(string \<times> gotype Feature list) list" where
  "groups201 =
     [(''authorization'', authorization_features), (''availability'', availability_features),
    (''data'', data_features), (''diagnostics'', diagnostics_features),
    (''display'', display_features), (''firmware'', firmware_features_201),
    (''iso15118'', iso15118_features), (''localAuthList'', localauth_features_201),
    (''meter'', meter_features), (''provisioning'', provisioning_features),
    (''remoteControl'', remotecontrol_features),
    (''reservation'', reservation_features_201), (''security'', security_features),
    (''smartCharging'', smartcharging_features_201), (''tariffCost'', tariffcost_features),
    (''transactions'', transactions_features)]"

lemma profiles201_groups: "profiles201 = map (\<lambda>(n, fs). NewProfile n fs) groups201"
  by (simp add: profiles201_def groups201_def authorization_Profile_def availability_Profile_def data_Profile_def
      diagnostics_Profile_def display_Profile_def firmware_Profile_201_def
      iso15118_Profile_def localauth_Profile_201_def meter_Profile_def
      provisioning_Profile_def remotecontrol_Profile_def reservation_Profile_201_def
      security_Profile_def smartcharging_Profile_201_def tariffcost_Profile_def
      transactions_Profile_def)

lemma features201_groups: "features201 = concat (map snd groups201)"
  by (simp add: features201_def groups201_def)

lemma profiles201_features: "list_all (registeredIn profiles201) features201"
  using registeredIn_profiles[OF profiles201_groups] features201_names features201_groups by simp

interpretation msgs201: message_set features201 profiles201
  using typeOk_all[OF types201_ok] types201_names profiles201_features by unfold_locales simp_all

section \<open>Properties\<close>


definition demo_boot201 :: goval where
  "demo_boot201 = snd (NewBootNotificationResponse (Some demo_time) 300 ''Accepted'')"

lemma demo_boot201_facts:
  "wt BootNotificationResponse demo_boot201"
  "faithful demo_parse BootNotificationResponse demo_boot201"
  "BootNotificationResponse = GetResponseType BootNotificationFeature_201"
  "BootNotificationFeature_201 \<in> set provisioning_features"
  "encode BootNotificationResponse demo_boot201 =
     JObj [(''currentTime'', JStr ''2023-11-14T22:13:20Z''), (''interval'', JNum 300 0),
       (''status'', JStr ''Accepted'')]"
  by code_simp+


text \<open>
  C33: No message type of either version names an undefined validation tag, on which the validator
  package would panic: every tag, also in nested structs, is built in or registered by an \<^verbatim>\<open>init\<close>
  function of the packages of its version. A program may link both versions, which share one
  validator: no tag of one version is registered by the other, so the order in which Go runs the
  \<^verbatim>\<open>init\<close> functions does not matter. Within OCPP 2.0.1 just \<^verbatim>\<open>monitoringBase\<close> is registered twice.
\<close>

theorem tags_defined:
  "list_all (\<lambda>t. list_all (\<lambda>tag. tag \<in> set (builtinTags @ map fst validators16)) (allTags t)) (typesOf features16) \<and>
   list_all (\<lambda>t. list_all (\<lambda>tag. tag \<in> set (builtinTags @ map fst validators201)) (allTags t)) (typesOf features201) \<and>
   distinct (builtinTags @ map fst validators16 @ remove1 ''monitoringBase'' (map fst validators201))"
proof -
  have "distinct (builtinTags @ map fst validators16 @ remove1 ''monitoringBase'' (map fst validators201))"
    by (rule distinctStr) code_simp
  with typeOk_all(3)[OF types16_ok] typeOk_all(3)[OF types201_ok] show ?thesis by simp
qed

end
