(* ===== verification/Facade201.thy ===== *)
theory Facade201
  imports Codec201 Facade16
begin

text \<open>
  What the charging station and the CSMS of OCPP 2.0.1 (\<^verbatim>\<open>ocpp2.0.1/charging_station.go\<close> and
  \<^verbatim>\<open>ocpp2.0.1/csms.go\<close>) have in common besides what they share with OCPP 1.6: the sixteen handler
  interfaces, one per profile, and how a table of actions must fit the registered features.
\<close>

section \<open>Handler interfaces\<close>

datatype handlerKind201 =
    Authorization | Availability | Data | Diagnostics | Display | FirmwareK | ISO15118 |
    LocalAuthListK | Meter | Provisioning | RemoteControl | ReservationK | Security |
    SmartChargingK | TariffCost | Transactions

text \<open>The switch over \<^verbatim>\<open>profile.Name\<close>; other names are not checked.\<close>

definition profileKind201 :: "string \<Rightarrow> handlerKind201 option" where
  "profileKind201 name =
     (if name = ''authorization'' then Some Authorization
      else if name = ''availability'' then Some Availability
      else if name = ''data'' then Some Data
      else if name = ''diagnostics'' then Some Diagnostics
      else if name = ''display'' then Some Display
      else if name = ''firmware'' then Some FirmwareK
      else if name = ''iso15118'' then Some ISO15118
      else if name = ''localAuthList'' then Some LocalAuthListK
      else if name = ''meter'' then Some Meter
      else if name = ''provisioning'' then Some Provisioning
      else if name = ''remoteControl'' then Some RemoteControl
      else if name = ''reservation'' then Some ReservationK
      else if name = ''security'' then Some Security
      else if name = ''smartCharging'' then Some SmartChargingK
      else if name = ''tariffCost'' then Some TariffCost
      else if name = ''transactions'' then Some Transactions
      else None)"

section \<open>Features by handler\<close>

fun featuresOf :: "handlerKind201 \<Rightarrow> gotype Feature list" where
  "featuresOf Authorization = authorization_features"
| "featuresOf Availability = availability_features"
| "featuresOf Data = data_features"
| "featuresOf Diagnostics = diagnostics_features"
| "featuresOf Display = display_features"
| "featuresOf FirmwareK = firmware_features_201"
| "featuresOf ISO15118 = iso15118_features"
| "featuresOf LocalAuthListK = localauth_features_201"
| "featuresOf Meter = meter_features"
| "featuresOf Provisioning = provisioning_features"
| "featuresOf RemoteControl = remotecontrol_features"
| "featuresOf ReservationK = reservation_features_201"
| "featuresOf Security = security_features"
| "featuresOf SmartChargingK = smartcharging_features_201"
| "featuresOf TariffCost = tariffcost_features"
| "featuresOf Transactions = transactions_features"

lemma features201_simps:
  "GetFeatureName AuthorizeFeature_201 = ''Authorize''" "GetRequestType AuthorizeFeature_201 = AuthorizeRequest_201"
  "GetFeatureName ClearCacheFeature_201 = ''ClearCache''" "GetRequestType ClearCacheFeature_201 = ClearCacheRequest_201"
  "GetFeatureName ChangeAvailabilityFeature_201 = ''ChangeAvailability''" "GetRequestType ChangeAvailabilityFeature_201 = ChangeAvailabilityRequest_201"
  "GetFeatureName HeartbeatFeature_201 = ''Heartbeat''" "GetRequestType HeartbeatFeature_201 = HeartbeatRequest_201"
  "GetFeatureName StatusNotificationFeature_201 = ''StatusNotification''" "GetRequestType StatusNotificationFeature_201 = StatusNotificationRequest_201"
  "GetFeatureName DataTransferFeature_201 = ''DataTransfer''" "GetRequestType DataTransferFeature_201 = DataTransferRequest_201"
  "GetFeatureName ClearVariableMonitoringFeature = ''ClearVariableMonitoring''" "GetRequestType ClearVariableMonitoringFeature = ClearVariableMonitoringRequest"
  "GetFeatureName CustomerInformationFeature = ''CustomerInformation''" "GetRequestType CustomerInformationFeature = CustomerInformationRequest"
  "GetFeatureName GetLogFeature = ''GetLog''" "GetRequestType GetLogFeature = GetLogRequest"
  "GetFeatureName GetMonitoringReportFeature = ''GetMonitoringReport''" "GetRequestType GetMonitoringReportFeature = GetMonitoringReportRequest"
  "GetFeatureName LogStatusNotificationFeature = ''LogStatusNotification''" "GetRequestType LogStatusNotificationFeature = LogStatusNotificationRequest"
  "GetFeatureName NotifyCustomerInformationFeature = ''NotifyCustomerInformation''" "GetRequestType NotifyCustomerInformationFeature = NotifyCustomerInformationRequest"
  "GetFeatureName NotifyEventFeature = ''NotifyEvent''" "GetRequestType NotifyEventFeature = NotifyEventRequest"
  "GetFeatureName NotifyMonitoringReportFeature = ''NotifyMonitoringReport''" "GetRequestType NotifyMonitoringReportFeature = NotifyMonitoringReportRequest"
  "GetFeatureName SetMonitoringBaseFeature = ''SetMonitoringBase''" "GetRequestType SetMonitoringBaseFeature = SetMonitoringBaseRequest"
  "GetFeatureName SetMonitoringLevelFeature = ''SetMonitoringLevel''" "GetRequestType SetMonitoringLevelFeature = SetMonitoringLevelRequest"
  "GetFeatureName SetVariableMonitoringFeature = ''SetVariableMonitoring''" "GetRequestType SetVariableMonitoringFeature = SetVariableMonitoringRequest"
  "GetFeatureName ClearDisplayFeature = ''ClearDisplayMessage''" "GetRequestType ClearDisplayFeature = ClearDisplayRequest"
  "GetFeatureName GetDisplayMessagesFeature = ''GetDisplayMessages''" "GetRequestType GetDisplayMessagesFeature = GetDisplayMessagesRequest"
  "GetFeatureName NotifyDisplayMessagesFeature = ''NotifyDisplayMessages''" "GetRequestType NotifyDisplayMessagesFeature = NotifyDisplayMessagesRequest"
  "GetFeatureName SetDisplayMessageFeature = ''SetDisplayMessage''" "GetRequestType SetDisplayMessageFeature = SetDisplayMessageRequest"
  "GetFeatureName FirmwareStatusNotificationFeature_201 = ''FirmwareStatusNotification''" "GetRequestType FirmwareStatusNotificationFeature_201 = FirmwareStatusNotificationRequest_201"
  "GetFeatureName PublishFirmwareFeature = ''PublishFirmware''" "GetRequestType PublishFirmwareFeature = PublishFirmwareRequest"
  "GetFeatureName PublishFirmwareStatusNotificationFeature = ''PublishFirmwareStatusNotification''" "GetRequestType PublishFirmwareStatusNotificationFeature = PublishFirmwareStatusNotificationRequest"
  "GetFeatureName UnpublishFirmwareFeature = ''UnpublishFirmware''" "GetRequestType UnpublishFirmwareFeature = UnpublishFirmwareRequest"
  "GetFeatureName UpdateFirmwareFeature_201 = ''UpdateFirmware''" "GetRequestType UpdateFirmwareFeature_201 = UpdateFirmwareRequest_201"
  "GetFeatureName DeleteCertificateFeature = ''DeleteCertificate''" "GetRequestType DeleteCertificateFeature = DeleteCertificateRequest"
  "GetFeatureName Get15118EVCertificateFeature = ''Get15118EVCertificate''" "GetRequestType Get15118EVCertificateFeature = Get15118EVCertificateRequest"
  "GetFeatureName GetCertificateStatusFeature = ''GetCertificateStatus''" "GetRequestType GetCertificateStatusFeature = GetCertificateStatusRequest"
  "GetFeatureName GetInstalledCertificateIdsFeature = ''GetInstalledCertificateIds''" "GetRequestType GetInstalledCertificateIdsFeature = GetInstalledCertificateIdsRequest"
  "GetFeatureName InstallCertificateFeature = ''InstallCertificate''" "GetRequestType InstallCertificateFeature = InstallCertificateRequest"
  "GetFeatureName GetLocalListVersionFeature_201 = ''GetLocalListVersion''" "GetRequestType GetLocalListVersionFeature_201 = GetLocalListVersionRequest_201"
  "GetFeatureName SendLocalListFeature_201 = ''SendLocalList''" "GetRequestType SendLocalListFeature_201 = SendLocalListRequest_201"
  "GetFeatureName MeterValuesFeature_201 = ''MeterValues''" "GetRequestType MeterValuesFeature_201 = MeterValuesRequest_201"
  "GetFeatureName BootNotificationFeature_201 = ''BootNotification''" "GetRequestType BootNotificationFeature_201 = BootNotificationRequest_201"
  "GetFeatureName GetBaseReportFeature = ''GetBaseReport''" "GetRequestType GetBaseReportFeature = GetBaseReportRequest"
  "GetFeatureName GetReportFeature = ''GetReport''" "GetRequestType GetReportFeature = GetReportRequest"
  "GetFeatureName GetVariablesFeature = ''GetVariables''" "GetRequestType GetVariablesFeature = GetVariablesRequest"
  "GetFeatureName NotifyReportFeature = ''NotifyReport''" "GetRequestType NotifyReportFeature = NotifyReportRequest"
  "GetFeatureName ResetFeature_201 = ''Reset''" "GetRequestType ResetFeature_201 = ResetRequest_201"
  "GetFeatureName SetNetworkProfileFeature = ''SetNetworkProfile''" "GetRequestType SetNetworkProfileFeature = SetNetworkProfileRequest"
  "GetFeatureName SetVariablesFeature = ''SetVariables''" "GetRequestType SetVariablesFeature = SetVariablesRequest"
  "GetFeatureName RequestStartTransactionFeature = ''RequestStartTransaction''" "GetRequestType RequestStartTransactionFeature = RequestStartTransactionRequest"
  "GetFeatureName RequestStopTransactionFeature = ''RequestStopTransaction''" "GetRequestType RequestStopTransactionFeature = RequestStopTransactionRequest"
  "GetFeatureName TriggerMessageFeature_201 = ''TriggerMessage''" "GetRequestType TriggerMessageFeature_201 = TriggerMessageRequest_201"
  "GetFeatureName UnlockConnectorFeature_201 = ''UnlockConnector''" "GetRequestType UnlockConnectorFeature_201 = UnlockConnectorRequest_201"
  "GetFeatureName CancelReservationFeature_201 = ''CancelReservation''" "GetRequestType CancelReservationFeature_201 = CancelReservationRequest_201"
  "GetFeatureName ReservationStatusUpdateFeature = ''ReservationStatusUpdate''" "GetRequestType ReservationStatusUpdateFeature = ReservationStatusUpdateRequest"
  "GetFeatureName ReserveNowFeature_201 = ''ReserveNow''" "GetRequestType ReserveNowFeature_201 = ReserveNowRequest_201"
  "GetFeatureName CertificateSignedFeature = ''CertificateSigned''" "GetRequestType CertificateSignedFeature = CertificateSignedRequest"
  "GetFeatureName SecurityEventNotificationFeature = ''SecurityEventNotification''" "GetRequestType SecurityEventNotificationFeature = SecurityEventNotificationRequest"
  "GetFeatureName SignCertificateFeature = ''SignCertificate''" "GetRequestType SignCertificateFeature = SignCertificateRequest"
  "GetFeatureName ClearChargingProfileFeature_201 = ''ClearChargingProfile''" "GetRequestType ClearChargingProfileFeature_201 = ClearChargingProfileRequest_201"
  "GetFeatureName ClearedChargingLimitFeature = ''ClearedChargingLimit''" "GetRequestType ClearedChargingLimitFeature = ClearedChargingLimitRequest"
  "GetFeatureName GetChargingProfilesFeature = ''GetChargingProfiles''" "GetRequestType GetChargingProfilesFeature = GetChargingProfilesRequest"
  "GetFeatureName GetCompositeScheduleFeature_201 = ''GetCompositeSchedule''" "GetRequestType GetCompositeScheduleFeature_201 = GetCompositeScheduleRequest_201"
  "GetFeatureName NotifyChargingLimitFeature = ''NotifyChargingLimit''" "GetRequestType NotifyChargingLimitFeature = NotifyChargingLimitRequest"
  "GetFeatureName NotifyEVChargingNeedsFeature = ''NotifyEVChargingNeeds''" "GetRequestType NotifyEVChargingNeedsFeature = NotifyEVChargingNeedsRequest"
  "GetFeatureName NotifyEVChargingScheduleFeature = ''NotifyEVChargingSchedule''" "GetRequestType NotifyEVChargingScheduleFeature = NotifyEVChargingScheduleRequest"
  "GetFeatureName ReportChargingProfilesFeature = ''ReportChargingProfiles''" "GetRequestType ReportChargingProfilesFeature = ReportChargingProfilesRequest"
  "GetFeatureName SetChargingProfileFeature_201 = ''SetChargingProfile''" "GetRequestType SetChargingProfileFeature_201 = SetChargingProfileRequest_201"
  "GetFeatureName CostUpdatedFeature = ''CostUpdated''" "GetRequestType CostUpdatedFeature = CostUpdatedRequest"
  "GetFeatureName GetTransactionStatusFeature = ''GetTransactionStatus''" "GetRequestType GetTransactionStatusFeature = GetTransactionStatusRequest"
  "GetFeatureName TransactionEventFeature = ''TransactionEvent''" "GetRequestType TransactionEventFeature = TransactionEventRequest"
  by (simp_all add: AuthorizeFeature_201_def ClearCacheFeature_201_def ChangeAvailabilityFeature_201_def
      HeartbeatFeature_201_def StatusNotificationFeature_201_def DataTransferFeature_201_def
      ClearVariableMonitoringFeature_def CustomerInformationFeature_def GetLogFeature_def
      GetMonitoringReportFeature_def LogStatusNotificationFeature_def
      NotifyCustomerInformationFeature_def NotifyEventFeature_def
      NotifyMonitoringReportFeature_def SetMonitoringBaseFeature_def
      SetMonitoringLevelFeature_def SetVariableMonitoringFeature_def ClearDisplayFeature_def
      GetDisplayMessagesFeature_def NotifyDisplayMessagesFeature_def
      SetDisplayMessageFeature_def FirmwareStatusNotificationFeature_201_def
      PublishFirmwareFeature_def PublishFirmwareStatusNotificationFeature_def
      UnpublishFirmwareFeature_def UpdateFirmwareFeature_201_def DeleteCertificateFeature_def
      Get15118EVCertificateFeature_def GetCertificateStatusFeature_def
      GetInstalledCertificateIdsFeature_def InstallCertificateFeature_def
      GetLocalListVersionFeature_201_def SendLocalListFeature_201_def
      MeterValuesFeature_201_def BootNotificationFeature_201_def GetBaseReportFeature_def
      GetReportFeature_def GetVariablesFeature_def NotifyReportFeature_def
      ResetFeature_201_def SetNetworkProfileFeature_def SetVariablesFeature_def
      RequestStartTransactionFeature_def RequestStopTransactionFeature_def
      TriggerMessageFeature_201_def UnlockConnectorFeature_201_def
      CancelReservationFeature_201_def ReservationStatusUpdateFeature_def
      ReserveNowFeature_201_def CertificateSignedFeature_def
      SecurityEventNotificationFeature_def SignCertificateFeature_def
      ClearChargingProfileFeature_201_def ClearedChargingLimitFeature_def
      GetChargingProfilesFeature_def GetCompositeScheduleFeature_201_def
      NotifyChargingLimitFeature_def NotifyEVChargingNeedsFeature_def
      NotifyEVChargingScheduleFeature_def ReportChargingProfilesFeature_def
      SetChargingProfileFeature_201_def CostUpdatedFeature_def
      GetTransactionStatusFeature_def TransactionEventFeature_def)

lemmas features_lists201 = authorization_features_def availability_features_def data_features_def
    diagnostics_features_def display_features_def firmware_features_201_def
    iso15118_features_def localauth_features_201_def meter_features_def
    provisioning_features_def remotecontrol_features_def reservation_features_201_def
    security_features_def smartcharging_features_201_def tariffcost_features_def
    transactions_features_def

lemma groups201_kinds:
  "list_all (\<lambda>(n, fs). case profileKind201 n of None \<Rightarrow> False | Some k \<Rightarrow> fs = featuresOf k) groups201"
  by (simp add: groups201_def profileKind201_def)

fun kindName :: "handlerKind201 \<Rightarrow> string" where
  "kindName Authorization = ''authorization''"
| "kindName Availability = ''availability''"
| "kindName Data = ''data''"
| "kindName Diagnostics = ''diagnostics''"
| "kindName Display = ''display''"
| "kindName FirmwareK = ''firmware''"
| "kindName ISO15118 = ''iso15118''"
| "kindName LocalAuthListK = ''localAuthList''"
| "kindName Meter = ''meter''"
| "kindName Provisioning = ''provisioning''"
| "kindName RemoteControl = ''remoteControl''"
| "kindName ReservationK = ''reservation''"
| "kindName Security = ''security''"
| "kindName SmartChargingK = ''smartCharging''"
| "kindName TariffCost = ''tariffCost''"
| "kindName Transactions = ''transactions''"

lemma groups201_all: "(kindName k, featuresOf k) \<in> set groups201" "profileKind201 (kindName k) = Some k"
  by (cases k; simp add: groups201_def profileKind201_def)+

lemma group_kind: "(n, fs) \<in> set groups201 \<Longrightarrow> \<exists>k. profileKind201 n = Some k \<and> fs = featuresOf k"
  using groups201_kinds by (fastforce simp: list_all_iff split: option.splits)

lemma features201_names': "distinct (map GetFeatureName (concat (map snd groups201)))"
  using features201_names by (simp add: features201_groups)

lemma feature_of_kind:
  assumes "f \<in> set features201"
  obtains k where "f \<in> set (featuresOf k)"
proof -
  from assms obtain n fs where "(n, fs) \<in> set groups201" "f \<in> set fs" by (auto simp: features201_groups)
  with group_kind[of n fs] that show ?thesis by blast
qed

lemma featuresOf_features201: "f \<in> set (featuresOf k) \<Longrightarrow> f \<in> set features201"
  using groups201_all(1)[of k] by (force simp: features201_groups)

text \<open>The name of a feature determines the feature and its handler.\<close>

lemma distinct_concat_unique:
  assumes "distinct (map h (concat (map snd groups)))"
    and "(n, fs) \<in> set groups" "(m, gs) \<in> set groups" "x \<in> set fs" "y \<in> set gs" "h x = h y"
  shows "(n, fs) = (m, gs)"
  using assms
proof (induction groups)
  case (Cons g groups)
  have d: "h x \<noteq> h y" if "x \<in> set (snd g)" "(k, us) \<in> set groups" "y \<in> set us" for x y k us
    using Cons.prems(1) that by force
  show ?case
  proof (cases "(n, fs) = g \<or> (m, gs) = g")
    case True
    then show ?thesis using Cons.prems d[of x m gs y] d[of y n fs x] by auto
  next
    case False
    then show ?thesis using Cons by auto
  qed
qed simp

lemma feature_name_unique:
  assumes "f \<in> set (featuresOf k)" "f' \<in> set (featuresOf k')" "GetFeatureName f = GetFeatureName f'"
  shows "k = k' \<and> f = f'"
proof -
  from distinct_concat_unique[OF features201_names' groups201_all(1) groups201_all(1) assms(1,2,3)]
  have "kindName k = kindName k'" by (rule Pair_inject)
  then have "Some k = Some k'" using groups201_all(2)[of k] groups201_all(2)[of k'] by (metis)
  then have "k = k'" by simp
  moreover have "f = f'"
    using features201_names featuresOf_features201[OF assms(1)] featuresOf_features201[OF assms(2)] assms(3)
    unfolding distinct_map by (blast dest: inj_onD)
  ultimately show ?thesis by blast
qed

lemma feature_profile201:
  assumes "f \<in> set (featuresOf k)" "Profiles ep = profiles201"
  obtains p where "GetProfileForFeature ep (GetFeatureName f) = Some p" "profileKind201 (Name p) = Some k"
proof -
  have "f \<in> set (concat (map snd groups201))"
    using featuresOf_features201[OF assms(1)] by (simp add: features201_groups)
  then obtain n fs where g: "(n, fs) \<in> set groups201" "f \<in> set fs"
    "GetProfileForFeature ep (GetFeatureName f) = Some (NewProfile n fs)"
    using assms(2) by (rule registered_group[OF profiles201_groups features201_names'])
  from group_kind[OF g(1)] obtain k' where k': "profileKind201 n = Some k'" "fs = featuresOf k'" by blast
  with feature_name_unique[OF assms(1), of f k'] g(2) have "k' = k" by simp
  with g(3) k' that show ?thesis by simp
qed

section \<open>Tables of actions\<close>

text \<open>
  A table gives the handler, the method and the argument type of an action. It fits a list of
  features when it has the names and the request types of these features, each under the handler of
  its profile.
\<close>

type_synonym actions201 = "(string \<times> handlerKind201 \<times> string \<times> gotype) list"

definition fits :: "actions201 \<Rightarrow> (handlerKind201 \<times> gotype Feature) list \<Rightarrow> bool" where
  "fits actions fs \<longleftrightarrow>
     map (\<lambda>(a, k, m, t). (a, k, t)) actions = map (\<lambda>(k, f). (GetFeatureName f, k, GetRequestType f)) fs \<and>
     (\<forall>(k, f)\<in>set fs. f \<in> set (featuresOf k))"

lemma fits_lookup:
  assumes "fits actions fs" "f \<in> set (featuresOf k)"
    and "map_of actions (GetFeatureName f) = Some (kind, m, t)"
  shows "kind = k \<and> t = GetRequestType f"
proof -
  have "(GetFeatureName f, kind, t) \<in> set (map (\<lambda>(a, k, m, t). (a, k, t)) actions)"
    using map_of_SomeD[OF assms(3)] by force
  then have "(GetFeatureName f, kind, t) \<in> set (map (\<lambda>(k, f). (GetFeatureName f, k, GetRequestType f)) fs)"
    using assms(1) by (simp add: fits_def del: set_map)
  then obtain f' where "(kind, f') \<in> set fs" "GetFeatureName f = GetFeatureName f'" "t = GetRequestType f'"
    by auto
  moreover from this have "f' \<in> set (featuresOf kind)" using assms(1) by (auto simp: fits_def)
  ultimately show ?thesis using feature_name_unique[OF assms(2), of f' kind] by simp
qed

end
