(* ===== verification/ChargingStation.thy ===== *)
theory ChargingStation
  imports Facade201 ChargePoint
begin

text \<open>
  \<^verbatim>\<open>ocpp2.0.1/charging_station.go\<close> and \<^verbatim>\<open>NewChargingStation\<close> of \<^verbatim>\<open>ocpp2.0.1/v2.go\<close>. \<open>L\<close>, \<open>ven\<close> and \<open>wr\<close> are as
  for the endpoints. Callbacks and effects are those of the charge point of OCPP 1.6. As there, the
  synchronous \<^verbatim>\<open>SendRequest\<close> is two definitions: queueing the request with a callback that sends to a
  channel of its own, and waiting for that channel.
\<close>

record chargingStation =
  station_client :: "(gotype, message) Client"
  station_securityHandler :: "appHandler option"
  station_provisioningHandler :: "appHandler option"
  station_authorizationHandler :: "appHandler option"
  station_localAuthListHandler :: "appHandler option"
  station_transactionsHandler :: "appHandler option"
  station_remoteControlHandler :: "appHandler option"
  station_availabilityHandler :: "appHandler option"
  station_reservationHandler :: "appHandler option"
  station_tariffCostHandler :: "appHandler option"
  station_meterHandler :: "appHandler option"
  station_smartChargingHandler :: "appHandler option"
  station_firmwareHandler :: "appHandler option"
  station_iso15118Handler :: "appHandler option"
  station_diagnosticsHandler :: "appHandler option"
  station_displayHandler :: "appHandler option"
  station_dataHandler :: "appHandler option"
  station_responseHandler :: "message chan"
  station_errorHandler :: "goerr chan"
  station_callbacks :: "callback CallbackQueue"
  station_stopC :: "unit chan option"
  station_errC :: "goerr chan option"

section \<open>Construction\<close>

text \<open>
  Without an endpoint, a client with an unbounded queue and the sixteen profiles. The handlers it
  registers on the client are the operations below.
\<close>

definition NewChargingStation :: "string \<Rightarrow> (gotype, message) Client option \<Rightarrow> chargingStation go" where
  "NewChargingStation i endpoint =
     bind_go (case endpoint of
         Some c \<Rightarrow> Ret c
       | None \<Rightarrow> bind_go (NewFIFOClientQueue 0) (\<lambda>q.
           NewClient i True (Some (NewDefaultClientDispatcher q)) None profiles201)) (\<lambda>c.
       let c1 = c\<lparr>cl_endpoint := SetDialect V2 (cl_endpoint c)\<rparr>;
           c2 = SetRequestHandler (SetErrorHandler (SetResponseHandler (Client_SetOnRequestCanceled c1)))
       in Ret \<lparr>station_client = c2,
        station_securityHandler = None, station_provisioningHandler = None,
        station_authorizationHandler = None, station_localAuthListHandler = None,
        station_transactionsHandler = None, station_remoteControlHandler = None,
        station_availabilityHandler = None, station_reservationHandler = None,
        station_tariffCostHandler = None, station_meterHandler = None,
        station_smartChargingHandler = None, station_firmwareHandler = None,
        station_iso15118Handler = None, station_diagnosticsHandler = None,
        station_displayHandler = None, station_dataHandler = None,
        station_responseHandler = make_chan 1, station_errorHandler = make_chan 1,
        station_callbacks = New, station_stopC = None, station_errC = None\<rparr>)"

definition station_error :: "goerr \<Rightarrow> chargingStation \<Rightarrow> chargingStation go" where
  "station_error err cs = bind_go (reportError err (station_errC cs)) (\<lambda>ch. Ret (cs\<lparr>station_errC := ch\<rparr>))"

definition station_Errors :: "chargingStation \<Rightarrow> chargingStation" where
  "station_Errors cs = cs\<lparr>station_errC := errorsChannel (station_errC cs)\<rparr>"

definition station_onRequestTimeout :: "Error \<Rightarrow> chargingStation \<Rightarrow> chargingStation go" where
  "station_onRequestTimeout err cs =
     bind_go (chan_send (station_errorHandler cs) (EOcpp err)) (\<lambda>ch. Ret (cs\<lparr>station_errorHandler := ch\<rparr>))"

text \<open>The response and error handlers registered on the client.\<close>

definition station_onResponse :: "message \<Rightarrow> chargingStation \<Rightarrow> chargingStation go" where
  "station_onResponse confirmation cs =
     bind_go (chan_send (station_responseHandler cs) confirmation)
       (\<lambda>ch. Ret (cs\<lparr>station_responseHandler := ch\<rparr>))"

definition station_onError :: "Error \<Rightarrow> chargingStation \<Rightarrow> chargingStation go" where
  "station_onError err cs =
     bind_go (chan_send (station_errorHandler cs) (EOcpp err)) (\<lambda>ch. Ret (cs\<lparr>station_errorHandler := ch\<rparr>))"

section \<open>The methods that send one request\<close>

definition BootNotification_201 :: "string \<Rightarrow> string \<Rightarrow> string \<Rightarrow> (goval \<Rightarrow> goval) list \<Rightarrow> apiCall" where
  "BootNotification_201 rsn model vendor props =
     \<lparr>api_request = apiRequest (NewBootNotificationRequest_201 rsn model vendor) props,
      api_response = BootNotificationResponse\<rparr>"

definition Authorize_201 :: "string \<Rightarrow> string \<Rightarrow> (goval \<Rightarrow> goval) list \<Rightarrow> apiCall" where
  "Authorize_201 idToken tokenType props =
     \<lparr>api_request = apiRequest (NewAuthorizationRequest_201 idToken tokenType) props,
      api_response = AuthorizeResponse\<rparr>"

definition ClearedChargingLimit :: "string \<Rightarrow> (goval \<Rightarrow> goval) list \<Rightarrow> apiCall" where
  "ClearedChargingLimit chargingLimitSource props =
     \<lparr>api_request = apiRequest (NewClearedChargingLimitRequest chargingLimitSource) props,
      api_response = ClearedChargingLimitResponse\<rparr>"

definition station_DataTransfer :: "string \<Rightarrow> (goval \<Rightarrow> goval) list \<Rightarrow> apiCall" where
  "station_DataTransfer vendorId props =
     \<lparr>api_request = apiRequest (NewDataTransferRequest_201 vendorId) props,
      api_response = DataTransferResponse\<rparr>"

definition FirmwareStatusNotification_201 :: "string \<Rightarrow> (goval \<Rightarrow> goval) list \<Rightarrow> apiCall" where
  "FirmwareStatusNotification_201 st props =
     \<lparr>api_request = apiRequest (NewFirmwareStatusNotificationRequest_201 st) props,
      api_response = FirmwareStatusNotificationResponse\<rparr>"

definition Get15118EVCertificate :: "string \<Rightarrow> string \<Rightarrow> string \<Rightarrow> (goval \<Rightarrow> goval) list \<Rightarrow> apiCall" where
  "Get15118EVCertificate schemaVersion action exiRequest props =
     \<lparr>api_request = apiRequest (NewGet15118EVCertificateRequest schemaVersion action exiRequest) props,
      api_response = Get15118EVCertificateResponse\<rparr>"

definition GetCertificateStatus :: "goval \<Rightarrow> (goval \<Rightarrow> goval) list \<Rightarrow> apiCall" where
  "GetCertificateStatus ocspRequestData props =
     \<lparr>api_request = apiRequest (NewGetCertificateStatusRequest ocspRequestData) props,
      api_response = GetCertificateStatusResponse\<rparr>"

definition Heartbeat_201 :: "(goval \<Rightarrow> goval) list \<Rightarrow> apiCall" where
  "Heartbeat_201 props =
     \<lparr>api_request = apiRequest NewHeartbeatRequest_201 props,
      api_response = HeartbeatResponse\<rparr>"

definition LogStatusNotification :: "string \<Rightarrow> int \<Rightarrow> (goval \<Rightarrow> goval) list \<Rightarrow> apiCall" where
  "LogStatusNotification st reqID props =
     \<lparr>api_request = apiRequest (NewLogStatusNotificationRequest st reqID) props,
      api_response = LogStatusNotificationResponse\<rparr>"

definition MeterValues_201 :: "int \<Rightarrow> goval \<Rightarrow> (goval \<Rightarrow> goval) list \<Rightarrow> apiCall" where
  "MeterValues_201 evseID meterValues props =
     \<lparr>api_request = apiRequest (NewMeterValuesRequest_201 evseID meterValues) props,
      api_response = MeterValuesResponse\<rparr>"

definition NotifyChargingLimit :: "goval \<Rightarrow> (goval \<Rightarrow> goval) list \<Rightarrow> apiCall" where
  "NotifyChargingLimit chargingLimit props =
     \<lparr>api_request = apiRequest (NewNotifyChargingLimitRequest chargingLimit) props,
      api_response = NotifyChargingLimitResponse\<rparr>"

definition NotifyCustomerInformation :: "string \<Rightarrow> int \<Rightarrow> goval \<Rightarrow> int \<Rightarrow> (goval \<Rightarrow> goval) list \<Rightarrow> apiCall" where
  "NotifyCustomerInformation dt seqNo generatedAt reqID props =
     \<lparr>api_request = apiRequest (NewNotifyCustomerInformationRequest dt seqNo generatedAt reqID) props,
      api_response = NotifyCustomerInformationResponse\<rparr>"

definition NotifyDisplayMessages :: "int \<Rightarrow> (goval \<Rightarrow> goval) list \<Rightarrow> apiCall" where
  "NotifyDisplayMessages reqID props =
     \<lparr>api_request = apiRequest (NewNotifyDisplayMessagesRequest reqID) props,
      api_response = NotifyDisplayMessagesResponse\<rparr>"

definition NotifyEVChargingNeeds :: "int \<Rightarrow> goval \<Rightarrow> (goval \<Rightarrow> goval) list \<Rightarrow> apiCall" where
  "NotifyEVChargingNeeds evseID chargingNeeds props =
     \<lparr>api_request = apiRequest (NewNotifyEVChargingNeedsRequest evseID chargingNeeds) props,
      api_response = NotifyEVChargingNeedsResponse\<rparr>"

definition NotifyEVChargingSchedule :: "gotime option \<Rightarrow> int \<Rightarrow> goval \<Rightarrow> (goval \<Rightarrow> goval) list \<Rightarrow> apiCall" where
  "NotifyEVChargingSchedule timeBase evseID schedule props =
     \<lparr>api_request = apiRequest (NewNotifyEVChargingScheduleRequest timeBase evseID schedule) props,
      api_response = NotifyEVChargingScheduleResponse\<rparr>"

definition NotifyEvent :: "gotime option \<Rightarrow> int \<Rightarrow> goval \<Rightarrow> (goval \<Rightarrow> goval) list \<Rightarrow> apiCall" where
  "NotifyEvent generatedAt seqNo eventData props =
     \<lparr>api_request = apiRequest (NewNotifyEventRequest generatedAt seqNo eventData) props,
      api_response = NotifyEventResponse\<rparr>"

definition NotifyMonitoringReport :: "int \<Rightarrow> int \<Rightarrow> gotime option \<Rightarrow> goval \<Rightarrow> (goval \<Rightarrow> goval) list \<Rightarrow> apiCall" where
  "NotifyMonitoringReport reqID seqNo generatedAt monitorData props =
     \<lparr>api_request = apiRequest (NewNotifyMonitoringReportRequest reqID seqNo generatedAt monitorData) props,
      api_response = NotifyMonitoringReportResponse\<rparr>"

definition NotifyReport :: "int \<Rightarrow> gotime option \<Rightarrow> int \<Rightarrow> (goval \<Rightarrow> goval) list \<Rightarrow> apiCall" where
  "NotifyReport reqID generatedAt seqNo props =
     \<lparr>api_request = apiRequest (NewNotifyReportRequest reqID generatedAt seqNo) props,
      api_response = NotifyReportResponse\<rparr>"

definition PublishFirmwareStatusNotification :: "string \<Rightarrow> (goval \<Rightarrow> goval) list \<Rightarrow> apiCall" where
  "PublishFirmwareStatusNotification st props =
     \<lparr>api_request = apiRequest (NewPublishFirmwareStatusNotificationRequest st) props,
      api_response = PublishFirmwareStatusNotificationResponse\<rparr>"

definition ReportChargingProfiles :: "int \<Rightarrow> string \<Rightarrow> int \<Rightarrow> goval \<Rightarrow> (goval \<Rightarrow> goval) list \<Rightarrow> apiCall" where
  "ReportChargingProfiles reqID chargingLimitSource evseID chargingProfile props =
     \<lparr>api_request = apiRequest (NewReportChargingProfilesRequest reqID chargingLimitSource evseID chargingProfile) props,
      api_response = ReportChargingProfilesResponse\<rparr>"

definition ReservationStatusUpdate :: "int \<Rightarrow> string \<Rightarrow> (goval \<Rightarrow> goval) list \<Rightarrow> apiCall" where
  "ReservationStatusUpdate reservationID st props =
     \<lparr>api_request = apiRequest (NewReservationStatusUpdateRequest reservationID st) props,
      api_response = ReservationStatusUpdateResponse\<rparr>"

definition SecurityEventNotification :: "string \<Rightarrow> gotime option \<Rightarrow> (goval \<Rightarrow> goval) list \<Rightarrow> apiCall" where
  "SecurityEventNotification typ timestamp props =
     \<lparr>api_request = apiRequest (NewSecurityEventNotificationRequest typ timestamp) props,
      api_response = SecurityEventNotificationResponse\<rparr>"

definition SignCertificate :: "string \<Rightarrow> (goval \<Rightarrow> goval) list \<Rightarrow> apiCall" where
  "SignCertificate csr props =
     \<lparr>api_request = apiRequest (NewSignCertificateRequest csr) props,
      api_response = SignCertificateResponse\<rparr>"

definition StatusNotification_201 :: "gotime option \<Rightarrow> string \<Rightarrow> int \<Rightarrow> int \<Rightarrow> (goval \<Rightarrow> goval) list \<Rightarrow> apiCall" where
  "StatusNotification_201 timestamp st evseID connectorID props =
     \<lparr>api_request = apiRequest (NewStatusNotificationRequest_201 timestamp st evseID connectorID) props,
      api_response = StatusNotificationResponse\<rparr>"

definition TransactionEvent :: "string \<Rightarrow> gotime option \<Rightarrow> string \<Rightarrow> int \<Rightarrow> goval \<Rightarrow> (goval \<Rightarrow> goval) list \<Rightarrow> apiCall" where
  "TransactionEvent t timestamp rsn seqNo info props =
     \<lparr>api_request = apiRequest (NewTransactionEventRequest t timestamp rsn seqNo info) props,
      api_response = TransactionEventResponse\<rparr>"

section \<open>Registering handlers\<close>

definition station_SetSecurityHandler :: "appHandler \<Rightarrow> chargingStation \<Rightarrow> chargingStation" where
  "station_SetSecurityHandler handler cs = cs\<lparr>station_securityHandler := Some handler\<rparr>"

definition station_SetProvisioningHandler :: "appHandler \<Rightarrow> chargingStation \<Rightarrow> chargingStation" where
  "station_SetProvisioningHandler handler cs = cs\<lparr>station_provisioningHandler := Some handler\<rparr>"

definition station_SetAuthorizationHandler :: "appHandler \<Rightarrow> chargingStation \<Rightarrow> chargingStation" where
  "station_SetAuthorizationHandler handler cs = cs\<lparr>station_authorizationHandler := Some handler\<rparr>"

definition station_SetLocalAuthListHandler :: "appHandler \<Rightarrow> chargingStation \<Rightarrow> chargingStation" where
  "station_SetLocalAuthListHandler handler cs = cs\<lparr>station_localAuthListHandler := Some handler\<rparr>"

definition station_SetTransactionsHandler :: "appHandler \<Rightarrow> chargingStation \<Rightarrow> chargingStation" where
  "station_SetTransactionsHandler handler cs = cs\<lparr>station_transactionsHandler := Some handler\<rparr>"

definition station_SetRemoteControlHandler :: "appHandler \<Rightarrow> chargingStation \<Rightarrow> chargingStation" where
  "station_SetRemoteControlHandler handler cs = cs\<lparr>station_remoteControlHandler := Some handler\<rparr>"

definition station_SetAvailabilityHandler :: "appHandler \<Rightarrow> chargingStation \<Rightarrow> chargingStation" where
  "station_SetAvailabilityHandler handler cs = cs\<lparr>station_availabilityHandler := Some handler\<rparr>"

definition station_SetReservationHandler :: "appHandler \<Rightarrow> chargingStation \<Rightarrow> chargingStation" where
  "station_SetReservationHandler handler cs = cs\<lparr>station_reservationHandler := Some handler\<rparr>"

definition station_SetTariffCostHandler :: "appHandler \<Rightarrow> chargingStation \<Rightarrow> chargingStation" where
  "station_SetTariffCostHandler handler cs = cs\<lparr>station_tariffCostHandler := Some handler\<rparr>"

definition station_SetMeterHandler :: "appHandler \<Rightarrow> chargingStation \<Rightarrow> chargingStation" where
  "station_SetMeterHandler handler cs = cs\<lparr>station_meterHandler := Some handler\<rparr>"

definition station_SetSmartChargingHandler :: "appHandler \<Rightarrow> chargingStation \<Rightarrow> chargingStation" where
  "station_SetSmartChargingHandler handler cs = cs\<lparr>station_smartChargingHandler := Some handler\<rparr>"

definition station_SetFirmwareHandler :: "appHandler \<Rightarrow> chargingStation \<Rightarrow> chargingStation" where
  "station_SetFirmwareHandler handler cs = cs\<lparr>station_firmwareHandler := Some handler\<rparr>"

definition station_SetISO15118Handler :: "appHandler \<Rightarrow> chargingStation \<Rightarrow> chargingStation" where
  "station_SetISO15118Handler handler cs = cs\<lparr>station_iso15118Handler := Some handler\<rparr>"

definition station_SetDiagnosticsHandler :: "appHandler \<Rightarrow> chargingStation \<Rightarrow> chargingStation" where
  "station_SetDiagnosticsHandler handler cs = cs\<lparr>station_diagnosticsHandler := Some handler\<rparr>"

definition station_SetDisplayHandler :: "appHandler \<Rightarrow> chargingStation \<Rightarrow> chargingStation" where
  "station_SetDisplayHandler handler cs = cs\<lparr>station_displayHandler := Some handler\<rparr>"

definition station_SetDataHandler :: "appHandler \<Rightarrow> chargingStation \<Rightarrow> chargingStation" where
  "station_SetDataHandler handler cs = cs\<lparr>station_dataHandler := Some handler\<rparr>"

section \<open>Sending requests\<close>

definition station_queueRequest ::
  "(gotype, message) lib \<Rightarrow> bool \<Rightarrow> string \<Rightarrow> callback \<Rightarrow> message \<Rightarrow> chargingStation \<Rightarrow>
   (goerr option \<times> chargingStation) go" where
  "station_queueRequest L ven uid cb request cs =
     bind_go (tryQueueGo ''main'' (Client_SendRequest L ven uid request) cb (station_client cs)
       (station_callbacks cs))
       (\<lambda>(err, c, cq). Ret (err, cs\<lparr>station_client := c, station_callbacks := cq\<rparr>))"

definition station_unsupported :: "string \<Rightarrow> goerr" where
  "station_unsupported name = EPlain (''feature '' @ name @
     '' is unsupported on charging station (missing profile), cannot send request'')"

definition station_SendRequest ::
  "(gotype, message) lib \<Rightarrow> bool \<Rightarrow> string \<Rightarrow> nat \<Rightarrow> message \<Rightarrow> chargingStation \<Rightarrow>
   (goerr option \<times> chargingStation) go" where
  "station_SendRequest L ven uid n request cs =
     (case GetProfileForFeature (cl_endpoint (station_client cs)) (featureName L request) of
        None \<Rightarrow> Ret (Some (station_unsupported (featureName L request)), cs)
      | Some _ \<Rightarrow> station_queueRequest L ven uid (AsyncResponse n) request cs)"

text \<open>
  The receive that waits for the result, on the channel of the call. No \<^verbatim>\<open>stopC\<close> is waited for.
  What a method of the API makes of the result is \<open>cp_apiResult\<close>, as for the charge point.
\<close>

definition station_awaitResponse ::
  "(gotype, message) lib \<Rightarrow> message \<Rightarrow> (message option \<times> goerr option) chan \<Rightarrow>
   (message option \<times> goerr option) go" where
  "station_awaitResponse L request async =
     bind_go (chan_recv async) (\<lambda>(r, _). Ret (case r of
        Some res \<Rightarrow> res
      | None \<Rightarrow> (None, Some (EPlain (''internal error while receiving result for '' @
          featureName L request @ '' request'')))))"

definition station_sendable :: "string list" where
  "station_sendable =
     [''Authorize'', ''BootNotification'', ''ClearedChargingLimit'', ''DataTransfer'',
      ''FirmwareStatusNotification'', ''Get15118EVCertificate'', ''GetCertificateStatus'',
      ''Heartbeat'', ''LogStatusNotification'', ''MeterValues'', ''NotifyChargingLimit'',
      ''NotifyCustomerInformation'', ''NotifyDisplayMessages'', ''NotifyEVChargingNeeds'',
      ''NotifyEVChargingSchedule'', ''NotifyEvent'', ''NotifyMonitoringReport'',
      ''NotifyReport'', ''PublishFirmwareStatusNotification'', ''ReportChargingProfiles'',
      ''ReservationStatusUpdate'', ''SecurityEventNotification'', ''SignCertificate'',
      ''StatusNotification'', ''TransactionEvent'']"

definition station_SendRequestAsync ::
  "(gotype, message) lib \<Rightarrow> bool \<Rightarrow> string \<Rightarrow> nat \<Rightarrow> message \<Rightarrow> chargingStation \<Rightarrow>
   (goerr option \<times> chargingStation) go" where
  "station_SendRequestAsync L ven uid k request cs =
     (case GetProfileForFeature (cl_endpoint (station_client cs)) (featureName L request) of
        None \<Rightarrow> Ret (Some (station_unsupported (featureName L request)), cs)
      | Some _ \<Rightarrow>
          if featureName L request \<in> set station_sendable
          then station_queueRequest L ven uid (UserCallback k) request cs
          else Ret (Some (EPlain (''unsupported action '' @ featureName L request @
                 '' on charging station, cannot send request'')), cs))"

section \<open>The handler of responses\<close>

text \<open>
  One iteration of \<^verbatim>\<open>asyncCallbackHandler\<close>, by the case of the \<^verbatim>\<open>select\<close> that is taken. \<open>False\<close> in the
  result says that the goroutine returns. The two channels are never closed.
\<close>

definition station_asyncCallbackHandler ::
  "(gotype, message) lib \<Rightarrow> async_case \<Rightarrow> chargingStation \<Rightarrow>
   (bool \<times> chargingStation \<times> cp_event list) go" where
  "station_asyncCallbackHandler L c cs =
     (case c of
        ConfirmationCase \<Rightarrow>
          (case chan_buf (station_responseHandler cs) of
             [] \<Rightarrow> Block
           | confirmation # rest \<Rightarrow>
               let cs1 = cs\<lparr>station_responseHandler := (station_responseHandler cs)\<lparr>chan_buf := rest\<rparr>\<rparr>
               in bind_go (Dequeue ''main'' (station_callbacks cs1)) (\<lambda>(cb, cq).
                    let cs2 = cs1\<lparr>station_callbacks := cq\<rparr>
                    in case cb of
                         Some callback \<Rightarrow> Ret (True, cs2, [Invoked callback (Some confirmation) None])
                       | None \<Rightarrow>
                           bind_go (station_error (EPlain (''no callback available for incoming response '' @
                             featureName L confirmation)) cs2) (\<lambda>cs3. Ret (True, cs3, []))))
      | ErrorCase \<Rightarrow>
          (case chan_buf (station_errorHandler cs) of
             [] \<Rightarrow> Block
           | protoError # rest \<Rightarrow>
               let cs1 = cs\<lparr>station_errorHandler := (station_errorHandler cs)\<lparr>chan_buf := rest\<rparr>\<rparr>
               in bind_go (Dequeue ''main'' (station_callbacks cs1)) (\<lambda>(cb, cq).
                    let cs2 = cs1\<lparr>station_callbacks := cq\<rparr>
                    in case cb of
                         Some callback \<Rightarrow> Ret (True, cs2, [Invoked callback None (Some protoError)])
                       | None \<Rightarrow>
                           bind_go (station_error (EPlain (''no callback available for incoming error '' @
                             errText L protoError)) cs2) (\<lambda>cs3. Ret (True, cs3, []))))
      | StopCase \<Rightarrow>
          (case station_stopC cs of
             None \<Rightarrow> Block
           | Some ch \<Rightarrow> if chan_closed ch \<or> chan_buf ch \<noteq> [] then Ret (False, cs, []) else Block))"

section \<open>Start and stop\<close>

text \<open>The flag in the result says that the handler of responses was started.\<close>

definition station_Start ::
  "(string \<Rightarrow> string option) \<Rightarrow> string \<Rightarrow> chargingStation \<Rightarrow> string option \<times> bool \<times> chargingStation" where
  "station_Start wsStart csmsUrl cs =
     (let cs1 = cs\<lparr>station_stopC := Some (make_chan 1)\<rparr>
      in case Client_Start wsStart csmsUrl (station_client cs1) of
           (err, c) \<Rightarrow> (err, err = None, cs1\<lparr>station_client := c\<rparr>))"

definition station_StartWithRetries :: "chargingStation \<Rightarrow> bool \<times> chargingStation" where
  "station_StartWithRetries cs =
     (True, cs\<lparr>station_stopC := Some (make_chan 1), station_client := StartWithRetries (station_client cs)\<rparr>)"

definition station_Stop :: "chargingStation \<Rightarrow> chargingStation go" where
  "station_Stop cs = bind_go (Client_Stop (station_client cs)) (\<lambda>c. Ret (cs\<lparr>station_client := c\<rparr>))"

section \<open>Incoming requests\<close>

definition station_replyError ::
  "(gotype, message) lib \<Rightarrow> bool \<Rightarrow> (json \<Rightarrow> string option) \<Rightarrow> string \<Rightarrow> ErrorCode \<Rightarrow> string \<Rightarrow> string \<Rightarrow>
   chargingStation \<Rightarrow> (chargingStation \<times> cp_event list) go" where
  "station_replyError L ven wr requestId code description notify cs =
     (case Client_SendError L ven wr (station_client cs) requestId code description None of
        (None, evs) \<Rightarrow> Ret (cs, map Net evs)
      | (Some e, evs) \<Rightarrow>
          bind_go (station_error (EPlain (''replying csms to request '' @ requestId @ notify @ errText L e)) cs)
            (\<lambda>cs'. Ret (cs', map Net evs)))"

definition station_notImplementedError ::
  "(gotype, message) lib \<Rightarrow> bool \<Rightarrow> (json \<Rightarrow> string option) \<Rightarrow> string \<Rightarrow> string \<Rightarrow> chargingStation \<Rightarrow>
   (chargingStation \<times> cp_event list) go" where
  "station_notImplementedError L ven wr requestId action cs =
     station_replyError L ven wr requestId NotImplemented
       (''no handler for action '' @ action @ '' implemented'') '' with error: '' cs"

definition station_notSupportedError ::
  "(gotype, message) lib \<Rightarrow> bool \<Rightarrow> (json \<Rightarrow> string option) \<Rightarrow> string \<Rightarrow> string \<Rightarrow> chargingStation \<Rightarrow>
   (chargingStation \<times> cp_event list) go" where
  "station_notSupportedError L ven wr requestId action cs =
     station_replyError L ven wr requestId NotSupported
       (''unsupported action '' @ action @ '' on charging station'') '' with 'not supported': '' cs"

definition station_sendResponse ::
  "(gotype, message) lib \<Rightarrow> bool \<Rightarrow> (json \<Rightarrow> string option) \<Rightarrow> message option \<Rightarrow> goerr option \<Rightarrow> string \<Rightarrow>
   chargingStation \<Rightarrow> (chargingStation \<times> cp_event list) go" where
  "station_sendResponse L ven wr response err requestId cs =
     (let emptyText = ''empty response to request '' @ requestId
      in case clientReply L ven wr (station_client cs) emptyText response err requestId of
           (evs, None) \<Rightarrow> Ret (cs, map Net evs)
         | (evs, Some e) \<Rightarrow>
             bind_go (station_error (replyFailed
                 (''replying to request '' @ requestId @ '' with 'internal error' failed: '') emptyText
                 (''failed responding to request '' @ requestId @ '': '') (errText L) response err e) cs)
               (\<lambda>cs'. Ret (cs', map Net evs)))"

text \<open>The switch over the action: the handler, the method it calls and the type of its argument.\<close>

definition station_actions :: "(string \<times> handlerKind201 \<times> string \<times> gotype) list" where
  "station_actions =
     [(''CancelReservation'', ReservationK, ''OnCancelReservation'', CancelReservationRequest_201),
      (''CertificateSigned'', Security, ''OnCertificateSigned'', CertificateSignedRequest),
      (''ChangeAvailability'', Availability, ''OnChangeAvailability'', ChangeAvailabilityRequest_201),
      (''ClearCache'', Authorization, ''OnClearCache'', ClearCacheRequest_201),
      (''ClearChargingProfile'', SmartChargingK, ''OnClearChargingProfile'', ClearChargingProfileRequest_201),
      (''ClearDisplayMessage'', Display, ''OnClearDisplay'', ClearDisplayRequest),
      (''ClearVariableMonitoring'', Diagnostics, ''OnClearVariableMonitoring'', ClearVariableMonitoringRequest),
      (''CostUpdated'', TariffCost, ''OnCostUpdated'', CostUpdatedRequest),
      (''CustomerInformation'', Diagnostics, ''OnCustomerInformation'', CustomerInformationRequest),
      (''DataTransfer'', Data, ''OnDataTransfer'', DataTransferRequest_201),
      (''DeleteCertificate'', ISO15118, ''OnDeleteCertificate'', DeleteCertificateRequest),
      (''GetBaseReport'', Provisioning, ''OnGetBaseReport'', GetBaseReportRequest),
      (''GetChargingProfiles'', SmartChargingK, ''OnGetChargingProfiles'', GetChargingProfilesRequest),
      (''GetCompositeSchedule'', SmartChargingK, ''OnGetCompositeSchedule'', GetCompositeScheduleRequest_201),
      (''GetDisplayMessages'', Display, ''OnGetDisplayMessages'', GetDisplayMessagesRequest),
      (''GetInstalledCertificateIds'', ISO15118, ''OnGetInstalledCertificateIds'', GetInstalledCertificateIdsRequest),
      (''GetLocalListVersion'', LocalAuthListK, ''OnGetLocalListVersion'', GetLocalListVersionRequest_201),
      (''GetLog'', Diagnostics, ''OnGetLog'', GetLogRequest),
      (''GetMonitoringReport'', Diagnostics, ''OnGetMonitoringReport'', GetMonitoringReportRequest),
      (''GetReport'', Provisioning, ''OnGetReport'', GetReportRequest),
      (''GetTransactionStatus'', Transactions, ''OnGetTransactionStatus'', GetTransactionStatusRequest),
      (''GetVariables'', Provisioning, ''OnGetVariables'', GetVariablesRequest),
      (''InstallCertificate'', ISO15118, ''OnInstallCertificate'', InstallCertificateRequest),
      (''PublishFirmware'', FirmwareK, ''OnPublishFirmware'', PublishFirmwareRequest),
      (''RequestStartTransaction'', RemoteControl, ''OnRequestStartTransaction'', RequestStartTransactionRequest),
      (''RequestStopTransaction'', RemoteControl, ''OnRequestStopTransaction'', RequestStopTransactionRequest),
      (''ReserveNow'', ReservationK, ''OnReserveNow'', ReserveNowRequest_201),
      (''Reset'', Provisioning, ''OnReset'', ResetRequest_201),
      (''SendLocalList'', LocalAuthListK, ''OnSendLocalList'', SendLocalListRequest_201),
      (''SetChargingProfile'', SmartChargingK, ''OnSetChargingProfile'', SetChargingProfileRequest_201),
      (''SetDisplayMessage'', Display, ''OnSetDisplayMessage'', SetDisplayMessageRequest),
      (''SetMonitoringBase'', Diagnostics, ''OnSetMonitoringBase'', SetMonitoringBaseRequest),
      (''SetMonitoringLevel'', Diagnostics, ''OnSetMonitoringLevel'', SetMonitoringLevelRequest),
      (''SetNetworkProfile'', Provisioning, ''OnSetNetworkProfile'', SetNetworkProfileRequest),
      (''SetVariableMonitoring'', Diagnostics, ''OnSetVariableMonitoring'', SetVariableMonitoringRequest),
      (''SetVariables'', Provisioning, ''OnSetVariables'', SetVariablesRequest),
      (''TriggerMessage'', RemoteControl, ''OnTriggerMessage'', TriggerMessageRequest_201),
      (''UnlockConnector'', RemoteControl, ''OnUnlockConnector'', UnlockConnectorRequest_201),
      (''UnpublishFirmware'', FirmwareK, ''OnUnpublishFirmware'', UnpublishFirmwareRequest),
      (''UpdateFirmware'', FirmwareK, ''OnUpdateFirmware'', UpdateFirmwareRequest_201)]"

fun station_handler :: "handlerKind201 \<Rightarrow> chargingStation \<Rightarrow> appHandler option" where
  "station_handler Authorization cs = station_authorizationHandler cs"
| "station_handler Availability cs = station_availabilityHandler cs"
| "station_handler Data cs = station_dataHandler cs"
| "station_handler Diagnostics cs = station_diagnosticsHandler cs"
| "station_handler Display cs = station_displayHandler cs"
| "station_handler FirmwareK cs = station_firmwareHandler cs"
| "station_handler ISO15118 cs = station_iso15118Handler cs"
| "station_handler LocalAuthListK cs = station_localAuthListHandler cs"
| "station_handler Meter cs = station_meterHandler cs"
| "station_handler Provisioning cs = station_provisioningHandler cs"
| "station_handler RemoteControl cs = station_remoteControlHandler cs"
| "station_handler ReservationK cs = station_reservationHandler cs"
| "station_handler Security cs = station_securityHandler cs"
| "station_handler SmartChargingK cs = station_smartChargingHandler cs"
| "station_handler TariffCost cs = station_tariffCostHandler cs"
| "station_handler Transactions cs = station_transactionsHandler cs"

definition station_processRequest ::
  "(gotype, message) lib \<Rightarrow> bool \<Rightarrow> (json \<Rightarrow> string option) \<Rightarrow> message \<Rightarrow> string \<Rightarrow> string \<Rightarrow>
   chargingStation \<Rightarrow> (chargingStation \<times> cp_event list) go" where
  "station_processRequest L ven wr request requestId action cs =
     (case map_of station_actions action of
        None \<Rightarrow> station_notSupportedError L ven wr requestId action cs
      | Some (kind, method, argType) \<Rightarrow>
          (case station_handler kind cs of
             None \<Rightarrow> Panic ''nil pointer dereference''
           | Some h \<Rightarrow>
               bind_go (assertType argType (Some request)) (\<lambda>req.
                 case h method req of
                   (response, err) \<Rightarrow> station_sendResponse L ven wr response err requestId cs)))"

definition station_handleIncomingRequest ::
  "(gotype, message) lib \<Rightarrow> bool \<Rightarrow> (json \<Rightarrow> string option) \<Rightarrow> message \<Rightarrow> string \<Rightarrow> string \<Rightarrow>
   chargingStation \<Rightarrow> (chargingStation \<times> cp_event list) go" where
  "station_handleIncomingRequest L ven wr request requestId action cs =
     (case GetProfileForFeature (cl_endpoint (station_client cs)) action of
        None \<Rightarrow> station_notImplementedError L ven wr requestId action cs
      | Some profile \<Rightarrow>
          (case profileKind201 (Name profile) of
             Some kind \<Rightarrow>
               (case station_handler kind cs of
                  None \<Rightarrow> station_notSupportedError L ven wr requestId action cs
                | Some _ \<Rightarrow> station_processRequest L ven wr request requestId action cs)
           | None \<Rightarrow> station_processRequest L ven wr request requestId action cs))"

section \<open>The parts together\<close>

text \<open>
  What the handlers that \<^verbatim>\<open>NewChargingStation\<close> registers do with the effects of the client's message
  handler and of the dispatcher's pump.
\<close>

definition station_deliver ::
  "(gotype, message) lib \<Rightarrow> bool \<Rightarrow> (json \<Rightarrow> string option) \<Rightarrow> message ep_event \<Rightarrow> chargingStation \<Rightarrow>
   (chargingStation \<times> cp_event list) go" where
  "station_deliver L ven wr ev cs =
     (case ev of
        GotResponse v i \<Rightarrow> bind_go (station_onResponse v cs) (\<lambda>cs'. Ret (cs', []))
      | GotError e details \<Rightarrow> bind_go (station_onError e cs) (\<lambda>cs'. Ret (cs', []))
      | GotRequest v i action \<Rightarrow> station_handleIncomingRequest L ven wr v i action cs
      | _ \<Rightarrow> Ret (cs, [Net ev]))"

fun station_deliverAll ::
  "(gotype, message) lib \<Rightarrow> bool \<Rightarrow> (json \<Rightarrow> string option) \<Rightarrow> message ep_event list \<Rightarrow> chargingStation \<Rightarrow>
   (chargingStation \<times> cp_event list) go" where
  "station_deliverAll L ven wr [] cs = Ret (cs, [])"
| "station_deliverAll L ven wr (ev # evs) cs =
     bind_go (station_deliver L ven wr ev cs) (\<lambda>(cs', es).
       bind_go (station_deliverAll L ven wr evs cs') (\<lambda>(cs'', es'). Ret (cs'', es @ es')))"

definition station_receive ::
  "(gotype, message) lib \<Rightarrow> bool \<Rightarrow> (json \<Rightarrow> string option) \<Rightarrow> json \<Rightarrow> chargingStation \<Rightarrow>
   (chargingStation \<times> cp_event list) go" where
  "station_receive L ven wr raw cs =
     bind_go (Client_ocppMessageHandler L ven wr raw (station_client cs)) (\<lambda>(err, c, evs).
       station_deliverAll L ven wr evs (cs\<lparr>station_client := c\<rparr>))"

section \<open>Every request is answered\<close>

lemma station_replyError_replies:
  assumes "station_replyError L ven wr i code d notify cs = Ret (cs', evs)"
  shows "length (filter (cp_replies i) evs) \<le> 1"
    and "answerable L ven wr i \<Longrightarrow> IsErrorCodeValid code \<Longrightarrow> length (filter (cp_replies i) evs) = 1"
proof -
  have evs: "evs = map Net (snd (Client_SendError L ven wr (station_client cs) i code d None))"
    using assms by (auto simp: station_replyError_def split: option.splits prod.splits)
  show "length (filter (cp_replies i) evs) \<le> 1"
    "answerable L ven wr i \<Longrightarrow> IsErrorCodeValid code \<Longrightarrow> length (filter (cp_replies i) evs) = 1"
    using client_error_once[where i = i and L = L and ven = ven and wr = wr and c = "station_client cs" and code = code and d = d] evs by simp_all
qed

lemma station_sendResponse_replies:
  assumes "station_sendResponse L ven wr r err i cs = Ret (cs', evs)"
  shows "length (filter (cp_replies i) evs) \<le> 1"
    and "answerable L ven wr i \<Longrightarrow> length (filter (cp_replies i) evs) = 1"
proof -
  have evs: "evs = map Net (fst (clientReply L ven wr (station_client cs) (''empty response to request '' @ i) r err i))"
    using assms by (auto simp: station_sendResponse_def Let_def split: option.splits prod.splits)
  show "length (filter (cp_replies i) evs) \<le> 1"
    "answerable L ven wr i \<Longrightarrow> length (filter (cp_replies i) evs) = 1"
    using client_reply_once[where i = i and L = L and ven = ven and wr = wr and c = "station_client cs" and et = "''empty response to request '' @ i"
        and conf = r and err = err] evs
    by simp_all
qed

lemma station_processRequest_replies:
  assumes "station_processRequest L ven wr request i action cs = Ret (cs', evs)"
  shows "length (filter (cp_replies i) evs) \<le> 1 \<and>
    (answerable L ven wr i \<longrightarrow> length (filter (cp_replies i) evs) = 1)"
proof (cases "map_of station_actions action")
  case None
  with assms station_replyError_replies show ?thesis
    by (auto simp: station_processRequest_def station_notSupportedError_def)
next
  case (Some a)
  obtain kind meth argType where a: "a = (kind, meth, argType)" by (cases a)
  obtain h where h: "station_handler kind cs = Some h"
    using assms Some a by (auto simp: station_processRequest_def split: option.splits)
  obtain r err where r: "h meth request = (r, err)" by (cases "h meth request")
  have "station_sendResponse L ven wr r err i cs = Ret (cs', evs)"
    using assms Some a h r by (auto simp: station_processRequest_def assertType_def split: if_splits)
  then show ?thesis using station_sendResponse_replies by blast
qed

lemma station_replies:
  assumes "station_handleIncomingRequest L ven wr request i action cs = Ret (cs', evs)"
  shows "length (filter (cp_replies i) evs) \<le> 1 \<and>
    (answerable L ven wr i \<longrightarrow> length (filter (cp_replies i) evs) = 1)"
  using assms station_processRequest_replies[of L ven wr request i action cs cs' evs]
  by (auto simp: station_handleIncomingRequest_def station_notImplementedError_def station_notSupportedError_def
      dest: station_replyError_replies split: option.splits)

section \<open>No handler is missing\<close>

text \<open>The features whose requests a charging station handles, in the order of the table.\<close>

definition station_features :: "(handlerKind201 \<times> gotype Feature) list" where
  "station_features =
     [(ReservationK, CancelReservationFeature_201), (Security, CertificateSignedFeature),
      (Availability, ChangeAvailabilityFeature_201), (Authorization, ClearCacheFeature_201),
      (SmartChargingK, ClearChargingProfileFeature_201), (Display, ClearDisplayFeature),
      (Diagnostics, ClearVariableMonitoringFeature), (TariffCost, CostUpdatedFeature),
      (Diagnostics, CustomerInformationFeature), (Data, DataTransferFeature_201),
      (ISO15118, DeleteCertificateFeature), (Provisioning, GetBaseReportFeature),
      (SmartChargingK, GetChargingProfilesFeature),
      (SmartChargingK, GetCompositeScheduleFeature_201),
      (Display, GetDisplayMessagesFeature), (ISO15118, GetInstalledCertificateIdsFeature),
      (LocalAuthListK, GetLocalListVersionFeature_201), (Diagnostics, GetLogFeature),
      (Diagnostics, GetMonitoringReportFeature), (Provisioning, GetReportFeature),
      (Transactions, GetTransactionStatusFeature), (Provisioning, GetVariablesFeature),
      (ISO15118, InstallCertificateFeature), (FirmwareK, PublishFirmwareFeature),
      (RemoteControl, RequestStartTransactionFeature),
      (RemoteControl, RequestStopTransactionFeature), (ReservationK, ReserveNowFeature_201),
      (Provisioning, ResetFeature_201), (LocalAuthListK, SendLocalListFeature_201),
      (SmartChargingK, SetChargingProfileFeature_201), (Display, SetDisplayMessageFeature),
      (Diagnostics, SetMonitoringBaseFeature), (Diagnostics, SetMonitoringLevelFeature),
      (Provisioning, SetNetworkProfileFeature), (Diagnostics, SetVariableMonitoringFeature),
      (Provisioning, SetVariablesFeature), (RemoteControl, TriggerMessageFeature_201),
      (RemoteControl, UnlockConnectorFeature_201), (FirmwareK, UnpublishFirmwareFeature),
      (FirmwareK, UpdateFirmwareFeature_201)]"

lemma station_fits: "fits station_actions station_features"
  by (simp add: fits_def station_actions_def station_features_def features201_simps features_lists201)

text \<open>When nobody reads the errors, reporting one does nothing and replying returns.\<close>

lemma station_quiet:
  assumes "station_errC cs = None"
  shows "station_error e cs = Ret cs"
    and "\<exists>evs. station_replyError L ven wr i code d notify cs = Ret (cs, evs)"
    and "\<exists>evs. station_sendResponse L ven wr r err i cs = Ret (cs, evs)"
proof -
  show e: "station_error e cs = Ret cs" for e using assms by (simp add: station_error_def reportError_def)
  show "\<exists>evs. station_replyError L ven wr i code d notify cs = Ret (cs, evs)"
    "\<exists>evs. station_sendResponse L ven wr r err i cs = Ret (cs, evs)"
    by (auto simp: station_replyError_def station_sendResponse_def e Let_def split: option.splits prod.splits)
qed

lemma station_processes:
  assumes "station_errC cs = None" "station_handler k cs = Some h"
    and "\<And>kind meth t. map_of station_actions action = Some (kind, meth, t) \<Longrightarrow> kind = k \<and> t = fst request"
  shows "\<exists>evs. station_processRequest L ven wr request i action cs = Ret (cs, evs)"
proof (cases "map_of station_actions action")
  case None
  then show ?thesis
    using station_quiet(2)[OF assms(1)] by (simp add: station_processRequest_def station_notSupportedError_def)
next
  case (Some a)
  obtain kind meth t where a: "a = (kind, meth, t)" by (cases a)
  with Some assms(3) have "kind = k" "t = fst request" by auto
  with Some a assms(2) station_quiet(3)[OF assms(1)] show ?thesis
    by (auto simp: station_processRequest_def assertType_def split: prod.splits)
qed

lemma station_handles:
  assumes "f \<in> set features201" "Profiles (cl_endpoint (station_client cs)) = profiles201"
    and "station_errC cs = None" "fst request = GetRequestType f"
  shows "\<exists>evs. station_handleIncomingRequest L ven wr request i (GetFeatureName f) cs = Ret (cs, evs)"
proof -
  obtain k where k: "f \<in> set (featuresOf k)" using assms(1) by (rule feature_of_kind)
  obtain p where p: "GetProfileForFeature (cl_endpoint (station_client cs)) (GetFeatureName f) = Some p"
    "profileKind201 (Name p) = Some k"
    by (rule feature_profile201[OF k assms(2)])
  show ?thesis
  proof (cases "station_handler k cs")
    case None
    with p station_quiet(2)[OF assms(3)] show ?thesis
      by (simp add: station_handleIncomingRequest_def station_notSupportedError_def)
  next
    case (Some h)
    with p station_processes[OF assms(3) Some, of "GetFeatureName f" request] fits_lookup[OF station_fits k] assms(4)
    show ?thesis by (simp add: station_handleIncomingRequest_def)
  qed
qed

lemma NewChargingStation_None:
  "NewChargingStation i None = Ret cs \<Longrightarrow>
     Profiles (cl_endpoint (station_client cs)) = profiles201 \<and> station_errC cs = None"
  by (auto simp: NewChargingStation_def NewClient_def Let_def fold_AddProfile SetDialect_def SetRequestHandler_def
      SetErrorHandler_def SetResponseHandler_def Client_SetOnRequestCanceled_def)

text \<open>
  C34: A charging station with the sixteen profiles handles the request of every feature without a
  panic: the handler that it calls is the one whose presence it has checked, and the type assertion
  on the request holds. Over a network that delivers, and with a validator that accepts errors with
  valid codes, the request is answered exactly once.
\<close>

theorem station_answers_once:
  assumes "f \<in> set features201" "Profiles (cl_endpoint (station_client cs)) = profiles201"
    and "station_errC cs = None" "fst request = GetRequestType f" "answerable L ven wr i"
  shows "\<exists>evs. station_handleIncomingRequest L ven wr request i (GetFeatureName f) cs = Ret (cs, evs) \<and>
    length (filter (cp_replies i) evs) = 1"
  using station_handles[OF assms(1-4)] station_replies assms(5) by blast

definition demo_lib201 :: "(gotype, message) lib" where
  "demo_lib201 = lib201 demo_parse (\<lambda>_. []) (\<lambda>_. '''')"

lemma demo_answerable201: "answerable demo_lib201 ven (\<lambda>_. None) i"
  by (simp add: answerable_def accepts_errors_def CreateCallError_def demo_lib201_def lib201_def Let_def)

lemma NewChargingStation_Ret: "\<exists>cs. NewChargingStation i None = Ret cs"
  by (simp add: NewChargingStation_def NewFIFOClientQueue_def NewClient_def Let_def)

lemma ClearCacheFeature_201_mem:
  "ClearCacheFeature_201 \<in> set features201" "GetFeatureName ClearCacheFeature_201 = ''ClearCache''"
  "fst NewClearCacheRequest_201 = GetRequestType ClearCacheFeature_201"
  by (simp_all add: features201_def authorization_features_def ClearCacheFeature_201_def
      NewClearCacheRequest_201_def new_def)

theorem station_answers_once_witness:
  "\<exists>cs evs. NewChargingStation ''cs1'' None = Ret cs \<and>
     station_handleIncomingRequest demo_lib201 True (\<lambda>_. None) NewClearCacheRequest_201 ''7'' ''ClearCache''
       (station_SetAuthorizationHandler (\<lambda>m req. (Some (NewClearCacheResponse ''Accepted''), None)) cs) =
       Ret (station_SetAuthorizationHandler (\<lambda>m req. (Some (NewClearCacheResponse ''Accepted''), None)) cs, evs) \<and>
     length (filter (cp_replies ''7'') evs) = 1"
proof -
  obtain cs where cs: "NewChargingStation ''cs1'' None = Ret cs" using NewChargingStation_Ret by blast
  let ?cs = "station_SetAuthorizationHandler (\<lambda>m req. (Some (NewClearCacheResponse ''Accepted''), None)) cs"
  have "Profiles (cl_endpoint (station_client ?cs)) = profiles201" "station_errC ?cs = None"
    using NewChargingStation_None[OF cs] by (simp_all add: station_SetAuthorizationHandler_def)
  from station_answers_once[OF ClearCacheFeature_201_mem(1) this ClearCacheFeature_201_mem(3) demo_answerable201,
      of True "''7''"] cs
  show ?thesis unfolding ClearCacheFeature_201_mem(2) by blast
qed

section \<open>Stopping\<close>

text \<open>
  Stopping a charging station leaves its callbacks waiting: \<^verbatim>\<open>Stop\<close> neither closes \<^verbatim>\<open>stopC\<close>, so the goroutine of
  \<^verbatim>\<open>asyncCallbackHandler\<close> does not return, nor calls the callbacks, so a caller of \<^verbatim>\<open>SendRequest\<close> keeps
  waiting, nor closes the channel of errors.
\<close>

theorem station_stop_waits:
  assumes "station_Start ws url cs = (None, started, cs1)" "station_Stop cs1 = Ret cs2"
  shows "station_asyncCallbackHandler L StopCase cs2 = Block \<and> station_callbacks cs2 = station_callbacks cs \<and>
    station_errC cs2 = station_errC cs \<and> station_awaitResponse L request (make_chan 1) = Block"
  using assms
  by (auto simp: station_Start_def station_Stop_def station_asyncCallbackHandler_def station_awaitResponse_def
      make_chan_def chan_recv_def Let_def split: prod.splits)


end
