(* ===== verification/Csms.thy ===== *)
theory Csms
  imports ChargingStation CentralSystem
begin

text \<open>
  \<^verbatim>\<open>ocpp2.0.1/csms.go\<close> and \<^verbatim>\<open>NewCSMS\<close> of \<^verbatim>\<open>ocpp2.0.1/v2.go\<close>: the CSMS over the server endpoint, with one queue
  of callbacks per charging station. Callbacks, effects and the wrapper \<open>genericCallback\<close> of the API
  methods are those of the central system of OCPP 1.6. A goroutine that a handler starts is run when
  it is started.
\<close>

record csms =
  csms_server :: "(gotype, message) Server"
  csms_securityHandler :: "csHandler option"
  csms_provisioningHandler :: "csHandler option"
  csms_authorizationHandler :: "csHandler option"
  csms_localAuthListHandler :: "csHandler option"
  csms_transactionsHandler :: "csHandler option"
  csms_remoteControlHandler :: "csHandler option"
  csms_availabilityHandler :: "csHandler option"
  csms_reservationHandler :: "csHandler option"
  csms_tariffCostHandler :: "csHandler option"
  csms_meterHandler :: "csHandler option"
  csms_smartChargingHandler :: "csHandler option"
  csms_firmwareHandler :: "csHandler option"
  csms_iso15118Handler :: "csHandler option"
  csms_diagnosticsHandler :: "csHandler option"
  csms_displayHandler :: "csHandler option"
  csms_dataHandler :: "csHandler option"
  csms_callbackQueue :: "cs_callback CallbackQueue"
  csms_errC :: "goerr chan option"

section \<open>Construction\<close>

definition newCSMS :: "(gotype, message) Server option \<Rightarrow> csms go" where
  "newCSMS server =
     (case server of
        None \<Rightarrow> Panic ''server must not be nil''
      | Some s \<Rightarrow>
          Ret \<lparr>csms_server = s\<lparr>sv_endpoint := SetDialect V2 (sv_endpoint s)\<rparr>,
        csms_securityHandler = None, csms_provisioningHandler = None,
        csms_authorizationHandler = None, csms_localAuthListHandler = None,
        csms_transactionsHandler = None, csms_remoteControlHandler = None,
        csms_availabilityHandler = None, csms_reservationHandler = None,
        csms_tariffCostHandler = None, csms_meterHandler = None,
        csms_smartChargingHandler = None, csms_firmwareHandler = None,
        csms_iso15118Handler = None, csms_diagnosticsHandler = None,
        csms_displayHandler = None, csms_dataHandler = None,
        csms_callbackQueue = New, csms_errC = None\<rparr>)"

text \<open>The handlers that \<^verbatim>\<open>NewCSMS\<close> registers on the server are the operations below.\<close>

definition NewCSMS :: "(gotype, message) Server option \<Rightarrow> csms go" where
  "NewCSMS endpoint =
     bind_go (newCSMS (Some (case endpoint of
         None \<Rightarrow> NewServer None None profiles201
       | Some s \<Rightarrow> s))) (\<lambda>cs.
       Ret (cs\<lparr>csms_server := SetCanceledRequestHandler (Server_SetErrorHandler
                (Server_SetResponseHandler (Server_SetRequestHandler (csms_server cs))))\<rparr>))"

definition csms_error :: "goerr \<Rightarrow> csms \<Rightarrow> csms go" where
  "csms_error err cs = bind_go (reportError err (csms_errC cs)) (\<lambda>ch. Ret (cs\<lparr>csms_errC := ch\<rparr>))"

definition csms_Errors :: "csms \<Rightarrow> csms" where
  "csms_Errors cs = cs\<lparr>csms_errC := errorsChannel (csms_errC cs)\<rparr>"

section \<open>The methods that send one request\<close>

definition CancelReservation_201 :: "int \<Rightarrow> (goval \<Rightarrow> goval) list \<Rightarrow> apiCall" where
  "CancelReservation_201 reservationId props =
     \<lparr>api_request = apiRequest (NewCancelReservationRequest_201 reservationId) props,
      api_response = CancelReservationResponse\<rparr>"

definition CertificateSigned :: "string \<Rightarrow> (goval \<Rightarrow> goval) list \<Rightarrow> apiCall" where
  "CertificateSigned certificateChain props =
     \<lparr>api_request = apiRequest (NewCertificateSignedRequest certificateChain) props,
      api_response = CertificateSignedResponse\<rparr>"

definition ChangeAvailability_201 :: "string \<Rightarrow> (goval \<Rightarrow> goval) list \<Rightarrow> apiCall" where
  "ChangeAvailability_201 operationalStatus props =
     \<lparr>api_request = apiRequest (NewChangeAvailabilityRequest_201 operationalStatus) props,
      api_response = ChangeAvailabilityResponse\<rparr>"

definition ClearCache_201 :: "(goval \<Rightarrow> goval) list \<Rightarrow> apiCall" where
  "ClearCache_201 props =
     \<lparr>api_request = apiRequest NewClearCacheRequest_201 props,
      api_response = ClearCacheResponse\<rparr>"

definition ClearChargingProfile_201 :: "(goval \<Rightarrow> goval) list \<Rightarrow> apiCall" where
  "ClearChargingProfile_201 props =
     \<lparr>api_request = apiRequest NewClearChargingProfileRequest_201 props,
      api_response = ClearChargingProfileResponse\<rparr>"

definition ClearDisplay :: "int \<Rightarrow> (goval \<Rightarrow> goval) list \<Rightarrow> apiCall" where
  "ClearDisplay ident props =
     \<lparr>api_request = apiRequest (NewClearDisplayRequest ident) props,
      api_response = ClearDisplayResponse\<rparr>"

definition ClearVariableMonitoring :: "goval \<Rightarrow> (goval \<Rightarrow> goval) list \<Rightarrow> apiCall" where
  "ClearVariableMonitoring ident props =
     \<lparr>api_request = apiRequest (NewClearVariableMonitoringRequest ident) props,
      api_response = ClearVariableMonitoringResponse\<rparr>"

definition CostUpdated :: "goval \<Rightarrow> string \<Rightarrow> (goval \<Rightarrow> goval) list \<Rightarrow> apiCall" where
  "CostUpdated totalCost transactionId props =
     \<lparr>api_request = apiRequest (NewCostUpdatedRequest totalCost transactionId) props,
      api_response = CostUpdatedResponse\<rparr>"

definition CustomerInformation :: "int \<Rightarrow> bool \<Rightarrow> bool \<Rightarrow> (goval \<Rightarrow> goval) list \<Rightarrow> apiCall" where
  "CustomerInformation requestId report clr props =
     \<lparr>api_request = apiRequest (NewCustomerInformationRequest requestId report clr) props,
      api_response = CustomerInformationResponse\<rparr>"

definition csms_DataTransfer :: "string \<Rightarrow> (goval \<Rightarrow> goval) list \<Rightarrow> apiCall" where
  "csms_DataTransfer vendorId props =
     \<lparr>api_request = apiRequest (NewDataTransferRequest_201 vendorId) props,
      api_response = DataTransferResponse\<rparr>"

definition DeleteCertificate :: "goval \<Rightarrow> (goval \<Rightarrow> goval) list \<Rightarrow> apiCall" where
  "DeleteCertificate dt props =
     \<lparr>api_request = apiRequest (NewDeleteCertificateRequest dt) props,
      api_response = DeleteCertificateResponse\<rparr>"

definition GetBaseReport :: "int \<Rightarrow> string \<Rightarrow> (goval \<Rightarrow> goval) list \<Rightarrow> apiCall" where
  "GetBaseReport requestId reportBase props =
     \<lparr>api_request = apiRequest (NewGetBaseReportRequest requestId reportBase) props,
      api_response = GetBaseReportResponse\<rparr>"

definition GetChargingProfiles :: "goval \<Rightarrow> (goval \<Rightarrow> goval) list \<Rightarrow> apiCall" where
  "GetChargingProfiles chargingProfile props =
     \<lparr>api_request = apiRequest (NewGetChargingProfilesRequest chargingProfile) props,
      api_response = GetChargingProfilesResponse\<rparr>"

definition GetCompositeSchedule_201 :: "int \<Rightarrow> int \<Rightarrow> (goval \<Rightarrow> goval) list \<Rightarrow> apiCall" where
  "GetCompositeSchedule_201 duration evseId props =
     \<lparr>api_request = apiRequest (NewGetCompositeScheduleRequest_201 duration evseId) props,
      api_response = GetCompositeScheduleResponse\<rparr>"

definition GetDisplayMessages :: "int \<Rightarrow> (goval \<Rightarrow> goval) list \<Rightarrow> apiCall" where
  "GetDisplayMessages requestId props =
     \<lparr>api_request = apiRequest (NewGetDisplayMessagesRequest requestId) props,
      api_response = GetDisplayMessagesResponse\<rparr>"

definition GetInstalledCertificateIds :: "(goval \<Rightarrow> goval) list \<Rightarrow> apiCall" where
  "GetInstalledCertificateIds props =
     \<lparr>api_request = apiRequest NewGetInstalledCertificateIdsRequest props,
      api_response = GetInstalledCertificateIdsResponse\<rparr>"

definition GetLocalListVersion_201 :: "(goval \<Rightarrow> goval) list \<Rightarrow> apiCall" where
  "GetLocalListVersion_201 props =
     \<lparr>api_request = apiRequest NewGetLocalListVersionRequest_201 props,
      api_response = GetLocalListVersionResponse\<rparr>"

definition GetLog :: "string \<Rightarrow> int \<Rightarrow> goval \<Rightarrow> (goval \<Rightarrow> goval) list \<Rightarrow> apiCall" where
  "GetLog logType reqID logParameters props =
     \<lparr>api_request = apiRequest (NewGetLogRequest logType reqID logParameters) props,
      api_response = GetLogResponse\<rparr>"

definition GetMonitoringReport :: "(goval \<Rightarrow> goval) list \<Rightarrow> apiCall" where
  "GetMonitoringReport props =
     \<lparr>api_request = apiRequest NewGetMonitoringReportRequest props,
      api_response = GetMonitoringReportResponse\<rparr>"

definition GetReport :: "(goval \<Rightarrow> goval) list \<Rightarrow> apiCall" where
  "GetReport props =
     \<lparr>api_request = apiRequest NewGetReportRequest props,
      api_response = GetReportResponse\<rparr>"

definition GetTransactionStatus :: "(goval \<Rightarrow> goval) list \<Rightarrow> apiCall" where
  "GetTransactionStatus props =
     \<lparr>api_request = apiRequest NewGetTransactionStatusRequest props,
      api_response = GetTransactionStatusResponse\<rparr>"

definition GetVariables :: "goval \<Rightarrow> (goval \<Rightarrow> goval) list \<Rightarrow> apiCall" where
  "GetVariables variableData props =
     \<lparr>api_request = apiRequest (NewGetVariablesRequest variableData) props,
      api_response = GetVariablesResponse\<rparr>"

definition InstallCertificate :: "string \<Rightarrow> string \<Rightarrow> (goval \<Rightarrow> goval) list \<Rightarrow> apiCall" where
  "InstallCertificate certificateType certificate props =
     \<lparr>api_request = apiRequest (NewInstallCertificateRequest certificateType certificate) props,
      api_response = InstallCertificateResponse\<rparr>"

definition PublishFirmware :: "string \<Rightarrow> string \<Rightarrow> int \<Rightarrow> (goval \<Rightarrow> goval) list \<Rightarrow> apiCall" where
  "PublishFirmware location checksum reqID props =
     \<lparr>api_request = apiRequest (NewPublishFirmwareRequest location checksum reqID) props,
      api_response = PublishFirmwareResponse\<rparr>"

definition RequestStartTransaction :: "int \<Rightarrow> goval \<Rightarrow> (goval \<Rightarrow> goval) list \<Rightarrow> apiCall" where
  "RequestStartTransaction remoteStartID idToken props =
     \<lparr>api_request = apiRequest (NewRequestStartTransactionRequest remoteStartID idToken) props,
      api_response = RequestStartTransactionResponse\<rparr>"

definition RequestStopTransaction :: "string \<Rightarrow> (goval \<Rightarrow> goval) list \<Rightarrow> apiCall" where
  "RequestStopTransaction transactionID props =
     \<lparr>api_request = apiRequest (NewRequestStopTransactionRequest transactionID) props,
      api_response = RequestStopTransactionResponse\<rparr>"

definition ReserveNow_201 :: "int \<Rightarrow> gotime option \<Rightarrow> goval \<Rightarrow> (goval \<Rightarrow> goval) list \<Rightarrow> apiCall" where
  "ReserveNow_201 ident expiryDateTime idToken props =
     \<lparr>api_request = apiRequest (NewReserveNowRequest_201 ident expiryDateTime idToken) props,
      api_response = ReserveNowResponse\<rparr>"

definition Reset_201 :: "string \<Rightarrow> (goval \<Rightarrow> goval) list \<Rightarrow> apiCall" where
  "Reset_201 t props =
     \<lparr>api_request = apiRequest (NewResetRequest_201 t) props,
      api_response = ResetResponse\<rparr>"

definition SendLocalList_201 :: "int \<Rightarrow> string \<Rightarrow> (goval \<Rightarrow> goval) list \<Rightarrow> apiCall" where
  "SendLocalList_201 version updateType props =
     \<lparr>api_request = apiRequest (NewSendLocalListRequest_201 version updateType) props,
      api_response = SendLocalListResponse\<rparr>"

definition SetChargingProfile_201 :: "int \<Rightarrow> goval \<Rightarrow> (goval \<Rightarrow> goval) list \<Rightarrow> apiCall" where
  "SetChargingProfile_201 evseID chargingProfile props =
     \<lparr>api_request = apiRequest (NewSetChargingProfileRequest_201 evseID chargingProfile) props,
      api_response = SetChargingProfileResponse\<rparr>"

definition SetDisplayMessage :: "goval \<Rightarrow> (goval \<Rightarrow> goval) list \<Rightarrow> apiCall" where
  "SetDisplayMessage message props =
     \<lparr>api_request = apiRequest (NewSetDisplayMessageRequest message) props,
      api_response = SetDisplayMessageResponse\<rparr>"

definition SetMonitoringBase :: "string \<Rightarrow> (goval \<Rightarrow> goval) list \<Rightarrow> apiCall" where
  "SetMonitoringBase monitoringBase props =
     \<lparr>api_request = apiRequest (NewSetMonitoringBaseRequest monitoringBase) props,
      api_response = SetMonitoringBaseResponse\<rparr>"

definition SetMonitoringLevel :: "int \<Rightarrow> (goval \<Rightarrow> goval) list \<Rightarrow> apiCall" where
  "SetMonitoringLevel severity props =
     \<lparr>api_request = apiRequest (NewSetMonitoringLevelRequest severity) props,
      api_response = SetMonitoringLevelResponse\<rparr>"

definition SetNetworkProfile :: "int \<Rightarrow> goval \<Rightarrow> (goval \<Rightarrow> goval) list \<Rightarrow> apiCall" where
  "SetNetworkProfile configurationSlot connectionData props =
     \<lparr>api_request = apiRequest (NewSetNetworkProfileRequest configurationSlot connectionData) props,
      api_response = SetNetworkProfileResponse\<rparr>"

definition SetVariableMonitoring :: "goval \<Rightarrow> (goval \<Rightarrow> goval) list \<Rightarrow> apiCall" where
  "SetVariableMonitoring dt props =
     \<lparr>api_request = apiRequest (NewSetVariableMonitoringRequest dt) props,
      api_response = SetVariableMonitoringResponse\<rparr>"

definition SetVariables :: "goval \<Rightarrow> (goval \<Rightarrow> goval) list \<Rightarrow> apiCall" where
  "SetVariables dt props =
     \<lparr>api_request = apiRequest (NewSetVariablesRequest dt) props,
      api_response = SetVariablesResponse\<rparr>"

definition TriggerMessage_201 :: "string \<Rightarrow> (goval \<Rightarrow> goval) list \<Rightarrow> apiCall" where
  "TriggerMessage_201 requestedMessage props =
     \<lparr>api_request = apiRequest (NewTriggerMessageRequest_201 requestedMessage) props,
      api_response = TriggerMessageResponse\<rparr>"

definition UnlockConnector_201 :: "int \<Rightarrow> int \<Rightarrow> (goval \<Rightarrow> goval) list \<Rightarrow> apiCall" where
  "UnlockConnector_201 evseID connectorID props =
     \<lparr>api_request = apiRequest (NewUnlockConnectorRequest_201 evseID connectorID) props,
      api_response = UnlockConnectorResponse\<rparr>"

definition UnpublishFirmware :: "string \<Rightarrow> (goval \<Rightarrow> goval) list \<Rightarrow> apiCall" where
  "UnpublishFirmware checksum props =
     \<lparr>api_request = apiRequest (NewUnpublishFirmwareRequest checksum) props,
      api_response = UnpublishFirmwareResponse\<rparr>"

definition UpdateFirmware_201 :: "int \<Rightarrow> goval \<Rightarrow> (goval \<Rightarrow> goval) list \<Rightarrow> apiCall" where
  "UpdateFirmware_201 reqID f props =
     \<lparr>api_request = apiRequest (NewUpdateFirmwareRequest_201 reqID f) props,
      api_response = UpdateFirmwareResponse\<rparr>"

section \<open>Registering handlers\<close>

definition csms_SetSecurityHandler :: "csHandler \<Rightarrow> csms \<Rightarrow> csms" where
  "csms_SetSecurityHandler handler cs = cs\<lparr>csms_securityHandler := Some handler\<rparr>"

definition csms_SetProvisioningHandler :: "csHandler \<Rightarrow> csms \<Rightarrow> csms" where
  "csms_SetProvisioningHandler handler cs = cs\<lparr>csms_provisioningHandler := Some handler\<rparr>"

definition csms_SetAuthorizationHandler :: "csHandler \<Rightarrow> csms \<Rightarrow> csms" where
  "csms_SetAuthorizationHandler handler cs = cs\<lparr>csms_authorizationHandler := Some handler\<rparr>"

definition csms_SetLocalAuthListHandler :: "csHandler \<Rightarrow> csms \<Rightarrow> csms" where
  "csms_SetLocalAuthListHandler handler cs = cs\<lparr>csms_localAuthListHandler := Some handler\<rparr>"

definition csms_SetTransactionsHandler :: "csHandler \<Rightarrow> csms \<Rightarrow> csms" where
  "csms_SetTransactionsHandler handler cs = cs\<lparr>csms_transactionsHandler := Some handler\<rparr>"

definition csms_SetRemoteControlHandler :: "csHandler \<Rightarrow> csms \<Rightarrow> csms" where
  "csms_SetRemoteControlHandler handler cs = cs\<lparr>csms_remoteControlHandler := Some handler\<rparr>"

definition csms_SetAvailabilityHandler :: "csHandler \<Rightarrow> csms \<Rightarrow> csms" where
  "csms_SetAvailabilityHandler handler cs = cs\<lparr>csms_availabilityHandler := Some handler\<rparr>"

definition csms_SetReservationHandler :: "csHandler \<Rightarrow> csms \<Rightarrow> csms" where
  "csms_SetReservationHandler handler cs = cs\<lparr>csms_reservationHandler := Some handler\<rparr>"

definition csms_SetTariffCostHandler :: "csHandler \<Rightarrow> csms \<Rightarrow> csms" where
  "csms_SetTariffCostHandler handler cs = cs\<lparr>csms_tariffCostHandler := Some handler\<rparr>"

definition csms_SetMeterHandler :: "csHandler \<Rightarrow> csms \<Rightarrow> csms" where
  "csms_SetMeterHandler handler cs = cs\<lparr>csms_meterHandler := Some handler\<rparr>"

definition csms_SetSmartChargingHandler :: "csHandler \<Rightarrow> csms \<Rightarrow> csms" where
  "csms_SetSmartChargingHandler handler cs = cs\<lparr>csms_smartChargingHandler := Some handler\<rparr>"

definition csms_SetFirmwareHandler :: "csHandler \<Rightarrow> csms \<Rightarrow> csms" where
  "csms_SetFirmwareHandler handler cs = cs\<lparr>csms_firmwareHandler := Some handler\<rparr>"

definition csms_SetISO15118Handler :: "csHandler \<Rightarrow> csms \<Rightarrow> csms" where
  "csms_SetISO15118Handler handler cs = cs\<lparr>csms_iso15118Handler := Some handler\<rparr>"

definition csms_SetDiagnosticsHandler :: "csHandler \<Rightarrow> csms \<Rightarrow> csms" where
  "csms_SetDiagnosticsHandler handler cs = cs\<lparr>csms_diagnosticsHandler := Some handler\<rparr>"

definition csms_SetDisplayHandler :: "csHandler \<Rightarrow> csms \<Rightarrow> csms" where
  "csms_SetDisplayHandler handler cs = cs\<lparr>csms_displayHandler := Some handler\<rparr>"

definition csms_SetDataHandler :: "csHandler \<Rightarrow> csms \<Rightarrow> csms" where
  "csms_SetDataHandler handler cs = cs\<lparr>csms_dataHandler := Some handler\<rparr>"

definition SetNewChargingStationHandler :: "csms \<Rightarrow> csms" where
  "SetNewChargingStationHandler cs = cs\<lparr>csms_server := SetNewClientHandler (csms_server cs)\<rparr>"

text \<open>The handler just tells the application.\<close>

definition SetChargingStationDisconnectedHandler :: "csms \<Rightarrow> csms" where
  "SetChargingStationDisconnectedHandler cs =
     cs\<lparr>csms_server := SetDisconnectedClientHandler (csms_server cs)\<rparr>"

section \<open>Sending requests\<close>

definition csms_sendable :: "string list" where
  "csms_sendable =
     [''CancelReservation'', ''CertificateSigned'', ''ChangeAvailability'', ''ClearCache'',
      ''ClearChargingProfile'', ''ClearDisplayMessage'', ''ClearVariableMonitoring'',
      ''CostUpdated'', ''CustomerInformation'', ''DataTransfer'', ''DeleteCertificate'',
      ''GetBaseReport'', ''GetChargingProfiles'', ''GetCompositeSchedule'',
      ''GetDisplayMessages'', ''GetInstalledCertificateIds'', ''GetLocalListVersion'',
      ''GetLog'', ''GetMonitoringReport'', ''GetReport'', ''GetTransactionStatus'',
      ''GetVariables'', ''InstallCertificate'', ''PublishFirmware'',
      ''RequestStartTransaction'', ''RequestStopTransaction'', ''ReserveNow'', ''Reset'',
      ''SendLocalList'', ''SetChargingProfile'', ''SetDisplayMessage'',
      ''SetMonitoringBase'', ''SetMonitoringLevel'', ''SetNetworkProfile'',
      ''SetVariableMonitoring'', ''SetVariables'', ''TriggerMessage'', ''UnlockConnector'',
      ''UnpublishFirmware'', ''UpdateFirmware'']"

definition csms_SendRequestAsync ::
  "(gotype, message) lib \<Rightarrow> bool \<Rightarrow> string \<Rightarrow> string \<Rightarrow> message \<Rightarrow> cs_callback \<Rightarrow> csms \<Rightarrow>
   (goerr option \<times> csms) go" where
  "csms_SendRequestAsync L ven uid clientId request cb cs =
     (case GetProfileForFeature (sv_endpoint (csms_server cs)) (featureName L request) of
        None \<Rightarrow> Ret (Some (EPlain (''feature '' @ featureName L request @
          '' is unsupported on CSMS (missing profile), cannot send request'')), cs)
      | Some _ \<Rightarrow>
          if featureName L request \<in> set csms_sendable
          then bind_go (tryQueueGo clientId (Server_SendRequest L ven uid clientId request) cb
                          (csms_server cs) (csms_callbackQueue cs))
                 (\<lambda>(err, s, cq). Ret (err, cs\<lparr>csms_server := s, csms_callbackQueue := cq\<rparr>))
          else Ret (Some (EPlain (''unsupported action '' @ featureName L request @
                 '' on CSMS, cannot send request'')), cs))"

text \<open>A method of the API; \<open>k\<close> is the callback of the application.\<close>

definition csms_call ::
  "(gotype, message) lib \<Rightarrow> bool \<Rightarrow> string \<Rightarrow> string \<Rightarrow> nat \<Rightarrow> apiCall \<Rightarrow> csms \<Rightarrow>
   (goerr option \<times> csms) go" where
  "csms_call L ven uid clientId k call cs =
     csms_SendRequestAsync L ven uid clientId (api_request call) (CsCallback k (Some (api_response call))) cs"

section \<open>Start and stop\<close>

definition csms_Start :: "csms \<Rightarrow> csms" where
  "csms_Start cs = cs\<lparr>csms_server := Server_Start (csms_server cs)\<rparr>"

definition csms_Stop :: "csms \<Rightarrow> csms go" where
  "csms_Stop cs = bind_go (Server_Stop (csms_server cs)) (\<lambda>s. Ret (cs\<lparr>csms_server := s\<rparr>))"

section \<open>Incoming requests\<close>

definition csms_replyError ::
  "(gotype, message) lib \<Rightarrow> bool \<Rightarrow> (string \<Rightarrow> json \<Rightarrow> string option) \<Rightarrow> string \<Rightarrow> string \<Rightarrow> ErrorCode \<Rightarrow>
   string \<Rightarrow> string \<Rightarrow> csms \<Rightarrow> (csms \<times> cs_event list) go" where
  "csms_replyError L ven wr chargingStationID requestId code description notify cs =
     (case Server_SendError L ven wr (csms_server cs) chargingStationID requestId code description None of
        (None, evs) \<Rightarrow> Ret (cs, map SNet evs)
      | (Some e, evs) \<Rightarrow>
          bind_go (csms_error (EPlain (''replying cs '' @ chargingStationID @ '' to request '' @ requestId @
              notify @ errText L e)) cs)
            (\<lambda>cs'. Ret (cs', map SNet evs)))"

definition csms_notImplementedError ::
  "(gotype, message) lib \<Rightarrow> bool \<Rightarrow> (string \<Rightarrow> json \<Rightarrow> string option) \<Rightarrow> string \<Rightarrow> string \<Rightarrow> string \<Rightarrow>
   csms \<Rightarrow> (csms \<times> cs_event list) go" where
  "csms_notImplementedError L ven wr chargingStationID requestId action cs =
     csms_replyError L ven wr chargingStationID requestId NotImplemented
       (''no handler for action '' @ action @ '' implemented'') '' with 'not implemented': '' cs"

definition csms_notSupportedError ::
  "(gotype, message) lib \<Rightarrow> bool \<Rightarrow> (string \<Rightarrow> json \<Rightarrow> string option) \<Rightarrow> string \<Rightarrow> string \<Rightarrow> string \<Rightarrow>
   csms \<Rightarrow> (csms \<times> cs_event list) go" where
  "csms_notSupportedError L ven wr chargingStationID requestId action cs =
     csms_replyError L ven wr chargingStationID requestId NotSupported
       (''unsupported action '' @ action @ '' on CSMS'') '' with 'not supported': '' cs"

definition csms_sendResponse ::
  "(gotype, message) lib \<Rightarrow> bool \<Rightarrow> (string \<Rightarrow> json \<Rightarrow> string option) \<Rightarrow> string \<Rightarrow> message option \<Rightarrow>
   goerr option \<Rightarrow> string \<Rightarrow> csms \<Rightarrow> (csms \<times> cs_event list) go" where
  "csms_sendResponse L ven wr chargingStationID response err requestId cs =
     (let emptyText = ''empty response to '' @ chargingStationID @ '' for request '' @ requestId;
          replying = ''error replying cp '' @ chargingStationID @ '' to request '' @ requestId
      in case serverReply L ven wr (csms_server cs) chargingStationID emptyText response err requestId of
           (evs, None) \<Rightarrow> Ret (cs, map SNet evs)
         | (evs, Some e) \<Rightarrow>
             bind_go (csms_error (replyFailed (replying @ '' with 'internal error': '') emptyText
                 (replying @ '': '') (errText L) response err e) cs)
               (\<lambda>cs'. Ret (cs', map SNet evs)))"

definition csms_actions :: "(string \<times> handlerKind201 \<times> string \<times> gotype) list" where
  "csms_actions =
     [(''BootNotification'', Provisioning, ''OnBootNotification'', BootNotificationRequest_201),
      (''Authorize'', Authorization, ''OnAuthorize'', AuthorizeRequest_201),
      (''ClearedChargingLimit'', SmartChargingK, ''OnClearedChargingLimit'', ClearedChargingLimitRequest),
      (''DataTransfer'', Data, ''OnDataTransfer'', DataTransferRequest_201),
      (''FirmwareStatusNotification'', FirmwareK, ''OnFirmwareStatusNotification'', FirmwareStatusNotificationRequest_201),
      (''Get15118EVCertificate'', ISO15118, ''OnGet15118EVCertificate'', Get15118EVCertificateRequest),
      (''GetCertificateStatus'', ISO15118, ''OnGetCertificateStatus'', GetCertificateStatusRequest),
      (''Heartbeat'', Availability, ''OnHeartbeat'', HeartbeatRequest_201),
      (''LogStatusNotification'', Diagnostics, ''OnLogStatusNotification'', LogStatusNotificationRequest),
      (''MeterValues'', Meter, ''OnMeterValues'', MeterValuesRequest_201),
      (''NotifyChargingLimit'', SmartChargingK, ''OnNotifyChargingLimit'', NotifyChargingLimitRequest),
      (''NotifyCustomerInformation'', Diagnostics, ''OnNotifyCustomerInformation'', NotifyCustomerInformationRequest),
      (''NotifyDisplayMessages'', Display, ''OnNotifyDisplayMessages'', NotifyDisplayMessagesRequest),
      (''NotifyEVChargingNeeds'', SmartChargingK, ''OnNotifyEVChargingNeeds'', NotifyEVChargingNeedsRequest),
      (''NotifyEVChargingSchedule'', SmartChargingK, ''OnNotifyEVChargingSchedule'', NotifyEVChargingScheduleRequest),
      (''NotifyEvent'', Diagnostics, ''OnNotifyEvent'', NotifyEventRequest),
      (''NotifyMonitoringReport'', Diagnostics, ''OnNotifyMonitoringReport'', NotifyMonitoringReportRequest),
      (''NotifyReport'', Provisioning, ''OnNotifyReport'', NotifyReportRequest),
      (''PublishFirmwareStatusNotification'', FirmwareK, ''OnPublishFirmwareStatusNotification'', PublishFirmwareStatusNotificationRequest),
      (''ReportChargingProfiles'', SmartChargingK, ''OnReportChargingProfiles'', ReportChargingProfilesRequest),
      (''ReservationStatusUpdate'', ReservationK, ''OnReservationStatusUpdate'', ReservationStatusUpdateRequest),
      (''SecurityEventNotification'', Security, ''OnSecurityEventNotification'', SecurityEventNotificationRequest),
      (''SignCertificate'', Security, ''OnSignCertificate'', SignCertificateRequest),
      (''StatusNotification'', Availability, ''OnStatusNotification'', StatusNotificationRequest_201),
      (''TransactionEvent'', Transactions, ''OnTransactionEvent'', TransactionEventRequest)]"

fun csms_handler :: "handlerKind201 \<Rightarrow> csms \<Rightarrow> csHandler option" where
  "csms_handler Authorization cs = csms_authorizationHandler cs"
| "csms_handler Availability cs = csms_availabilityHandler cs"
| "csms_handler Data cs = csms_dataHandler cs"
| "csms_handler Diagnostics cs = csms_diagnosticsHandler cs"
| "csms_handler Display cs = csms_displayHandler cs"
| "csms_handler FirmwareK cs = csms_firmwareHandler cs"
| "csms_handler ISO15118 cs = csms_iso15118Handler cs"
| "csms_handler LocalAuthListK cs = csms_localAuthListHandler cs"
| "csms_handler Meter cs = csms_meterHandler cs"
| "csms_handler Provisioning cs = csms_provisioningHandler cs"
| "csms_handler RemoteControl cs = csms_remoteControlHandler cs"
| "csms_handler ReservationK cs = csms_reservationHandler cs"
| "csms_handler Security cs = csms_securityHandler cs"
| "csms_handler SmartChargingK cs = csms_smartChargingHandler cs"
| "csms_handler TariffCost cs = csms_tariffCostHandler cs"
| "csms_handler Transactions cs = csms_transactionsHandler cs"

text \<open>The goroutine that \<^verbatim>\<open>handleIncomingRequest\<close> starts.\<close>

definition csms_processRequest ::
  "(gotype, message) lib \<Rightarrow> bool \<Rightarrow> (string \<Rightarrow> json \<Rightarrow> string option) \<Rightarrow> string \<Rightarrow> message \<Rightarrow> string \<Rightarrow>
   string \<Rightarrow> csms \<Rightarrow> (csms \<times> cs_event list) go" where
  "csms_processRequest L ven wr chargingStationID request requestId action cs =
     (case map_of csms_actions action of
        None \<Rightarrow> csms_notSupportedError L ven wr chargingStationID requestId action cs
      | Some (kind, method, argType) \<Rightarrow>
          (case csms_handler kind cs of
             None \<Rightarrow> Panic ''nil pointer dereference''
           | Some h \<Rightarrow>
               bind_go (assertType argType (Some request)) (\<lambda>req.
                 case h chargingStationID method req of
                   (response, err) \<Rightarrow>
                     csms_sendResponse L ven wr chargingStationID response err requestId cs)))"

definition csms_handleIncomingRequest ::
  "(gotype, message) lib \<Rightarrow> bool \<Rightarrow> (string \<Rightarrow> json \<Rightarrow> string option) \<Rightarrow> string \<Rightarrow> message \<Rightarrow> string \<Rightarrow>
   string \<Rightarrow> csms \<Rightarrow> (csms \<times> cs_event list) go" where
  "csms_handleIncomingRequest L ven wr chargingStationID request requestId action cs =
     (case GetProfileForFeature (sv_endpoint (csms_server cs)) action of
        None \<Rightarrow> csms_notImplementedError L ven wr chargingStationID requestId action cs
      | Some profile \<Rightarrow>
          (case profileKind201 (Name profile) of
             Some kind \<Rightarrow>
               (case csms_handler kind cs of
                  None \<Rightarrow> csms_notSupportedError L ven wr chargingStationID requestId action cs
                | Some _ \<Rightarrow> csms_processRequest L ven wr chargingStationID request requestId action cs)
           | None \<Rightarrow> csms_processRequest L ven wr chargingStationID request requestId action cs))"

section \<open>Responses, errors and cancelled requests\<close>

text \<open>The three handlers call the oldest callback of the client, or report that there is none.\<close>

definition csms_dequeue ::
  "string \<Rightarrow> message option \<Rightarrow> goerr option \<Rightarrow> goerr \<Rightarrow> csms \<Rightarrow> (csms \<times> cs_event list) go" where
  "csms_dequeue clientId response err missing cs =
     bind_go (Dequeue clientId (csms_callbackQueue cs)) (\<lambda>(cb, cq).
       let cs1 = cs\<lparr>csms_callbackQueue := cq\<rparr>
       in case cb of
            Some callback \<Rightarrow>
              bind_go (genericCallback clientId callback response err) (\<lambda>ev. Ret (cs1, [ev]))
          | None \<Rightarrow> bind_go (csms_error missing cs1) (\<lambda>cs2. Ret (cs2, [])))"

definition handleIncomingResponse ::
  "(gotype, message) lib \<Rightarrow> string \<Rightarrow> message \<Rightarrow> string \<Rightarrow> csms \<Rightarrow> (csms \<times> cs_event list) go" where
  "handleIncomingResponse L chargingStationID response requestId cs =
     csms_dequeue chargingStationID (Some response) None
       (EPlain (''no handler available for call of type '' @ featureName L response @
          '' from client '' @ chargingStationID @ '' for request '' @ requestId)) cs"

definition csms_handleIncomingError ::
  "(gotype, message) lib \<Rightarrow> string \<Rightarrow> Error \<Rightarrow> csms \<Rightarrow> (csms \<times> cs_event list) go" where
  "csms_handleIncomingError L chargingStationID err cs =
     csms_dequeue chargingStationID None (Some (EOcpp err))
       (EPlain (''no handler available for call error '' @ errText L (EOcpp err) @
          '' from client '' @ chargingStationID)) cs"

definition csms_handleCanceledRequest ::
  "(gotype, message) lib \<Rightarrow> string \<Rightarrow> message \<Rightarrow> Error \<Rightarrow> csms \<Rightarrow> (csms \<times> cs_event list) go" where
  "csms_handleCanceledRequest L chargePointID request err cs =
     csms_dequeue chargePointID None (Some (EOcpp err))
       (EPlain (''no handler available for canceled request '' @ featureName L request @
          '' for client '' @ chargePointID @ '': '' @ errText L (EOcpp err))) cs"

section \<open>The parts together\<close>

text \<open>
  What the registered handlers do with the effects of the server: of its message handler, of its
  connection handlers, and of the dispatcher's pump. A disconnection is passed to the application.
\<close>

definition csms_deliver ::
  "(gotype, message) lib \<Rightarrow> bool \<Rightarrow> (string \<Rightarrow> json \<Rightarrow> string option) \<Rightarrow> message sv_event \<Rightarrow>
   csms \<Rightarrow> (csms \<times> cs_event list) go" where
  "csms_deliver L ven wr ev cs =
     (case snd ev of
        GotResponse v i \<Rightarrow> handleIncomingResponse L (fst ev) v i cs
      | GotError e details \<Rightarrow> csms_handleIncomingError L (fst ev) e cs
      | GotRequest v i action \<Rightarrow> csms_handleIncomingRequest L ven wr (fst ev) v i action cs
      | _ \<Rightarrow> Ret (cs, [SNet ev]))"

fun csms_deliverAll ::
  "(gotype, message) lib \<Rightarrow> bool \<Rightarrow> (string \<Rightarrow> json \<Rightarrow> string option) \<Rightarrow> message sv_event list \<Rightarrow>
   csms \<Rightarrow> (csms \<times> cs_event list) go" where
  "csms_deliverAll L ven wr [] cs = Ret (cs, [])"
| "csms_deliverAll L ven wr (ev # evs) cs =
     bind_go (csms_deliver L ven wr ev cs) (\<lambda>(cs', es).
       bind_go (csms_deliverAll L ven wr evs cs') (\<lambda>(cs'', es'). Ret (cs'', es @ es')))"

definition csms_receive ::
  "(gotype, message) lib \<Rightarrow> bool \<Rightarrow> (string \<Rightarrow> json \<Rightarrow> string option) \<Rightarrow> string \<Rightarrow> json \<Rightarrow> csms \<Rightarrow>
   (csms \<times> cs_event list) go" where
  "csms_receive L ven wr clientId raw cs =
     bind_go (Server_ocppMessageHandler L ven wr clientId raw (csms_server cs)) (\<lambda>(err, s, evs).
       csms_deliverAll L ven wr evs (cs\<lparr>csms_server := s\<rparr>))"

definition csms_connect ::
  "(gotype, message) lib \<Rightarrow> bool \<Rightarrow> (string \<Rightarrow> json \<Rightarrow> string option) \<Rightarrow> string \<Rightarrow> csms \<Rightarrow>
   (csms \<times> cs_event list) go" where
  "csms_connect L ven wr clientId cs =
     bind_go (onClientConnected clientId (csms_server cs)) (\<lambda>(s, evs).
       csms_deliverAll L ven wr evs (cs\<lparr>csms_server := s\<rparr>))"

definition csms_disconnect ::
  "(gotype, message) lib \<Rightarrow> bool \<Rightarrow> (string \<Rightarrow> json \<Rightarrow> string option) \<Rightarrow> string \<Rightarrow> csms \<Rightarrow>
   (csms \<times> cs_event list) go" where
  "csms_disconnect L ven wr clientId cs =
     bind_go (onClientDisconnected clientId (csms_server cs)) (\<lambda>(s, evs).
       csms_deliverAll L ven wr evs (cs\<lparr>csms_server := s\<rparr>))"

fun csms_canceled ::
  "(gotype, message) lib \<Rightarrow> message sd_event list \<Rightarrow> csms \<Rightarrow> (csms \<times> cs_event list) go" where
  "csms_canceled L [] cs = Ret (cs, [])"
| "csms_canceled L (ServerCanceled c i r e # evs) cs =
     bind_go (csms_handleCanceledRequest L c r e cs) (\<lambda>(cs', es).
       bind_go (csms_canceled L evs cs') (\<lambda>(cs'', es'). Ret (cs'', es @ es')))"
| "csms_canceled L (_ # evs) cs = csms_canceled L evs cs"

definition csms_pump ::
  "(gotype, message) lib \<Rightarrow> (string \<Rightarrow> json \<Rightarrow> string option) \<Rightarrow> server_case \<Rightarrow> pump_locals \<Rightarrow>
   csms \<Rightarrow> (pump_locals option \<times> csms \<times> cs_event list) go" where
  "csms_pump L wr pc l cs =
     bind_go (serverIteration wr pc l (sv_dispatcher (csms_server cs))) (\<lambda>(l', d, evs).
       bind_go (csms_canceled L evs (cs\<lparr>csms_server := (csms_server cs)\<lparr>sv_dispatcher := d\<rparr>\<rparr>)) (\<lambda>(cs', es).
         Ret (l', cs', es)))"

section \<open>Every request is answered\<close>

definition cs_replies :: "string \<Rightarrow> string \<Rightarrow> cs_event \<Rightarrow> bool" where
  "cs_replies c i ev = (case ev of SNet e \<Rightarrow> server_replies c i e | _ \<Rightarrow> False)"

lemma filter_SNet [simp]: "filter (cs_replies c i) (map SNet evs) = map SNet (filter (server_replies c i) evs)"
  by (induction evs) (simp_all add: cs_replies_def)

lemma csms_replyError_replies:
  assumes "csms_replyError L ven wr c i code d notify cs = Ret (cs', evs)"
  shows "length (filter (cs_replies c i) evs) \<le> 1"
    and "answerable L ven (wr c) i \<Longrightarrow> IsErrorCodeValid code \<Longrightarrow> length (filter (cs_replies c i) evs) = 1"
proof -
  have evs: "evs = map SNet (snd (Server_SendError L ven wr (csms_server cs) c i code d None))"
    using assms by (auto simp: csms_replyError_def split: option.splits prod.splits)
  show "length (filter (cs_replies c i) evs) \<le> 1"
    "answerable L ven (wr c) i \<Longrightarrow> IsErrorCodeValid code \<Longrightarrow> length (filter (cs_replies c i) evs) = 1"
    using server_error_once[where cid = c and i = i and L = L and ven = ven and wr = wr and s = "csms_server cs"
        and code = code and d = d] evs
    by simp_all
qed

lemma csms_sendResponse_replies:
  assumes "csms_sendResponse L ven wr c r err i cs = Ret (cs', evs)"
  shows "length (filter (cs_replies c i) evs) \<le> 1"
    and "answerable L ven (wr c) i \<Longrightarrow> length (filter (cs_replies c i) evs) = 1"
proof -
  let ?et = "''empty response to '' @ c @ '' for request '' @ i"
  have evs: "evs = map SNet (fst (serverReply L ven wr (csms_server cs) c ?et r err i))"
    using assms by (auto simp: csms_sendResponse_def Let_def split: option.splits prod.splits)
  show "length (filter (cs_replies c i) evs) \<le> 1"
    "answerable L ven (wr c) i \<Longrightarrow> length (filter (cs_replies c i) evs) = 1"
    using server_reply_once[where cid = c and i = i and L = L and ven = ven and wr = wr and s = "csms_server cs"
        and et = ?et and conf = r and err = err] evs
    by simp_all
qed

lemma csms_processRequest_replies:
  assumes "csms_processRequest L ven wr c request i action cs = Ret (cs', evs)"
  shows "length (filter (cs_replies c i) evs) \<le> 1 \<and>
    (answerable L ven (wr c) i \<longrightarrow> length (filter (cs_replies c i) evs) = 1)"
proof (cases "map_of csms_actions action")
  case None
  with assms csms_replyError_replies show ?thesis
    by (auto simp: csms_processRequest_def csms_notSupportedError_def)
next
  case (Some a)
  obtain kind meth argType where a: "a = (kind, meth, argType)" by (cases a)
  obtain h where h: "csms_handler kind cs = Some h"
    using assms Some a by (auto simp: csms_processRequest_def split: option.splits)
  obtain r err where r: "h c meth request = (r, err)" by (cases "h c meth request")
  have "csms_sendResponse L ven wr c r err i cs = Ret (cs', evs)"
    using assms Some a h r by (auto simp: csms_processRequest_def assertType_def split: if_splits)
  then show ?thesis using csms_sendResponse_replies by blast
qed

lemma csms_handle_replies:
  assumes "csms_handleIncomingRequest L ven wr c request i action cs = Ret (cs', evs)"
  shows "length (filter (cs_replies c i) evs) \<le> 1 \<and>
    (answerable L ven (wr c) i \<longrightarrow> length (filter (cs_replies c i) evs) = 1)"
  using assms csms_processRequest_replies[of L ven wr c request i action cs cs' evs]
  by (auto simp: csms_handleIncomingRequest_def csms_notImplementedError_def csms_notSupportedError_def
      dest: csms_replyError_replies split: option.splits)

section \<open>No handler is missing\<close>

text \<open>The features whose requests the CSMS handles, in the order of the table.\<close>

definition csms_features :: "(handlerKind201 \<times> gotype Feature) list" where
  "csms_features =
     [(Provisioning, BootNotificationFeature_201), (Authorization, AuthorizeFeature_201),
      (SmartChargingK, ClearedChargingLimitFeature), (Data, DataTransferFeature_201),
      (FirmwareK, FirmwareStatusNotificationFeature_201),
      (ISO15118, Get15118EVCertificateFeature), (ISO15118, GetCertificateStatusFeature),
      (Availability, HeartbeatFeature_201), (Diagnostics, LogStatusNotificationFeature),
      (Meter, MeterValuesFeature_201), (SmartChargingK, NotifyChargingLimitFeature),
      (Diagnostics, NotifyCustomerInformationFeature),
      (Display, NotifyDisplayMessagesFeature),
      (SmartChargingK, NotifyEVChargingNeedsFeature),
      (SmartChargingK, NotifyEVChargingScheduleFeature), (Diagnostics, NotifyEventFeature),
      (Diagnostics, NotifyMonitoringReportFeature), (Provisioning, NotifyReportFeature),
      (FirmwareK, PublishFirmwareStatusNotificationFeature),
      (SmartChargingK, ReportChargingProfilesFeature),
      (ReservationK, ReservationStatusUpdateFeature),
      (Security, SecurityEventNotificationFeature), (Security, SignCertificateFeature),
      (Availability, StatusNotificationFeature_201), (Transactions, TransactionEventFeature)]"

lemma csms_fits: "fits csms_actions csms_features"
  by (simp add: fits_def csms_actions_def csms_features_def features201_simps features_lists201)

lemma csms_quiet:
  assumes "csms_errC cs = None"
  shows "csms_error e cs = Ret cs"
    and "\<exists>evs. csms_replyError L ven wr c i code d notify cs = Ret (cs, evs)"
    and "\<exists>evs. csms_sendResponse L ven wr c r err i cs = Ret (cs, evs)"
proof -
  show e: "csms_error e cs = Ret cs" for e using assms by (simp add: csms_error_def reportError_def)
  show "\<exists>evs. csms_replyError L ven wr c i code d notify cs = Ret (cs, evs)"
    "\<exists>evs. csms_sendResponse L ven wr c r err i cs = Ret (cs, evs)"
    by (auto simp: csms_replyError_def csms_sendResponse_def e Let_def split: option.splits prod.splits)
qed

lemma csms_processes:
  assumes "csms_errC cs = None" "csms_handler k cs = Some h"
    and "\<And>kind meth t. map_of csms_actions action = Some (kind, meth, t) \<Longrightarrow> kind = k \<and> t = fst request"
  shows "\<exists>evs. csms_processRequest L ven wr c request i action cs = Ret (cs, evs)"
proof (cases "map_of csms_actions action")
  case None
  then show ?thesis
    using csms_quiet(2)[OF assms(1)] by (simp add: csms_processRequest_def csms_notSupportedError_def)
next
  case (Some a)
  obtain kind meth t where a: "a = (kind, meth, t)" by (cases a)
  with Some assms(3) have "kind = k" "t = fst request" by auto
  with Some a assms(2) csms_quiet(3)[OF assms(1)] show ?thesis
    by (auto simp: csms_processRequest_def assertType_def split: prod.splits)
qed

lemma csms_handles:
  assumes "f \<in> set features201" "Profiles (sv_endpoint (csms_server cs)) = profiles201"
    and "csms_errC cs = None" "fst request = GetRequestType f"
  shows "\<exists>evs. csms_handleIncomingRequest L ven wr c request i (GetFeatureName f) cs = Ret (cs, evs)"
proof -
  obtain k where k: "f \<in> set (featuresOf k)" using assms(1) by (rule feature_of_kind)
  obtain p where p: "GetProfileForFeature (sv_endpoint (csms_server cs)) (GetFeatureName f) = Some p"
    "profileKind201 (Name p) = Some k"
    by (rule feature_profile201[OF k assms(2)])
  show ?thesis
  proof (cases "csms_handler k cs")
    case None
    with p csms_quiet(2)[OF assms(3)] show ?thesis
      by (simp add: csms_handleIncomingRequest_def csms_notSupportedError_def)
  next
    case (Some h)
    with p csms_processes[OF assms(3) Some, of "GetFeatureName f" request] fits_lookup[OF csms_fits k] assms(4)
    show ?thesis by (simp add: csms_handleIncomingRequest_def)
  qed
qed

lemma NewCSMS_None:
  "\<exists>cs. NewCSMS None = Ret cs"
  "NewCSMS None = Ret cs \<Longrightarrow> Profiles (sv_endpoint (csms_server cs)) = profiles201 \<and> csms_errC cs = None"
  by (auto simp: NewCSMS_def newCSMS_def NewServer_def Let_def fold_AddProfile SetDialect_def
      SetCanceledRequestHandler_def Server_SetErrorHandler_def Server_SetResponseHandler_def
      Server_SetRequestHandler_def)

text \<open>
  C35: A CSMS with the sixteen profiles handles the request of every feature without a panic, and
  over a network that delivers to the charging station, with a validator that accepts errors with
  valid codes, answers it exactly once, whatever the application's handler returns.
\<close>

theorem csms_answers_once:
  assumes "f \<in> set features201" "Profiles (sv_endpoint (csms_server cs)) = profiles201"
    and "csms_errC cs = None" "fst request = GetRequestType f" "answerable L ven (wr c) i"
  shows "\<exists>evs. csms_handleIncomingRequest L ven wr c request i (GetFeatureName f) cs = Ret (cs, evs) \<and>
    length (filter (cs_replies c i) evs) = 1"
  using csms_handles[OF assms(1-4)] csms_handle_replies assms(5) by blast

lemma HeartbeatFeature_201_mem:
  "HeartbeatFeature_201 \<in> set features201" "GetFeatureName HeartbeatFeature_201 = ''Heartbeat''"
  "fst NewHeartbeatRequest_201 = GetRequestType HeartbeatFeature_201"
  by (simp_all add: features201_def availability_features_def HeartbeatFeature_201_def
      NewHeartbeatRequest_201_def new_def)

theorem csms_answers_once_witness:
  "\<exists>cs evs. NewCSMS None = Ret cs \<and>
     csms_handleIncomingRequest demo_lib201 True (\<lambda>_ _. None) ''cs1'' NewHeartbeatRequest_201 ''7'' ''Heartbeat'' cs =
       Ret (cs, evs) \<and> length (filter (cs_replies ''cs1'' ''7'') evs) = 1"
proof -
  obtain cs where cs: "NewCSMS None = Ret cs" using NewCSMS_None(1) by blast
  have p: "Profiles (sv_endpoint (csms_server cs)) = profiles201" "csms_errC cs = None"
    using NewCSMS_None(2)[OF cs] by simp_all
  from csms_answers_once[OF HeartbeatFeature_201_mem(1) p HeartbeatFeature_201_mem(3),
      of demo_lib201 True "\<lambda>_ _. None" "''cs1''" "''7''"] demo_answerable201 cs
  show ?thesis unfolding HeartbeatFeature_201_mem(2) by blast
qed

section \<open>The two sides agree on the actions\<close>

text \<open>The features that \<open>profiles201\<close> registers: name, handler interface and request type.\<close>

definition registered201 :: "(string \<times> handlerKind201 \<times> gotype) set" where
  "registered201 = {(a, k, t). \<exists>p\<in>set profiles201. \<exists>f.
     profileKind201 (Name p) = Some k \<and> Features p a = Some f \<and> t = GetRequestType f}"

definition dispatched201 :: "actions201 \<Rightarrow> (string \<times> handlerKind201 \<times> gotype) list" where
  "dispatched201 actions = map (\<lambda>(a, kind, meth, t). (a, kind, t)) actions"

lemma distinct_group: "distinct (map h (concat xss)) \<Longrightarrow> xs \<in> set xss \<Longrightarrow> distinct (map h xs)"
  by (induction xss) auto

lemma featuresOf_profile:
  "Features (NewProfile n (featuresOf k)) a = Some f \<longleftrightarrow> f \<in> set (featuresOf k) \<and> GetFeatureName f = a"
proof
  assume "Features (NewProfile n (featuresOf k)) a = Some f"
  then have "find (\<lambda>f. GetFeatureName f = a) (rev (featuresOf k)) = Some f"
    by (simp add: NewProfile_def Features_foldl_AddFeature split: option.splits)
  then show "f \<in> set (featuresOf k) \<and> GetFeatureName f = a" by (blast dest: find_rev_SomeD)
next
  have "featuresOf k \<in> set (map snd groups201)" using imageI[OF groups201_all(1), of snd k] by simp
  from distinct_group[OF features201_names' this]
  have d: "distinct (map GetFeatureName (featuresOf k))" .
  assume "f \<in> set (featuresOf k) \<and> GetFeatureName f = a"
  with GetFeature_NewProfile[OF d, of f n] show "Features (NewProfile n (featuresOf k)) a = Some f"
    unfolding GetFeature_def by blast
qed

lemma registered201_features:
  "registered201 = {(GetFeatureName f, k, GetRequestType f) | k f. f \<in> set (featuresOf k)}"
proof (intro set_eqI iffI)
  fix x assume "x \<in> registered201"
  then obtain p f a k where x: "p \<in> set profiles201" "profileKind201 (Name p) = Some k"
    "Features p a = Some f" "x = (a, k, GetRequestType f)"
    unfolding registered201_def by blast
  obtain e where e: "e \<in> set groups201" "p = (\<lambda>(n, fs). NewProfile n fs) e"
    using x(1) unfolding profiles201_groups set_map by blast
  obtain n fs where "e = (n, fs)" by (rule prod.exhaust)
  with e have g: "(n, fs) \<in> set groups201" "p = NewProfile n fs" by simp_all
  obtain k' where k': "profileKind201 n = Some k'" "fs = featuresOf k'" using group_kind[OF g(1)] by blast
  have "profileKind201 n = Some k" using x(2) unfolding g(2) Name_NewProfile .
  with k' have "fs = featuresOf k" by simp
  with x(3) g(2) have "Features (NewProfile n (featuresOf k)) a = Some f" by (simp only:)
  then have "f \<in> set (featuresOf k) \<and> GetFeatureName f = a" by (rule iffD1[OF featuresOf_profile])
  with x(4) show "x \<in> {(GetFeatureName f, k, GetRequestType f) | k f. f \<in> set (featuresOf k)}" by blast
next
  fix x assume "x \<in> {(GetFeatureName f, k, GetRequestType f) | k f. f \<in> set (featuresOf k)}"
  then obtain k f where x: "x = (GetFeatureName f, k, GetRequestType f)" "f \<in> set (featuresOf k)" by blast
  let ?p = "NewProfile (kindName k) (featuresOf k)"
  have "?p \<in> set profiles201"
    unfolding profiles201_groups set_map using groups201_all(1)[of k] by (rule rev_image_eqI) simp
  moreover have "profileKind201 (Name ?p) = Some k" unfolding Name_NewProfile by (rule groups201_all(2))
  moreover have "Features ?p (GetFeatureName f) = Some f" using x(2) by (intro iffD2[OF featuresOf_profile] conjI refl)
  ultimately show "x \<in> registered201" unfolding registered201_def x(1) by blast
qed

lemma features_covered: "f \<in> set (featuresOf k) \<Longrightarrow> (k, f) \<in> set station_features \<union> set csms_features"
proof -
  have "list_all (\<lambda>f. (k, f) \<in> set station_features \<union> set csms_features) (featuresOf k)"
    by (cases k) (simp_all add: features_lists201 station_features_def csms_features_def)
  then show "f \<in> set (featuresOf k) \<Longrightarrow> (k, f) \<in> set station_features \<union> set csms_features"
    by (auto simp: list_all_iff)
qed

lemma fits_sound: "fits actions fs \<Longrightarrow> (k, f) \<in> set fs \<Longrightarrow> f \<in> set (featuresOf k)"
  unfolding fits_def by blast

lemma features_all: "set station_features \<union> set csms_features = {(k, f). f \<in> set (featuresOf k)}"
proof -
  have "f \<in> set (featuresOf k)" if "(k, f) \<in> set station_features \<union> set csms_features" for k f
    using that fits_sound[OF station_fits, of k f] fits_sound[OF csms_fits, of k f] by blast
  then have "(k, f) \<in> set station_features \<union> set csms_features \<longleftrightarrow> f \<in> set (featuresOf k)" for k f
    using features_covered[of f k] by blast
  then show ?thesis by (simp only: set_eq_iff split_paired_All mem_Collect_eq prod.case simp_thms)
qed

lemma set_swapped: "xs = a # b # rest \<Longrightarrow> ys = b # a # rest \<Longrightarrow> set xs = set ys"
  by auto

lemma fits_dispatched:
  "fits actions fs \<Longrightarrow> set (dispatched201 actions) = (\<lambda>(k, f). (GetFeatureName f, k, GetRequestType f)) ` set fs"
  unfolding fits_def dispatched201_def by (metis set_map)

text \<open>
  C36: What one side may send is what the other dispatches. The 40 actions that the CSMS sends are
  those a charging station has a handler method for, and the 25 that a charging station sends those
  the CSMS has one for. The two tables together are the features of the sixteen registered
  profiles, each under the handler of its own profile and with the request type that its feature
  registers.
\<close>

theorem tables201_agree:
  "csms_sendable = map fst station_actions \<and> set station_sendable = fst ` set csms_actions \<and>
   length csms_sendable = 40 \<and> length station_sendable = 25 \<and>
   set (dispatched201 station_actions) \<union> set (dispatched201 csms_actions) = registered201"
proof -
  have "csms_sendable = map fst station_actions"
    by (simp add: csms_sendable_def station_actions_def)
  moreover have "set station_sendable = set (map fst csms_actions)"
    by (rule set_swapped[of _ "''Authorize''" "''BootNotification''" "drop 2 station_sendable"])
      (simp_all add: station_sendable_def csms_actions_def)
  moreover have "length csms_sendable = 40" "length station_sendable = 25"
    by (simp_all add: csms_sendable_def station_sendable_def)
  moreover have "set (dispatched201 station_actions) \<union> set (dispatched201 csms_actions) = registered201"
    unfolding fits_dispatched[OF station_fits] fits_dispatched[OF csms_fits] registered201_features
      image_Un[symmetric] features_all
    by auto
  ultimately show ?thesis unfolding set_map by (intro conjI)
qed

section \<open>Callbacks of a lost connection\<close>

text \<open>A schedule of the goroutines of a CSMS; the pump's locals are part of the state.\<close>

datatype csms_move =
    CsmsSend string string nat apiCall
  | CsmsReceive string json
  | CsmsConnect string
  | CsmsDisconnect string
  | CsmsPump server_case

fun csms_make :: "(gotype, message) lib \<Rightarrow> csms_move \<Rightarrow> pump_locals \<times> csms \<Rightarrow>
    ((pump_locals \<times> csms) \<times> cs_event list) go" where
  "csms_make L (CsmsSend c uid k call) (l, cs) =
     bind_go (csms_call L True uid c k call cs) (\<lambda>(err, cs'). Ret ((l, cs'), []))"
| "csms_make L (CsmsReceive c raw) (l, cs) =
     bind_go (csms_receive L True (\<lambda>_ _. None) c raw cs) (\<lambda>(cs', es). Ret ((l, cs'), es))"
| "csms_make L (CsmsConnect c) (l, cs) =
     bind_go (csms_connect L True (\<lambda>_ _. None) c cs) (\<lambda>(cs', es). Ret ((l, cs'), es))"
| "csms_make L (CsmsDisconnect c) (l, cs) =
     bind_go (csms_disconnect L True (\<lambda>_ _. None) c cs) (\<lambda>(cs', es). Ret ((l, cs'), es))"
| "csms_make L (CsmsPump pc) (l, cs) =
     bind_go (csms_pump L (\<lambda>_ _. None) pc l cs) (\<lambda>(l', cs', es).
       Ret ((case l' of None \<Rightarrow> l | Some l2 \<Rightarrow> l2, cs'), es))"

fun csms_moves :: "(gotype, message) lib \<Rightarrow> csms_move list \<Rightarrow> pump_locals \<times> csms \<Rightarrow>
    ((pump_locals \<times> csms) \<times> cs_event list) go" where
  "csms_moves L [] s = Ret (s, [])"
| "csms_moves L (m # ms) s =
     bind_go (csms_make L m s) (\<lambda>(s', es). bind_go (csms_moves L ms s') (\<lambda>(s'', es'). Ret (s'', es @ es')))"

text \<open>A CSMS whose endpoint has the profile of authorization alone.\<close>

definition stale_run201 :: "((pump_locals \<times> csms) \<times> cs_event list) go" where
  "stale_run201 =
     bind_go (NewCSMS (Some (NewServer None None [authorization_Profile]))) (\<lambda>cs.
       csms_moves (codecLib [ClearCacheFeature_201] demo_parse (\<lambda>_. []) (\<lambda>_. ''''))
         [CsmsConnect ''cs1'', CsmsSend ''cs1'' ''1'' 7 (ClearCache_201 []), CsmsPump ClientRequestCase,
          CsmsDisconnect ''cs1'', CsmsPump ClientRequestCase, CsmsConnect ''cs1'',
          CsmsSend ''cs1'' ''2'' 8 (ClearCache_201 []), CsmsPump ClientRequestCase,
          CsmsReceive ''cs1'' (JArr [JNum 3 0, JStr ''2'', JObj [(''status'', JStr ''Rejected'')]])]
         (initial_locals, csms_Start (SetChargingStationDisconnectedHandler cs)))"

text \<open>
  C37: The CSMS never takes the callbacks of a lost connection out of its queue, also when the
  application has registered a handler of disconnections: that handler just tells the application.
  The server drops the requests of the client, and after the client has come back the response to
  its first new request goes to the callback of a dropped one. Here a \<^verbatim>\<open>ClearCache\<close> is dropped, the
  response to a second one is given to the first one's callback, and the second one's callback
  keeps waiting although no request is in the queue.
\<close>

theorem csms_stale_callback:
  "\<exists>s. stale_run201 = Ret (s, [SNet (''cs1'', PeerDisconnected),
       SInvoked ''cs1'' 7 (Some (NewClearCacheResponse ''Rejected'')) None]) \<and>
     clientQueue ''cs1'' (sv_dispatcher (csms_server (snd s))) = [] \<and>
     callbacksOf (csms_callbackQueue (snd s)) ''cs1'' = [CsCallback 8 (Some ClearCacheResponse)]"
proof -
  have "case stale_run201 of
      Ret (s, es) \<Rightarrow> es = [SNet (''cs1'', PeerDisconnected),
          SInvoked ''cs1'' 7 (Some (NewClearCacheResponse ''Rejected'')) None] \<and>
        clientQueue ''cs1'' (sv_dispatcher (csms_server (snd s))) = [] \<and>
        callbacksOf (csms_callbackQueue (snd s)) ''cs1'' = [CsCallback 8 (Some ClearCacheResponse)]
    | _ \<Rightarrow> False"
    by code_simp
  from go_case_Ret[OF this] show ?thesis by (metis (no_types, lifting))
qed


end
