(* ===== verification/Spec2Isabelle.thy ===== *)
theory Spec2Isabelle
  imports Pairing16 WsServer WsClient Csms
begin

text \<open>
  Verification of the Go library for the Open Charge Point Protocol: OCPP-J messages over
  WebSockets, with the messages and the endpoints of OCPP 1.6 and OCPP 2.0.1. File names below are
  relative to \<^verbatim>\<open>src/\<close>.

  \<^bold>\<open>The program.\<close> An application talks to a facade: the charge point or the central system of
  OCPP 1.6 (\<^verbatim>\<open>ocpp1.6/charge_point.go\<close>, \<^verbatim>\<open>ocpp1.6/central_system.go\<close>), the charging station or the CSMS
  of OCPP 2.0.1 (\<^verbatim>\<open>ocpp2.0.1/charging_station.go\<close>, \<^verbatim>\<open>ocpp2.0.1/csms.go\<close>). The facade keeps the
  application's callbacks in a callback queue (\<^verbatim>\<open>internal/callbackqueue\<close>) and hands requests to an
  OCPP-J endpoint (\<^verbatim>\<open>ocppj/client.go\<close>, \<^verbatim>\<open>ocppj/server.go\<close>). The endpoint turns a request into a message
  (\<^verbatim>\<open>ocppj/ocppj.go\<close>), with the payload types of the message packages, and gives it to a dispatcher
  (\<^verbatim>\<open>ocppj/dispatcher.go\<close>). The dispatcher queues it (\<^verbatim>\<open>ocppj/queue.go\<close>), lets one request at a time be
  outstanding on a connection (\<^verbatim>\<open>ocppj/state.go\<close>), and writes it to a WebSocket (\<^verbatim>\<open>ws/websocket.go\<close>).
  What arrives there goes the other way: it is parsed against the pending request, completes it in
  the dispatcher, and ends in a callback or in the handler of a profile, whose result is sent back.

  \<^bold>\<open>Theories, bottom up.\<close>

  \<^item> \<^verbatim>\<open>Prelude\<close>: a run of Go code returns, panics or blocks for ever (\<open>go\<close>, \<open>bind_go\<close>); channels, timers;
    reachability under a step relation and the locales \<open>inductive_invariant\<close> and \<open>simulation\<close>, which
    every state machine below instantiates.
  \<^item> \<^verbatim>\<open>CallbackQueue\<close>: \<^verbatim>\<open>callbackqueue.go\<close>. \<open>TryQueue\<close> takes the attempted action as an argument.
  \<^item> \<^verbatim>\<open>Ocpp\<close>: \<^verbatim>\<open>ocpp/ocpp.go\<close>, with features and profiles as finite maps and the error struct.
  \<^item> \<^verbatim>\<open>RequestQueue\<close>, \<^verbatim>\<open>RequestState\<close>: \<^verbatim>\<open>ocppj/queue.go\<close> and \<^verbatim>\<open>ocppj/state.go\<close>. The queues of a map are
    objects in an explicit heap, because the code keeps references to a queue across changes of the
    map. Their laws are locales, interpreted on the definitions.
  \<^item> \<^verbatim>\<open>Message\<close>: \<^verbatim>\<open>ocppj/ocppj.go\<close>. A message on the wire is a JSON tree; \<open>ParseMessage\<close> has every error
    path of the code. C1 to C4 say that it never panics, what it accepts, what it ignores and which
    message ID an error carries; C5 to C7 are the round trips of the three kinds of messages.
  \<^item> \<^verbatim>\<open>Pipeline\<close>: what a dispatcher promises, as an abstract machine, and the histories with which order
    is stated.
  \<^item> \<^verbatim>\<open>ClientDispatcher\<close>, \<^verbatim>\<open>ServerDispatcher\<close>: the two dispatchers of \<^verbatim>\<open>ocppj/dispatcher.go\<close>. Each operation
    and each iteration of the pump is a function; \<open>cstep\<close> and \<open>sstep\<close> interleave them with their
    callers, timers and disconnections. Requests are written and completed in the order in which
    they were accepted and at most one is outstanding (C8, C9, C15, C16); the client refines the
    pipeline (C10); an iteration of the pump does not fail and the front request makes progress
    (C11, C12); clients do not disturb one another (C17). Four theorems show runs the code does not
    intend: a request written twice, a panic after a timeout, and pumps that wait for themselves
    (C13, C14, C18, C19).
  \<^item> \<^verbatim>\<open>Endpoints\<close>: \<^verbatim>\<open>ocppj/client.go\<close>, \<^verbatim>\<open>ocppj/server.go\<close>. The handlers of incoming messages are total and are
    steps of the dispatcher (C20, C21), invalid messages are answered (C22), and what one endpoint
    sends the other delivers (C23, C24).
  \<^item> \<^verbatim>\<open>GoJson\<close>: \<^verbatim>\<open>types/datetime.go\<close> of both versions (the files have the same text), and encoding and
    decoding of \<^verbatim>\<open>encoding/json\<close> driven by the description of a Go type, with its round trip. C25 says
    exactly which strings a timestamp is read from.
  \<^item> \<^verbatim>\<open>Messages16\<close>; \<^verbatim>\<open>Types201\<close>, \<^verbatim>\<open>Management201\<close>, \<^verbatim>\<open>Charging201\<close>: the structs of the message packages with
    their tags (a definition per struct), validation functions, constructors, features. Names that
    both versions use have the suffix \<open>_201\<close> in the second.
  \<^item> \<^verbatim>\<open>Codec\<close>: the library of payloads that an endpoint needs, built from any set of features, and the
    locale \<open>message_set\<close> with the round trip and the delivery of a request. \<^verbatim>\<open>Codec16\<close> and \<^verbatim>\<open>Codec201\<close>
    interpret it on the 28 features and 6 profiles of OCPP 1.6 and on the features and 16 profiles of
    OCPP 2.0.1 (C26, C27, C32); every validation tag in a struct is one that is registered (C33).
  \<^item> \<^verbatim>\<open>Facade16\<close>, \<^verbatim>\<open>ChargePoint\<close>, \<^verbatim>\<open>CentralSystem\<close>, \<^verbatim>\<open>Pairing16\<close>: the facades of OCPP 1.6 and \<^verbatim>\<open>v16.go\<close>. A request
    is answered exactly once (C28); the lists of requests a facade sends and the cases with which it
    handles requests agree with the profiles (C30); over whole runs of the central system the
    callbacks called are those of the requests that finished, in order (C31). C29 is a run in which
    a charge point hands a response to the callback of another request.
  \<^item> \<^verbatim>\<open>Facade201\<close>, \<^verbatim>\<open>ChargingStation\<close>, \<^verbatim>\<open>Csms\<close>: the same for OCPP 2.0.1 and \<^verbatim>\<open>v2.go\<close> (C34, C35, C36). C37 is a
    run in which the CSMS hands a response to the callback of an earlier connection.
  \<^item> \<^verbatim>\<open>WebSocket\<close>, \<^verbatim>\<open>WsServer\<close>, \<^verbatim>\<open>WsClient\<close>: \<^verbatim>\<open>ws/websocket.go\<close>. The server's connections, pumps and cleanup as a
    step relation in which no write panics (C38); the back-off of a reconnecting client on 64-bit
    durations and that it ends when an attempt succeeds (C39, C40).

  \<^bold>\<open>Conventions.\<close> An operation takes and returns the record of its object, and lists the calls it makes to
  the outside (writes, callbacks) as events. A panic, a block for ever and an error are different
  results. A lock is modelled by the atomicity of what runs under it: a step is the code between two
  operations on channels, or, in \<^verbatim>\<open>Pairing16\<close>, a whole handler. A goroutine is a step that may be taken
  at any later time. The functions of the message library are fields of the record \<open>lib\<close>; \<open>ven\<close> is the
  package variable that enables validation; \<open>wr\<close> is the result of writing to the network, an
  arbitrary function.

  \<^bold>\<open>Bounds.\<close> No function here runs on fuel. Recursion is over the data; the reconnection loop is over
  the list of the outcomes of its attempts, so that its result \<open>Waiting\<close> means that the list ended,
  and C40 says for which lists another result is reached. Integers of the code that count elements
  are unbounded in the model; durations of the back-off wrap at 64 bits, and \<open>backoff_ok\<close> states
  under which configurations they do not. JSON numbers are exact decimals, where the code has
  \<^verbatim>\<open>float64\<close>.

  \<^bold>\<open>Not modelled.\<close> The validator package, the ISO 8601 parser, URL parsing, random numbers and the
  gorilla and HTTP packages are arguments of the definitions that use them; what a property needs of
  them is among its hypotheses. Left out are \<^verbatim>\<open>logging\<close> and the logging calls (no effect on the state),
  \<^verbatim>\<open>SetHTMLEscape\<close> (escapes inside JSON strings, where messages are trees), \<^verbatim>\<open>SetLogger\<close>, \<^verbatim>\<open>Now\<close> and other values of
  \<^verbatim>\<open>DateTimeFormat\<close>, TLS configuration, \<^verbatim>\<open>IsConnected\<close> of the facades and endpoints and the setters of the
  validation of new clients, which only forward to the WebSocket layer. The programs under
  \<^verbatim>\<open>example\<close>, the tests and the mocks are not part of the library.
\<close>

end
